(* ===== verification/Prelude.thy ===== *)
theory Prelude
  imports Main
begin

text \<open>
  The computations every component is written in, and the lemmas they share.

  An \<^verbatim>\<open>async\<close> function of the program is a value of type \<open>('w, 'e, 'a) async\<close>: a
  promise that has resolved or been rejected, or a computation over the world \<open>'w\<close> that
  does one piece of work and goes on. \<open>Local\<close> is work the JavaScript engine does without
  giving up the thread (reading a field, bumping a counter); \<open>Await\<close> is a point where the
  function suspends on an external call.
  \<open>run\<close> executes a computation with nobody interfering; the theory \<open>Interleaving\<close> executes
  several of them step by step.

  \<open>wp m Q R w\<close> says that \<open>m\<close>, run from \<open>w\<close>, either resolves in a state that satisfies
  \<open>Q\<close> or rejects in one that satisfies \<open>R\<close>; the collection \<open>wp_rules\<close> computes it through
  the control structure of a handler.
\<close>

named_theorems wp_rules \<open>how wp goes through each construct of an async function\<close>

section \<open>Async computations\<close>

datatype ('w, 'e, 'a) async =
    Resolve 'a
  | Reject 'e
  | Local "'w \<Rightarrow> ('w, 'e, 'a) async \<times> 'w"
  | Await "'w \<Rightarrow> ('w, 'e, 'a) async \<times> 'w"

text \<open>\<open>await m; k\<close>\<close>

primrec bind :: "('w, 'e, 'a) async \<Rightarrow> ('a \<Rightarrow> ('w, 'e, 'b) async) \<Rightarrow> ('w, 'e, 'b) async" where
  "bind (Resolve x) k = k x"
| "bind (Reject e) k = Reject e"
| "bind (Local f) k = Local (\<lambda>w. map_prod (\<lambda>p. bind p k) id (f w))"
| "bind (Await f) k = Await (\<lambda>w. map_prod (\<lambda>p. bind p k) id (f w))"

text \<open>\<open>try { m } catch (e) { h e }\<close>\<close>

primrec try_catch :: "('w, 'e, 'a) async \<Rightarrow> ('e \<Rightarrow> ('w, 'e, 'a) async) \<Rightarrow> ('w, 'e, 'a) async" where
  "try_catch (Resolve x) h = Resolve x"
| "try_catch (Reject e) h = h e"
| "try_catch (Local f) h = Local (\<lambda>w. map_prod (\<lambda>p. try_catch p h) id (f w))"
| "try_catch (Await f) h = Await (\<lambda>w. map_prod (\<lambda>p. try_catch p h) id (f w))"

text \<open>\<open>try { m } finally { c }\<close>\<close>

primrec try_finally :: "('w, 'e, 'a) async \<Rightarrow> ('w, 'e, unit) async \<Rightarrow> ('w, 'e, 'a) async" where
  "try_finally (Resolve x) c = bind c (\<lambda>_. Resolve x)"
| "try_finally (Reject e) c = bind c (\<lambda>_. Reject e)"
| "try_finally (Local f) c = Local (\<lambda>w. map_prod (\<lambda>p. try_finally p c) id (f w))"
| "try_finally (Await f) c = Await (\<lambda>w. map_prod (\<lambda>p. try_finally p c) id (f w))"

text \<open>Synchronous work on the world.\<close>

definition sync :: "('w \<Rightarrow> 'a \<times> 'w) \<Rightarrow> ('w, 'e, 'a) async" where
  "sync f = Local (\<lambda>w. map_prod Resolve id (f w))"

definition get :: "('w \<Rightarrow> 'a) \<Rightarrow> ('w, 'e, 'a) async" where
  "get f = sync (\<lambda>w. (f w, w))"

definition modify :: "('w \<Rightarrow> 'w) \<Rightarrow> ('w, 'e, unit) async" where
  "modify f = sync (\<lambda>w. ((), f w))"

text \<open>\<open>for (const x of xs) await f(x)\<close>\<close>

fun for_each :: "'x list \<Rightarrow> ('x \<Rightarrow> ('w, 'e, unit) async) \<Rightarrow> ('w, 'e, unit) async" where
  "for_each [] f = Resolve ()"
| "for_each (x # xs) f = bind (f x) (\<lambda>_. for_each xs f)"

section \<open>Running a computation alone\<close>

primrec run :: "('w, 'e, 'a) async \<Rightarrow> 'w \<Rightarrow> ('e + 'a) \<times> 'w" where
  "run (Resolve x) = (\<lambda>w. (Inr x, w))"
| "run (Reject e) = (\<lambda>w. (Inl e, w))"
| "run (Local f) = (\<lambda>w. case map_prod run id (f w) of (r, w') \<Rightarrow> r w')"
| "run (Await f) = (\<lambda>w. case map_prod run id (f w) of (r, w') \<Rightarrow> r w')"

lemma run_Local [simp]: "run (Local f) w = (case f w of (p, w') \<Rightarrow> run p w')"
  and run_Await [simp]: "run (Await f) w = (case f w of (p, w') \<Rightarrow> run p w')"
  by (simp_all add: case_prod_unfold)

declare run.simps(3,4) [simp del]

lemma async_run_induct:
  assumes "\<And>x. P (Resolve x)" and "\<And>e. P (Reject e)"
    and "\<And>f. (\<And>w p w'. f w = (p, w') \<Longrightarrow> P p) \<Longrightarrow> P (Local f)"
    and "\<And>f. (\<And>w p w'. f w = (p, w') \<Longrightarrow> P p) \<Longrightarrow> P (Await f)"
  shows "P m"
proof (induction m)
  case (Local f)
  have "P p" if "f w = (p, w')" for w p w'
    by (rule Local [OF rangeI [of f w]]) (simp add: that)
  then show ?case by (rule assms(3))
next
  case (Await f)
  have "P p" if "f w = (p, w')" for w p w'
    by (rule Await [OF rangeI [of f w]]) (simp add: that)
  then show ?case by (rule assms(4))
qed (rule assms)+

lemma run_bind:
  "run (bind m k) w =
     (case run m w of (Inl e, w') \<Rightarrow> (Inl e, w') | (Inr x, w') \<Rightarrow> run (k x) w')"
  by (induction m arbitrary: w rule: async_run_induct) (auto split: prod.splits)

lemma run_try_catch:
  "run (try_catch m h) w =
     (case run m w of (Inl e, w') \<Rightarrow> run (h e) w' | (Inr x, w') \<Rightarrow> (Inr x, w'))"
  by (induction m arbitrary: w rule: async_run_induct) (auto split: prod.splits)

lemma run_try_finally:
  "run (try_finally m c) w =
     (case run m w of (r, w') \<Rightarrow>
        (case run c w' of (Inl e, w'') \<Rightarrow> (Inl e, w'') | (Inr _, w'') \<Rightarrow> (r, w'')))"
  by (induction m arbitrary: w rule: async_run_induct)
    (auto simp: run_bind split: prod.splits sum.splits)

lemma run_sync: "run (sync f) w = (case f w of (x, w') \<Rightarrow> (Inr x, w'))"
  by (simp add: sync_def split: prod.splits)

lemma run_get: "run (get f) w = (Inr (f w), w)"
  by (simp add: get_def run_sync)

lemma run_modify: "run (modify f) w = (Inr (), f w)"
  by (simp add: modify_def run_sync)

lemmas run_simps = run_bind run_try_catch run_try_finally run_sync run_get run_modify

section \<open>Two-sided postconditions\<close>

definition wp :: "('w, 'e, 'a) async \<Rightarrow> ('a \<Rightarrow> 'w \<Rightarrow> bool) \<Rightarrow> ('e \<Rightarrow> 'w \<Rightarrow> bool) \<Rightarrow> 'w \<Rightarrow> bool"
  where "wp m Q R w \<longleftrightarrow> (case run m w of (Inr x, w') \<Rightarrow> Q x w' | (Inl e, w') \<Rightarrow> R e w')"

lemma wp_Resolve [wp_rules]: "wp (Resolve x) Q R w \<longleftrightarrow> Q x w"
  by (simp add: wp_def)

lemma wp_Reject [wp_rules]: "wp (Reject e) Q R w \<longleftrightarrow> R e w"
  by (simp add: wp_def)

lemma wp_bind [wp_rules]: "wp (bind m k) Q R w \<longleftrightarrow> wp m (\<lambda>x. wp (k x) Q R) R w"
  by (auto simp: wp_def run_simps split: prod.splits sum.splits)

lemma wp_try_catch [wp_rules]: "wp (try_catch m h) Q R w \<longleftrightarrow> wp m Q (\<lambda>e. wp (h e) Q R) w"
  by (auto simp: wp_def run_simps split: prod.splits sum.splits)

lemma wp_get [wp_rules]: "wp (get f) Q R w \<longleftrightarrow> Q (f w) w"
  by (simp add: wp_def run_simps)

lemma wp_modify [wp_rules]: "wp (modify f) Q R w \<longleftrightarrow> Q () (f w)"
  by (simp add: wp_def run_simps)

lemma wp_sync [wp_rules]: "wp (sync f) Q R w \<longleftrightarrow> (case f w of (x, w') \<Rightarrow> Q x w')"
  by (auto simp: wp_def run_simps split: prod.splits)

lemma wp_try_finally [wp_rules]:
  "wp (try_finally m c) Q R w \<longleftrightarrow>
     wp m (\<lambda>x. wp c (\<lambda>_. Q x) R) (\<lambda>e. wp c (\<lambda>_. R e) R) w"
  by (auto simp: wp_def run_simps split: prod.splits sum.splits)

lemma wp_Await: "wp (Await f) Q R w \<longleftrightarrow> (case f w of (m, w') \<Rightarrow> wp m Q R w')"
  by (auto simp: wp_def split: prod.splits)

lemma wp_if [wp_rules]: "wp (if b then m else n) Q R w \<longleftrightarrow> (if b then wp m Q R w else wp n Q R w)"
  by simp

lemma wp_option [wp_rules]:
  "wp (case v of None \<Rightarrow> m | Some x \<Rightarrow> n x) Q R w \<longleftrightarrow>
     (case v of None \<Rightarrow> wp m Q R w | Some x \<Rightarrow> wp (n x) Q R w)"
  by (cases v) simp_all

lemma wp_mono:
  assumes "wp m Q R w" and "\<And>x w'. Q x w' \<Longrightarrow> Q' x w'" and "\<And>e w'. R e w' \<Longrightarrow> R' e w'"
  shows "wp m Q' R' w"
  using assms by (auto simp: wp_def split: prod.splits sum.splits)

lemma wp_conj: "wp m Q R w \<Longrightarrow> wp m Q' R' w \<Longrightarrow> wp m (\<lambda>x w. Q x w \<and> Q' x w) (\<lambda>e w. R e w \<and> R' e w) w"
  by (auto simp: wp_def split: prod.splits sum.splits)

text \<open>From \<open>wp\<close> to the value \<open>run\<close> returns, and back.\<close>

lemma wp_runD:
  assumes "wp m Q R w"
  shows "run m w = (Inr x, w') \<Longrightarrow> Q x w'" and "run m w = (Inl e, w') \<Longrightarrow> R e w'"
  using assms by (simp_all add: wp_def)

lemma wp_run_eq: "run m w = r \<longleftrightarrow> wp m (\<lambda>x w'. r = (Inr x, w')) (\<lambda>e w'. r = (Inl e, w')) w"
  by (auto simp: wp_def split: prod.splits sum.splits)

section \<open>Relations a computation keeps\<close>

text \<open>
  A reflexive and transitive relation between the states before and after (a frame, or an
  invariant read as an implication) is kept by a handler when each of its calls keeps it. The
  locale proves this once for the constructs of a handler; every frame of the development is an
  interpretation of it.
\<close>

definition keeps :: "('w \<Rightarrow> 'w \<Rightarrow> bool) \<Rightarrow> ('w, 'e, 'a) async \<Rightarrow> bool" where
  "keeps F m \<longleftrightarrow> (\<forall>w. wp m (\<lambda>_. F w) (\<lambda>_. F w) w)"

lemma keepsI: "(\<And>w. wp m (\<lambda>_. F w) (\<lambda>_. F w) w) \<Longrightarrow> keeps F m"
  by (simp add: keeps_def)

lemma keepsD: "keeps F m \<Longrightarrow> wp m (\<lambda>_. F w) (\<lambda>_. F w) w"
  by (simp add: keeps_def)

lemma keeps_run: "keeps F m \<Longrightarrow> F w (snd (run m w))"
  using keepsD [of F m w] by (auto simp: wp_def split: prod.splits sum.splits)

locale frame_relation =
  fixes F :: "'w \<Rightarrow> 'w \<Rightarrow> bool"
  assumes frame_refl: "F w w"
    and frame_trans: "F w w1 \<Longrightarrow> F w1 w2 \<Longrightarrow> F w w2"
begin

lemma later:
  assumes "keeps F m" and "F w w1"
  shows "wp m (\<lambda>_. F w) (\<lambda>_. F w) w1"
  by (rule wp_mono [OF keepsD [OF assms(1)]]) (auto intro: frame_trans [OF assms(2)])

lemma keeps_Resolve: "keeps F (Resolve x)"
  by (rule keepsI) (simp add: wp_Resolve frame_refl)

lemma keeps_Reject: "keeps F (Reject e)"
  by (rule keepsI) (simp add: wp_Reject frame_refl)

lemma keeps_get: "keeps F (get f)"
  by (rule keepsI) (simp add: wp_get frame_refl)

lemma keeps_bind:
  assumes "keeps F m" and "\<And>x. keeps F (k x)"
  shows "keeps F (bind m k)"
  by (rule keepsI, unfold wp_bind, rule wp_mono [OF keepsD [OF assms(1)]]) (auto intro: later assms)

lemma keeps_catch:
  assumes "keeps F m" and "\<And>e. keeps F (h e)"
  shows "keeps F (try_catch m h)"
  by (rule keepsI, unfold wp_try_catch, rule wp_mono [OF keepsD [OF assms(1)]]) (auto intro: later assms)

lemma keeps_if: "keeps F m \<Longrightarrow> keeps F n \<Longrightarrow> keeps F (if b then m else n)"
  by simp

lemma keeps_option: "keeps F m \<Longrightarrow> (\<And>x. keeps F (n x)) \<Longrightarrow> keeps F (case v of None \<Rightarrow> m | Some x \<Rightarrow> n x)"
  by (cases v) simp_all

lemma keeps_sum: "(\<And>x. keeps F (m x)) \<Longrightarrow> (\<And>x. keeps F (n x)) \<Longrightarrow> keeps F (case v of Inl x \<Rightarrow> m x | Inr x \<Rightarrow> n x)"
  by (cases v) simp_all

lemmas keeps_intros = keeps_Resolve keeps_Reject keeps_get keeps_bind keeps_catch keeps_if
  keeps_option keeps_sum

end

end
