(* ===== verification/Interleaving.thy ===== *)
theory Interleaving
  imports Prelude
begin

text \<open>
  Several handlers of one process, or of several processes over the same databases, at once. A
  handler runs until its next \<open>Await\<close>; which one goes on after that is open. An invariant that
  every step of every handler keeps holds in every interleaving of them.
\<close>

section \<open>Steps of one handler\<close>

text \<open>The synchronous work up to the next \<open>Await\<close>, or to the end.\<close>

primrec go :: "('w, 'e, 'a) async \<Rightarrow> 'w \<Rightarrow> ('w, 'e, 'a) async \<times> 'w" where
  "go (Resolve x) = (\<lambda>w. (Resolve x, w))"
| "go (Reject e) = (\<lambda>w. (Reject e, w))"
| "go (Local f) = (\<lambda>w. case map_prod go id (f w) of (g, w') \<Rightarrow> g w')"
| "go (Await f) = (\<lambda>w. (Await f, w))"

definition advance :: "('w, 'e, 'a) async \<Rightarrow> 'w \<Rightarrow> ('w, 'e, 'a) async \<times> 'w" where
  "advance m w = (case m of Await f \<Rightarrow> (case f w of (m', w') \<Rightarrow> go m' w') | _ \<Rightarrow> go m w)"

definition finished :: "('w, 'e, 'a) async \<Rightarrow> bool" where
  "finished m \<longleftrightarrow> (case m of Resolve _ \<Rightarrow> True | Reject _ \<Rightarrow> True | _ \<Rightarrow> False)"

lemma go_Local [simp]: "go (Local f) w = (case f w of (m, w') \<Rightarrow> go m w')"
  by (simp add: case_prod_unfold)

declare go.simps(3) [simp del]

text \<open>Advancing alone until the end is running.\<close>

lemma run_go: "go m w = (m', w') \<Longrightarrow> run m' w' = run m w"
  by (induction m arbitrary: w rule: async_run_induct) (auto split: prod.splits)

lemma run_advance: "advance m w = (m', w') \<Longrightarrow> run m' w' = run m w"
  by (auto simp: advance_def run_go split: async.splits prod.splits)

section \<open>Pools\<close>

inductive pool_step :: "'w \<times> ('w, 'e, 'a) async list \<Rightarrow> 'w \<times> ('w, 'e, 'a) async list \<Rightarrow> bool" where
  "i < length ms \<Longrightarrow> \<not> finished (ms ! i) \<Longrightarrow> advance (ms ! i) w = (m', w') \<Longrightarrow>
     pool_step (w, ms) (w', ms[i := m'])"

inductive_cases pool_stepE: "pool_step (w, ms) p"

text \<open>An executable schedule: the handlers to advance, in order.\<close>

fun run_schedule :: "nat list \<Rightarrow> 'w \<times> ('w, 'e, 'a) async list \<Rightarrow> 'w \<times> ('w, 'e, 'a) async list" where
  "run_schedule [] p = p"
| "run_schedule (i # is) (w, ms) =
     (if i < length ms \<and> \<not> finished (ms ! i)
      then (case advance (ms ! i) w of (m', w') \<Rightarrow> run_schedule is (w', ms[i := m']))
      else run_schedule is (w, ms))"

lemma run_schedule_steps: "pool_step\<^sup>*\<^sup>* p (run_schedule is p)"
proof (induction "is" arbitrary: p)
  case (Cons i js)
  obtain w ms where p: "p = (w, ms)" by fastforce
  show ?case
  proof (cases "i < length ms \<and> \<not> finished (ms ! i)")
    case True
    obtain m' w' where adv: "advance (ms ! i) w = (m', w')" by fastforce
    have "pool_step (w, ms) (w', ms[i := m'])" using True adv by (simp add: pool_step.intros)
    then show ?thesis
      using True adv Cons [of "(w', ms[i := m'])"] by (simp add: p converse_rtranclp_into_rtranclp)
  next
    case False
    then show ?thesis using Cons [of p] by (auto simp: p)
  qed
qed simp

section \<open>Invariants of all interleavings\<close>

text \<open>\<open>guarded I m\<close>: every step of \<open>m\<close>, wherever it is taken from, keeps \<open>I\<close>.\<close>

inductive guarded :: "('w \<Rightarrow> bool) \<Rightarrow> ('w, 'e, 'a) async \<Rightarrow> bool" for I where
  "guarded I (Resolve x)"
| "guarded I (Reject e)"
| "(\<And>w. I w \<Longrightarrow> I (snd (f w)) \<and> guarded I (fst (f w))) \<Longrightarrow> guarded I (Local f)"
| "(\<And>w. I w \<Longrightarrow> I (snd (f w)) \<and> guarded I (fst (f w))) \<Longrightarrow> guarded I (Await f)"

lemma guarded_go: "guarded I m \<Longrightarrow> I w \<Longrightarrow> guarded I (fst (go m w)) \<and> I (snd (go m w))"
proof (induction arbitrary: w rule: guarded.induct)
  case (3 f)
  then show ?case by (cases "f w") force
qed (simp_all add: guarded.intros)

lemma guarded_advance:
  assumes "guarded I m" and "I w"
  shows "guarded I (fst (advance m w)) \<and> I (snd (advance m w))"
proof (cases m)
  case (Await f)
  then have "I (snd (f w)) \<and> guarded I (fst (f w))"
    using assms by (auto elim: guarded.cases)
  then show ?thesis
    using guarded_go [of I "fst (f w)" "snd (f w)"] by (simp add: Await advance_def case_prod_unfold)
qed (use assms guarded_go [of I m w] in \<open>simp_all add: advance_def\<close>)

lemma pool_step_guarded:
  assumes "pool_step p p'" and "I (fst p)" and "\<forall>m \<in> set (snd p). guarded I m"
  shows "I (fst p') \<and> (\<forall>m \<in> set (snd p'). guarded I m)"
  using assms
proof (cases rule: pool_step.cases)
  case (1 i ms w m' w')
  then have "guarded I m' \<and> I w'"
    using assms(2,3) guarded_advance [of I "ms ! i" w] by simp
  then show ?thesis using 1 assms(3) by (auto dest: set_update_subset_insert [THEN subsetD])
qed

lemma pool_guarded:
  assumes "pool_step\<^sup>*\<^sup>* p p'" and "I (fst p)" and "\<forall>m \<in> set (snd p). guarded I m"
  shows "I (fst p')"
proof -
  have "I (fst p') \<and> (\<forall>m \<in> set (snd p'). guarded I m)"
    using assms(1)
  proof induction
    case base
    then show ?case using assms(2,3) by simp
  next
    case (step p1 p2)
    then show ?case using pool_step_guarded [OF step(2)] by blast
  qed
  then show ?thesis ..
qed

section \<open>Guarded handlers\<close>

lemma guarded_bind: "guarded I m \<Longrightarrow> (\<And>x. guarded I (k x)) \<Longrightarrow> guarded I (bind m k)"
  by (induction rule: guarded.induct) (auto intro!: guarded.intros)

lemma guarded_catch: "guarded I m \<Longrightarrow> (\<And>e. guarded I (h e)) \<Longrightarrow> guarded I (try_catch m h)"
  by (induction rule: guarded.induct) (auto intro!: guarded.intros)

lemma guarded_finally: "guarded I m \<Longrightarrow> guarded I c \<Longrightarrow> guarded I (try_finally m c)"
  by (induction rule: guarded.induct) (auto intro!: guarded.intros guarded_bind)

lemma guarded_sync: "(\<And>w. I w \<Longrightarrow> I (snd (f w))) \<Longrightarrow> guarded I (sync f)"
  unfolding sync_def by (rule guarded.intros(3)) (simp add: guarded.intros(1))

lemma guarded_get: "guarded I (get f)"
  by (simp add: get_def guarded_sync)

lemma guarded_modify: "(\<And>w. I w \<Longrightarrow> I (f w)) \<Longrightarrow> guarded I (modify f)"
  by (simp add: modify_def guarded_sync)

lemma guarded_if: "guarded I m \<Longrightarrow> guarded I n \<Longrightarrow> guarded I (if b then m else n)"
  by simp

lemma guarded_option: "guarded I m \<Longrightarrow> (\<And>x. guarded I (n x)) \<Longrightarrow> guarded I (case v of None \<Rightarrow> m | Some x \<Rightarrow> n x)"
  by (cases v) simp_all

lemma guarded_sum: "(\<And>x. guarded I (m x)) \<Longrightarrow> (\<And>x. guarded I (n x)) \<Longrightarrow> guarded I (case v of Inl x \<Rightarrow> m x | Inr x \<Rightarrow> n x)"
  by (cases v) simp_all

lemmas guarded_intros = guarded.intros(1,2) guarded_bind guarded_catch guarded_finally guarded_get
  guarded_if guarded_option guarded_sum

end
