(* ===== verification/Binary64.thy ===== *)
theory Binary64
  imports Complex_Main "HOL-Library.Log_Nat"
begin

text \<open>
  The numbers of JavaScript and of the Lua script: IEEE 754 binary64. A finite double is a
  rational, and every arithmetic operation is the exact rational operation followed by
  \<open>fl\<close>, rounding to the nearest double with ties to even and with gradual underflow.
  Infinities are not values of this type: a result above the largest double stays a large
  rational, which every range check of the program treats as it treats Infinity.

  What the clients use: \<open>fl\<close> is monotone, keeps 0 and the integers up to \<open>2 ^ 53\<close>, and
  therefore keeps the order of any value against such an integer.
\<close>

definition ilog2 :: "rat \<Rightarrow> int" where
  "ilog2 x =
     (let (n, d) = quotient_of x; k = bitlen n - bitlen d
      in if 2 powi k \<le> x then k else k - 1)"

definition round_half_even :: "rat \<Rightarrow> int" where
  "round_half_even x =
     (let f = \<lfloor>x\<rfloor>; r = x - of_int f
      in if r < 1 / 2 then f else if 1 / 2 < r then f + 1 else if even f then f else f + 1)"

definition grid :: "rat \<Rightarrow> int" where
  "grid x = max (ilog2 \<bar>x\<bar> - 52) (-1074)"

definition fl :: "rat \<Rightarrow> rat" where
  "fl x = (if x = 0 then 0 else of_int (round_half_even (x / 2 powi grid x)) * 2 powi grid x)"

section \<open>Binary exponents\<close>

lemma powi2_pos: "0 < (2 :: rat) powi k"
  by (simp add: zero_less_power_int)

lemma powi2_nonneg [simp]: "0 \<le> (2 :: rat) powi k"
  using powi2_pos [of k] by linarith

lemma powi2_neq_0 [simp]: "(2 :: rat) powi k \<noteq> 0"
  using powi2_pos [of k] by linarith

lemma powi2_less_iff [simp]: "(2 :: rat) powi a < 2 powi b \<longleftrightarrow> a < b"
  by (metis linorder_neqE_linordered_idom order_less_asym one_less_numeral_iff
      power_int_strict_increasing semiring_norm(76))

lemma powi2_le_iff [simp]: "(2 :: rat) powi a \<le> 2 powi b \<longleftrightarrow> a \<le> b"
  by (simp flip: linorder_not_less)

lemma powi2_diff: "(2 :: rat) powi a / 2 powi b = 2 powi (a - b)"
  by (simp add: power_int_diff)

lemma powi2_nonneg_of_int: "0 \<le> k \<Longrightarrow> (2 :: rat) powi k = of_int (2 ^ nat k)"
  by (simp add: power_int_def)

lemma bitlen_powi:
  assumes "0 < n"
  shows "2 powi (bitlen n - 1) \<le> (of_int n :: rat)" and "(of_int n :: rat) < 2 powi bitlen n"
proof -
  have pos: "1 \<le> bitlen n"
    using assms bitlen_nonneg [of n] bitlen_eq_zero_iff [of n] by linarith
  have "of_int (2 ^ nat (bitlen n - 1)) \<le> (of_int n :: rat)"
    using bitlen_bounds [OF assms] by (simp only: of_int_le_iff)
  then show "2 powi (bitlen n - 1) \<le> (of_int n :: rat)"
    using pos by (simp only: powi2_nonneg_of_int)
  have "(of_int n :: rat) < of_int (2 ^ nat (bitlen n))"
    using bitlen_bounds [OF assms] by (simp only: of_int_less_iff)
  then show "(of_int n :: rat) < 2 powi bitlen n"
    by (simp only: powi2_nonneg_of_int bitlen_nonneg)
qed

lemma ilog2_bounds:
  assumes "0 < x"
  shows "2 powi ilog2 x \<le> x" and "x < 2 powi (ilog2 x + 1)"
proof -
  obtain n d where q: "quotient_of x = (n, d)" by fastforce
  have d: "0 < d" and x: "x = of_int n / of_int d"
    using quotient_of_denom_pos [OF q] quotient_of_div [OF q] by simp_all
  with assms have n: "0 < n" by (simp add: zero_less_divide_iff)
  let ?k = "bitlen n - bitlen d"
  have "2 powi (bitlen n - 1) / 2 powi bitlen d \<le> x"
    unfolding x using bitlen_powi [OF n] bitlen_powi [OF d] d n
    by (intro frac_le) simp_all
  then have lo: "2 powi (?k - 1) \<le> x"
    by (simp add: powi2_diff algebra_simps)
  have "x < 2 powi bitlen n / 2 powi (bitlen d - 1)"
    unfolding x using bitlen_powi [OF n] bitlen_powi [OF d] d n
    by (intro frac_less) simp_all
  then have hi: "x < 2 powi (?k + 1)"
    by (simp add: powi2_diff algebra_simps)
  show "2 powi ilog2 x \<le> x" "x < 2 powi (ilog2 x + 1)"
    using lo hi by (simp_all add: ilog2_def q Let_def)
qed

lemma ilog2_mono:
  assumes "0 < x" and "x \<le> y"
  shows "ilog2 x \<le> ilog2 y"
proof -
  have "2 powi ilog2 x < (2 :: rat) powi (ilog2 y + 1)"
    using ilog2_bounds [of x] ilog2_bounds [of y] assms by linarith
  then show ?thesis by simp
qed

lemma ilog2_le: "0 < x \<Longrightarrow> x < 2 powi (k + 1) \<Longrightarrow> ilog2 x \<le> k"
proof -
  assume "0 < x" and "x < 2 powi (k + 1)"
  then have "2 powi ilog2 x < (2 :: rat) powi (k + 1)"
    using ilog2_bounds(1) [of x] by linarith
  then show "ilog2 x \<le> k" by simp
qed

section \<open>Rounding to an integer\<close>

lemma round_half_even_of_int [simp]: "round_half_even (of_int i) = i"
  by (simp add: round_half_even_def)

lemma round_half_even_near:
  "of_int (round_half_even x) \<le> x + 1 / 2" "x - 1 / 2 \<le> of_int (round_half_even x)"
  unfolding round_half_even_def Let_def by (linarith | auto split: if_splits)+

lemma round_half_even_cases:
  "round_half_even x = \<lfloor>x\<rfloor> \<or> round_half_even x = \<lfloor>x\<rfloor> + 1"
  by (simp add: round_half_even_def Let_def)

lemma round_half_even_mono:
  assumes "x \<le> y"
  shows "round_half_even x \<le> round_half_even y"
proof (cases "\<lfloor>x\<rfloor> = \<lfloor>y\<rfloor>")
  case True
  then show ?thesis
    using assms by (simp add: round_half_even_def Let_def)
next
  case False
  then have "\<lfloor>x\<rfloor> + 1 \<le> \<lfloor>y\<rfloor>"
    using floor_mono [OF assms] by linarith
  then show ?thesis
    using round_half_even_cases [of x] round_half_even_cases [of y] by linarith
qed

lemma round_half_even_minus: "round_half_even (- x) = - round_half_even x"
proof (cases "x = of_int \<lfloor>x\<rfloor>")
  case True
  then show ?thesis
    by (metis of_int_minus round_half_even_of_int)
next
  case False
  then have "\<lfloor>- x\<rfloor> = - \<lfloor>x\<rfloor> - 1"
    using floor_correct [of x] by (simp add: floor_eq_iff) linarith
  then show ?thesis
    by (auto simp: round_half_even_def Let_def)
qed

lemma round_half_even_le_iff: "x \<le> of_int i \<Longrightarrow> round_half_even x \<le> i"
  using round_half_even_mono [of x "of_int i"] by simp

lemma round_half_even_ge: "of_int i \<le> x \<Longrightarrow> i \<le> round_half_even x"
  using round_half_even_mono [of "of_int i" x] by simp

section \<open>Rounding to binary64\<close>

lemma fl_0 [simp]: "fl 0 = 0"
  by (simp add: fl_def)

lemma fl_minus: "fl (- x) = - fl x"
  by (simp add: fl_def grid_def round_half_even_minus)

lemma grid_mono: "0 < x \<Longrightarrow> x \<le> y \<Longrightarrow> grid x \<le> grid y"
  using ilog2_mono [of x y] by (auto simp: grid_def)

text \<open>A multiple of the grid of its binade is a double already.\<close>

lemma fl_exact:
  assumes "x = of_int m * 2 powi grid x"
  shows "fl x = x"
proof (cases "x = 0")
  case False
  have "x / 2 powi grid x = of_int m"
    using assms by (metis nonzero_mult_div_cancel_right powi2_neq_0)
  then show ?thesis
    using False assms by (simp add: fl_def)
qed simp

lemma fl_powi2:
  assumes "- 1074 \<le> k"
  shows "fl (2 powi k) = 2 powi k"
proof -
  have "ilog2 (2 powi k) \<le> k"
    by (rule ilog2_le) simp_all
  then have g: "grid (2 powi k) \<le> k"
    using assms by (simp add: grid_def)
  have "2 powi k = of_int (2 ^ nat (k - grid (2 powi k))) * (2 :: rat) powi grid (2 powi k)"
  proof -
    have "of_int (2 ^ nat (k - grid (2 powi k))) = (2 :: rat) powi (k - grid (2 powi k))"
      using g by (simp only: powi2_nonneg_of_int diff_ge_0_iff_ge)
    then show ?thesis by (simp flip: power_int_add)
  qed
  then show ?thesis by (rule fl_exact)
qed

lemma fl_of_int:
  assumes "\<bar>i\<bar> \<le> 2 ^ 53"
  shows "fl (of_int i) = of_int i"
proof (cases "\<bar>i\<bar> = 2 ^ 53")
  case True
  then have i: "(of_int i :: rat) = 2 powi 53 \<or> (of_int i :: rat) = - (2 powi 53)"
    by (auto simp: abs_if split: if_splits)
  show ?thesis
    using fl_powi2 [of 53] i by (auto simp: fl_minus)
next
  case False
  show ?thesis
  proof (cases "i = 0")
    case nz: False
    have "ilog2 \<bar>of_int i\<bar> \<le> 52"
      using False assms nz by (intro ilog2_le) (simp_all flip: of_int_abs add: powi2_nonneg_of_int)
    then have g: "grid (of_int i) \<le> 0"
      by (simp add: grid_def)
    have "(1 :: rat) = 2 powi (- grid (of_int i)) * 2 powi grid (of_int i)"
      by (simp flip: power_int_add)
    then have "of_int i = of_int (i * 2 ^ nat (- grid (of_int i))) * (2 :: rat) powi grid (of_int i)"
      using g by (simp add: mult.assoc powi2_nonneg_of_int)
    then show ?thesis by (rule fl_exact)
  qed simp
qed

lemma fl_of_int_small [simp]:
  "fl 1 = 1" "\<bar>numeral n :: int\<bar> \<le> 2 ^ 53 \<Longrightarrow> fl (numeral n) = numeral n"
  using fl_of_int [of 1] fl_of_int [of "numeral n"] by simp_all

lemma fl_nonneg: "0 \<le> x \<Longrightarrow> 0 \<le> fl x"
  using round_half_even_ge [of 0 "x / 2 powi grid x"] by (auto simp: fl_def)

text \<open>Rounding never leaves the binade of its argument.\<close>

lemma fl_le_binade:
  assumes "0 < x"
  shows "fl x \<le> 2 powi (grid x + 53)"
proof -
  have "x < 2 powi (grid x + 53)"
    using ilog2_bounds(2) [OF assms] by (rule less_le_trans) (use assms in \<open>simp add: grid_def\<close>)
  then have "x / 2 powi grid x \<le> of_int (2 ^ 53)"
    by (simp add: power_int_add divide_le_eq)
  then have "round_half_even (x / 2 powi grid x) \<le> 2 ^ 53"
    by (rule round_half_even_le_iff)
  then have "of_int (round_half_even (x / 2 powi grid x)) * 2 powi grid x \<le> of_int (2 ^ 53) * (2 :: rat) powi grid x"
    by (intro mult_right_mono) (simp_all only: of_int_le_iff powi2_nonneg)
  then show ?thesis
    using assms by (simp add: fl_def power_int_add)
qed

lemma fl_ge_binade:
  assumes "0 < x" and "- 1074 < grid x"
  shows "2 powi (grid x + 52) \<le> fl x"
proof -
  have "2 powi (grid x + 52) \<le> x"
    using ilog2_bounds(1) [OF assms(1)] assms by (simp add: grid_def max_def split: if_splits)
  then have "of_int (2 ^ 52) \<le> x / 2 powi grid x"
    by (simp add: power_int_add le_divide_eq)
  then have "2 ^ 52 \<le> round_half_even (x / 2 powi grid x)"
    by (rule round_half_even_ge)
  then have "of_int (2 ^ 52) * (2 :: rat) powi grid x \<le> of_int (round_half_even (x / 2 powi grid x)) * 2 powi grid x"
    by (intro mult_right_mono) (simp_all only: of_int_le_iff powi2_nonneg)
  then show ?thesis
    using assms by (simp add: fl_def power_int_add)
qed

lemma fl_mono_pos:
  assumes "0 < x" and "x \<le> y"
  shows "fl x \<le> fl y"
proof (cases "grid x = grid y")
  case True
  have "round_half_even (x / 2 powi grid y) \<le> round_half_even (y / 2 powi grid y)"
    using assms by (intro round_half_even_mono divide_right_mono) simp_all
  then show ?thesis
    using assms True by (simp add: fl_def)
next
  case False
  then have "grid x < grid y"
    using grid_mono [OF assms] by simp
  then have "(2 :: rat) powi (grid x + 53) \<le> 2 powi (grid y + 52)"
    by (simp only: powi2_le_iff)
  with fl_le_binade [OF assms(1)] have "fl x \<le> 2 powi (grid y + 52)"
    by (rule order_trans)
  also have "\<dots> \<le> fl y"
    using assms \<open>grid x < grid y\<close> by (intro fl_ge_binade) (simp_all add: grid_def)
  finally show ?thesis .
qed

lemma fl_mono:
  assumes "x \<le> y"
  shows "fl x \<le> fl y"
proof (cases "0 < x")
  case True
  then show ?thesis using assms by (rule fl_mono_pos)
next
  case x: False
  show ?thesis
  proof (cases "0 \<le> y")
    case True
    have "0 \<le> fl (- x)" using x by (intro fl_nonneg) simp
    with fl_nonneg [OF True] show ?thesis by (simp add: fl_minus)
  next
    case False
    then have "fl (- y) \<le> fl (- x)" using assms by (intro fl_mono_pos) simp_all
    then show ?thesis by (simp add: fl_minus)
  qed
qed

lemma fl_le_int: "x \<le> of_int i \<Longrightarrow> \<bar>i\<bar> \<le> 2 ^ 53 \<Longrightarrow> fl x \<le> of_int i"
  using fl_mono [of x "of_int i"] by (simp add: fl_of_int)

lemma fl_ge_int: "of_int i \<le> x \<Longrightarrow> \<bar>i\<bar> \<le> 2 ^ 53 \<Longrightarrow> of_int i \<le> fl x"
  using fl_mono [of "of_int i" x] by (simp add: fl_of_int)

end
