(* ===== verification/Decimal.thy ===== *)
theory Decimal
  imports Binary64
begin

text \<open>
  Decimal text: printing an integer as \<open>Number.prototype.toString\<close> and a template literal
  do, and reading the decimal literals that \<open>JSON.parse\<close>, \<open>Number(...)\<close> and Lua's
  \<open>tonumber\<close> read. Strings are lists of code units; the alphabet is Latin-1, a code unit
  above 255 is not a character of the model.
\<close>

definition digit_char :: "nat \<Rightarrow> char" where
  "digit_char d = ''0123456789'' ! d"

definition is_digit :: "char \<Rightarrow> bool" where
  "is_digit c \<longleftrightarrow> c \<in> set ''0123456789''"

definition digit_val :: "char \<Rightarrow> nat" where
  "digit_val c = of_char c - 48"

fun show_nat :: "nat \<Rightarrow> string" where
  "show_nat n = (if n < 10 then [digit_char n] else show_nat (n div 10) @ [digit_char (n mod 10)])"

declare show_nat.simps [simp del]

definition show_int :: "int \<Rightarrow> string" where
  "show_int i = (if i < 0 then CHR ''-'' # show_nat (nat (- i)) else show_nat (nat i))"

definition digits_val :: "string \<Rightarrow> nat" where
  "digits_val ds = foldl (\<lambda>a c. 10 * a + digit_val c) 0 ds"

text \<open>The longest prefix of digits, with what follows.\<close>

definition span_digits :: "string \<Rightarrow> string \<times> string" where
  "span_digits s = (takeWhile is_digit s, dropWhile is_digit s)"

section \<open>Reading a decimal literal\<close>

text \<open>
  The optional fraction and exponent: each reads a value and what is left. A dot or an
  \<open>e\<close> with no digits after it is a syntax error.
\<close>

definition scan_frac :: "string \<Rightarrow> (rat \<times> string) option" where
  "scan_frac s =
     (case s of
        c # s' \<Rightarrow>
          if c = CHR ''.'' then
            (case span_digits s' of (ds, r) \<Rightarrow>
               if ds = [] then None else Some (of_nat (digits_val ds) / 10 ^ length ds, r))
          else Some (0, s)
      | [] \<Rightarrow> Some (0, s))"

definition split_sign :: "string \<Rightarrow> bool \<times> string" where
  "split_sign s =
     (case s of
        [] \<Rightarrow> (False, [])
      | c # t \<Rightarrow> if c = CHR ''-'' then (True, t) else if c = CHR ''+'' then (False, t) else (False, s))"

definition scan_exp :: "string \<Rightarrow> (int \<times> string) option" where
  "scan_exp s =
     (case s of
        e # s' \<Rightarrow>
          if e = CHR ''e'' \<or> e = CHR ''E'' then
            (let (neg, s'') = split_sign s'
             in case span_digits s'' of (ds, r) \<Rightarrow>
                  if ds = [] then None
                  else Some ((if neg then - int (digits_val ds) else int (digits_val ds)), r))
          else Some (0, s)
      | [] \<Rightarrow> Some (0, s))"

text \<open>
  An unsigned literal. \<open>strict\<close> is the grammar of JSON, which refuses a leading zero
  before another digit; the double nearest to the literal is its value.
\<close>

definition scan_unsigned :: "bool \<Rightarrow> string \<Rightarrow> (rat \<times> string) option" where
  "scan_unsigned strict s =
     (case span_digits s of (ds, r) \<Rightarrow>
        if ds = [] \<or> (strict \<and> 1 < length ds \<and> hd ds = CHR ''0'') then None
        else (case scan_frac r of
                None \<Rightarrow> None
              | Some (q, r') \<Rightarrow>
                  (case scan_exp r' of
                     None \<Rightarrow> None
                   | Some (ex, r'') \<Rightarrow> Some ((of_nat (digits_val ds) + q) * 10 powi ex, r''))))"

definition scan_number :: "string \<Rightarrow> (rat \<times> string) option" where
  "scan_number s =
     (case s of
        c # s' \<Rightarrow>
          if c = CHR ''-'' then map_option (map_prod (\<lambda>q. fl (- q)) id) (scan_unsigned True s')
          else map_option (map_prod fl id) (scan_unsigned True s)
      | [] \<Rightarrow> None)"

text \<open>
  \<open>Number(text)\<close> and \<open>tonumber(text)\<close> on the text of an environment variable. White space
  around the literal is dropped, a no-break space only by JavaScript; the empty text is 0 for
  JavaScript and nil for Lua. \<open>None\<close> stands for nil (Lua) and for NaN (JavaScript), and for
  \<open>Infinity\<close>, which like NaN is no number to zod and compares as false where the program
  compares. JavaScript also reads hexadecimal, octal and binary integers; the hexadecimal
  literals of Lua are not modelled.
\<close>

definition is_space :: "char \<Rightarrow> bool" where
  "is_space c \<longleftrightarrow> c \<in> {CHR '' '', CHR 9, CHR 10, CHR 11, CHR 12, CHR 13}"

definition js_space :: "char \<Rightarrow> bool" where
  "js_space c \<longleftrightarrow> is_space c \<or> c = CHR 0xA0"

definition trim_by :: "(char \<Rightarrow> bool) \<Rightarrow> string \<Rightarrow> string" where
  "trim_by P s = rev (dropWhile P (rev (dropWhile P s)))"

definition trim :: "string \<Rightarrow> string" where
  "trim = trim_by is_space"

definition js_trim :: "string \<Rightarrow> string" where
  "js_trim = trim_by js_space"

definition signed_literal :: "string \<Rightarrow> rat option" where
  "signed_literal s =
     (let (neg, t) = split_sign s
      in case scan_unsigned False t of
           Some (q, []) \<Rightarrow> Some (fl (if neg then - q else q))
         | _ \<Rightarrow> None)"

definition radix_digit :: "nat \<Rightarrow> char \<Rightarrow> nat option" where
  "radix_digit radix c =
     (let n = of_char c :: nat;
          d = (if 48 \<le> n \<and> n \<le> 57 then n - 48
               else if 97 \<le> n \<and> n \<le> 102 then n - 87
               else if 65 \<le> n \<and> n \<le> 70 then n - 55
               else radix)
      in if d < radix then Some d else None)"

definition radix_integer :: "nat \<Rightarrow> string \<Rightarrow> nat option" where
  "radix_integer radix ds =
     (if ds = [] then None
      else foldl (\<lambda>acc c. Option.bind acc (\<lambda>n. map_option (\<lambda>d. n * radix + d) (radix_digit radix c))) (Some 0) ds)"

definition radix_literal :: "string \<Rightarrow> nat option" where
  "radix_literal t =
     (let p = take 2 t; ds = drop 2 t in
      if p = ''0x'' \<or> p = ''0X'' then radix_integer 16 ds
      else if p = ''0o'' \<or> p = ''0O'' then radix_integer 8 ds
      else if p = ''0b'' \<or> p = ''0B'' then radix_integer 2 ds
      else None)"

definition js_Number :: "string \<Rightarrow> rat option" where
  "js_Number s =
     (let t = js_trim s in
      if t = [] then Some 0
      else case radix_literal t of Some n \<Rightarrow> Some (fl (of_nat n)) | None \<Rightarrow> signed_literal t)"

definition lua_tonumber :: "string \<Rightarrow> rat option" where
  "lua_tonumber s = signed_literal (trim s)"

section \<open>What is printed is read back\<close>

lemma less_10_cases: "(n :: nat) < 10 \<Longrightarrow> n \<in> {0, 1, 2, 3, 4, 5, 6, 7, 8, 9}"
  by auto

lemma digit_char_simps [simp]:
  assumes "d < 10"
  shows "is_digit (digit_char d)" and "digit_val (digit_char d) = d"
  using less_10_cases [OF assms] by (auto simp: is_digit_def digit_char_def digit_val_def)

lemma digit_char_zero [simp]: "d < 10 \<Longrightarrow> digit_char d = CHR ''0'' \<longleftrightarrow> d = 0"
  using less_10_cases [of d] by (auto simp: digit_char_def)

lemma digits_val_snoc [simp]: "digits_val (ds @ [c]) = 10 * digits_val ds + digit_val c"
  by (simp add: digits_val_def)

lemma digits_val_Nil [simp]: "digits_val [] = 0"
  by (simp add: digits_val_def)

lemma digits_val_show_nat [simp]: "digits_val (show_nat n) = n"
proof (induction n rule: show_nat.induct)
  case (1 n)
  then show ?case
    by (subst show_nat.simps) (auto simp: digits_val_def)
qed

lemma show_nat_digits: "c \<in> set (show_nat n) \<Longrightarrow> is_digit c"
proof (induction n rule: show_nat.induct)
  case (1 n)
  then show ?case
    by (subst (asm) show_nat.simps) (auto split: if_splits)
qed

lemma show_nat_nonempty [simp]: "show_nat n \<noteq> []"
  by (subst show_nat.simps) simp

lemma show_nat_inj [simp]: "show_nat m = show_nat n \<longleftrightarrow> m = n"
  by (metis digits_val_show_nat)

lemma show_nat_leading: "hd (show_nat n) = CHR ''0'' \<Longrightarrow> n = 0"
proof (induction n rule: show_nat.induct)
  case (1 n)
  show ?case
  proof (cases "n < 10")
    case True
    then show ?thesis using 1 by (subst (asm) show_nat.simps) simp
  next
    case False
    with 1 have "n div 10 = 0"
      by (subst (asm) (2) show_nat.simps) simp
    with False show ?thesis by simp
  qed
qed

lemma span_digits_append:
  assumes "\<forall>c \<in> set ds. is_digit c" and "r = [] \<or> \<not> is_digit (hd r)"
  shows "span_digits (ds @ r) = (ds, r)"
  using assms by (cases r) (auto simp: span_digits_def takeWhile_append dropWhile_append)

lemma span_digits_show_nat:
  "r = [] \<or> \<not> is_digit (hd r) \<Longrightarrow> span_digits (show_nat n @ r) = (show_nat n, r)"
  by (rule span_digits_append) (auto intro: show_nat_digits)

end
