(* ===== verification/Json.thy ===== *)
theory Json
  imports Decimal
begin

text \<open>
  \<open>JSON.stringify\<close> of the flat objects the program sends and \<open>JSON.parse\<close> of the text it
  receives. The parser is the full grammar of JSON; it runs on fuel, one unit per
  value, element or member, and \<open>json_parse\<close> gives it the length of the text, which
  \<open>parse_value_fuel\<close> shows to be enough. The round trip at the end is what lets a consumer
  rely on the text its producer wrote.
\<close>

datatype json =
    JNull
  | JBool bool
  | JNum rat
  | JStr string
  | JArr "json list"
  | JObj "(string \<times> json) list"

text \<open>The values of the objects the program stringifies; \<open>undefined\<close> members are left out.\<close>

datatype js_value = Undefined | JsString string | JsNumber int

section \<open>JSON.stringify\<close>

definition hex_char :: "nat \<Rightarrow> char" where
  "hex_char d = ''0123456789abcdef'' ! d"

definition quote_char :: "char \<Rightarrow> string" where
  "quote_char c =
     (if c = CHR 0x22 then [CHR 0x5C, CHR 0x22]
      else if c = CHR 0x5C then [CHR 0x5C, CHR 0x5C]
      else if c = CHR 8 then [CHR 0x5C, CHR ''b'']
      else if c = CHR 12 then [CHR 0x5C, CHR ''f'']
      else if c = CHR 10 then [CHR 0x5C, CHR ''n'']
      else if c = CHR 13 then [CHR 0x5C, CHR ''r'']
      else if c = CHR 9 then [CHR 0x5C, CHR ''t'']
      else if (of_char c :: nat) < 32 then
        [CHR 0x5C, CHR ''u'', CHR ''0'', CHR ''0'',
         hex_char (of_char c div 16), hex_char (of_char c mod 16)]
      else [c])"

definition quote :: "string \<Rightarrow> string" where
  "quote s = CHR 0x22 # concat (List.map quote_char s) @ [CHR 0x22]"

fun stringify_value :: "js_value \<Rightarrow> string option" where
  "stringify_value Undefined = None"
| "stringify_value (JsString s) = Some (quote s)"
| "stringify_value (JsNumber i) = Some (show_int i)"

definition stringify_member :: "string \<times> js_value \<Rightarrow> string option" where
  "stringify_member kv = map_option (\<lambda>t. quote (fst kv) @ CHR '':'' # t) (stringify_value (snd kv))"

fun commas :: "string list \<Rightarrow> string" where
  "commas [] = []"
| "commas [t] = t"
| "commas (t # ts) = t @ CHR '','' # commas ts"

definition json_stringify :: "(string \<times> js_value) list \<Rightarrow> string" where
  "json_stringify ms = CHR 0x7B # commas (List.map_filter stringify_member ms) @ [CHR 0x7D]"

section \<open>JSON.parse\<close>

definition json_space :: "char \<Rightarrow> bool" where
  "json_space c \<longleftrightarrow> c \<in> {CHR '' '', CHR 9, CHR 10, CHR 13}"

definition skip_ws :: "string \<Rightarrow> string" where
  "skip_ws s = dropWhile json_space s"

definition hex_val :: "char \<Rightarrow> nat option" where
  "hex_val c =
     (let n = of_char c in
      if 48 \<le> n \<and> n \<le> 57 then Some (n - 48)
      else if 97 \<le> n \<and> n \<le> 102 then Some (n - 87)
      else if 65 \<le> n \<and> n \<le> 70 then Some (n - 55)
      else None)"

definition hex4 :: "char \<Rightarrow> char \<Rightarrow> char \<Rightarrow> char \<Rightarrow> nat option" where
  "hex4 a b c d =
     (case (hex_val a, hex_val b, hex_val c, hex_val d) of
        (Some x, Some y, Some z, Some t) \<Rightarrow> Some (4096 * x + 256 * y + 16 * z + t)
      | _ \<Rightarrow> None)"

definition unescape :: "char \<Rightarrow> char option" where
  "unescape c =
     (if c = CHR 0x22 \<or> c = CHR 0x5C \<or> c = CHR ''/'' then Some c
      else if c = CHR ''b'' then Some (CHR 8)
      else if c = CHR ''f'' then Some (CHR 12)
      else if c = CHR ''n'' then Some (CHR 10)
      else if c = CHR ''r'' then Some (CHR 13)
      else if c = CHR ''t'' then Some (CHR 9)
      else None)"

text \<open>The rest of a string literal after its opening quote.\<close>

fun scan_string :: "string \<Rightarrow> (string \<times> string) option" where
  "scan_string [] = None"
| "scan_string (c # cs) =
     (if c = CHR 0x22 then Some ([], cs)
      else if c = CHR 0x5C then
        (case cs of
           [] \<Rightarrow> None
         | e # es \<Rightarrow>
             if e = CHR ''u'' then
               (case es of
                  h1 # h2 # h3 # h4 # r \<Rightarrow>
                    (case hex4 h1 h2 h3 h4 of
                       Some n \<Rightarrow>
                         if n < 256 then map_option (map_prod (Cons (char_of n)) id) (scan_string r)
                         else None
                     | None \<Rightarrow> None)
                | _ \<Rightarrow> None)
             else (case unescape e of
                     Some d \<Rightarrow> map_option (map_prod (Cons d) id) (scan_string es)
                   | None \<Rightarrow> None))
      else if (of_char c :: nat) < 32 then None
      else map_option (map_prod (Cons c) id) (scan_string cs))"

definition scan_literal :: "string \<Rightarrow> json \<Rightarrow> string \<Rightarrow> (json \<times> string) option" where
  "scan_literal word v s =
     (if take (length word) s = word then Some (v, drop (length word) s) else None)"

text \<open>The next character after white space, if it is the one asked for.\<close>

definition expect :: "char \<Rightarrow> string \<Rightarrow> string option" where
  "expect c s = (case skip_ws s of [] \<Rightarrow> None | d # r \<Rightarrow> if d = c then Some r else None)"

fun parse_value :: "nat \<Rightarrow> string \<Rightarrow> (json \<times> string) option"
  and parse_elements :: "nat \<Rightarrow> string \<Rightarrow> (json list \<times> string) option"
  and parse_members :: "nat \<Rightarrow> string \<Rightarrow> ((string \<times> json) list \<times> string) option"
where
  "parse_value 0 s = None"
| "parse_value (Suc n) s =
     (case skip_ws s of
        [] \<Rightarrow> None
      | c # cs \<Rightarrow>
          if c = CHR 0x7B then
            (case expect CHR 0x7D cs of
               Some r \<Rightarrow> Some (JObj [], r)
             | None \<Rightarrow> map_option (map_prod JObj id) (parse_members n cs))
          else if c = CHR 0x5B then
            (case expect CHR 0x5D cs of
               Some r \<Rightarrow> Some (JArr [], r)
             | None \<Rightarrow> map_option (map_prod JArr id) (parse_elements n cs))
          else if c = CHR 0x22 then map_option (map_prod JStr id) (scan_string cs)
          else if c = CHR ''t'' then scan_literal ''rue'' (JBool True) cs
          else if c = CHR ''f'' then scan_literal ''alse'' (JBool False) cs
          else if c = CHR ''n'' then scan_literal ''ull'' JNull cs
          else map_option (map_prod JNum id) (scan_number (c # cs)))"
| "parse_elements 0 s = None"
| "parse_elements (Suc n) s =
     (case parse_value n s of
        None \<Rightarrow> None
      | Some (v, r) \<Rightarrow>
          (case expect CHR 0x5D r of
             Some r' \<Rightarrow> Some ([v], r')
           | None \<Rightarrow>
               (case expect CHR '','' r of
                  Some r' \<Rightarrow> map_option (map_prod (Cons v) id) (parse_elements n r')
                | None \<Rightarrow> None)))"
| "parse_members 0 s = None"
| "parse_members (Suc n) s =
     (case Option.bind (expect CHR 0x22 s) scan_string of
        None \<Rightarrow> None
      | Some (key, r) \<Rightarrow>
          (case Option.bind (expect CHR '':'' r) (parse_value n) of
             None \<Rightarrow> None
           | Some (v, r1) \<Rightarrow>
               (case expect CHR 0x7D r1 of
                  Some r2 \<Rightarrow> Some ([(key, v)], r2)
                | None \<Rightarrow>
                    (case expect CHR '','' r1 of
                       Some r2 \<Rightarrow> map_option (map_prod (Cons (key, v)) id) (parse_members n r2)
                     | None \<Rightarrow> None))))"

definition json_parse :: "string \<Rightarrow> json option" where
  "json_parse s =
     (case parse_value (2 * length s + 2) s of
        Some (v, r) \<Rightarrow> if skip_ws r = [] then Some v else None
      | None \<Rightarrow> None)"

text \<open>Property access on a parsed object: the last of several equal keys wins.\<close>

definition jget :: "(string \<times> json) list \<Rightarrow> string \<Rightarrow> json option" where
  "jget ms k = map_of (rev ms) k"

section \<open>A parser consumes what it reads\<close>

lemma length_skip_ws: "length (skip_ws s) \<le> length s"
  by (simp add: skip_ws_def length_dropWhile_le)

lemma skip_ws_Cons_length: "skip_ws s = c # cs \<Longrightarrow> length cs < length s"
  using length_skip_ws [of s] by simp

lemma scan_string_length: "scan_string s = Some (t, r) \<Longrightarrow> length r < length s"
  by (induction s arbitrary: t r rule: scan_string.induct)
    (fastforce split: if_splits list.splits option.splits)+

lemma span_digits_length: "span_digits s = (ds, r) \<Longrightarrow> length r + length ds = length s"
  by (auto simp: span_digits_def) (metis add.commute length_append takeWhile_dropWhile_id)

lemma scan_frac_length: "scan_frac s = Some (q, r) \<Longrightarrow> length r \<le> length s"
  by (auto simp: scan_frac_def split: list.splits prod.splits if_splits dest!: span_digits_length)

lemma split_sign_length: "length (snd (split_sign s)) \<le> length s"
  by (auto simp: split_sign_def split: list.splits)

lemma scan_exp_length: "scan_exp s = Some (q, r) \<Longrightarrow> length r \<le> length s"
  using split_sign_length [of "tl s"]
  by (auto simp: scan_exp_def Let_def split: list.splits prod.splits if_splits
      dest!: span_digits_length)

lemma scan_unsigned_length: "scan_unsigned b s = Some (q, r) \<Longrightarrow> length r < length s"
proof -
  assume a: "scan_unsigned b s = Some (q, r)"
  obtain ds t where sp: "span_digits s = (ds, t)" by fastforce
  from a sp have "ds \<noteq> []" and "length r \<le> length t"
    by (auto simp: scan_unsigned_def split: if_splits option.splits
        dest!: scan_frac_length scan_exp_length)
  then show "length r < length s"
    using span_digits_length [OF sp] by (cases ds) auto
qed

lemma scan_number_length: "scan_number s = Some (q, r) \<Longrightarrow> length r < length s"
  by (auto simp: scan_number_def split: list.splits if_splits dest!: scan_unsigned_length)

lemma scan_literal_length: "scan_literal w v s = Some (x, r) \<Longrightarrow> length r \<le> length s"
  by (auto simp: scan_literal_def split: if_splits)

lemmas scan_lengths = scan_string_length scan_number_length scan_literal_length

lemma expect_length: "expect c s = Some r \<Longrightarrow> length r < length s"
  using skip_ws_Cons_length [of s] by (auto simp: expect_def split: list.splits if_splits)

lemma parse_length:
  "parse_value n s = Some (v, r) \<Longrightarrow> length r < length s"
  "parse_elements n s = Some (vs, r) \<Longrightarrow> length r < length s"
  "parse_members n s = Some (ms, r) \<Longrightarrow> length r < length s"
proof (induction n arbitrary: s v r vs ms)
  case (Suc n)
  {
    case 1
    show ?case
    proof (cases "skip_ws s")
      case (Cons c cs)
      then have "length cs < length s" by (rule skip_ws_Cons_length)
      with 1 Cons length_skip_ws [of s] show ?thesis
        by (auto split: if_splits option.splits
            dest!: scan_lengths expect_length Suc.IH(2,3))
    qed (use 1 in simp)
  next
    case 2
    then show ?case
      by (auto split: option.splits dest!: expect_length Suc.IH(1,2))
  next
    case 3
    then show ?case
      by (auto split: option.splits simp: bind_eq_Some_conv
          dest!: expect_length scan_string_length Suc.IH(1,3))
  }
qed simp_all

text \<open>Enough fuel: twice the length of the text, and two more, decides the result.\<close>

lemma parse_fuel:
  "2 * length s < n \<Longrightarrow> 2 * length s < m \<Longrightarrow> parse_value n s = parse_value m s"
  "2 * length s + 1 < n \<Longrightarrow> 2 * length s + 1 < m \<Longrightarrow> parse_elements n s = parse_elements m s"
  "2 * length s + 1 < n \<Longrightarrow> 2 * length s + 1 < m \<Longrightarrow> parse_members n s = parse_members m s"
proof (induction n arbitrary: s m)
  case (Suc n)
  {
    case 1
    then obtain k where m: "m = Suc k" by (cases m) auto
    show ?case
    proof (cases "skip_ws s")
      case (Cons c cs)
      then have "length cs < length s" by (rule skip_ws_Cons_length)
      then have "parse_elements n cs = parse_elements k cs" "parse_members n cs = parse_members k cs"
        using 1 m by (auto intro!: Suc.IH(2,3))
      then show ?thesis using Cons m by (simp split: option.split)
    qed (simp add: m)
  next
    case 2
    then obtain k where m: "m = Suc k" by (cases m) auto
    have v: "parse_value n s = parse_value k s"
      using 2 m by (intro Suc.IH(1)) auto
    have "parse_elements n r' = parse_elements k r'"
      if "parse_value k s = Some (x, r)" "expect CHR '','' r = Some r'" for x r r'
      using 2 m parse_length(1) [OF that(1)] expect_length [OF that(2)]
      by (intro Suc.IH(2)) auto
    then show ?case
      by (auto simp: m v split: option.splits)
  next
    case 3
    then obtain k where m: "m = Suc k" by (cases m) auto
    have v: "parse_value n r1 = parse_value k r1"
      if "expect CHR 0x22 s = Some s'" "scan_string s' = Some (key, r)" "expect CHR '':'' r = Some r1"
      for s' key r r1
      using 3 m expect_length [OF that(1)] scan_string_length [OF that(2)] expect_length [OF that(3)]
      by (intro Suc.IH(1)) auto
    have "parse_members n r3 = parse_members k r3"
      if "expect CHR 0x22 s = Some s'" "scan_string s' = Some (key, r)" "expect CHR '':'' r = Some r1"
        "parse_value k r1 = Some (x, r2)" "expect CHR '','' r2 = Some r3"
      for s' key r r1 x r2 r3
      using 3 m expect_length [OF that(1)] scan_string_length [OF that(2)] expect_length [OF that(3)]
        parse_length(1) [OF that(4)] expect_length [OF that(5)]
      by (intro Suc.IH(3)) auto
    with v show ?case
      by (auto simp: m bind_eq_Some_conv split: option.splits)
  }
qed simp_all

section \<open>What is stringified is parsed back\<close>

fun to_json :: "js_value \<Rightarrow> json option" where
  "to_json Undefined = None"
| "to_json (JsString s) = Some (JStr s)"
| "to_json (JsNumber i) = Some (JNum (of_int i))"

definition to_members :: "(string \<times> js_value) list \<Rightarrow> (string \<times> json) list" where
  "to_members ms = List.map_filter (\<lambda>(k, v). map_option (Pair k) (to_json v)) ms"

text \<open>The integers a double holds exactly.\<close>

fun safe_value :: "js_value \<Rightarrow> bool" where
  "safe_value (JsNumber i) \<longleftrightarrow> \<bar>i\<bar> \<le> 2 ^ 53"
| "safe_value _ \<longleftrightarrow> True"

lemma hex_val_hex_char:
  assumes "d < 16"
  shows "hex_val (hex_char d) = Some d"
proof -
  have "\<forall>d \<in> set [0..<16]. hex_val (hex_char d) = Some d" by code_simp
  with assms show ?thesis by simp
qed

lemma hex4_control:
  assumes "(of_char c :: nat) < 32"
  shows "hex4 CHR ''0'' CHR ''0'' (hex_char (of_char c div 16)) (hex_char (of_char c mod 16)) = Some (of_char c)"
proof -
  have "of_char c div 16 < (16 :: nat)" using assms by linarith
  then show ?thesis
    by (simp add: hex4_def hex_val_hex_char) (simp add: hex_val_def)
qed

lemma scan_escaped:
  "unescape e = Some d \<Longrightarrow> e \<noteq> CHR ''u'' \<Longrightarrow>
     scan_string (CHR 0x5C # e # r) = map_option (map_prod (Cons d) id) (scan_string r)"
  by simp

lemma scan_control:
  "(of_char c :: nat) < 32 \<Longrightarrow>
     scan_string (CHR 0x5C # CHR ''u'' # CHR ''0'' # CHR ''0'' #
       hex_char (of_char c div 16) # hex_char (of_char c mod 16) # r) =
     map_option (map_prod (Cons c) id) (scan_string r)"
  by (simp add: hex4_control)

lemma scan_quote_char: "scan_string (quote_char c @ r) = map_option (map_prod (Cons c) id) (scan_string r)"
proof (cases "c \<in> {CHR 0x22, CHR 0x5C, CHR 8, CHR 9, CHR 10, CHR 12, CHR 13}")
  case True
  then consider "c = CHR 0x22" | "c = CHR 0x5C" | "c = CHR 8" | "c = CHR 9" | "c = CHR 10"
    | "c = CHR 12" | "c = CHR 13" by blast
  then show ?thesis
    by cases (simp_all add: quote_char_def scan_escaped unescape_def del: scan_string.simps)
next
  case False
  then have c: "c \<noteq> CHR 0x22" "c \<noteq> CHR 0x5C" "c \<noteq> CHR 8" "c \<noteq> CHR 9" "c \<noteq> CHR 10"
    "c \<noteq> CHR 12" "c \<noteq> CHR 13" by blast+
  show ?thesis
  proof (cases "(of_char c :: nat) < 32")
    case True
    then have "quote_char c = [CHR 0x5C, CHR ''u'', CHR ''0'', CHR ''0'',
        hex_char (of_char c div 16), hex_char (of_char c mod 16)]"
      by (simp only: quote_char_def c if_False if_True)
    then show ?thesis
      by (simp only: append.simps scan_control [OF True])
  next
    case False
    then have "quote_char c = [c]"
      by (simp only: quote_char_def c if_False)
    with False c(1,2) show ?thesis
      by (simp only: append.simps scan_string.simps if_False)
  qed
qed

lemma scan_quoted: "scan_string (concat (List.map quote_char s) @ CHR 0x22 # r) = Some (s, r)"
  by (induction s) (simp_all add: scan_quote_char)

lemma skip_ws_quote [simp]: "skip_ws (quote s @ r) = quote s @ r"
  by (simp add: skip_ws_def quote_def json_space_def)

lemma expect_quote: "Option.bind (expect CHR 0x22 (quote s @ r)) scan_string = Some (s, r)"
  by (simp add: expect_def) (simp add: quote_def scan_quoted)

lemma expect_Cons: "\<not> json_space c \<Longrightarrow> expect d (c # r) = (if c = d then Some r else None)"
  by (simp add: expect_def skip_ws_def)

text \<open>A value is followed by a comma or the closing brace of its object.\<close>

definition delimiter :: "char \<Rightarrow> bool" where
  "delimiter c \<longleftrightarrow> c = CHR '','' \<or> c = CHR 0x7D"

lemma delimiterD [dest]:
  assumes "delimiter c"
  shows "\<not> is_digit c" and "c \<noteq> CHR ''.''" and "c \<noteq> CHR ''e''" and "c \<noteq> CHR ''E''"
  using assms by (auto simp: delimiter_def is_digit_def)

lemma scan_unsigned_show_nat:
  assumes "delimiter c"
  shows "scan_unsigned True (show_nat n @ c # r) = Some (of_nat n, c # r)"
proof -
  have "\<not> (1 < length (show_nat n) \<and> hd (show_nat n) = CHR ''0'')"
    using show_nat_leading [of n] by (auto simp: show_nat.simps [of 0])
  moreover have "scan_frac (c # r) = Some (0, c # r)"
    using delimiterD(2) [OF assms] by (simp add: scan_frac_def)
  moreover have "scan_exp (c # r) = Some (0, c # r)"
    using delimiterD(3,4) [OF assms] by (simp add: scan_exp_def)
  ultimately show ?thesis
    using delimiterD(1) [OF assms]
    by (simp add: scan_unsigned_def span_digits_show_nat)
qed

lemma hd_show_nat_digit: "is_digit (hd (show_nat n))"
  by (rule show_nat_digits [OF hd_in_set]) simp

lemma show_int_Cons: "\<exists>d ds. show_int i = d # ds \<and> (is_digit d \<or> d = CHR ''-'')"
  using hd_show_nat_digit [of "nat i"]
  by (cases "show_nat (nat i)") (simp_all add: show_int_def)

lemma digit_not_minus: "is_digit c \<Longrightarrow> c \<noteq> CHR ''-''"
  by (auto simp: is_digit_def)

lemma scan_number_show_int:
  assumes "delimiter c" and "\<bar>i\<bar> \<le> 2 ^ 53"
  shows "scan_number (show_int i @ c # r) = Some (of_int i, c # r)"
proof (cases "i < 0")
  case True
  then show ?thesis
    using assms by (simp add: show_int_def scan_number_def scan_unsigned_show_nat fl_minus fl_of_int)
next
  case False
  obtain d ds where sn: "show_nat (nat i) = d # ds"
    by (cases "show_nat (nat i)") simp_all
  have d: "d \<noteq> CHR ''-''"
    using hd_show_nat_digit [of "nat i"] by (simp add: sn digit_not_minus)
  have "scan_number (show_int i @ c # r) =
      map_option (map_prod fl id) (scan_unsigned True (show_nat (nat i) @ c # r))"
    using False d by (simp add: scan_number_def show_int_def sn)
  with False assms show ?thesis
    by (simp add: scan_unsigned_show_nat fl_of_int)
qed

lemma parse_value_number:
  assumes "delimiter c" and "\<bar>i\<bar> \<le> 2 ^ 53"
  shows "parse_value (Suc n) (show_int i @ c # r) = Some (JNum (of_int i), c # r)"
proof -
  obtain d ds where sn: "show_int i = d # ds" and d: "is_digit d \<or> d = CHR ''-''"
    using show_int_Cons by blast
  have "\<not> json_space d" "d \<notin> {CHR 0x7B, CHR 0x5B, CHR 0x22, CHR ''t'', CHR ''f'', CHR ''n''}"
    using d by (auto simp: json_space_def is_digit_def)
  then show ?thesis
    using scan_number_show_int [OF assms, of r] by (simp add: sn skip_ws_def)
qed

lemma parse_value_stringify:
  assumes "stringify_value v = Some t" and "safe_value v" and "delimiter c"
  shows "\<exists>j. to_json v = Some j \<and> parse_value (Suc n) (t @ c # r) = Some (j, c # r)"
proof (cases v)
  case (JsString s)
  with assms have "t = quote s" by simp
  then show ?thesis
    using JsString by (simp add: quote_def skip_ws_def json_space_def scan_quoted)
next
  case (JsNumber i)
  with assms have "t = show_int i" and "\<bar>i\<bar> \<le> 2 ^ 53" by simp_all
  then show ?thesis
    using JsNumber parse_value_number [OF assms(3)] by simp
qed (use assms in simp)

lemma to_members_Nil: "List.map_filter stringify_member ms = [] \<Longrightarrow> to_members ms = []"
proof (induction ms)
  case (Cons m ms)
  obtain k v where m: "m = (k, v)" by fastforce
  from Cons.prems have "v = Undefined"
    by (cases v) (simp_all add: m stringify_member_def map_filter_simps(1))
  with Cons show ?case
    by (simp add: m stringify_member_def to_members_def map_filter_simps(1))
qed (simp add: to_members_def map_filter_def)

lemma expect_commas:
  assumes "List.map_filter stringify_member ms \<noteq> []"
  shows "expect CHR 0x7D (commas (List.map_filter stringify_member ms) @ r) = None"
proof -
  obtain u us where us: "List.map_filter stringify_member ms = u # us"
    using assms by (cases "List.map_filter stringify_member ms") auto
  then have "u \<in> set (List.map_filter stringify_member ms)" by simp
  then obtain t where "u = CHR 0x22 # t"
    by (auto simp: map_filter_def stringify_member_def quote_def)
  with us show ?thesis
    by (cases us) (simp_all add: expect_Cons json_space_def)
qed

lemma parse_members_stringify:
  assumes "\<forall>m \<in> set ms. safe_value (snd m)" and "List.map_filter stringify_member ms \<noteq> []"
    and "length ms < n"
  shows "parse_members (Suc n) (commas (List.map_filter stringify_member ms) @ CHR 0x7D # r)
    = Some (to_members ms, r)"
  using assms
proof (induction ms arbitrary: n)
  case (Cons m ms)
  obtain k v where m: "m = (k, v)" by fastforce
  from Cons.prems obtain n' where n: "n = Suc n'" by (cases n) auto
  let ?rest = "List.map_filter stringify_member ms"
  show ?case
  proof (cases "stringify_value v")
    case None
    then have mf: "List.map_filter stringify_member (m # ms) = ?rest"
      by (simp add: m stringify_member_def map_filter_simps(1))
    from None have "v = Undefined" by (cases v) simp_all
    then have "to_members (m # ms) = to_members ms"
      by (simp add: m to_members_def map_filter_simps(1))
    then show ?thesis
      using Cons.prems Cons.IH [of n] by (simp only: mf) simp
  next
    case (Some t)
    have v: "\<exists>j. to_json v = Some j \<and> parse_value n (t @ c # u) = Some (j, c # u)"
      if "delimiter c" for c u
      using parse_value_stringify [OF Some _ that] Cons.prems(1) by (simp add: m n)
    have mf: "List.map_filter stringify_member (m # ms) = (quote k @ CHR '':'' # t) # ?rest"
      by (simp add: m Some stringify_member_def map_filter_simps(1))
    have tm: "to_members (m # ms) = (k, the (to_json v)) # to_members ms"
    proof -
      obtain j where "to_json v = Some j"
        using v [of "CHR '',''"] by (auto simp: delimiter_def)
      then show ?thesis by (simp add: m to_members_def map_filter_simps(1))
    qed
    show ?thesis
    proof (cases "?rest = []")
      case True
      then have "to_members ms = []" by (rule to_members_Nil)
      then show ?thesis
        unfolding mf tm True using v [of "CHR 0x7D" r]
        by (auto simp: expect_quote expect_Cons json_space_def delimiter_def)
    next
      case False
      have c: "commas (x # ?rest) = x @ CHR '','' # commas ?rest" for x
        using False by (cases ?rest) simp_all
      have "parse_members n (commas ?rest @ CHR 0x7D # r) = Some (to_members ms, r)"
        using Cons.prems Cons.IH [of n'] False by (simp add: n del: parse_members.simps)
      then show ?thesis
        unfolding mf tm c using v [of "CHR '',''" "commas ?rest @ CHR 0x7D # r"]
        by (auto simp: expect_quote expect_Cons json_space_def delimiter_def)
    qed
  qed
qed simp

text \<open>\<open>JSON.parse(JSON.stringify(o))\<close> is \<open>o\<close> without its undefined members.\<close>

lemma json_roundtrip:
  assumes "\<forall>m \<in> set ms. safe_value (snd m)"
  shows "json_parse (json_stringify ms) = Some (JObj (to_members ms))"
proof -
  let ?mf = "List.map_filter stringify_member ms"
  let ?s = "json_stringify ms"
  let ?n = "Suc (Suc (2 * length ?s + length ms + 1))"
  have s: "?s = CHR 0x7B # commas ?mf @ [CHR 0x7D]" by (simp add: json_stringify_def)
  have "parse_value ?n ?s = Some (JObj (to_members ms), [])"
  proof (cases "?mf = []")
    case True
    have "parse_value (Suc n) [CHR 0x7B, CHR 0x7D] = Some (JObj [], [])" for n
      by (simp add: skip_ws_def json_space_def expect_def)
    moreover have "?s = [CHR 0x7B, CHR 0x7D]" by (simp add: s True)
    ultimately show ?thesis
      using to_members_Nil [OF True] by (simp only:)
  next
    case False
    have "expect CHR 0x7D (commas ?mf @ [CHR 0x7D]) = None"
      using False by (rule expect_commas)
    moreover have "parse_members (Suc (2 * length ?s + length ms + 1)) (commas ?mf @ [CHR 0x7D])
        = Some (to_members ms, [])"
      by (rule parse_members_stringify [OF assms False]) simp
    ultimately show ?thesis
      by (subst (2) s) (simp add: skip_ws_def json_space_def del: parse_members.simps)
  qed
  moreover have "parse_value (2 * length ?s + 2) ?s = parse_value ?n ?s"
    by (rule parse_fuel(1)) auto
  ultimately have "parse_value (2 * length ?s + 2) ?s = Some (JObj (to_members ms), [])"
    by (rule trans [rotated])
  then show ?thesis
    by (simp add: json_parse_def skip_ws_def del: parse_value.simps)
qed

end
