(* ===== verification/Contracts.thy ===== *)
theory Contracts
  imports Prelude Json
begin

text \<open>
  The directory \<^verbatim>\<open>src/contracts\<close>: the constants of the queue topology, the messages and
  events the two services exchange, the zod schemas that validate them and the error classes.
  The regular expressions behind \<open>z.email()\<close> and \<open>z.uuid()\<close> belong to zod; they are the
  parameter \<open>zod\<close> of the schemas that use them.
\<close>

section \<open>Topology constants\<close>

record Topology =
  exchange :: string
  retryExchange :: string
  deadLetterExchange :: string
  statusExchange :: string
  routingKey :: string
  retryRoutingKey :: string
  deadLetterRoutingKey :: string
  statusRoutingKey :: string
  mainQueue :: string
  deadLetterQueue :: string
  statusQueue :: string
  retryDelaysSeconds :: "nat list"
  maxAttempts :: int

definition TOPOLOGY :: Topology where
  "TOPOLOGY = \<lparr>
     exchange = ''email.exchange'',
     retryExchange = ''email.retry.exchange'',
     deadLetterExchange = ''email.dlx'',
     statusExchange = ''email.status.exchange'',
     routingKey = ''email.deliver'',
     retryRoutingKey = ''email.retry'',
     deadLetterRoutingKey = ''email.dead'',
     statusRoutingKey = ''email.status'',
     mainQueue = ''email.queue'',
     deadLetterQueue = ''email.dead-letter'',
     statusQueue = ''email.status.queue'',
     retryDelaysSeconds = [5, 30, 120, 600, 1800],
     maxAttempts = 5\<rparr>"

definition retryQueueName :: "int \<Rightarrow> string" where
  "retryQueueName tier = ''email.retry.tier'' @ show_int tier"

lemma maxAttempts_TOPOLOGY [simp]: "maxAttempts TOPOLOGY = 5"
  by (simp add: TOPOLOGY_def)

lemma TOPOLOGY_exchanges [simp]:
  "exchange TOPOLOGY = ''email.exchange''"
  "retryExchange TOPOLOGY = ''email.retry.exchange''"
  "deadLetterExchange TOPOLOGY = ''email.dlx''"
  "statusExchange TOPOLOGY = ''email.status.exchange''"
  by (simp_all add: TOPOLOGY_def)

section \<open>Statuses, providers and error codes\<close>

datatype EmailJobStatus =
  QUEUED | PUBLISHED | IN_FLIGHT | JOB_DELIVERED | JOB_RETRY_SCHEDULED | JOB_DEAD_LETTERED

datatype DeliveryStatus = DELIVERED | RETRY_SCHEDULED | DEAD_LETTERED

datatype ProviderName = Smtp | Gmail | Outlook

datatype ProviderErrorCode =
  PROVIDER_TIMEOUT | PROVIDER_RATE_LIMITED | PROVIDER_UNAVAILABLE | PROVIDER_AUTH_FAILED
| INVALID_RECIPIENT | PROVIDER_REJECTED | UNKNOWN

fun job_status_name :: "EmailJobStatus \<Rightarrow> string" where
  "job_status_name QUEUED = ''QUEUED''"
| "job_status_name PUBLISHED = ''PUBLISHED''"
| "job_status_name IN_FLIGHT = ''IN_FLIGHT''"
| "job_status_name JOB_DELIVERED = ''DELIVERED''"
| "job_status_name JOB_RETRY_SCHEDULED = ''RETRY_SCHEDULED''"
| "job_status_name JOB_DEAD_LETTERED = ''DEAD_LETTERED''"

fun status_name :: "DeliveryStatus \<Rightarrow> string" where
  "status_name DELIVERED = ''DELIVERED''"
| "status_name RETRY_SCHEDULED = ''RETRY_SCHEDULED''"
| "status_name DEAD_LETTERED = ''DEAD_LETTERED''"

definition status_of_name :: "string \<Rightarrow> DeliveryStatus option" where
  "status_of_name s =
     (if s = ''DELIVERED'' then Some DELIVERED
      else if s = ''RETRY_SCHEDULED'' then Some RETRY_SCHEDULED
      else if s = ''DEAD_LETTERED'' then Some DEAD_LETTERED
      else None)"

fun provider_name :: "ProviderName \<Rightarrow> string" where
  "provider_name Smtp = ''smtp''"
| "provider_name Gmail = ''gmail''"
| "provider_name Outlook = ''outlook''"

definition provider_of_name :: "string \<Rightarrow> ProviderName option" where
  "provider_of_name s =
     (if s = ''smtp'' then Some Smtp
      else if s = ''gmail'' then Some Gmail
      else if s = ''outlook'' then Some Outlook
      else None)"

fun error_code_name :: "ProviderErrorCode \<Rightarrow> string" where
  "error_code_name PROVIDER_TIMEOUT = ''PROVIDER_TIMEOUT''"
| "error_code_name PROVIDER_RATE_LIMITED = ''PROVIDER_RATE_LIMITED''"
| "error_code_name PROVIDER_UNAVAILABLE = ''PROVIDER_UNAVAILABLE''"
| "error_code_name PROVIDER_AUTH_FAILED = ''PROVIDER_AUTH_FAILED''"
| "error_code_name INVALID_RECIPIENT = ''INVALID_RECIPIENT''"
| "error_code_name PROVIDER_REJECTED = ''PROVIDER_REJECTED''"
| "error_code_name UNKNOWN = ''UNKNOWN''"

lemma status_of_name_status_name [simp]: "status_of_name (status_name s) = Some s"
  by (cases s) (simp_all add: status_of_name_def)

lemma provider_of_name_provider_name [simp]: "provider_of_name (provider_name p) = Some p"
  by (cases p) (simp_all add: provider_of_name_def)

section \<open>Messages, events and requests\<close>

record SubmitEmailJobBody =
  body_tenantId :: string
  body_from :: string
  body_to :: string
  body_subject :: string
  body_text :: string
  body_html :: "string option"
  body_provider :: "ProviderName option"

record EmailJobMessage =
  msg_tenantId :: string
  msg_from :: string
  msg_to :: string
  msg_subject :: string
  msg_text :: string
  msg_html :: "string option"
  msg_jobId :: string
  msg_provider :: ProviderName
  msg_attempt :: int
  msg_publishedAt :: int

record DeliveryStatusEvent =
  ev_jobId :: string
  ev_tenantId :: string
  ev_status :: DeliveryStatus
  ev_attempt :: int
  ev_provider :: string
  ev_messageId :: "string option"
  ev_errorCode :: "string option"
  ev_occurredAt :: int

record SendEmailRequest =
  req_jobId :: string
  req_from :: string
  req_to :: string
  req_subject :: string
  req_text :: string
  req_html :: "string option"

record DeliveryResult =
  providerMessageId :: string

section \<open>Schemas\<close>

datatype issue_code = Invalid_type | Too_small | Too_big | Invalid_format | Invalid_value

type_synonym issue = "string list \<times> issue_code"

record zod =
  zod_email :: "string \<Rightarrow> bool"
  zod_uuid :: "string \<Rightarrow> bool"

text \<open>
  A field schema takes the property, absent or present, to the issues it raises or to the
  value. The checks of a string all run; a number that is not an integer stops there.
\<close>

definition z_string :: "(string \<Rightarrow> issue_code list) \<Rightarrow> json option \<Rightarrow> issue_code list + string" where
  "z_string checks v =
     (case v of
        Some (JStr s) \<Rightarrow> (if checks s = [] then Inr s else Inl (checks s))
      | _ \<Rightarrow> Inl [Invalid_type])"

definition z_min :: "nat \<Rightarrow> string \<Rightarrow> issue_code list" where
  "z_min n s = (if n \<le> length s then [] else [Too_small])"

definition z_max :: "nat \<Rightarrow> string \<Rightarrow> issue_code list" where
  "z_max n s = (if length s \<le> n then [] else [Too_big])"

definition z_format :: "(string \<Rightarrow> bool) \<Rightarrow> string \<Rightarrow> issue_code list" where
  "z_format p s = (if p s then [] else [Invalid_format])"

definition z_enum :: "(string \<Rightarrow> 'a option) \<Rightarrow> json option \<Rightarrow> issue_code list + 'a" where
  "z_enum of_name v =
     (case v of
        Some (JStr s) \<Rightarrow> (case of_name s of Some x \<Rightarrow> Inr x | None \<Rightarrow> Inl [Invalid_value])
      | _ \<Rightarrow> Inl [Invalid_value])"

text \<open>\<open>z.number().int().min(lo)\<close>: \<open>int()\<close> admits the safe integers only.\<close>

definition z_int_min :: "int \<Rightarrow> json option \<Rightarrow> issue_code list + int" where
  "z_int_min lo v =
     (case v of
        Some (JNum q) \<Rightarrow>
          (if q \<noteq> of_int \<lfloor>q\<rfloor> then Inl [Invalid_type]
           else let i = \<lfloor>q\<rfloor>;
                    is = (if i > 2 ^ 53 - 1 then [Too_big] else if i < - (2 ^ 53 - 1) then [Too_small] else [])
                         @ (if i < lo then [Too_small] else [])
                in if is = [] then Inr i else Inl is)
      | _ \<Rightarrow> Inl [Invalid_type])"

definition z_optional :: "(json option \<Rightarrow> issue_code list + 'a) \<Rightarrow> json option \<Rightarrow> issue_code list + 'a option" where
  "z_optional schema v = (case v of None \<Rightarrow> Inr None | Some _ \<Rightarrow> map_sum id Some (schema v))"

text \<open>An object schema collects the issues of all its fields, each under its path.\<close>

definition z_field :: "(string \<times> json) list \<Rightarrow> string \<Rightarrow> (json option \<Rightarrow> issue_code list + 'a) \<Rightarrow> issue list + 'a" where
  "z_field ms k schema = map_sum (List.map (Pair [k])) id (schema (jget ms k))"

fun z_and :: "issue list + ('a \<Rightarrow> 'b) \<Rightarrow> issue list + 'a \<Rightarrow> issue list + 'b" where
  "z_and (Inr f) (Inr x) = Inr (f x)"
| "z_and (Inr f) (Inl is) = Inl is"
| "z_and (Inl is) (Inr x) = Inl is"
| "z_and (Inl is) (Inl is') = Inl (is @ is')"

definition z_object :: "((string \<times> json) list \<Rightarrow> issue list + 'a) \<Rightarrow> json \<Rightarrow> issue list + 'a" where
  "z_object shape v = (case v of JObj ms \<Rightarrow> shape ms | _ \<Rightarrow> Inl [([], Invalid_type)])"

definition emailAddressSchema :: "zod \<Rightarrow> json option \<Rightarrow> issue_code list + string" where
  "emailAddressSchema Z = z_string (\<lambda>s. z_format (zod_email Z) s @ z_max 254 s)"

definition submitEmailJobBodySchema :: "zod \<Rightarrow> json \<Rightarrow> issue list + SubmitEmailJobBody" where
  "submitEmailJobBodySchema Z =
     z_object (\<lambda>ms.
       z_and (z_and (z_and (z_and (z_and (z_and (z_and
         (Inr (\<lambda>tenant from to subject text html provider.
            \<lparr>body_tenantId = tenant, body_from = from, body_to = to, body_subject = subject,
             body_text = text, body_html = html, body_provider = provider\<rparr>))
         (z_field ms ''tenantId'' (z_string (\<lambda>s. z_min 1 s @ z_max 64 s))))
         (z_field ms ''from'' (emailAddressSchema Z)))
         (z_field ms ''to'' (emailAddressSchema Z)))
         (z_field ms ''subject'' (z_string (\<lambda>s. z_min 1 s @ z_max 500 s))))
         (z_field ms ''text'' (z_string (\<lambda>s. z_min 1 s @ z_max 1000000 s))))
         (z_field ms ''html'' (z_optional (z_string (z_max 5000000)))))
         (z_field ms ''provider'' (z_optional (z_enum provider_of_name))))"

definition emailJobMessageSchema :: "zod \<Rightarrow> json \<Rightarrow> issue list + EmailJobMessage" where
  "emailJobMessageSchema Z =
     z_object (\<lambda>ms.
       z_and (z_and (z_and (z_and (z_and (z_and (z_and (z_and (z_and (z_and
         (Inr (\<lambda>tenant from to subject text html job provider attempt published.
            \<lparr>msg_tenantId = tenant, msg_from = from, msg_to = to, msg_subject = subject,
             msg_text = text, msg_html = html, msg_jobId = job, msg_provider = provider,
             msg_attempt = attempt, msg_publishedAt = published\<rparr>))
         (z_field ms ''tenantId'' (z_string (\<lambda>s. z_min 1 s @ z_max 64 s))))
         (z_field ms ''from'' (emailAddressSchema Z)))
         (z_field ms ''to'' (emailAddressSchema Z)))
         (z_field ms ''subject'' (z_string (\<lambda>s. z_min 1 s @ z_max 500 s))))
         (z_field ms ''text'' (z_string (\<lambda>s. z_min 1 s @ z_max 1000000 s))))
         (z_field ms ''html'' (z_optional (z_string (z_max 5000000)))))
         (z_field ms ''jobId'' (z_string (z_format (zod_uuid Z)))))
         (z_field ms ''provider'' (z_enum provider_of_name)))
         (z_field ms ''attempt'' (z_int_min 0)))
         (z_field ms ''publishedAt'' (z_int_min 1)))"

definition deliveryStatusEventSchema :: "zod \<Rightarrow> json \<Rightarrow> issue list + DeliveryStatusEvent" where
  "deliveryStatusEventSchema Z =
     z_object (\<lambda>ms.
       z_and (z_and (z_and (z_and (z_and (z_and (z_and (z_and
         (Inr (\<lambda>job tenant status attempt provider message code occurred.
            \<lparr>ev_jobId = job, ev_tenantId = tenant, ev_status = status, ev_attempt = attempt,
             ev_provider = provider, ev_messageId = message, ev_errorCode = code,
             ev_occurredAt = occurred\<rparr>))
         (z_field ms ''jobId'' (z_string (z_format (zod_uuid Z)))))
         (z_field ms ''tenantId'' (z_string (\<lambda>_. []))))
         (z_field ms ''status'' (z_enum status_of_name)))
         (z_field ms ''attempt'' (z_int_min 0)))
         (z_field ms ''provider'' (z_string (\<lambda>_. []))))
         (z_field ms ''messageId'' (z_optional (z_string (\<lambda>_. [])))))
         (z_field ms ''errorCode'' (z_optional (z_string (\<lambda>_. [])))))
         (z_field ms ''occurredAt'' (z_int_min 1)))"

section \<open>The objects that are stringified\<close>

fun js_optional :: "string option \<Rightarrow> js_value" where
  "js_optional None = Undefined"
| "js_optional (Some s) = JsString s"

text \<open>The message as the schema returns it: the members in the order of the shape.\<close>

definition message_members :: "EmailJobMessage \<Rightarrow> (string \<times> js_value) list" where
  "message_members m =
     [(''tenantId'', JsString (msg_tenantId m)), (''from'', JsString (msg_from m)),
      (''to'', JsString (msg_to m)), (''subject'', JsString (msg_subject m)),
      (''text'', JsString (msg_text m)), (''html'', js_optional (msg_html m)),
      (''jobId'', JsString (msg_jobId m)), (''provider'', JsString (provider_name (msg_provider m))),
      (''attempt'', JsNumber (msg_attempt m)), (''publishedAt'', JsNumber (msg_publishedAt m))]"

definition event_members :: "DeliveryStatusEvent \<Rightarrow> (string \<times> js_value) list" where
  "event_members e =
     [(''jobId'', JsString (ev_jobId e)), (''tenantId'', JsString (ev_tenantId e)),
      (''status'', JsString (status_name (ev_status e))), (''attempt'', JsNumber (ev_attempt e)),
      (''provider'', JsString (ev_provider e)), (''messageId'', js_optional (ev_messageId e)),
      (''errorCode'', js_optional (ev_errorCode e)), (''occurredAt'', JsNumber (ev_occurredAt e))]"

section \<open>Errors\<close>

text \<open>
  What a promise of the program rejects with: the two classes of \<^verbatim>\<open>errors.ts\<close>, a Nest
  \<open>HttpException\<close> with its status and the argument it was built from, or any other error
  with its \<open>code\<close>, if it has one, and its message.
\<close>

datatype http_body = MessageBody string | IssuesBody string "(string \<times> issue_code) list"

datatype exn =
    TransientProviderError ProviderErrorCode string
  | PermanentProviderError ProviderErrorCode string
  | HttpException nat http_body
  | JsError "string option" string

section \<open>What the schemas accept\<close>

text \<open>The same constraints as predicates on the records.\<close>

definition safe_int :: "int \<Rightarrow> int \<Rightarrow> bool" where
  "safe_int lo i \<longleftrightarrow> lo \<le> i \<and> i \<le> 2 ^ 53 - 1"

definition valid_address :: "zod \<Rightarrow> string \<Rightarrow> bool" where
  "valid_address Z s \<longleftrightarrow> zod_email Z s \<and> length s \<le> 254"

definition valid_body :: "zod \<Rightarrow> SubmitEmailJobBody \<Rightarrow> bool" where
  "valid_body Z b \<longleftrightarrow>
     length (body_tenantId b) \<in> {1..64} \<and> valid_address Z (body_from b) \<and> valid_address Z (body_to b) \<and>
     length (body_subject b) \<in> {1..500} \<and> length (body_text b) \<in> {1..1000000} \<and>
     (case body_html b of None \<Rightarrow> True | Some h \<Rightarrow> length h \<le> 5000000)"

definition valid_message :: "zod \<Rightarrow> EmailJobMessage \<Rightarrow> bool" where
  "valid_message Z m \<longleftrightarrow>
     length (msg_tenantId m) \<in> {1..64} \<and> valid_address Z (msg_from m) \<and> valid_address Z (msg_to m) \<and>
     length (msg_subject m) \<in> {1..500} \<and> length (msg_text m) \<in> {1..1000000} \<and>
     (case msg_html m of None \<Rightarrow> True | Some h \<Rightarrow> length h \<le> 5000000) \<and>
     zod_uuid Z (msg_jobId m) \<and> safe_int 0 (msg_attempt m) \<and> safe_int 1 (msg_publishedAt m)"

definition valid_event :: "zod \<Rightarrow> DeliveryStatusEvent \<Rightarrow> bool" where
  "valid_event Z e \<longleftrightarrow>
     zod_uuid Z (ev_jobId e) \<and> safe_int 0 (ev_attempt e) \<and> safe_int 1 (ev_occurredAt e)"

lemma z_and_Inr: "z_and f x = Inr y \<longleftrightarrow> (\<exists>g v. f = Inr g \<and> x = Inr v \<and> y = g v)"
  by (cases f; cases x) auto

lemma z_field_Inr: "z_field ms k schema = Inr x \<longleftrightarrow> schema (jget ms k) = Inr x"
  by (cases "schema (jget ms k)") (simp_all add: z_field_def)

lemma z_string_Inr: "z_string checks v = Inr s \<longleftrightarrow> v = Some (JStr s) \<and> checks s = []"
  by (auto simp: z_string_def split: option.splits json.splits)

lemma z_enum_Inr: "z_enum f v = Inr x \<longleftrightarrow> (\<exists>s. v = Some (JStr s) \<and> f s = Some x)"
  by (auto simp: z_enum_def split: option.splits json.splits)

lemma z_int_min_Inr:
  "- (2 ^ 53 - 1) \<le> lo \<Longrightarrow> z_int_min lo v = Inr i \<longleftrightarrow> v = Some (JNum (of_int i)) \<and> safe_int lo i"
  by (auto simp: z_int_min_def safe_int_def Let_def split: option.splits json.splits if_splits)

lemma z_optional_Inr:
  "z_optional schema v = Inr x \<longleftrightarrow>
     (v = None \<and> x = None) \<or> (\<exists>j y. v = Some j \<and> schema v = Inr y \<and> x = Some y)"
  by (cases "schema v") (auto simp: z_optional_def split: option.splits)

lemma z_object_Inr: "z_object shape v = Inr x \<longleftrightarrow> (\<exists>ms. v = JObj ms \<and> shape ms = Inr x)"
  by (auto simp: z_object_def split: json.splits)

lemma z_checks_Nil:
  "z_min n s = [] \<longleftrightarrow> n \<le> length s" "z_max n s = [] \<longleftrightarrow> length s \<le> n" "z_format p s = [] \<longleftrightarrow> p s"
  by (simp_all add: z_min_def z_max_def z_format_def)

lemmas zod_Inr = z_and_Inr z_field_Inr z_string_Inr z_enum_Inr z_int_min_Inr z_optional_Inr
  z_object_Inr z_checks_Nil

lemma submitEmailJobBodySchema_sound:
  "submitEmailJobBodySchema Z v = Inr b \<Longrightarrow> valid_body Z b"
  by (auto simp: submitEmailJobBodySchema_def emailAddressSchema_def zod_Inr valid_body_def
      valid_address_def)

lemma emailJobMessageSchema_sound:
  "emailJobMessageSchema Z v = Inr m \<Longrightarrow> valid_message Z m"
  by (auto simp: emailJobMessageSchema_def emailAddressSchema_def zod_Inr valid_message_def
      valid_address_def)

lemma deliveryStatusEventSchema_sound:
  "deliveryStatusEventSchema Z v = Inr e \<Longrightarrow> valid_event Z e"
  by (auto simp: deliveryStatusEventSchema_def zod_Inr valid_event_def)

section \<open>What one service writes the other reads\<close>

lemma map_filter_Nil_Cons:
  "List.map_filter f [] = []"
  "List.map_filter f (x # xs) = (case f x of None \<Rightarrow> List.map_filter f xs | Some y \<Rightarrow> y # List.map_filter f xs)"
  by (simp_all add: map_filter_simps)

lemmas jget_simps = jget_def to_members_def map_filter_Nil_Cons

lemma to_json_js_optional [simp]: "to_json (js_optional v) = map_option JStr v"
  by (cases v) simp_all

lemma safe_value_js_optional [simp]: "safe_value (js_optional v)"
  by (cases v) simp_all

lemma emailJobMessageSchema_members:
  assumes "valid_message Z m"
  shows "emailJobMessageSchema Z (JObj (to_members (message_members m))) = Inr m"
  using assms
  by (cases "msg_html m")
    (simp_all add: emailJobMessageSchema_def emailAddressSchema_def zod_Inr valid_message_def
      valid_address_def message_members_def jget_simps)

lemma deliveryStatusEventSchema_members:
  assumes "valid_event Z e"
  shows "deliveryStatusEventSchema Z (JObj (to_members (event_members e))) = Inr e"
  using assms
  by (cases "ev_messageId e"; cases "ev_errorCode e")
    (simp_all add: deliveryStatusEventSchema_def zod_Inr valid_event_def event_members_def
      jget_simps)

lemma safe_int_abs: "safe_int 0 i \<or> safe_int 1 i \<Longrightarrow> \<bar>i\<bar> \<le> 2 ^ 53"
  by (auto simp: safe_int_def)

lemma message_text_roundtrip:
  assumes "valid_message Z m"
  shows "map_option (emailJobMessageSchema Z) (json_parse (json_stringify (message_members m))) = Some (Inr m)"
proof -
  have "\<forall>p \<in> set (message_members m). safe_value (snd p)"
    using assms safe_int_abs
    by (auto simp: message_members_def valid_message_def simp del: abs_le_iff)
  then show ?thesis
    using emailJobMessageSchema_members [OF assms] by (simp add: json_roundtrip)
qed

lemma event_text_roundtrip:
  assumes "valid_event Z e"
  shows "map_option (deliveryStatusEventSchema Z) (json_parse (json_stringify (event_members e))) = Some (Inr e)"
proof -
  have "\<forall>p \<in> set (event_members e). safe_value (snd p)"
    using assms safe_int_abs
    by (auto simp: event_members_def valid_event_def)
  then show ?thesis
    using deliveryStatusEventSchema_members [OF assms] by (simp add: json_roundtrip)
qed

end
