(* ===== verification/CircuitBreaker.thy ===== *)
theory CircuitBreaker
  imports Contracts
begin

text \<open>
  \<^verbatim>\<open>resilience/circuit-breaker.service.ts\<close>: one breaker per provider name, kept in memory.
  \<open>isOpen\<close>, \<open>recordSuccess\<close> and \<open>recordFailure\<close> are functions on the map of breakers; the
  time is an argument, and so are the two settings, a number or NaN (\<open>None\<close>).

  The specification of a breaker has two fields, the failures since the last success and the
  time of the last failure. \<open>breaker_refines_spec\<close> shows that the three-state machine gives the
  same answers as long as the clock does not run backwards.
\<close>

datatype BreakerState = CLOSED | OPEN | HALF_OPEN

record Breaker =
  state :: BreakerState
  consecutiveFailures :: nat
  openedAt :: int

type_synonym breakers = "string \<Rightarrow> Breaker option"

text \<open>\<open>x >= y\<close> for a number \<open>x\<close> and a setting that may be NaN\<close>

definition js_ge :: "int \<Rightarrow> rat option \<Rightarrow> bool" where
  "js_ge x y = (case y of None \<Rightarrow> False | Some q \<Rightarrow> q \<le> of_int x)"

definition isOpen :: "rat option \<Rightarrow> int \<Rightarrow> breakers \<Rightarrow> string \<Rightarrow> bool \<times> breakers" where
  "isOpen cooldownMs now bs name =
     (case bs name of
        None \<Rightarrow> (False, bs)
      | Some b \<Rightarrow>
          if state b \<noteq> OPEN then (False, bs)
          else if js_ge (now - openedAt b) cooldownMs
            then (False, bs(name \<mapsto> b\<lparr>state := HALF_OPEN\<rparr>))
            else (True, bs))"

definition recordSuccess :: "breakers \<Rightarrow> string \<Rightarrow> breakers" where
  "recordSuccess bs name = bs(name := None)"

definition recordFailure :: "rat option \<Rightarrow> int \<Rightarrow> breakers \<Rightarrow> string \<Rightarrow> breakers" where
  "recordFailure threshold now bs name =
     (let b = (case bs name of Some b \<Rightarrow> b
               | None \<Rightarrow> \<lparr>state = CLOSED, consecutiveFailures = 0, openedAt = 0\<rparr>);
          b = b\<lparr>consecutiveFailures := consecutiveFailures b + 1\<rparr>;
          b = (if state b = HALF_OPEN \<or> js_ge (int (consecutiveFailures b)) threshold
               then b\<lparr>state := OPEN, openedAt := now\<rparr> else b)
      in bs(name \<mapsto> b))"

section \<open>Events on one breaker\<close>

datatype breaker_event = Query int | Success int | Failure int

fun event_time :: "breaker_event \<Rightarrow> int" where
  "event_time (Query t) = t"
| "event_time (Success t) = t"
| "event_time (Failure t) = t"

text \<open>The answers \<open>isOpen\<close> gives along a list of events on the breaker \<open>name\<close>.\<close>

fun answers :: "rat option \<Rightarrow> rat option \<Rightarrow> string \<Rightarrow> breakers \<Rightarrow> breaker_event list \<Rightarrow> bool list" where
  "answers threshold cooldown name bs [] = []"
| "answers threshold cooldown name bs (Query t # es) =
     (case isOpen cooldown t bs name of (a, bs') \<Rightarrow> a # answers threshold cooldown name bs' es)"
| "answers threshold cooldown name bs (Success t # es) =
     answers threshold cooldown name (recordSuccess bs name) es"
| "answers threshold cooldown name bs (Failure t # es) =
     answers threshold cooldown name (recordFailure threshold t bs name) es"

section \<open>The specification\<close>

record breaker_spec =
  failures :: nat
  lastFailure :: int

definition spec_open :: "rat option \<Rightarrow> rat option \<Rightarrow> int \<Rightarrow> breaker_spec \<Rightarrow> bool" where
  "spec_open threshold cooldown now s \<longleftrightarrow>
     0 < failures s \<and> js_ge (int (failures s)) threshold \<and> \<not> js_ge (now - lastFailure s) cooldown"

fun spec_answers :: "rat option \<Rightarrow> rat option \<Rightarrow> breaker_spec \<Rightarrow> breaker_event list \<Rightarrow> bool list" where
  "spec_answers threshold cooldown s [] = []"
| "spec_answers threshold cooldown s (Query t # es) =
     spec_open threshold cooldown t s # spec_answers threshold cooldown s es"
| "spec_answers threshold cooldown s (Success t # es) =
     spec_answers threshold cooldown \<lparr>failures = 0, lastFailure = t\<rparr> es"
| "spec_answers threshold cooldown s (Failure t # es) =
     spec_answers threshold cooldown \<lparr>failures = failures s + 1, lastFailure = t\<rparr> es"

text \<open>The simulation at time \<open>now\<close>: what the machine's state says about the specification's.\<close>

definition breaker_rel :: "rat option \<Rightarrow> rat option \<Rightarrow> int \<Rightarrow> Breaker option \<Rightarrow> breaker_spec \<Rightarrow> bool" where
  "breaker_rel threshold cooldown now mb s \<longleftrightarrow>
     (case mb of
        None \<Rightarrow> failures s = 0
      | Some b \<Rightarrow>
          0 < failures s \<and> consecutiveFailures b = failures s \<and>
          (case state b of
             CLOSED \<Rightarrow> \<not> js_ge (int (failures s)) threshold
           | OPEN \<Rightarrow> js_ge (int (failures s)) threshold \<and> openedAt b = lastFailure s
           | HALF_OPEN \<Rightarrow> js_ge (int (failures s)) threshold \<and> js_ge (now - lastFailure s) cooldown))"

lemma js_ge_mono: "js_ge x q \<Longrightarrow> x \<le> y \<Longrightarrow> js_ge y q"
proof -
  assume "js_ge x q" and "x \<le> y"
  from \<open>x \<le> y\<close> have "(of_int x :: rat) \<le> of_int y" by simp
  with \<open>js_ge x q\<close> show "js_ge y q" by (auto simp: js_ge_def split: option.splits)
qed

lemma breaker_rel_later:
  "breaker_rel threshold cooldown t mb s \<Longrightarrow> t \<le> t' \<Longrightarrow> breaker_rel threshold cooldown t' mb s"
  by (auto simp: breaker_rel_def split: option.splits BreakerState.splits elim: js_ge_mono)

lemma isOpen_simulates:
  assumes "breaker_rel threshold cooldown t (bs name) s" and "isOpen cooldown t bs name = (a, bs')"
  shows "a = spec_open threshold cooldown t s" and "breaker_rel threshold cooldown t (bs' name) s"
  using assms
  by (auto simp: breaker_rel_def isOpen_def spec_open_def
      split: option.splits BreakerState.splits if_splits)

lemma recordSuccess_simulates:
  "breaker_rel threshold cooldown t (recordSuccess bs name name) \<lparr>failures = 0, lastFailure = t\<rparr>"
  by (simp add: breaker_rel_def recordSuccess_def)

lemma recordFailure_simulates:
  assumes "breaker_rel threshold cooldown t (bs name) s"
  shows "breaker_rel threshold cooldown t (recordFailure threshold t bs name name)
           \<lparr>failures = failures s + 1, lastFailure = t\<rparr>"
proof -
  have mono: "js_ge (int n) threshold \<Longrightarrow> js_ge (int (Suc n)) threshold" for n
    by (erule js_ge_mono) linarith
  show ?thesis
    using assms mono [of "failures s"]
    by (auto simp: breaker_rel_def recordFailure_def Let_def split: option.splits BreakerState.splits)
qed

lemma answers_simulate:
  assumes "breaker_rel threshold cooldown t (bs name) s" and "sorted (t # List.map event_time es)"
  shows "answers threshold cooldown name bs es = spec_answers threshold cooldown s es"
  using assms
proof (induction es arbitrary: t bs s)
  case (Cons e es)
  let ?t = "event_time e"
  have rel: "breaker_rel threshold cooldown ?t (bs name) s"
    using Cons.prems by (auto elim: breaker_rel_later)
  have sorted: "sorted (?t # List.map event_time es)" using Cons.prems by simp
  show ?case
  proof (cases e)
    case (Query u)
    obtain a bs' where o: "isOpen cooldown u bs name = (a, bs')" by fastforce
    show ?thesis
      using isOpen_simulates [OF _ o] rel sorted Cons.IH [of u bs' s] by (simp add: Query o)
  next
    case (Success u)
    then show ?thesis
      using recordSuccess_simulates Cons.IH [of u "recordSuccess bs name"] sorted by simp
  next
    case (Failure u)
    then show ?thesis
      using recordFailure_simulates rel Cons.IH [of u "recordFailure threshold u bs name"] sorted
      by simp
  qed
qed simp

section \<open>Breakers of different names do not interfere\<close>

lemma breaker_frame:
  assumes "name \<noteq> name'"
  shows "snd (isOpen cooldown t bs name) name' = bs name'"
    and "recordSuccess bs name name' = bs name'"
    and "recordFailure threshold t bs name name' = bs name'"
  using assms by (auto simp: isOpen_def recordSuccess_def recordFailure_def Let_def split: option.splits)

text \<open>A breaker with recorded failures, by its state.\<close>

definition breaker_inv :: "rat option \<Rightarrow> breakers \<Rightarrow> bool" where
  "breaker_inv threshold bs \<longleftrightarrow>
     (\<forall>name b. bs name = Some b \<longrightarrow>
        0 < consecutiveFailures b \<and>
        (state b = CLOSED \<longleftrightarrow> \<not> js_ge (int (consecutiveFailures b)) threshold))"

lemma breaker_inv_isOpen: "breaker_inv threshold bs \<Longrightarrow> breaker_inv threshold (snd (isOpen c t bs name))"
  by (auto simp: breaker_inv_def isOpen_def split: option.splits) (metis BreakerState.distinct(1))

lemma breaker_inv_recordSuccess: "breaker_inv threshold bs \<Longrightarrow> breaker_inv threshold (recordSuccess bs name)"
  by (auto simp: breaker_inv_def recordSuccess_def)

lemma breaker_inv_recordFailure:
  assumes "breaker_inv threshold bs"
  shows "breaker_inv threshold (recordFailure threshold t bs name)"
proof -
  have mono: "js_ge (int n) threshold \<Longrightarrow> js_ge (1 + int n) threshold" for n
    by (erule js_ge_mono) linarith
  show ?thesis
    using assms
    by (auto simp: breaker_inv_def recordFailure_def Let_def split: option.splits dest: mono)
      (metis BreakerState.distinct mono)+
qed

end
