(* ===== verification/TokenBucket.thy ===== *)
theory TokenBucket
  imports Contracts
begin

text \<open>
  The Lua script of \<^verbatim>\<open>resilience/rate-limiter.service.ts\<close>: a token bucket kept in a Redis
  hash. The script is a function of its three arguments, which arrive as text, and of the
  two fields \<open>HMGET\<close> reads; it returns what it writes and its reply. Every arithmetic
  operation is rounded to a double. Redis stores a number as the text \<open>%.17g\<close>, from which
  \<open>tonumber\<close> reads the same double, so the fields are kept as numbers.

  An operation on \<open>nil\<close> stops the script before it has written anything: \<open>None\<close>.
\<close>

record bucket =
  tokens :: "rat option"
  ts :: "rat option"

record script_result =
  allowed :: bool
  hset :: bucket
  pexpire :: "rat option" \<comment> \<open>the argument of PEXPIRE, \<open>None\<close> when it is not finite\<close>

definition TOKEN_BUCKET_SCRIPT :: "string \<Rightarrow> string \<Rightarrow> string \<Rightarrow> bucket \<Rightarrow> script_result option" where
  "TOKEN_BUCKET_SCRIPT argv1 argv2 argv3 st =
     (let rate = lua_tonumber argv1;
          capacity = lua_tonumber argv2;
          now = lua_tonumber argv3;
          (toks, prev) = (case tokens st of None \<Rightarrow> (capacity, now) | Some t \<Rightarrow> (Some t, ts st))
      in case (rate, capacity, now, toks, prev) of
           (Some rate, Some capacity, Some now, Some toks, Some prev) \<Rightarrow>
             (let elapsed = fl (max 0 (fl (now - prev)) / 1000);
                  toks = min capacity (fl (toks + fl (elapsed * rate)));
                  ok = (1 \<le> toks);
                  toks = (if ok then fl (toks - 1) else toks)
              in Some \<lparr>allowed = ok,
                       hset = \<lparr>tokens = Some toks, ts = Some now\<rparr>,
                       pexpire = (if rate = 0 then None
                                  else Some (of_int \<lceil>fl (fl (capacity / rate) * 2000)\<rceil>))\<rparr>)
         | _ \<Rightarrow> None)"

section \<open>The arguments the program passes\<close>

text \<open>The decimal text of a natural number is read as that number.\<close>

lemma dropWhile_id: "xs = [] \<or> \<not> P (hd xs) \<Longrightarrow> dropWhile P xs = xs"
  by (cases xs) auto

lemma digit_no_space: "is_digit c \<Longrightarrow> \<not> is_space c"
  by (auto simp: is_digit_def is_space_def)

lemma show_nat_no_space: "c \<in> set (show_nat n) \<Longrightarrow> \<not> is_space c"
  by (rule digit_no_space) (rule show_nat_digits)

lemma trim_show_nat [simp]: "trim (show_nat n) = show_nat n"
proof -
  have "\<not> is_space (hd (show_nat n))"
    by (rule show_nat_no_space [OF hd_in_set]) simp
  moreover have "\<not> is_space (hd (rev (show_nat n)))"
    using hd_in_set [of "rev (show_nat n)"] show_nat_no_space by simp
  ultimately
  show ?thesis by (simp add: trim_def trim_by_def dropWhile_id)
qed

lemma scan_unsigned_show_nat_end: "scan_unsigned False (show_nat n) = Some (of_nat n, [])"
  using span_digits_show_nat [of "[]" n]
  by (simp add: scan_unsigned_def scan_frac_def scan_exp_def)

lemma signed_literal_show_nat: "signed_literal (show_nat n) = Some (fl (of_nat n))"
proof -
  obtain d ds where sn: "show_nat n = d # ds" by (cases "show_nat n") simp_all
  have "is_digit d" using show_nat_digits [of d n] by (simp add: sn)
  then have "d \<noteq> CHR ''-''" and "d \<noteq> CHR ''+''" by (auto simp: is_digit_def)
  then show ?thesis
    using scan_unsigned_show_nat_end [of n]
    by (simp add: signed_literal_def sn split_sign_def)
qed

lemma fl_of_nat: "n \<le> 2 ^ 53 \<Longrightarrow> fl (of_nat n) = of_nat n"
proof -
  assume "n \<le> 2 ^ 53"
  then have "\<bar>int n\<bar> \<le> 2 ^ 53"
    by (metis abs_of_nat of_nat_le_iff of_nat_numeral of_nat_power)
  then show ?thesis using fl_of_int [of "int n"] by simp
qed

lemma tonumber_show_nat: "n \<le> 2 ^ 53 \<Longrightarrow> lua_tonumber (show_nat n) = Some (of_nat n)"
  by (simp add: lua_tonumber_def signed_literal_show_nat fl_of_nat)

lemma tonumber_empty [simp]: "lua_tonumber [] = None"
  by (simp add: lua_tonumber_def trim_def trim_by_def signed_literal_def split_sign_def scan_unsigned_def span_digits_def)

text \<open>An unset rate or capacity reaches the script as the empty text: it fails at once.\<close>

lemma script_unset:
  "TOKEN_BUCKET_SCRIPT [] cap now st = None" "TOKEN_BUCKET_SCRIPT rate [] now st = None"
  by (auto simp: TOKEN_BUCKET_SCRIPT_def Let_def split: option.splits prod.splits)

section \<open>The bucket never holds more than its capacity\<close>

definition bucket_ok :: "nat \<Rightarrow> bucket \<Rightarrow> bool" where
  "bucket_ok c st \<longleftrightarrow>
     (case tokens st of None \<Rightarrow> True | Some x \<Rightarrow> 0 \<le> x \<and> x \<le> of_nat c \<and> ts st \<noteq> None)"

text \<open>The tokens available to a call at time \<open>t\<close>, before it takes one.\<close>

definition available :: "nat \<Rightarrow> nat \<Rightarrow> nat \<Rightarrow> bucket \<Rightarrow> rat" where
  "available r c t st =
     (let x = (case tokens st of None \<Rightarrow> of_nat c | Some x \<Rightarrow> x);
          last = (case tokens st of None \<Rightarrow> of_nat t | Some _ \<Rightarrow> the (ts st));
          elapsed = fl (max 0 (fl (of_nat t - last)) / 1000)
      in min (of_nat c) (fl (x + fl (elapsed * of_nat r))))"

definition take_token :: "rat \<Rightarrow> rat" where
  "take_token x = (if 1 \<le> x then fl (x - 1) else x)"

lemma script_numbers:
  assumes "r \<le> 2 ^ 53" "c \<le> 2 ^ 53" "t \<le> 2 ^ 53" and "bucket_ok c st"
  shows "\<exists>res. TOKEN_BUCKET_SCRIPT (show_nat r) (show_nat c) (show_nat t) st = Some res \<and>
           allowed res = (1 \<le> available r c t st) \<and>
           hset res = \<lparr>tokens = Some (take_token (available r c t st)), ts = Some (of_nat t)\<rparr> \<and>
           (0 < r \<longrightarrow> pexpire res \<noteq> None)"
  using assms
  by (cases "tokens st"; cases "ts st")
    (simp_all add: TOKEN_BUCKET_SCRIPT_def tonumber_show_nat available_def take_token_def
      bucket_ok_def Let_def)

lemma available_bounds:
  assumes "bucket_ok c st"
  shows "0 \<le> available r c t st" and "available r c t st \<le> of_nat c"
proof -
  have "0 \<le> fl (x + fl (fl (max 0 z / 1000) * of_nat r))" if "0 \<le> x" for x z
    using that by (intro fl_nonneg add_nonneg_nonneg mult_nonneg_nonneg) simp_all
  then show "0 \<le> available r c t st"
    using assms
    by (auto simp: available_def bucket_ok_def Let_def intro: fl_nonneg split: option.splits)
  show "available r c t st \<le> of_nat c"
    by (simp add: available_def Let_def)
qed

lemma take_token_bounds:
  assumes "0 \<le> x" and "x \<le> of_nat c" and "c \<le> 2 ^ 53"
  shows "0 \<le> take_token x" and "take_token x \<le> of_nat c"
proof -
  have "\<bar>int c\<bar> \<le> 2 ^ 53"
    using assms(3) by (metis abs_of_nat of_nat_le_iff of_nat_numeral of_nat_power)
  then have "fl (x - 1) \<le> of_nat c"
    using fl_le_int [of "x - 1" "int c"] assms(2) by simp
  then show "take_token x \<le> of_nat c" using assms by (simp add: take_token_def)
  show "0 \<le> take_token x" using assms by (auto simp: take_token_def intro: fl_nonneg)
qed

lemma bucket_ok_step:
  assumes "bucket_ok c st" and "c \<le> 2 ^ 53"
  shows "bucket_ok c \<lparr>tokens = Some (take_token (available r c t st)), ts = Some u\<rparr>"
  using take_token_bounds [OF available_bounds [OF assms(1)] assms(2)]
  by (simp add: bucket_ok_def)

section \<open>A burst of calls\<close>

text \<open>The replies to calls at the times \<open>now\<close>, as long as the script does not fail.\<close>

fun replies :: "string \<Rightarrow> string \<Rightarrow> nat list \<Rightarrow> bucket \<Rightarrow> bool list" where
  "replies rate cap [] st = []"
| "replies rate cap (t # now) st =
     (case TOKEN_BUCKET_SCRIPT rate cap (show_nat t) st of
        None \<Rightarrow> []
      | Some res \<Rightarrow> allowed res # replies rate cap now (hset res))"

definition fresh :: bucket where
  "fresh = \<lparr>tokens = None, ts = None\<rparr>"

lemma available_same_instant:
  "k \<le> c \<Longrightarrow> c \<le> 2 ^ 53 \<Longrightarrow>
     available r c t \<lparr>tokens = Some (of_nat k), ts = Some (of_nat t)\<rparr> = of_nat k"
  "c \<le> 2 ^ 53 \<Longrightarrow> available r c t fresh = of_nat c"
  by (simp_all add: available_def fresh_def fl_of_nat)

lemma take_token_of_nat: "k \<le> 2 ^ 53 \<Longrightarrow> take_token (of_nat k) = of_nat (k - 1)"
  by (cases k) (simp_all add: take_token_def fl_of_nat)

lemma replies_same_instant:
  assumes "r \<le> 2 ^ 53" "c \<le> 2 ^ 53" "t \<le> 2 ^ 53" "k \<le> c"
  shows "replies (show_nat r) (show_nat c) (replicate n t) \<lparr>tokens = Some (of_nat k), ts = Some (of_nat t)\<rparr>
    = replicate (min k n) True @ replicate (n - k) False"
  using assms(4)
proof (induction n arbitrary: k)
  case (Suc n)
  let ?st = "\<lparr>tokens = Some (of_nat k), ts = Some (of_nat t)\<rparr>"
  have ok: "bucket_ok c ?st" using Suc.prems by (simp add: bucket_ok_def)
  from script_numbers [OF assms(1-3) ok] obtain res
    where res: "TOKEN_BUCKET_SCRIPT (show_nat r) (show_nat c) (show_nat t) ?st = Some res"
      and al: "allowed res = (1 \<le> k)"
      and hs: "hset res = \<lparr>tokens = Some (of_nat (k - 1)), ts = Some (of_nat t)\<rparr>"
    using Suc.prems assms by (auto simp: available_same_instant take_token_of_nat)
  have "replies (show_nat r) (show_nat c) (replicate (Suc n) t) ?st
      = (1 \<le> k) # replies (show_nat r) (show_nat c) (replicate n t)
          \<lparr>tokens = Some (of_nat (k - 1)), ts = Some (of_nat t)\<rparr>"
    by (simp add: res al hs)
  also have "\<dots> = (1 \<le> k) # replicate (min (k - 1) n) True @ replicate (n - (k - 1)) False"
    using Suc.IH [of "k - 1"] Suc.prems by simp
  finally show ?case by (cases k) simp_all
qed simp

lemma replies_burst:
  assumes "r \<le> 2 ^ 53" "c \<le> 2 ^ 53" "t \<le> 2 ^ 53"
  shows "replies (show_nat r) (show_nat c) (replicate n t) fresh
    = replicate (min c n) True @ replicate (n - c) False"
proof (cases n)
  case (Suc m)
  have ok: "bucket_ok c fresh" by (simp add: bucket_ok_def fresh_def)
  from script_numbers [OF assms ok] obtain res
    where res: "TOKEN_BUCKET_SCRIPT (show_nat r) (show_nat c) (show_nat t) fresh = Some res"
      and al: "allowed res = (1 \<le> c)"
      and hs: "hset res = \<lparr>tokens = Some (of_nat (c - 1)), ts = Some (of_nat t)\<rparr>"
    using assms by (auto simp: available_same_instant take_token_of_nat)
  have "replies (show_nat r) (show_nat c) (replicate n t) fresh
      = (1 \<le> c) # replies (show_nat r) (show_nat c) (replicate m t)
          \<lparr>tokens = Some (of_nat (c - 1)), ts = Some (of_nat t)\<rparr>"
    by (simp add: Suc res al hs)
  also have "\<dots> = (1 \<le> c) # replicate (min (c - 1) m) True @ replicate (m - (c - 1)) False"
    using replies_same_instant [OF assms, of "c - 1" m] by simp
  finally show ?thesis by (cases c) (simp_all add: Suc)
qed simp

end
