(* ===== verification/Ledger.thy ===== *)
theory Ledger
  imports Contracts
begin

text \<open>
  The table \<open>delivery_attempts\<close> of the worker database and the three SQL statements of
  \<^verbatim>\<open>delivery/idempotency-guard.ts\<close> on it. The table is the list of its rows; the primary key
  and the unique index on (job_id, attempt) of \<^verbatim>\<open>prisma/worker\<close> are what an INSERT checks, and
  an INTEGER column refuses a value outside 32 bits. A statement that raises an SQL error
  (\<open>Inl\<close>) leaves the table as it was.

  The abstraction of the table is a map from (job, attempt) to the outcome; on tables that
  satisfy \<open>ledger_inv\<close> the statements are the operations of that map.
\<close>

record attempt_row =
  row_id :: string
  job_id :: string
  attempt :: int
  provider :: string
  outcome :: string
  message_id :: "string option"
  error_code :: "string option"
  latency_ms :: "int option"

type_synonym ledger = "attempt_row list"

definition int4 :: "int \<Rightarrow> bool" where
  "int4 i \<longleftrightarrow> - (2 ^ 31) \<le> i \<and> i \<le> 2 ^ 31 - 1"

definition is_attempt :: "string \<Rightarrow> int \<Rightarrow> attempt_row \<Rightarrow> bool" where
  "is_attempt job att r \<longleftrightarrow> job_id r = job \<and> attempt r = att"

text \<open>\<open>INSERT ... VALUES (gen_random_uuid(), $1, $2, $3, 'PENDING') ON CONFLICT (job_id, attempt) DO NOTHING RETURNING id\<close>\<close>

definition insert_attempt :: "string \<Rightarrow> string \<Rightarrow> int \<Rightarrow> string \<Rightarrow> ledger \<Rightarrow> (string + string list) \<times> ledger" where
  "insert_attempt uuid job att prov t =
     (if \<not> int4 att then (Inl ''integer out of range'', t)
      else if \<exists>r \<in> set t. is_attempt job att r then (Inr [], t)
      else if \<exists>r \<in> set t. row_id r = uuid then (Inl ''duplicate key value violates unique constraint'', t)
      else (Inr [uuid],
            t @ [\<lparr>row_id = uuid, job_id = job, attempt = att, provider = prov, outcome = ''PENDING'',
                  message_id = None, error_code = None, latency_ms = None\<rparr>]))"

text \<open>\<open>SELECT outcome FROM delivery_attempts WHERE job_id = $1 AND attempt = $2\<close>\<close>

definition select_outcome :: "string \<Rightarrow> int \<Rightarrow> ledger \<Rightarrow> string + string list" where
  "select_outcome job att t =
     (if \<not> int4 att then Inl ''integer out of range''
      else Inr (List.map outcome (filter (is_attempt job att) t)))"

record AttemptCompletion =
  c_outcome :: string
  c_messageId :: "string option"
  c_errorCode :: "string option"
  c_latencyMs :: "int option"

text \<open>\<open>UPDATE delivery_attempts SET outcome = $3, message_id = $4, error_code = $5, latency_ms = $6 WHERE ...\<close>\<close>

definition update_attempt :: "string \<Rightarrow> int \<Rightarrow> AttemptCompletion \<Rightarrow> ledger \<Rightarrow> (string + unit) \<times> ledger" where
  "update_attempt job att c t =
     (if \<not> int4 att \<or> (case c_latencyMs c of None \<Rightarrow> False | Some l \<Rightarrow> \<not> int4 l)
      then (Inl ''integer out of range'', t)
      else (Inr (),
            List.map (\<lambda>r. if is_attempt job att r
                     then r\<lparr>outcome := c_outcome c, message_id := c_messageId c,
                            error_code := c_errorCode c, latency_ms := c_latencyMs c\<rparr>
                     else r) t))"

section \<open>The unique constraints are kept\<close>

definition ledger_inv :: "ledger \<Rightarrow> bool" where
  "ledger_inv t \<longleftrightarrow>
     distinct (List.map row_id t) \<and> distinct (List.map (\<lambda>r. (job_id r, attempt r)) t)"

lemma ledger_inv_Nil [simp]: "ledger_inv []"
  by (simp add: ledger_inv_def)

lemma ledger_inv_insert: "ledger_inv t \<Longrightarrow> ledger_inv (snd (insert_attempt u j a p t))"
  by (auto simp: insert_attempt_def ledger_inv_def is_attempt_def)

lemma map_update_attempt:
  "List.map row_id (snd (update_attempt j a c t)) = List.map row_id t"
  "List.map (\<lambda>r. (job_id r, attempt r)) (snd (update_attempt j a c t)) = List.map (\<lambda>r. (job_id r, attempt r)) t"
  by (auto simp: update_attempt_def)

lemma ledger_inv_update: "ledger_inv t \<Longrightarrow> ledger_inv (snd (update_attempt j a c t))"
  by (simp add: ledger_inv_def map_update_attempt)

section \<open>The table as a map\<close>

definition outcome_of :: "ledger \<Rightarrow> string \<Rightarrow> int \<Rightarrow> string option" where
  "outcome_of t j a = map_option outcome (List.find (is_attempt j a) t)"

lemma find_append: "List.find P (xs @ ys) = (case List.find P xs of None \<Rightarrow> List.find P ys | Some x \<Rightarrow> Some x)"
  by (induction xs) auto

lemma outcome_of_Nil [simp]: "outcome_of [] j a = None"
  by (simp add: outcome_of_def)

lemma outcome_of_None: "outcome_of t j a = None \<longleftrightarrow> (\<forall>r \<in> set t. \<not> is_attempt j a r)"
  by (auto simp: outcome_of_def find_None_iff)

lemma is_attempt_other: "is_attempt j' a' r \<Longrightarrow> (j, a) \<noteq> (j', a') \<Longrightarrow> \<not> is_attempt j a r"
  by (auto simp: is_attempt_def)

lemma insert_attempt_cases:
  assumes "insert_attempt u j a p t = (res, t')"
  obtains (conflict) o' where "res = Inr []" "t' = t" "outcome_of t j a = Some o'"
  | (inserted) "res = Inr [u]" "outcome_of t j a = None" "outcome_of t' j a = Some ''PENDING''"
      "\<And>j' a'. (j', a') \<noteq> (j, a) \<Longrightarrow> outcome_of t' j' a' = outcome_of t j' a'"
  | (failed) e where "res = Inl e" "t' = t"
proof (cases "\<exists>r \<in> set t. is_attempt j a r")
  case True
  then obtain o' where "outcome_of t j a = Some o'"
    using outcome_of_None by fastforce
  with True assms show ?thesis
    by (auto simp: insert_attempt_def split: if_splits intro: conflict failed)
next
  case False
  then have None: "outcome_of t j a = None" by (simp add: outcome_of_None)
  let ?row = "\<lparr>row_id = u, job_id = j, attempt = a, provider = p, outcome = ''PENDING'',
                message_id = None, error_code = None, latency_ms = None\<rparr>"
  consider (err) e where "res = Inl e" "t' = t" | (ok) "res = Inr [u]" "t' = t @ [?row]"
    using assms False by (auto simp: insert_attempt_def split: if_splits)
  then show ?thesis
  proof cases
    case err
    then show ?thesis by (rule failed)
  next
    case ok
    have "outcome_of t' j' a' = (if (j', a') = (j, a) then Some ''PENDING'' else outcome_of t j' a')" for j' a'
      using None by (auto simp: ok outcome_of_def find_append is_attempt_def split: option.splits)
    with ok None show ?thesis by (intro inserted) auto
  qed
qed

lemma find_map_same:
  assumes "\<And>r. P (f r) = P r"
  shows "List.find P (List.map f xs) = map_option f (List.find P xs)"
  by (induction xs) (simp_all add: assms)

lemma outcome_of_update:
  assumes "update_attempt j a c t = (Inr (), t')"
  shows "outcome_of t' j' a' =
    (if (j', a') = (j, a) then map_option (\<lambda>_. c_outcome c) (outcome_of t j a) else outcome_of t j' a')"
proof -
  let ?f = "\<lambda>r. if is_attempt j a r
     then r\<lparr>outcome := c_outcome c, message_id := c_messageId c,
            error_code := c_errorCode c, latency_ms := c_latencyMs c\<rparr> else r"
  have t': "t' = List.map ?f t"
    using assms by (auto simp: update_attempt_def split: if_splits)
  have "is_attempt j' a' (?f r) = is_attempt j' a' r" for r
    by (simp add: is_attempt_def)
  then have "outcome_of t' j' a' = map_option (outcome \<circ> ?f) (List.find (is_attempt j' a') t)"
    by (simp add: outcome_of_def t' find_map_same option.map_comp)
  then show ?thesis
    by (auto simp: outcome_of_def option.map_comp find_Some_iff is_attempt_def
        split: option.splits intro!: map_option_cong)
qed

lemma select_outcome_hd:
  assumes "select_outcome j a t = Inr os"
  shows "(case os of [] \<Rightarrow> None | x # _ \<Rightarrow> Some x) = outcome_of t j a"
proof -
  have "List.find P xs = (case filter P xs of [] \<Rightarrow> None | x # _ \<Rightarrow> Some x)"
    for P and xs :: "attempt_row list"
    by (induction xs) simp_all
  then show ?thesis
    using assms by (auto simp: select_outcome_def outcome_of_def split: if_splits list.splits)
qed

end
