(* ===== verification/JobTable.thy ===== *)
theory JobTable
  imports Contracts
begin

text \<open>
  The table \<open>email_jobs\<close> of the API database (\<^verbatim>\<open>prisma/api\<close>): its rows, the unique
  constraints on \<open>id\<close> and \<open>idempotencyKey\<close>, and the four Prisma queries
  \<^verbatim>\<open>email-jobs/email-jobs.repository.ts\<close> issues on it, with the data it passes. A query that
  Prisma rejects (\<open>Inl\<close> with the error code) leaves the table as it was.
\<close>

record EmailJob =
  ej_id :: string
  ej_idempotencyKey :: string
  ej_tenantId :: string
  ej_from :: string
  ej_to :: string
  ej_subject :: string
  ej_text :: string
  ej_html :: "string option"
  ej_provider :: string
  ej_status :: EmailJobStatus
  ej_createdAt :: int
  ej_updatedAt :: int
  ej_deliveredAt :: "int option"
  ej_lastErrorCode :: "string option"

record CreateJobInput =
  in_id :: string
  in_idempotencyKey :: string
  in_tenantId :: string
  in_from :: string
  in_to :: string
  in_subject :: string
  in_text :: string
  in_html :: "string option"
  in_provider :: string

type_synonym job_table = "EmailJob list"

text \<open>The row a \<open>create\<close> inserts: the input, and the defaults of the schema.\<close>

definition new_job :: "CreateJobInput \<Rightarrow> int \<Rightarrow> EmailJob" where
  "new_job i now =
     \<lparr>ej_id = in_id i, ej_idempotencyKey = in_idempotencyKey i, ej_tenantId = in_tenantId i,
      ej_from = in_from i, ej_to = in_to i, ej_subject = in_subject i, ej_text = in_text i,
      ej_html = in_html i, ej_provider = in_provider i, ej_status = QUEUED, ej_createdAt = now,
      ej_updatedAt = now, ej_deliveredAt = None, ej_lastErrorCode = None\<rparr>"

definition prisma_create :: "CreateJobInput \<Rightarrow> int \<Rightarrow> job_table \<Rightarrow> (string + EmailJob) \<times> job_table" where
  "prisma_create i now t =
     (if \<exists>r \<in> set t. ej_id r = in_id i \<or> ej_idempotencyKey r = in_idempotencyKey i
      then (Inl ''P2002'', t)
      else (Inr (new_job i now), t @ [new_job i now]))"

definition prisma_findUnique :: "string \<Rightarrow> job_table \<Rightarrow> EmailJob option" where
  "prisma_findUnique i t = List.find (\<lambda>r. ej_id r = i) t"

definition prisma_updateMany :: "string \<Rightarrow> (EmailJob \<Rightarrow> EmailJob) \<Rightarrow> job_table \<Rightarrow> job_table" where
  "prisma_updateMany i f t = List.map (\<lambda>r. if ej_id r = i then f r else r) t"

definition prisma_update :: "string \<Rightarrow> (EmailJob \<Rightarrow> EmailJob) \<Rightarrow> job_table \<Rightarrow> (string + unit) \<times> job_table" where
  "prisma_update i f t =
     (if prisma_findUnique i t = None then (Inl ''P2025'', t) else (Inr (), prisma_updateMany i f t))"

text \<open>The \<open>data\<close> of the four updates; \<open>updatedAt\<close> is set by every one of them.\<close>

definition publishedData :: "int \<Rightarrow> EmailJob \<Rightarrow> EmailJob" where
  "publishedData now r = r\<lparr>ej_status := PUBLISHED, ej_updatedAt := now\<rparr>"

definition deliveredData :: "int \<Rightarrow> EmailJob \<Rightarrow> EmailJob" where
  "deliveredData now r =
     r\<lparr>ej_status := JOB_DELIVERED, ej_deliveredAt := Some now, ej_lastErrorCode := None,
       ej_updatedAt := now\<rparr>"

definition retryScheduledData :: "int \<Rightarrow> EmailJob \<Rightarrow> EmailJob" where
  "retryScheduledData now r = r\<lparr>ej_status := JOB_RETRY_SCHEDULED, ej_updatedAt := now\<rparr>"

text \<open>An undefined \<open>errorCode\<close> leaves the column alone.\<close>

definition deadLetteredData :: "string option \<Rightarrow> int \<Rightarrow> EmailJob \<Rightarrow> EmailJob" where
  "deadLetteredData errorCode now r =
     (let r = r\<lparr>ej_status := JOB_DEAD_LETTERED, ej_updatedAt := now\<rparr>
      in case errorCode of None \<Rightarrow> r | Some c \<Rightarrow> r\<lparr>ej_lastErrorCode := Some c\<rparr>)"

section \<open>Constraints\<close>

definition jobs_inv :: "job_table \<Rightarrow> bool" where
  "jobs_inv t \<longleftrightarrow> distinct (List.map ej_id t) \<and> distinct (List.map ej_idempotencyKey t)"

definition keeps_keys :: "(EmailJob \<Rightarrow> EmailJob) \<Rightarrow> bool" where
  "keeps_keys f \<longleftrightarrow> (\<forall>r. ej_id (f r) = ej_id r \<and> ej_idempotencyKey (f r) = ej_idempotencyKey r)"

lemma keeps_keys_data [simp]:
  "keeps_keys (publishedData now)" "keeps_keys (deliveredData now)"
  "keeps_keys (retryScheduledData now)" "keeps_keys (deadLetteredData c now)"
  by (auto simp: keeps_keys_def publishedData_def deliveredData_def retryScheduledData_def
      deadLetteredData_def Let_def split: option.splits)

lemma jobs_inv_create: "jobs_inv t \<Longrightarrow> jobs_inv (snd (prisma_create i now t))"
  by (auto simp: prisma_create_def jobs_inv_def new_job_def)

lemma map_updateMany:
  assumes "keeps_keys f"
  shows "List.map ej_id (prisma_updateMany i f t) = List.map ej_id t"
    and "List.map ej_idempotencyKey (prisma_updateMany i f t) = List.map ej_idempotencyKey t"
  using assms by (auto simp: prisma_updateMany_def keeps_keys_def)

lemma jobs_inv_updateMany: "keeps_keys f \<Longrightarrow> jobs_inv t \<Longrightarrow> jobs_inv (prisma_updateMany i f t)"
  by (simp add: jobs_inv_def map_updateMany)

lemma jobs_inv_update: "keeps_keys f \<Longrightarrow> jobs_inv t \<Longrightarrow> jobs_inv (snd (prisma_update i f t))"
  by (simp add: prisma_update_def jobs_inv_updateMany)

section \<open>Queries after updates\<close>

lemma find_job_append:
  "List.find P (xs @ ys) = (case List.find P xs of None \<Rightarrow> List.find P ys | Some x \<Rightarrow> Some x)"
  by (induction xs) auto

lemma findUnique_create:
  assumes "prisma_create i now t = (Inr j, t')"
  shows "j = new_job i now"
    and "prisma_findUnique k t' = (if k = in_id i then Some j else prisma_findUnique k t)"
proof -
  have fresh: "\<forall>r \<in> set t. ej_id r \<noteq> in_id i" and t': "t' = t @ [new_job i now]" "j = new_job i now"
    using assms by (auto simp: prisma_create_def split: if_splits)
  show "j = new_job i now" by fact
  have "prisma_findUnique (in_id i) t = None"
    using fresh by (auto simp: prisma_findUnique_def find_None_iff)
  then show "prisma_findUnique k t' = (if k = in_id i then Some j else prisma_findUnique k t)"
    by (auto simp: prisma_findUnique_def t' find_job_append new_job_def split: option.splits)
qed

lemma findUnique_updateMany:
  assumes "keeps_keys f"
  shows "prisma_findUnique k (prisma_updateMany i f t)
    = (if k = i then map_option f (prisma_findUnique k t) else prisma_findUnique k t)"
  using assms
  by (induction t) (auto simp: prisma_findUnique_def prisma_updateMany_def keeps_keys_def)

lemma findUnique_Some_id: "prisma_findUnique k t = Some j \<Longrightarrow> ej_id j = k \<and> j \<in> set t"
  by (auto simp: prisma_findUnique_def find_Some_iff)

text \<open>A second \<open>create\<close> with the same idempotency key is refused for as long as the row exists.\<close>

lemma create_same_key:
  "j \<in> set t \<Longrightarrow> ej_idempotencyKey j = in_idempotencyKey i \<Longrightarrow> prisma_create i now t = (Inl ''P2002'', t)"
  by (auto simp: prisma_create_def)

lemma key_kept_updateMany:
  assumes "keeps_keys f"
  shows "(\<exists>j \<in> set (prisma_updateMany i f t). ej_idempotencyKey j = k) \<longleftrightarrow> (\<exists>j \<in> set t. ej_idempotencyKey j = k)"
proof -
  have "(\<exists>j \<in> set s. ej_idempotencyKey j = k) \<longleftrightarrow> k \<in> set (List.map ej_idempotencyKey s)" for s
    by auto
  then show ?thesis by (metis map_updateMany(2) [OF assms])
qed

end
