(* ===== verification/World.thy ===== *)
theory World
  imports CircuitBreaker TokenBucket Ledger JobTable
begin

text \<open>
  The state the handlers work on and the services they call.

  \<open>'r world\<close> holds both databases, the state of Redis (of a type \<open>'r\<close> the model leaves open),
  what RabbitMQ and the SMTP server have taken, and the memory of one API and one worker
  process. \<open>'r services\<close> is everything that is not under \<^verbatim>\<open>src\<close>: the commands of Redis, the
  answers of the SMTP server, the clock, the random identifiers, zod's formats, the
  environment variables, and for each external call its \<open>fate\<close>: it completes, it is refused
  before it has an effect, or it has its effect and the reply is lost. Every answer may depend
  on how many calls came before (\<open>steps\<close>), so a theorem for all services is a theorem for
  all failures at all places.
\<close>

datatype fate = Completes | Refused string | ReplyLost string

record Mail =
  mail_from :: string
  mail_to :: string
  mail_subject :: string
  mail_text :: string
  mail_html :: "string option"

text \<open>
  What \<open>transporter.sendMail\<close> comes back with: the message id, or an error with its \<open>code\<close>
  and message; in the second case the server may have taken the mail all the same.
\<close>

datatype smtp_reply =
    SmtpAccepted "string option"
  | SmtpFailed (smtp_code: "string option") (smtp_message: string) (smtp_taken: bool)

record 'r services =
  fate :: "nat \<Rightarrow> fate"
  clock :: "nat \<Rightarrow> int"
  random_uuid :: "nat \<Rightarrow> string"
  smtp_server :: "nat \<Rightarrow> Mail \<Rightarrow> smtp_reply"
  ack_throws :: "nat \<Rightarrow> bool"
  new_consumer_tag :: "nat \<Rightarrow> string"
  redis_set_nx_ex :: "'r \<Rightarrow> string \<Rightarrow> string \<Rightarrow> nat \<Rightarrow> bool \<times> 'r"
  redis_get :: "'r \<Rightarrow> string \<Rightarrow> string option"
  redis_del :: "'r \<Rightarrow> string \<Rightarrow> 'r"
  redis_hmget :: "'r \<Rightarrow> string \<Rightarrow> bucket"
  redis_hset :: "'r \<Rightarrow> string \<Rightarrow> bucket \<Rightarrow> 'r"
  redis_pexpire :: "'r \<Rightarrow> string \<Rightarrow> rat \<Rightarrow> 'r"
  zod_formats :: zod
  process_env :: "string \<Rightarrow> string option"

record publication =
  pub_exchange :: string
  pub_routingKey :: string
  pub_content :: string
  pub_persistent :: bool
  pub_contentType :: string
  pub_messageId :: "string option"

record metrics =
  jobsSubmitted :: nat
  jobsDelivered :: "string \<Rightarrow> nat"
  jobsRetried :: "string \<Rightarrow> nat"
  jobsDeadLettered :: "string \<Rightarrow> nat"
  duplicatesSkipped :: nat
  deliveryDuration :: "rat list"
  sendDuration :: "rat list"
  queueDepth :: "string \<Rightarrow> rat option"

record 'r world =
  steps :: nat
  redis :: 'r
  jobs :: job_table
  ledger :: ledger
  channel :: bool
  published :: "publication list"
  mails :: "Mail list"
  settled :: "(nat \<times> bool) list"
  breakers :: breakers
  metrics :: metrics
  inFlight :: int
  prefetch_count :: "rat option"
  consumers :: "(string \<times> string) list"
  consumerTag :: "string option"
  statusConsumerTag :: "string option"

type_synonym ('r, 'a) io = "('r world, exn, 'a) async"

section \<open>Primitive operations\<close>

text \<open>An awaited call to a service, whose effect on the world is \<open>f\<close>.\<close>

definition call :: "'r services \<Rightarrow> ('r world \<Rightarrow> (string + 'a) \<times> 'r world) \<Rightarrow> ('r, 'a) io" where
  "call E f = Await (\<lambda>w.
     let w1 = w\<lparr>steps := Suc (steps w)\<rparr> in
     case fate E (steps w) of
       Completes \<Rightarrow>
         (case f w1 of (Inl e, w2) \<Rightarrow> (Reject (JsError None e), w2) | (Inr x, w2) \<Rightarrow> (Resolve x, w2))
     | Refused e \<Rightarrow> (Reject (JsError None e), w1)
     | ReplyLost e \<Rightarrow> (Reject (JsError None e), snd (f w1)))"

text \<open>\<open>Date.now()\<close> and \<open>randomUUID()\<close>\<close>

definition date_now :: "'r services \<Rightarrow> ('r, int) io" where
  "date_now E = sync (\<lambda>w. (clock E (steps w), w\<lparr>steps := Suc (steps w)\<rparr>))"

definition randomUUID :: "'r services \<Rightarrow> ('r, string) io" where
  "randomUUID E = sync (\<lambda>w. (random_uuid E (steps w), w\<lparr>steps := Suc (steps w)\<rparr>))"

definition update_metrics :: "(metrics \<Rightarrow> metrics) \<Rightarrow> ('r, unit) io" where
  "update_metrics f = modify (\<lambda>w. w\<lparr>metrics := f (metrics w)\<rparr>)"

definition send_mail :: "'r services \<Rightarrow> Mail \<Rightarrow> ('r, string option) io" where
  "send_mail E m = Await (\<lambda>w.
     let w1 = w\<lparr>steps := Suc (steps w)\<rparr> in
     case smtp_server E (steps w) m of
       SmtpAccepted mid \<Rightarrow> (Resolve mid, w1\<lparr>mails := mails w @ [m]\<rparr>)
     | SmtpFailed code msg taken \<Rightarrow>
         (Reject (JsError code msg), if taken then w1\<lparr>mails := mails w @ [m]\<rparr> else w1))"

section \<open>Their preconditions\<close>

lemma wp_call [wp_rules]:
  "wp (call E f) Q R w \<longleftrightarrow>
     (let w1 = w\<lparr>steps := Suc (steps w)\<rparr> in
      case fate E (steps w) of
        Completes \<Rightarrow> (case f w1 of (Inl e, w2) \<Rightarrow> R (JsError None e) w2 | (Inr x, w2) \<Rightarrow> Q x w2)
      | Refused e \<Rightarrow> R (JsError None e) w1
      | ReplyLost e \<Rightarrow> R (JsError None e) (snd (f w1)))"
  by (simp add: call_def wp_Await Let_def wp_Resolve wp_Reject split: fate.split prod.split sum.split)

lemma wp_date_now [wp_rules]:
  "wp (date_now E) Q R w \<longleftrightarrow> Q (clock E (steps w)) (w\<lparr>steps := Suc (steps w)\<rparr>)"
  by (simp add: date_now_def wp_sync)

lemma wp_randomUUID [wp_rules]:
  "wp (randomUUID E) Q R w \<longleftrightarrow> Q (random_uuid E (steps w)) (w\<lparr>steps := Suc (steps w)\<rparr>)"
  by (simp add: randomUUID_def wp_sync)

lemma wp_update_metrics [wp_rules]:
  "wp (update_metrics f) Q R w \<longleftrightarrow> Q () (w\<lparr>metrics := f (metrics w)\<rparr>)"
  by (simp add: update_metrics_def wp_modify)

lemma wp_send_mail [wp_rules]:
  "wp (send_mail E m) Q R w \<longleftrightarrow>
     (let w1 = w\<lparr>steps := Suc (steps w)\<rparr> in
      case smtp_server E (steps w) m of
        SmtpAccepted mid \<Rightarrow> Q mid (w1\<lparr>mails := mails w @ [m]\<rparr>)
      | SmtpFailed code msg taken \<Rightarrow>
          R (JsError code msg) (if taken then w1\<lparr>mails := mails w @ [m]\<rparr> else w1))"
  by (simp add: send_mail_def wp_Await Let_def wp_Resolve wp_Reject split: smtp_reply.split)

text \<open>
  A call whose effect leaves a part of the world alone leaves it alone whatever its fate; the
  specifications below use it for the parts they do not mention.
\<close>

lemma call_frame:
  assumes "\<And>w. part (snd (f w)) = part w" and "\<And>w n. part (w\<lparr>steps := n\<rparr>) = part w"
  shows "wp (call E f) (\<lambda>_ w'. part w' = part w) (\<lambda>_ w'. part w' = part w) w"
  using assms by (auto simp: wp_call Let_def split: fate.split prod.split sum.split)
    (metis snd_conv)+

end
