(* ===== verification/RetryPolicy.thy ===== *)
theory RetryPolicy
  imports Contracts
begin

text \<open>
  \<^verbatim>\<open>delivery/retry-policy.ts\<close>: what to do with an attempt that failed transiently, and how
  many attempts a job gets in all.
\<close>

text \<open>Reading \<open>xs[i]\<close> outside the array gives \<open>undefined\<close>.\<close>

definition js_index :: "'a list \<Rightarrow> int \<Rightarrow> 'a option" where
  "js_index xs i = (if 0 \<le> i \<and> i < int (length xs) then Some (xs ! nat i) else None)"

text \<open>\<open>RETRY attempt queue delaySeconds\<close>\<close>

datatype FailureDecision =
    RETRY (retry_attempt: int) (retry_queue: string) (retry_delay: "nat option")
  | DEAD_LETTER

fun decideFailureAction :: "int \<Rightarrow> FailureDecision" where
  "decideFailureAction attempt =
     (let nextAttempt = attempt + 1
      in if nextAttempt > maxAttempts TOPOLOGY then DEAD_LETTER
         else RETRY nextAttempt (retryQueueName nextAttempt)
                (js_index (retryDelaysSeconds TOPOLOGY) (nextAttempt - 1)))"

declare decideFailureAction.simps [simp del]

lemma decideFailureAction_cases:
  "decideFailureAction a =
     (if 5 \<le> a then DEAD_LETTER
      else RETRY (a + 1) (retryQueueName (a + 1)) (js_index [5, 30, 120, 600, 1800] a))"
  by (simp add: decideFailureAction.simps TOPOLOGY_def Let_def)

fun_cases decide_RETRY: "decideFailureAction a = RETRY n q d"

text \<open>
  The attempts of a job whose every send fails transiently, from attempt \<open>a\<close> on: the chain
  of decisions ends because each retry raises the attempt.
\<close>

function attempts_from :: "int \<Rightarrow> int list" where
  "attempts_from a =
     a # (case decideFailureAction a of RETRY n _ _ \<Rightarrow> attempts_from n | DEAD_LETTER \<Rightarrow> [])"
  by pat_completeness auto
termination
  by (relation "measure (\<lambda>a. nat (5 - a))")
    (auto simp: decideFailureAction_cases split: if_splits)

declare attempts_from.simps [simp del]

lemma attempts_from_eq: "attempts_from a = (if 5 \<le> a then [a] else [a..5])"
proof (induction a rule: attempts_from.induct)
  case (1 a)
  show ?case
  proof (cases "5 \<le> a")
    case True
    then show ?thesis by (simp add: attempts_from.simps decideFailureAction_cases)
  next
    case False
    then have "attempts_from (a + 1) = [a + 1..5]"
      using 1 by (cases "a = 4") (auto simp: decideFailureAction_cases)
    with False show ?thesis
      by (simp add: attempts_from.simps [of a] decideFailureAction_cases upto_rec1 [of a])
  qed
qed

lemma retry_tier: "decideFailureAction a = RETRY n q d \<Longrightarrow> 0 \<le> a \<Longrightarrow> n \<in> {1, 2, 3, 4, 5} \<and> q = retryQueueName n \<and> n = a + 1"
  by (auto simp: decideFailureAction_cases split: if_splits)

end
