(* ===== verification/TopologyBootstrap.thy ===== *)
theory TopologyBootstrap
  imports RetryPolicy
begin

text \<open>
  \<^verbatim>\<open>infra/rabbitmq/topology.bootstrap.ts\<close>: the exchanges, queues and bindings the program
  declares on every connection, as the list of channel commands in the order they are sent.
  The functions on command lists below say what a direct exchange does with them.
\<close>

record queue_args =
  x_message_ttl :: "nat option"
  x_dead_letter_exchange :: "string option"
  x_dead_letter_routing_key :: "string option"

definition no_args :: queue_args where
  "no_args = \<lparr>x_message_ttl = None, x_dead_letter_exchange = None, x_dead_letter_routing_key = None\<rparr>"

datatype amqp_command =
    AssertDirectExchange string bool
  | AssertQueue string bool queue_args
  | BindQueue string string string

definition retry_commands :: "nat \<Rightarrow> nat \<Rightarrow> amqp_command list" where
  "retry_commands index delaySeconds =
     (let queue = retryQueueName (int index + 1) in
      [AssertQueue queue True
         \<lparr>x_message_ttl = Some (delaySeconds * 1000),
          x_dead_letter_exchange = Some (exchange TOPOLOGY),
          x_dead_letter_routing_key = Some (routingKey TOPOLOGY)\<rparr>,
       BindQueue queue (retryExchange TOPOLOGY) queue])"

definition topology_commands :: "amqp_command list" where
  "topology_commands =
     [AssertDirectExchange (exchange TOPOLOGY) True,
      AssertDirectExchange (retryExchange TOPOLOGY) True,
      AssertDirectExchange (deadLetterExchange TOPOLOGY) True,
      AssertDirectExchange (statusExchange TOPOLOGY) True,
      AssertQueue (mainQueue TOPOLOGY) True no_args,
      BindQueue (mainQueue TOPOLOGY) (exchange TOPOLOGY) (routingKey TOPOLOGY)]
     @ concat (List.map (\<lambda>(index, delaySeconds). retry_commands index delaySeconds)
                 (List.enumerate 0 (retryDelaysSeconds TOPOLOGY)))
     @ [AssertQueue (deadLetterQueue TOPOLOGY) True no_args,
        BindQueue (deadLetterQueue TOPOLOGY) (deadLetterExchange TOPOLOGY) (deadLetterRoutingKey TOPOLOGY),
        AssertQueue (statusQueue TOPOLOGY) True no_args,
        BindQueue (statusQueue TOPOLOGY) (statusExchange TOPOLOGY) (statusRoutingKey TOPOLOGY)]"

section \<open>What the declarations mean\<close>

text \<open>The queues a direct exchange copies a message to.\<close>

fun route :: "amqp_command list \<Rightarrow> string \<Rightarrow> string \<Rightarrow> string list" where
  "route [] ex key = []"
| "route (BindQueue q ex' key' # cs) ex key =
     (if ex' = ex \<and> key' = key then q # route cs ex key else route cs ex key)"
| "route (_ # cs) ex key = route cs ex key"

fun args_of :: "amqp_command list \<Rightarrow> string \<Rightarrow> queue_args option" where
  "args_of [] q = None"
| "args_of (AssertQueue q' _ a # cs) q = (if q' = q then Some a else args_of cs q)"
| "args_of (_ # cs) q = args_of cs q"

text \<open>Where a message goes when it has waited out the time to live of a queue.\<close>

definition expires_to :: "amqp_command list \<Rightarrow> string \<Rightarrow> string list" where
  "expires_to cs q =
     (case args_of cs q of
        Some a \<Rightarrow>
          (case (x_message_ttl a, x_dead_letter_exchange a, x_dead_letter_routing_key a) of
             (Some _, Some ex, Some key) \<Rightarrow> route cs ex key
           | _ \<Rightarrow> [])
      | None \<Rightarrow> [])"

text \<open>A binding is accepted only when its exchange and its queue have been declared before it.\<close>

fun well_ordered :: "string list \<Rightarrow> string list \<Rightarrow> amqp_command list \<Rightarrow> bool" where
  "well_ordered exs qs [] \<longleftrightarrow> True"
| "well_ordered exs qs (AssertDirectExchange ex _ # cs) \<longleftrightarrow> well_ordered (ex # exs) qs cs"
| "well_ordered exs qs (AssertQueue q _ _ # cs) \<longleftrightarrow> well_ordered exs (q # qs) cs"
| "well_ordered exs qs (BindQueue q ex _ # cs) \<longleftrightarrow>
     ex \<in> set exs \<and> q \<in> set qs \<and> well_ordered exs qs cs"

lemma show_int_tier [simp]:
  "show_int 1 = ''1''" "show_int 2 = ''2''" "show_int 3 = ''3''" "show_int 4 = ''4''" "show_int 5 = ''5''"
  by (simp_all add: show_int_def show_nat.simps digit_char_def)

lemma topology_commands_eq:
  "topology_commands =
     [AssertDirectExchange ''email.exchange'' True,
      AssertDirectExchange ''email.retry.exchange'' True,
      AssertDirectExchange ''email.dlx'' True,
      AssertDirectExchange ''email.status.exchange'' True,
      AssertQueue ''email.queue'' True no_args,
      BindQueue ''email.queue'' ''email.exchange'' ''email.deliver'']
     @ concat (List.map (\<lambda>(tier, ttl).
         [AssertQueue tier True \<lparr>x_message_ttl = Some ttl,
            x_dead_letter_exchange = Some ''email.exchange'', x_dead_letter_routing_key = Some ''email.deliver''\<rparr>,
          BindQueue tier ''email.retry.exchange'' tier])
         [(''email.retry.tier1'', 5000), (''email.retry.tier2'', 30000), (''email.retry.tier3'', 120000),
          (''email.retry.tier4'', 600000), (''email.retry.tier5'', 1800000)])
     @ [AssertQueue ''email.dead-letter'' True no_args,
        BindQueue ''email.dead-letter'' ''email.dlx'' ''email.dead'',
        AssertQueue ''email.status.queue'' True no_args,
        BindQueue ''email.status.queue'' ''email.status.exchange'' ''email.status'']"
  by (simp add: topology_commands_def TOPOLOGY_def retry_commands_def retryQueueName_def Let_def)

section \<open>The bindings and the arguments, computed\<close>

lemma routes:
  "route topology_commands ''email.retry.exchange'' ''email.retry.tier1'' = [''email.retry.tier1'']"
  "route topology_commands ''email.retry.exchange'' ''email.retry.tier2'' = [''email.retry.tier2'']"
  "route topology_commands ''email.retry.exchange'' ''email.retry.tier3'' = [''email.retry.tier3'']"
  "route topology_commands ''email.retry.exchange'' ''email.retry.tier4'' = [''email.retry.tier4'']"
  "route topology_commands ''email.retry.exchange'' ''email.retry.tier5'' = [''email.retry.tier5'']"
  "route topology_commands ''email.exchange'' ''email.deliver'' = [''email.queue'']"
  "route topology_commands ''email.dlx'' ''email.dead'' = [''email.dead-letter'']"
  "route topology_commands ''email.status.exchange'' ''email.status'' = [''email.status.queue'']"
  by (simp_all add: topology_commands_eq)

definition tier_args :: "nat \<Rightarrow> queue_args" where
  "tier_args ttl = \<lparr>x_message_ttl = Some ttl, x_dead_letter_exchange = Some ''email.exchange'',
     x_dead_letter_routing_key = Some ''email.deliver''\<rparr>"

lemma queue_arguments:
  "args_of topology_commands ''email.retry.tier1'' = Some (tier_args 5000)"
  "args_of topology_commands ''email.retry.tier2'' = Some (tier_args 30000)"
  "args_of topology_commands ''email.retry.tier3'' = Some (tier_args 120000)"
  "args_of topology_commands ''email.retry.tier4'' = Some (tier_args 600000)"
  "args_of topology_commands ''email.retry.tier5'' = Some (tier_args 1800000)"
  "args_of topology_commands ''email.queue'' = Some no_args"
  "args_of topology_commands ''email.dead-letter'' = Some no_args"
  "args_of topology_commands ''email.status.queue'' = Some no_args"
  by (simp_all add: topology_commands_eq tier_args_def)

end
