(* ===== verification/Services.thy ===== *)
theory Services
  imports World TopologyBootstrap
begin

text \<open>
  The small services the worker and the API share: publishing on the confirm channel
  (\<^verbatim>\<open>infra/rabbitmq/rabbitmq.service.ts\<close>), the rate limiter and the circuit breaker as the
  handlers call them (\<^verbatim>\<open>resilience\<close>), the SMTP provider and its factory (\<^verbatim>\<open>providers\<close>), and the
  counters of \<^verbatim>\<open>infra/metrics\<close>.
\<close>

section \<open>RabbitmqService.publish\<close>

definition publish :: "'r services \<Rightarrow> string \<Rightarrow> string \<Rightarrow> string \<Rightarrow> string option \<Rightarrow> ('r, unit) io" where
  "publish E ex key content messageId =
     bind (get channel) (\<lambda>ready.
       if \<not> ready then Reject (HttpException 503 (MessageBody ''rabbitmq is not available''))
       else call E (\<lambda>w. (Inr (), w\<lparr>published := published w @
              [\<lparr>pub_exchange = ex, pub_routingKey = key, pub_content = content,
                pub_persistent = True, pub_contentType = ''application/json'',
                pub_messageId = messageId\<rparr>]\<rparr>)))"

section \<open>Messages taken from a queue\<close>

record ConsumeMessage =
  raw_content :: string
  raw_deliveryTag :: nat

text \<open>\<open>channel.ack\<close> and \<open>channel.nack\<close> throw when the channel has been closed meanwhile.\<close>

definition channel_settle :: "'r services \<Rightarrow> ConsumeMessage \<Rightarrow> bool \<Rightarrow> ('r, unit) io" where
  "channel_settle E raw ack =
     bind (sync (\<lambda>w. (ack_throws E (steps w), w\<lparr>steps := Suc (steps w)\<rparr>))) (\<lambda>throws.
       if throws then Reject (JsError None ''Channel closed'')
       else modify (\<lambda>w. w\<lparr>settled := settled w @ [(raw_deliveryTag raw, ack)]\<rparr>))"

section \<open>RateLimiterService.acquire\<close>

text \<open>An unset variable is passed to the script as the empty text.\<close>

definition env_text :: "'r services \<Rightarrow> string \<Rightarrow> string" where
  "env_text E name = (case process_env E name of None \<Rightarrow> [] | Some s \<Rightarrow> s)"

definition acquire :: "'r services \<Rightarrow> string \<Rightarrow> ('r, bool) io" where
  "acquire E key =
     bind (date_now E) (\<lambda>now.
       call E (\<lambda>w.
         case TOKEN_BUCKET_SCRIPT (env_text E ''RATE_LIMIT_PER_SECOND'') (env_text E ''RATE_LIMIT_BURST'')
                (show_int now) (redis_hmget E (redis w) key) of
           None \<Rightarrow> (Inl ''ERR user_script: attempt to perform arithmetic on a nil value'', w)
         | Some res \<Rightarrow>
             (let w1 = w\<lparr>redis := redis_hset E (redis w) key (hset res)\<rparr>
              in case pexpire res of
                   None \<Rightarrow> (Inl ''ERR value is not an integer or out of range'', w1)
                 | Some ms \<Rightarrow> (Inr (allowed res), w1\<lparr>redis := redis_pexpire E (redis w1) key ms\<rparr>))))"

section \<open>CircuitBreakerService\<close>

text \<open>\<open>Number(process.env.X ?? fallback)\<close>\<close>

definition env_number :: "'r services \<Rightarrow> string \<Rightarrow> rat \<Rightarrow> rat option" where
  "env_number E name fallback =
     (case process_env E name of None \<Rightarrow> Some fallback | Some s \<Rightarrow> js_Number s)"

definition breaker_isOpen :: "'r services \<Rightarrow> string \<Rightarrow> ('r, bool) io" where
  "breaker_isOpen E name =
     bind (date_now E) (\<lambda>now.
       sync (\<lambda>w. case isOpen (env_number E ''BREAKER_COOLDOWN_MS'' 30000) now (breakers w) name of
                   (answer, bs) \<Rightarrow> (answer, w\<lparr>breakers := bs\<rparr>)))"

definition breaker_recordSuccess :: "string \<Rightarrow> ('r, unit) io" where
  "breaker_recordSuccess name = modify (\<lambda>w. w\<lparr>breakers := recordSuccess (breakers w) name\<rparr>)"

definition breaker_recordFailure :: "'r services \<Rightarrow> string \<Rightarrow> ('r, unit) io" where
  "breaker_recordFailure E name =
     bind (date_now E) (\<lambda>now.
       modify (\<lambda>w. w\<lparr>breakers :=
         recordFailure (env_number E ''BREAKER_FAILURE_THRESHOLD'' 5) now (breakers w) name\<rparr>))"

lemma isOpen_closed: "(case breakers w p of None \<Rightarrow> True | Some b \<Rightarrow> state b \<noteq> OPEN) \<Longrightarrow>
    wp (breaker_isOpen E p) Q R w \<longleftrightarrow> Q False (w\<lparr>steps := Suc (steps w)\<rparr>)"
  by (auto simp: breaker_isOpen_def wp_rules isOpen_def split: option.splits)

section \<open>Providers\<close>

definition TRANSIENT_SMTP_CODES :: "string list" where
  "TRANSIENT_SMTP_CODES =
     [''ETIMEDOUT'', ''ESOCKET'', ''ECONNECTION'', ''ECONNRESET'', ''EPIPE'', ''ESTREAM'']"

definition error_code :: "exn \<Rightarrow> string option" where
  "error_code e = (case e of JsError code _ \<Rightarrow> code | _ \<Rightarrow> None)"

definition exn_message :: "exn \<Rightarrow> string" where
  "exn_message e =
     (case e of
        TransientProviderError _ m \<Rightarrow> m
      | PermanentProviderError _ m \<Rightarrow> m
      | HttpException _ (MessageBody m) \<Rightarrow> m
      | HttpException _ (IssuesBody m _) \<Rightarrow> m
      | JsError _ m \<Rightarrow> m)"

definition classifySmtpError :: "exn \<Rightarrow> exn" where
  "classifySmtpError e =
     (let code = error_code e; message = exn_message e in
      if code = Some ''EAUTH'' then PermanentProviderError PROVIDER_AUTH_FAILED message
      else if code = Some ''EENVELOPE'' then PermanentProviderError INVALID_RECIPIENT message
      else if code = Some ''EMESSAGE'' then PermanentProviderError PROVIDER_REJECTED message
      else if (case code of Some c \<Rightarrow> c \<noteq> [] \<and> c \<in> set TRANSIENT_SMTP_CODES | None \<Rightarrow> False)
        then TransientProviderError PROVIDER_UNAVAILABLE message
      else TransientProviderError UNKNOWN message)"

definition to_mail :: "SendEmailRequest \<Rightarrow> Mail" where
  "to_mail r =
     \<lparr>mail_from = req_from r, mail_to = req_to r, mail_subject = req_subject r,
      mail_text = req_text r, mail_html = req_html r\<rparr>"

definition smtp_send :: "'r services \<Rightarrow> SendEmailRequest \<Rightarrow> ('r, DeliveryResult) io" where
  "smtp_send E request =
     try_catch
       (bind (send_mail E (to_mail request)) (\<lambda>messageId.
          Resolve \<lparr>providerMessageId = (case messageId of None \<Rightarrow> ''unknown'' | Some i \<Rightarrow> i)\<rparr>))
       (\<lambda>error. Reject (classifySmtpError error))"

text \<open>The factory registers the SMTP provider under its name and nothing else.\<close>

definition provider_map :: "'r services \<Rightarrow> ProviderName \<Rightarrow> (SendEmailRequest \<Rightarrow> ('r, DeliveryResult) io) option" where
  "provider_map E = [Smtp \<mapsto> smtp_send E]"

definition resolve :: "'r services \<Rightarrow> ProviderName \<Rightarrow> exn + (SendEmailRequest \<Rightarrow> ('r, DeliveryResult) io)" where
  "resolve E name =
     (case provider_map E name of
        None \<Rightarrow> Inl (PermanentProviderError PROVIDER_REJECTED (''provider not registered: '' @ provider_name name))
      | Some send \<Rightarrow> Inr send)"

section \<open>Counters\<close>

definition inc :: "(string \<Rightarrow> nat) \<Rightarrow> string \<Rightarrow> string \<Rightarrow> nat" where
  "inc c label = c(label := c label + 1)"

definition inc_submitted :: "('r, unit) io" where
  "inc_submitted = update_metrics (\<lambda>m. m\<lparr>jobsSubmitted := jobsSubmitted m + 1\<rparr>)"

definition inc_delivered :: "string \<Rightarrow> ('r, unit) io" where
  "inc_delivered p = update_metrics (\<lambda>m. m\<lparr>jobsDelivered := inc (jobsDelivered m) p\<rparr>)"

definition inc_retried :: "string \<Rightarrow> ('r, unit) io" where
  "inc_retried p = update_metrics (\<lambda>m. m\<lparr>jobsRetried := inc (jobsRetried m) p\<rparr>)"

definition inc_deadLettered :: "string \<Rightarrow> ('r, unit) io" where
  "inc_deadLettered p = update_metrics (\<lambda>m. m\<lparr>jobsDeadLettered := inc (jobsDeadLettered m) p\<rparr>)"

definition inc_duplicates :: "('r, unit) io" where
  "inc_duplicates = update_metrics (\<lambda>m. m\<lparr>duplicatesSkipped := duplicatesSkipped m + 1\<rparr>)"

definition seconds :: "int \<Rightarrow> rat" where
  "seconds ms = fl (of_int ms / 1000)"

definition observe_send :: "int \<Rightarrow> ('r, unit) io" where
  "observe_send ms = update_metrics (\<lambda>m. m\<lparr>sendDuration := sendDuration m @ [seconds ms]\<rparr>)"

definition observe_delivery :: "int \<Rightarrow> ('r, unit) io" where
  "observe_delivery ms = update_metrics (\<lambda>m. m\<lparr>deliveryDuration := deliveryDuration m @ [seconds ms]\<rparr>)"

lemmas counter_defs = inc_submitted_def inc_delivered_def inc_retried_def inc_deadLettered_def
  inc_duplicates_def observe_send_def observe_delivery_def

section \<open>Preconditions of the services\<close>

lemma wp_channel_settle [wp_rules]:
  "wp (channel_settle E raw ack) Q R w \<longleftrightarrow>
     (let w1 = w\<lparr>steps := Suc (steps w)\<rparr> in
      if ack_throws E (steps w) then R (JsError None ''Channel closed'') w1
      else Q () (w1\<lparr>settled := settled w @ [(raw_deliveryTag raw, ack)]\<rparr>))"
  by (simp add: channel_settle_def wp_rules Let_def)

definition publication_of :: "string \<Rightarrow> string \<Rightarrow> string \<Rightarrow> string option \<Rightarrow> publication" where
  "publication_of ex key content mid =
     \<lparr>pub_exchange = ex, pub_routingKey = key, pub_content = content, pub_persistent = True,
      pub_contentType = ''application/json'', pub_messageId = mid\<rparr>"

text \<open>
  A publish either is confirmed, and then the broker holds the message, or fails, and then it
  may hold it all the same.
\<close>

lemma wp_publish [wp_rules]:
  "wp (publish E ex key content mid) Q R w \<longleftrightarrow>
     (let w1 = w\<lparr>steps := Suc (steps w)\<rparr>;
          w2 = w1\<lparr>published := published w @ [publication_of ex key content mid]\<rparr>
      in if \<not> channel w then R (HttpException 503 (MessageBody ''rabbitmq is not available'')) w
         else case fate E (steps w) of
           Completes \<Rightarrow> Q () w2
         | Refused e \<Rightarrow> R (JsError None e) w1
         | ReplyLost e \<Rightarrow> R (JsError None e) w2)"
  by (simp add: publish_def publication_of_def wp_rules Let_def split: fate.split)

lemma wp_counters [wp_rules]:
  "wp inc_submitted Q R w \<longleftrightarrow> Q () (w\<lparr>metrics := (metrics w)\<lparr>jobsSubmitted := jobsSubmitted (metrics w) + 1\<rparr>\<rparr>)"
  "wp (inc_delivered p) Q R w \<longleftrightarrow> Q () (w\<lparr>metrics := (metrics w)\<lparr>jobsDelivered := inc (jobsDelivered (metrics w)) p\<rparr>\<rparr>)"
  "wp (inc_retried p) Q R w \<longleftrightarrow> Q () (w\<lparr>metrics := (metrics w)\<lparr>jobsRetried := inc (jobsRetried (metrics w)) p\<rparr>\<rparr>)"
  "wp (inc_deadLettered p) Q R w \<longleftrightarrow> Q () (w\<lparr>metrics := (metrics w)\<lparr>jobsDeadLettered := inc (jobsDeadLettered (metrics w)) p\<rparr>\<rparr>)"
  "wp inc_duplicates Q R w \<longleftrightarrow> Q () (w\<lparr>metrics := (metrics w)\<lparr>duplicatesSkipped := duplicatesSkipped (metrics w) + 1\<rparr>\<rparr>)"
  "wp (observe_send ms) Q R w \<longleftrightarrow> Q () (w\<lparr>metrics := (metrics w)\<lparr>sendDuration := sendDuration (metrics w) @ [seconds ms]\<rparr>\<rparr>)"
  "wp (observe_delivery ms) Q R w \<longleftrightarrow> Q () (w\<lparr>metrics := (metrics w)\<lparr>deliveryDuration := deliveryDuration (metrics w) @ [seconds ms]\<rparr>\<rparr>)"
  by (simp_all add: counter_defs wp_rules)

end
