(* ===== verification/IdempotencyGuard.thy ===== *)
theory IdempotencyGuard
  imports Services
begin

text \<open>
  \<^verbatim>\<open>delivery/idempotency-guard.ts\<close>: reserving an attempt of a job before it is sent and
  recording how it ended. The locale \<open>attempt_guard\<close> is the contract the delivery service
  relies on, stated on the outcome an abstraction of the state gives to an attempt; it is
  interpreted on the guard of the program.
\<close>

text \<open>\<open>PgPoolService.query\<close>: one statement on the worker database; \<open>gen_random_uuid()\<close> is its first argument.\<close>

definition pg_query :: "'r services \<Rightarrow> (string \<Rightarrow> ledger \<Rightarrow> (string + 'a) \<times> ledger) \<Rightarrow> ('r, 'a) io" where
  "pg_query E statement =
     call E (\<lambda>w. map_prod id (\<lambda>t. w\<lparr>ledger := t\<rparr>) (statement (random_uuid E (steps w)) (ledger w)))"

definition reserve :: "'r services \<Rightarrow> EmailJobMessage \<Rightarrow> ('r, bool) io" where
  "reserve E message =
     bind (pg_query E (\<lambda>uuid.
             insert_attempt uuid (msg_jobId message) (msg_attempt message)
               (provider_name (msg_provider message)))) (\<lambda>inserted.
       if inserted \<noteq> [] then Resolve True
       else bind (pg_query E (\<lambda>_ t. (select_outcome (msg_jobId message) (msg_attempt message) t, t)))
              (\<lambda>existing.
                 let outcome = (case existing of [] \<Rightarrow> None | o' # _ \<Rightarrow> Some o')
                 in Resolve (outcome = Some ''PENDING'')))"

definition complete :: "'r services \<Rightarrow> string \<Rightarrow> int \<Rightarrow> AttemptCompletion \<Rightarrow> ('r, unit) io" where
  "complete E jobId att completion =
     pg_query E (\<lambda>_. update_attempt jobId att completion)"

section \<open>The contract\<close>

definition is_final :: "string \<Rightarrow> bool" where
  "is_final o' \<longleftrightarrow> o' = ''DELIVERED'' \<or> o' = ''FAILED''"

text \<open>
  Reserving grants an attempt exactly when its outcome is absent or \<open>PENDING\<close>, and leaves it
  \<open>PENDING\<close>; completing gives an attempt that has a row its final outcome. Neither touches the
  outcome of another attempt, and a failed call never undoes a final outcome.
\<close>

locale attempt_guard =
  fixes reserve_op :: "string \<Rightarrow> int \<Rightarrow> ('w, 'e, bool) async"
    and complete_op :: "string \<Rightarrow> int \<Rightarrow> string \<Rightarrow> ('w, 'e, unit) async"
    and status :: "'w \<Rightarrow> string \<Rightarrow> int \<Rightarrow> string option"
  assumes reserve_spec:
    "wp (reserve_op j a)
       (\<lambda>granted w'. granted = (status w j a \<in> {None, Some ''PENDING''}) \<and>
          (granted \<longrightarrow> status w' j a = Some ''PENDING'') \<and> (\<not> granted \<longrightarrow> status w' j a = status w j a))
       (\<lambda>_ w'. status w' j a = status w j a \<or> status w j a = None \<and> status w' j a = Some ''PENDING'') w"
    and reserve_frame:
    "(j', a') \<noteq> (j, a) \<Longrightarrow>
       wp (reserve_op j a) (\<lambda>_ w'. status w' j' a' = status w j' a') (\<lambda>_ w'. status w' j' a' = status w j' a') w"
    and complete_spec:
    "wp (complete_op j a out)
       (\<lambda>_ w'. status w' j a = map_option (\<lambda>_. out) (status w j a))
       (\<lambda>_ w'. status w' j a \<in> {status w j a, map_option (\<lambda>_. out) (status w j a)}) w"
    and complete_frame:
    "(j', a') \<noteq> (j, a) \<Longrightarrow>
       wp (complete_op j a out) (\<lambda>_ w'. status w' j' a' = status w j' a') (\<lambda>_ w'. status w' j' a' = status w j' a') w"
begin

lemma reserve_refuses_final:
  assumes "status w j a = Some out" and "out \<noteq> ''PENDING''"
  shows "wp (reserve_op j a) (\<lambda>granted w'. \<not> granted \<and> status w' j a = Some out)
           (\<lambda>_ w'. status w' j a = Some out) w"
  by (rule wp_mono [OF reserve_spec]) (use assms in auto)

lemma complete_after_reserve:
  "wp (bind (reserve_op j a) (\<lambda>granted. bind (complete_op j a out) (\<lambda>_. Resolve granted)))
     (\<lambda>granted w'. granted \<longrightarrow> status w' j a = Some out) (\<lambda>_ _. True) w"
  unfolding wp_rules
  by (rule wp_mono [OF reserve_spec]) (auto intro: wp_mono [OF complete_spec] simp: wp_rules)

lemma final_is_stable:
  assumes "status w j a = Some out" and "out \<noteq> ''PENDING''"
  shows "wp (reserve_op j' a') (\<lambda>_ w'. status w' j a = Some out) (\<lambda>_ w'. status w' j a = Some out) w"
proof (cases "(j', a') = (j, a)")
  case True
  then show ?thesis
    using assms by (auto intro: wp_mono [OF reserve_refuses_final])
next
  case False
  then have "(j, a) \<noteq> (j', a')" by blast
  show ?thesis
    by (rule wp_mono [OF reserve_frame [OF \<open>(j, a) \<noteq> (j', a')\<close>]]) (use assms in auto)
qed

end

section \<open>The program's guard satisfies it\<close>

definition attempt_status :: "'r world \<Rightarrow> string \<Rightarrow> int \<Rightarrow> string option" where
  "attempt_status w j a = outcome_of (ledger w) j a"

lemma attempt_status_simps [simp]:
  "attempt_status (w\<lparr>steps := n\<rparr>) j a = attempt_status w j a"
  "attempt_status (w\<lparr>ledger := t\<rparr>) j a = outcome_of t j a"
  "attempt_status (w\<lparr>published := ps\<rparr>) j a = attempt_status w j a"
  "attempt_status (w\<lparr>mails := ms\<rparr>) j a = attempt_status w j a"
  "attempt_status (w\<lparr>metrics := m\<rparr>) j a = attempt_status w j a"
  "attempt_status (w\<lparr>breakers := bs\<rparr>) j a = attempt_status w j a"
  "attempt_status (w\<lparr>redis := r\<rparr>) j a = attempt_status w j a"
  by (simp_all add: attempt_status_def)

text \<open>
  Reserving as the table sees it: whatever the fate of the calls, the row of another attempt
  is untouched, and the attempt's own row only ever comes into being as \<open>PENDING\<close>.
\<close>

lemma insert_attempt_outcome:
  assumes "insert_attempt u j a p t = (res, t')"
  shows "outcome_of t' j' a' = outcome_of t j' a' \<or>
     (j', a') = (j, a) \<and> outcome_of t j a = None \<and> outcome_of t' j a = Some ''PENDING''"
  using assms by (cases rule: insert_attempt_cases) (cases "(j', a') = (j, a)"; auto)+

lemma update_attempt_outcome:
  assumes "update_attempt j a c t = (res, t')"
  shows "outcome_of t' j' a' = outcome_of t j' a' \<or>
     (j', a') = (j, a) \<and> outcome_of t' j a = map_option (\<lambda>_. c_outcome c) (outcome_of t j a)"
proof (cases res)
  case (Inr x)
  then show ?thesis using assms outcome_of_update [of j a c t t' j' a'] by auto
next
  case (Inl e)
  then show ?thesis using assms by (auto simp: update_attempt_def split: if_splits)
qed

lemma wp_pg_query [wp_rules]:
  "wp (pg_query E f) Q R w \<longleftrightarrow>
     (let w1 = w\<lparr>steps := Suc (steps w)\<rparr> in
      case f (random_uuid E (Suc (steps w))) (ledger w) of (res, t) \<Rightarrow>
        (case fate E (steps w) of
           Completes \<Rightarrow> (case res of Inl e \<Rightarrow> R (JsError None e) (w1\<lparr>ledger := t\<rparr>) | Inr x \<Rightarrow> Q x (w1\<lparr>ledger := t\<rparr>))
         | Refused e \<Rightarrow> R (JsError None e) w1
         | ReplyLost e \<Rightarrow> R (JsError None e) (w1\<lparr>ledger := t\<rparr>)))"
  by (auto simp: pg_query_def wp_call Let_def split: prod.splits fate.splits sum.splits)

lemma reserve_wp:
  assumes j: "msg_jobId m = j" and a: "msg_attempt m = a"
  shows "wp (reserve E m)
       (\<lambda>granted w'. granted = (attempt_status w j a \<in> {None, Some ''PENDING''}) \<and>
          (granted \<longrightarrow> attempt_status w' j a = Some ''PENDING'') \<and>
          (\<not> granted \<longrightarrow> attempt_status w' j a = attempt_status w j a))
       (\<lambda>_ w'. attempt_status w' j a = attempt_status w j a \<or>
          attempt_status w j a = None \<and> attempt_status w' j a = Some ''PENDING'') w"
proof -
  obtain res t' where i: "insert_attempt (random_uuid E (Suc (steps w))) j a
      (provider_name (msg_provider m)) (ledger w) = (res, t')" by fastforce
  have sel: "(case os of [] \<Rightarrow> None | x # _ \<Rightarrow> Some x) = outcome_of t j a"
    if "select_outcome j a t = Inr os" for os t
    using that by (rule select_outcome_hd)
  note defs = reserve_def wp_rules Let_def attempt_status_def j a i
  from i show ?thesis
  proof (cases rule: insert_attempt_cases)
    case (conflict o')
    show ?thesis
    proof (cases "select_outcome j a (ledger w)")
      case (Inl e)
      then show ?thesis by (simp add: defs conflict split: fate.split)
    next
      case (Inr os)
      then show ?thesis using sel [OF Inr] by (simp add: defs conflict split: fate.split)
    qed
  next
    case inserted
    then show ?thesis by (simp add: defs split: fate.split)
  next
    case (failed e)
    then show ?thesis by (simp add: defs split: fate.split)
  qed
qed

lemma reserve_frame_wp:
  assumes "(j', a') \<noteq> (msg_jobId m, msg_attempt m)"
  shows "wp (reserve E m) (\<lambda>_ w'. attempt_status w' j' a' = attempt_status w j' a')
           (\<lambda>_ w'. attempt_status w' j' a' = attempt_status w j' a') w"
proof -
  have "outcome_of t' j' a' = outcome_of t j' a'"
    if "insert_attempt u (msg_jobId m) (msg_attempt m) p t = (res, t')" for u p t res t'
    using insert_attempt_outcome [OF that, of j' a'] assms by auto
  then show ?thesis
    by (auto simp: reserve_def wp_rules Let_def attempt_status_def
        split: fate.splits sum.splits prod.splits)
qed

lemma complete_wp:
  "wp (complete E j a c)
     (\<lambda>_ w'. attempt_status w' j a = map_option (\<lambda>_. c_outcome c) (attempt_status w j a))
     (\<lambda>_ w'. attempt_status w' j a \<in> {attempt_status w j a, map_option (\<lambda>_. c_outcome c) (attempt_status w j a)}) w"
proof -
  obtain res t' where u: "update_attempt j a c (ledger w) = (res, t')" by fastforce
  have "outcome_of t' j a \<in> {outcome_of (ledger w) j a, map_option (\<lambda>_. c_outcome c) (outcome_of (ledger w) j a)}"
    using update_attempt_outcome [OF u, of j a] by auto
  moreover have "outcome_of t' j a = map_option (\<lambda>_. c_outcome c) (outcome_of (ledger w) j a)" if "res = Inr x" for x
    using outcome_of_update [of j a c "ledger w" t' j a] u that by simp
  ultimately show ?thesis
    by (cases res) (auto simp: complete_def wp_rules u Let_def attempt_status_def split: fate.split)
qed

lemma complete_frame_wp:
  assumes "(j', a') \<noteq> (j, a)"
  shows "wp (complete E j a c) (\<lambda>_ w'. attempt_status w' j' a' = attempt_status w j' a')
           (\<lambda>_ w'. attempt_status w' j' a' = attempt_status w j' a') w"
proof -
  obtain res t' where u: "update_attempt j a c (ledger w) = (res, t')" by fastforce
  have "outcome_of t' j' a' = outcome_of (ledger w) j' a'"
    using update_attempt_outcome [OF u, of j' a'] assms by auto
  then show ?thesis
    by (cases res) (auto simp: complete_def wp_rules u Let_def attempt_status_def split: fate.split)
qed

text \<open>
  The same with the frame written out: only the call counter and the ledger change, and the
  ledger only at the attempt in question.
\<close>

definition ledger_only :: "string \<Rightarrow> int \<Rightarrow> 'r world \<Rightarrow> 'r world \<Rightarrow> bool" where
  "ledger_only j a w w' \<longleftrightarrow>
     (\<exists>n t. w' = w\<lparr>steps := n, ledger := t\<rparr> \<and>
        (\<forall>j' a'. (j', a') \<noteq> (j, a) \<longrightarrow> outcome_of t j' a' = outcome_of (ledger w) j' a'))"

lemma ledger_only_update:
  assumes "\<And>j' a'. (j', a') \<noteq> (j, a) \<Longrightarrow> outcome_of t j' a' = outcome_of (ledger w) j' a'"
  shows "ledger_only j a w (w\<lparr>steps := n, ledger := t\<rparr>)"
  unfolding ledger_only_def using assms by blast

lemma ledger_only_steps: "ledger_only j a w (w\<lparr>steps := n\<rparr>)"
  using ledger_only_update [of j a "ledger w" w n] by simp

lemma ledger_only_other:
  "ledger_only j a w w' \<Longrightarrow> (j', a') \<noteq> (j, a) \<Longrightarrow> attempt_status w' j' a' = attempt_status w j' a'"
  by (auto simp: ledger_only_def attempt_status_def)

lemma ledger_only_parts:
  assumes "ledger_only j a w w'"
  shows "published w' = published w" and "mails w' = mails w" and "channel w' = channel w"
    and "metrics w' = metrics w" and "breakers w' = breakers w" and "redis w' = redis w"
    and "jobs w' = jobs w" and "settled w' = settled w" and "inFlight w' = inFlight w"
  using assms by (auto simp: ledger_only_def)

lemma wp_pg_query_frame:
  assumes "\<And>u t res t'. f u t = (res, t') \<Longrightarrow> \<forall>j' a'. (j', a') \<noteq> (j, a) \<longrightarrow> outcome_of t' j' a' = outcome_of t j' a'"
  shows "wp (pg_query E f) (\<lambda>_. ledger_only j a w) (\<lambda>_. ledger_only j a w) w"
proof -
  obtain res t' where f: "f (random_uuid E (Suc (steps w))) (ledger w) = (res, t')" by fastforce
  show ?thesis
    using assms [OF f]
    by (cases res)
      (auto simp: wp_pg_query f Let_def split: fate.split
        intro!: ledger_only_update ledger_only_steps)
qed

lemma ledger_only_trans:
  assumes "ledger_only j a w w1" and "ledger_only j a w1 w2"
  shows "ledger_only j a w w2"
proof -
  obtain n t where 1: "w1 = w\<lparr>steps := n, ledger := t\<rparr>"
      and o1: "\<forall>j' a'. (j', a') \<noteq> (j, a) \<longrightarrow> outcome_of t j' a' = outcome_of (ledger w) j' a'"
    using assms(1) unfolding ledger_only_def by blast
  obtain n2 t2 where 2: "w2 = w1\<lparr>steps := n2, ledger := t2\<rparr>"
      and o2: "\<forall>j' a'. (j', a') \<noteq> (j, a) \<longrightarrow> outcome_of t2 j' a' = outcome_of (ledger w1) j' a'"
    using assms(2) unfolding ledger_only_def by blast
  have "w2 = w\<lparr>steps := n2, ledger := t2\<rparr>" using 1 2 by simp
  moreover have "outcome_of t2 j' a' = outcome_of (ledger w) j' a'" if "(j', a') \<noteq> (j, a)" for j' a'
    using o1 o2 1 that by simp
  ultimately show ?thesis by (simp only:) (rule ledger_only_update)
qed

lemma reserve_ledger_only:
  "wp (reserve E m) (\<lambda>_. ledger_only (msg_jobId m) (msg_attempt m) w)
     (\<lambda>_. ledger_only (msg_jobId m) (msg_attempt m) w) w"
proof -
  have ins: "wp (pg_query E (\<lambda>u. insert_attempt u (msg_jobId m) (msg_attempt m) p))
      (\<lambda>_. ledger_only (msg_jobId m) (msg_attempt m) w) (\<lambda>_. ledger_only (msg_jobId m) (msg_attempt m) w) w" for p
    by (rule wp_pg_query_frame) (use insert_attempt_outcome in blast)
  have sel: "wp (pg_query E (\<lambda>_ t. (select_outcome (msg_jobId m) (msg_attempt m) t, t)))
      (\<lambda>_. ledger_only (msg_jobId m) (msg_attempt m) w) (\<lambda>_. ledger_only (msg_jobId m) (msg_attempt m) w) w1"
    if "ledger_only (msg_jobId m) (msg_attempt m) w w1" for w1
    by (rule wp_mono [OF wp_pg_query_frame [of _ "msg_jobId m" "msg_attempt m"]])
      (auto intro: ledger_only_trans [OF that])
  have "wp (if x \<noteq> [] then Resolve True
       else bind (pg_query E (\<lambda>_ t. (select_outcome (msg_jobId m) (msg_attempt m) t, t)))
              (\<lambda>existing. let outcome = (case existing of [] \<Rightarrow> None | o' # _ \<Rightarrow> Some o')
                 in Resolve (outcome = Some ''PENDING'')))
      (\<lambda>_. ledger_only (msg_jobId m) (msg_attempt m) w)
      (\<lambda>_. ledger_only (msg_jobId m) (msg_attempt m) w) w1"
    if "ledger_only (msg_jobId m) (msg_attempt m) w w1" for x :: "string list" and w1
    using that by (simp add: wp_bind wp_Resolve Let_def) (auto intro: wp_mono [OF sel] simp: wp_Resolve)
  then show ?thesis
    unfolding reserve_def wp_bind
    by (rule wp_mono [OF ins])
qed

lemma complete_ledger_only:
  "wp (complete E j a c) (\<lambda>_. ledger_only j a w) (\<lambda>_. ledger_only j a w) w"
  unfolding complete_def by (rule wp_pg_query_frame) (use update_attempt_outcome in blast)

lemmas reserve_full = wp_conj [OF reserve_wp [OF refl refl] reserve_ledger_only]
lemmas complete_full = wp_conj [OF complete_wp complete_ledger_only]

text \<open>The guard as operations on a job and an attempt, the rest of the message being fixed.\<close>

definition reserve_attempt :: "'r services \<Rightarrow> EmailJobMessage \<Rightarrow> string \<Rightarrow> int \<Rightarrow> ('r, bool) io" where
  "reserve_attempt E m j a = reserve E (m\<lparr>msg_jobId := j, msg_attempt := a\<rparr>)"

definition complete_attempt :: "'r services \<Rightarrow> string option \<Rightarrow> string option \<Rightarrow> int option \<Rightarrow> string \<Rightarrow> int \<Rightarrow> string \<Rightarrow> ('r, unit) io" where
  "complete_attempt E mid code lat j a out =
     complete E j a \<lparr>c_outcome = out, c_messageId = mid, c_errorCode = code, c_latencyMs = lat\<rparr>"

interpretation ig: attempt_guard "reserve_attempt E m" "complete_attempt E mid code lat" attempt_status
  for E m mid code lat
proof
  show "wp (reserve_attempt E m j a)
       (\<lambda>granted w'. granted = (attempt_status w j a \<in> {None, Some ''PENDING''}) \<and>
          (granted \<longrightarrow> attempt_status w' j a = Some ''PENDING'') \<and>
          (\<not> granted \<longrightarrow> attempt_status w' j a = attempt_status w j a))
       (\<lambda>_ w'. attempt_status w' j a = attempt_status w j a \<or>
          attempt_status w j a = None \<and> attempt_status w' j a = Some ''PENDING'') w" for j a w
    using reserve_wp [of "m\<lparr>msg_jobId := j, msg_attempt := a\<rparr>" j a E w] by (simp add: reserve_attempt_def)
  show "wp (reserve_attempt E m j a) (\<lambda>_ w'. attempt_status w' j' a' = attempt_status w j' a')
      (\<lambda>_ w'. attempt_status w' j' a' = attempt_status w j' a') w"
    if "(j', a') \<noteq> (j, a)" for j a j' a' w
    unfolding reserve_attempt_def by (rule reserve_frame_wp) (use that in simp)
  show "wp (complete_attempt E mid code lat j a out)
      (\<lambda>_ w'. attempt_status w' j a = map_option (\<lambda>_. out) (attempt_status w j a))
      (\<lambda>_ w'. attempt_status w' j a \<in> {attempt_status w j a, map_option (\<lambda>_. out) (attempt_status w j a)}) w"
    for j a out w
    unfolding complete_attempt_def by (rule wp_mono [OF complete_wp]) simp_all
  show "wp (complete_attempt E mid code lat j a out) (\<lambda>_ w'. attempt_status w' j' a' = attempt_status w j' a')
      (\<lambda>_ w'. attempt_status w' j' a' = attempt_status w j' a') w"
    if "(j', a') \<noteq> (j, a)" for j a j' a' out w
    unfolding complete_attempt_def by (rule complete_frame_wp [OF that])
qed

end
