(* ===== verification/Delivery.thy ===== *)
theory Delivery
  imports IdempotencyGuard
begin

text \<open>
  \<^verbatim>\<open>delivery/delivery.service.ts\<close>: one delivery of a job message, from the rate limiter to the
  acknowledgement. The outcome \<open>ACK\<close> lets the consumer drop the message; \<open>REQUEUE\<close>, or a
  rejected promise, puts it back on the work queue.
\<close>

datatype DeliveryOutcome = ACK | REQUEUE

definition RATE_LIMIT_DEFER_TIER :: int where
  "RATE_LIMIT_DEFER_TIER = 1"

definition BREAKER_DEFER_TIER :: int where
  "BREAKER_DEFER_TIER = 2"

definition message_text :: "EmailJobMessage \<Rightarrow> string" where
  "message_text m = json_stringify (message_members m)"

definition event_text :: "DeliveryStatusEvent \<Rightarrow> string" where
  "event_text e = json_stringify (event_members e)"

definition toSendRequest :: "EmailJobMessage \<Rightarrow> SendEmailRequest" where
  "toSendRequest m =
     \<lparr>req_jobId = msg_jobId m, req_from = msg_from m, req_to = msg_to m,
      req_subject = msg_subject m, req_text = msg_text m, req_html = msg_html m\<rparr>"

definition publishStatus :: "'r services \<Rightarrow> DeliveryStatusEvent \<Rightarrow> ('r, unit) io" where
  "publishStatus E event =
     publish E (statusExchange TOPOLOGY) (statusRoutingKey TOPOLOGY) (event_text event)
       (Some (ev_jobId event))"

definition defer_message :: "'r services \<Rightarrow> EmailJobMessage \<Rightarrow> int \<Rightarrow> ('r, DeliveryOutcome) io" where
  "defer_message E message tier =
     bind (publish E (retryExchange TOPOLOGY) (retryQueueName tier) (message_text message)
             (Some (msg_jobId message))) (\<lambda>_.
       Resolve ACK)"

definition deadLetter :: "'r services \<Rightarrow> EmailJobMessage \<Rightarrow> string \<Rightarrow> string \<Rightarrow> int \<Rightarrow> ('r, DeliveryOutcome) io" where
  "deadLetter E message errorCode detail latencyMs =
     bind (inc_deadLettered (provider_name (msg_provider message))) (\<lambda>_.
     bind (complete E (msg_jobId message) (msg_attempt message)
             \<lparr>c_outcome = ''FAILED'', c_messageId = None, c_errorCode = Some errorCode,
              c_latencyMs = Some latencyMs\<rparr>) (\<lambda>_.
     bind (publish E (deadLetterExchange TOPOLOGY) (deadLetterRoutingKey TOPOLOGY) (message_text message)
             (Some (msg_jobId message))) (\<lambda>_.
     bind (date_now E) (\<lambda>now.
     bind (publishStatus E
             \<lparr>ev_jobId = msg_jobId message, ev_tenantId = msg_tenantId message, ev_status = DEAD_LETTERED,
              ev_attempt = msg_attempt message, ev_provider = provider_name (msg_provider message),
              ev_messageId = None, ev_errorCode = Some errorCode, ev_occurredAt = now\<rparr>) (\<lambda>_.
     Resolve ACK)))))"

definition handleFailure :: "'r services \<Rightarrow> EmailJobMessage \<Rightarrow> exn \<Rightarrow> int \<Rightarrow> ('r, DeliveryOutcome) io" where
  "handleFailure E message error latencyMs =
     (case error of
        TransientProviderError code errorMessage \<Rightarrow>
          bind (breaker_recordFailure E (provider_name (msg_provider message))) (\<lambda>_.
            case decideFailureAction (msg_attempt message) of
              RETRY attempt' queue delaySeconds \<Rightarrow>
                bind (inc_retried (provider_name (msg_provider message))) (\<lambda>_.
                bind (complete E (msg_jobId message) (msg_attempt message)
                        \<lparr>c_outcome = ''FAILED'', c_messageId = None,
                         c_errorCode = Some (error_code_name code), c_latencyMs = Some latencyMs\<rparr>) (\<lambda>_.
                bind (publish E (retryExchange TOPOLOGY) queue
                        (message_text (message\<lparr>msg_attempt := attempt'\<rparr>)) (Some (msg_jobId message))) (\<lambda>_.
                bind (date_now E) (\<lambda>now.
                bind (publishStatus E
                        \<lparr>ev_jobId = msg_jobId message, ev_tenantId = msg_tenantId message,
                         ev_status = RETRY_SCHEDULED, ev_attempt = attempt',
                         ev_provider = provider_name (msg_provider message), ev_messageId = None,
                         ev_errorCode = Some (error_code_name code), ev_occurredAt = now\<rparr>) (\<lambda>_.
                Resolve ACK)))))
            | DEAD_LETTER \<Rightarrow>
                deadLetter E message (error_code_name code)
                  (''transient failures exhausted after '' @ show_int (maxAttempts TOPOLOGY) @ '' attempts'')
                  latencyMs)
      | PermanentProviderError code errorMessage \<Rightarrow>
          deadLetter E message (error_code_name code) errorMessage latencyMs
      | _ \<Rightarrow>
          bind (breaker_recordFailure E (provider_name (msg_provider message))) (\<lambda>_.
          Resolve REQUEUE))"

text \<open>The body of the \<open>try\<close> block of \<open>process\<close>.\<close>

definition send_and_record :: "'r services \<Rightarrow> EmailJobMessage \<Rightarrow> int \<Rightarrow> ('r, DeliveryOutcome) io" where
  "send_and_record E message startedAt =
     (let p = provider_name (msg_provider message) in
      case resolve E (msg_provider message) of
        Inl e \<Rightarrow> Reject e
      | Inr send \<Rightarrow>
          bind (send (toSendRequest message)) (\<lambda>result.
          bind (date_now E) (\<lambda>now.
          let latencyMs = now - startedAt in
          bind (breaker_recordSuccess p) (\<lambda>_.
          bind (complete E (msg_jobId message) (msg_attempt message)
                  \<lparr>c_outcome = ''DELIVERED'', c_messageId = Some (providerMessageId result),
                   c_errorCode = None, c_latencyMs = Some latencyMs\<rparr>) (\<lambda>_.
          bind (inc_delivered p) (\<lambda>_.
          bind (observe_send latencyMs) (\<lambda>_.
          bind (date_now E) (\<lambda>now.
          bind (observe_delivery (now - msg_publishedAt message)) (\<lambda>_.
          bind (date_now E) (\<lambda>now.
          bind (publishStatus E
                  \<lparr>ev_jobId = msg_jobId message, ev_tenantId = msg_tenantId message, ev_status = DELIVERED,
                   ev_attempt = msg_attempt message, ev_provider = p,
                   ev_messageId = Some (providerMessageId result), ev_errorCode = None,
                   ev_occurredAt = now\<rparr>) (\<lambda>_.
          Resolve ACK)))))))))))"

definition process :: "'r services \<Rightarrow> EmailJobMessage \<Rightarrow> ('r, DeliveryOutcome) io" where
  "process E message =
     (let p = provider_name (msg_provider message) in
      bind (acquire E (''rl:'' @ p)) (\<lambda>granted.
        if \<not> granted then defer_message E message RATE_LIMIT_DEFER_TIER
        else bind (breaker_isOpen E p) (\<lambda>isOpen.
          if isOpen then defer_message E message BREAKER_DEFER_TIER
          else bind (reserve E message) (\<lambda>reserved.
            if \<not> reserved then bind inc_duplicates (\<lambda>_. Resolve ACK)
            else bind (date_now E) (\<lambda>startedAt.
              try_catch (send_and_record E message startedAt) (\<lambda>error.
                bind (date_now E) (\<lambda>now. handleFailure E message error (now - startedAt))))))))"

section \<open>What a provider promises\<close>

text \<open>
  The contract of a mail provider as the delivery service uses it: a send that resolves has put
  exactly its mail on the wire; one that rejects does so with a classified error, and has put
  at most its mail there. \<open>rest\<close> is the part of the world it leaves alone.
\<close>

definition transient_codes :: "string set" where
  "transient_codes = error_code_name ` {PROVIDER_UNAVAILABLE, UNKNOWN}"

definition permanent_codes :: "string set" where
  "permanent_codes = error_code_name ` {PROVIDER_AUTH_FAILED, INVALID_RECIPIENT, PROVIDER_REJECTED}"

definition classified :: "exn \<Rightarrow> bool" where
  "classified e \<longleftrightarrow>
     (case e of
        TransientProviderError c _ \<Rightarrow> error_code_name c \<in> transient_codes
      | PermanentProviderError c _ \<Rightarrow> error_code_name c \<in> permanent_codes
      | _ \<Rightarrow> False)"

locale email_provider =
  fixes send :: "SendEmailRequest \<Rightarrow> ('w, exn, DeliveryResult) async"
    and wire :: "'w \<Rightarrow> Mail list"
    and rest :: "'w \<Rightarrow> 'x"
  assumes send_resolves:
    "wp (send r) (\<lambda>_ w'. wire w' = wire w @ [to_mail r] \<and> rest w' = rest w) (\<lambda>_ _. True) w"
    and send_rejects:
    "wp (send r) (\<lambda>_ _. True)
       (\<lambda>e w'. classified e \<and> wire w' \<in> {wire w, wire w @ [to_mail r]} \<and> rest w' = rest w) w"
begin

lemma send_spec:
  "wp (send r) (\<lambda>_ w'. wire w' = wire w @ [to_mail r] \<and> rest w' = rest w)
     (\<lambda>e w'. classified e \<and> wire w' \<in> {wire w, wire w @ [to_mail r]} \<and> rest w' = rest w) w"
  by (rule wp_mono [OF wp_conj [OF send_resolves send_rejects]]) simp_all

lemma send_at_most_once:
  "wp (send r) (\<lambda>_ w'. length (wire w') \<le> Suc (length (wire w)))
     (\<lambda>_ w'. length (wire w') \<le> Suc (length (wire w))) w"
  by (rule wp_mono [OF send_spec]) auto

end

lemma classifySmtpError_classified: "classified (classifySmtpError e)"
  by (simp add: classifySmtpError_def classified_def Let_def transient_codes_def permanent_codes_def)

text \<open>The parts of the world a provider must leave alone.\<close>

definition aside :: "'r world \<Rightarrow> publication list \<times> ledger \<times> bool \<times> job_table \<times> (nat \<times> bool) list \<times> int" where
  "aside w = (published w, ledger w, channel w, jobs w, settled w, inFlight w)"

interpretation smtp: email_provider "smtp_send E" mails aside for E
proof
  show "wp (smtp_send E r) (\<lambda>_ w'. mails w' = mails w @ [to_mail r] \<and> aside w' = aside w) (\<lambda>_ _. True) w" for r w
    by (simp add: smtp_send_def wp_rules Let_def aside_def split: smtp_reply.split)
  show "wp (smtp_send E r) (\<lambda>_ _. True)
      (\<lambda>e w'. classified e \<and> mails w' \<in> {mails w, mails w @ [to_mail r]} \<and> aside w' = aside w) w" for r w
    by (simp add: smtp_send_def wp_rules Let_def aside_def classifySmtpError_classified split: smtp_reply.split)
qed

lemma asideD:
  assumes "aside w' = aside w"
  shows "published w' = published w" and "ledger w' = ledger w" and "channel w' = channel w"
    and "attempt_status w' = attempt_status w"
  using assms by (auto simp: aside_def attempt_status_def fun_eq_iff)

lemma aside_simps [simp]:
  "aside (w\<lparr>steps := n\<rparr>) = aside w" "aside (w\<lparr>metrics := m\<rparr>) = aside w"
  "aside (w\<lparr>breakers := b\<rparr>) = aside w" "aside (w\<lparr>redis := r\<rparr>) = aside w"
  by (simp_all add: aside_def)

text \<open>The rate limiter and the breaker leave it alone too, and send no mail.\<close>

lemma acquire_quiet:
  "wp (acquire E k) (\<lambda>_ w'. aside w' = aside w \<and> mails w' = mails w)
     (\<lambda>_ w'. aside w' = aside w \<and> mails w' = mails w) w"
  by (auto simp: acquire_def wp_rules Let_def split: fate.split option.split)

lemma isOpen_quiet:
  "wp (breaker_isOpen E k) (\<lambda>_ w'. aside w' = aside w \<and> mails w' = mails w) (\<lambda>_ _. False) w"
  by (auto simp: breaker_isOpen_def wp_rules split: prod.split)

lemma recordFailure_quiet:
  "wp (breaker_recordFailure E k) (\<lambda>_ w'. aside w' = aside w \<and> mails w' = mails w) (\<lambda>_ _. False) w"
  by (auto simp: breaker_recordFailure_def wp_rules)

section \<open>What a delivery leaves behind\<close>

text \<open>
  The specification of an acknowledged delivery: what became of the message, the messages it
  makes the worker publish, and the state of the attempt it leaves.
\<close>

datatype disposition =
    Skipped
  | Deferred int
  | Sent string int
  | Retried string int string int
  | Buried string int

definition status_event :: "EmailJobMessage \<Rightarrow> DeliveryStatus \<Rightarrow> int \<Rightarrow> string option \<Rightarrow> string option \<Rightarrow> int \<Rightarrow> DeliveryStatusEvent" where
  "status_event m st att mid code t =
     \<lparr>ev_jobId = msg_jobId m, ev_tenantId = msg_tenantId m, ev_status = st, ev_attempt = att,
      ev_provider = provider_name (msg_provider m), ev_messageId = mid, ev_errorCode = code,
      ev_occurredAt = t\<rparr>"

definition status_publication :: "EmailJobMessage \<Rightarrow> DeliveryStatus \<Rightarrow> int \<Rightarrow> string option \<Rightarrow> string option \<Rightarrow> int \<Rightarrow> publication" where
  "status_publication m st att mid code t =
     publication_of (statusExchange TOPOLOGY) (statusRoutingKey TOPOLOGY)
        (event_text (status_event m st att mid code t)) (Some (msg_jobId m))"

fun emitted :: "EmailJobMessage \<Rightarrow> disposition \<Rightarrow> publication list" where
  "emitted m Skipped = []"
| "emitted m (Deferred tier) =
     [publication_of (retryExchange TOPOLOGY) (retryQueueName tier) (message_text m) (Some (msg_jobId m))]"
| "emitted m (Sent mid t) = [status_publication m DELIVERED (msg_attempt m) (Some mid) None t]"
| "emitted m (Retried code k queue t) =
     [publication_of (retryExchange TOPOLOGY) queue (message_text (m\<lparr>msg_attempt := k\<rparr>)) (Some (msg_jobId m)),
      status_publication m RETRY_SCHEDULED k None (Some code) t]"
| "emitted m (Buried code t) =
     [publication_of (deadLetterExchange TOPOLOGY) (deadLetterRoutingKey TOPOLOGY) (message_text m) (Some (msg_jobId m)),
      status_publication m DEAD_LETTERED (msg_attempt m) None (Some code) t]"

definition mail_of :: "EmailJobMessage \<Rightarrow> Mail" where
  "mail_of m = to_mail (toSendRequest m)"

definition open_status :: "string option \<Rightarrow> bool" where
  "open_status s \<longleftrightarrow> s = None \<or> s = Some ''PENDING''"

text \<open>
  \<open>left m d s s' k\<close>: the attempt went from outcome \<open>s\<close> to \<open>s'\<close> and \<open>k\<close> mails were sent.
\<close>

fun left :: "EmailJobMessage \<Rightarrow> disposition \<Rightarrow> string option \<Rightarrow> string option \<Rightarrow> nat \<Rightarrow> bool" where
  "left m Skipped s s' k \<longleftrightarrow> \<not> open_status s \<and> s' = s \<and> k = 0"
| "left m (Deferred tier) s s' k \<longleftrightarrow>
     (tier = RATE_LIMIT_DEFER_TIER \<or> tier = BREAKER_DEFER_TIER) \<and> s' = s \<and> k = 0"
| "left m (Sent mid t) s s' k \<longleftrightarrow> open_status s \<and> s' = Some ''DELIVERED'' \<and> k = 1"
| "left m (Retried code a queue t) s s' k \<longleftrightarrow>
     open_status s \<and> s' = Some ''FAILED'' \<and> k \<le> 1 \<and> code \<in> transient_codes \<and>
     (\<exists>d. decideFailureAction (msg_attempt m) = RETRY a queue d)"
| "left m (Buried code t) s s' k \<longleftrightarrow>
     open_status s \<and> s' = Some ''FAILED'' \<and> k \<le> 1 \<and>
     (code \<in> permanent_codes \<or> code \<in> transient_codes \<and> decideFailureAction (msg_attempt m) = DEAD_LETTER)"

definition others_kept :: "EmailJobMessage \<Rightarrow> 'r world \<Rightarrow> 'r world \<Rightarrow> bool" where
  "others_kept m w w' \<longleftrightarrow>
     (\<forall>j a. (j, a) \<noteq> (msg_jobId m, msg_attempt m) \<longrightarrow> attempt_status w' j a = attempt_status w j a)"

definition accounts :: "EmailJobMessage \<Rightarrow> disposition \<Rightarrow> 'r world \<Rightarrow> 'r world \<Rightarrow> bool" where
  "accounts m d w w' \<longleftrightarrow>
     published w' = published w @ emitted m d \<and>
     (\<exists>k. mails w' = mails w @ replicate k (mail_of m) \<and>
        left m d (attempt_status w (msg_jobId m) (msg_attempt m))
          (attempt_status w' (msg_jobId m) (msg_attempt m)) k) \<and>
     others_kept m w w'"

text \<open>The dispositions a delivery of a message can have or begin: the queues they name are declared.\<close>

fun possible :: "EmailJobMessage \<Rightarrow> disposition \<Rightarrow> bool" where
  "possible m (Deferred tier) \<longleftrightarrow> tier = RATE_LIMIT_DEFER_TIER \<or> tier = BREAKER_DEFER_TIER"
| "possible m (Retried code k queue t) \<longleftrightarrow> (\<exists>s. decideFailureAction (msg_attempt m) = RETRY k queue s)"
| "possible m _ \<longleftrightarrow> True"

lemma left_possible: "left m d s s' k \<Longrightarrow> possible m d"
  by (cases d) auto

text \<open>
  What a delivery that is not acknowledged may have left: at most one mail, some prefix of one
  disposition's messages, and the attempt as it was, pending or closed, \<open>DELIVERED\<close> only with its
  mail sent.
\<close>

definition partial :: "EmailJobMessage \<Rightarrow> 'r world \<Rightarrow> 'r world \<Rightarrow> bool" where
  "partial m w w' \<longleftrightarrow>
     (\<exists>d n k. possible m d \<and> published w' = published w @ take n (emitted m d) \<and>
        mails w' = mails w @ replicate k (mail_of m) \<and> k \<le> 1 \<and>
        (k = 1 \<longrightarrow> open_status (attempt_status w (msg_jobId m) (msg_attempt m)))) \<and>
     (\<not> open_status (attempt_status w (msg_jobId m) (msg_attempt m)) \<longrightarrow>
        attempt_status w' (msg_jobId m) (msg_attempt m) = attempt_status w (msg_jobId m) (msg_attempt m)) \<and>
     attempt_status w' (msg_jobId m) (msg_attempt m) \<in>
       {attempt_status w (msg_jobId m) (msg_attempt m), Some ''PENDING'', Some ''FAILED'', Some ''DELIVERED''} \<and>
     (attempt_status w' (msg_jobId m) (msg_attempt m) = Some ''DELIVERED'' \<longrightarrow>
        attempt_status w (msg_jobId m) (msg_attempt m) = Some ''DELIVERED'' \<or> mail_of m \<in> set (mails w')) \<and>
     others_kept m w w'"

section \<open>Specifications of the steps\<close>

text \<open>Dead-lettering and rescheduling, from a state where the attempt is \<open>PENDING\<close>.\<close>

abbreviation own :: "'r world \<Rightarrow> EmailJobMessage \<Rightarrow> string option" where
  "own w m \<equiv> attempt_status w (msg_jobId m) (msg_attempt m)"

lemma others_kept_ledger_only:
  "ledger_only (msg_jobId m) (msg_attempt m) w w' \<Longrightarrow> others_kept m w w'"
  by (auto simp: others_kept_def intro: ledger_only_other)

lemma others_kept_same: "attempt_status w' = attempt_status w \<Longrightarrow> others_kept m w w'"
  by (simp add: others_kept_def)

lemma others_kept_trans: "others_kept m w w1 \<Longrightarrow> others_kept m w1 w2 \<Longrightarrow> others_kept m w w2"
  by (simp add: others_kept_def)

lemma complete_closing:
  assumes "own w m = Some ''PENDING''" and "c_outcome c = out"
  shows "wp (complete E (msg_jobId m) (msg_attempt m) c)
     (\<lambda>_ w'. own w' m = Some out \<and> published w' = published w \<and> mails w' = mails w \<and> others_kept m w w')
     (\<lambda>_ w'. own w' m \<in> {own w m, Some out} \<and> published w' = published w \<and> mails w' = mails w \<and> others_kept m w w') w"
  by (rule wp_mono [OF complete_full])
    (use assms in \<open>auto simp: ledger_only_parts intro: others_kept_ledger_only\<close>)

lemma wp_publishStatus:
  "wp (publishStatus E (status_event m st att smid code t)) Q R w \<longleftrightarrow>
     (let w1 = w\<lparr>steps := Suc (steps w)\<rparr>;
          w2 = w1\<lparr>published := published w @ [status_publication m st att smid code t]\<rparr>
      in if \<not> channel w then R (HttpException 503 (MessageBody ''rabbitmq is not available'')) w
         else case fate E (steps w) of
           Completes \<Rightarrow> Q () w2
         | Refused e \<Rightarrow> R (JsError None e) w1
         | ReplyLost e \<Rightarrow> R (JsError None e) w2)"
  by (simp add: publishStatus_def wp_publish status_publication_def status_event_def)

text \<open>The two confirmed publishes both failure paths end with.\<close>

lemma announce_wp:
  "wp (bind (publish E ex key content mid) (\<lambda>_. bind (date_now E) (\<lambda>now.
         bind (publishStatus E (status_event m st att smid code now)) (\<lambda>_. Resolve ACK))))
     (\<lambda>oc w'. oc = ACK \<and> mails w' = mails w \<and> attempt_status w' = attempt_status w \<and>
        (\<exists>t. published w' = published w @ [publication_of ex key content mid, status_publication m st att smid code t]))
     (\<lambda>_ w'. mails w' = mails w \<and> attempt_status w' = attempt_status w \<and>
        (\<exists>t n. published w' = published w @ take n [publication_of ex key content mid, status_publication m st att smid code t])) w"
proof -
  have one: "\<exists>t n. [p] = take n [p, q t]" for p and q :: "int \<Rightarrow> publication"
    by (intro exI [of _ 0] exI [of _ 1]) simp
  have two: "\<exists>t n. [p, q u] = take n [p, q t]" for p and q :: "int \<Rightarrow> publication" and u
    by (intro exI [of _ u] exI [of _ 2]) simp
  show ?thesis
    by (auto simp: wp_rules wp_publishStatus Let_def attempt_status_def fun_eq_iff one two split: fate.split)
qed

lemma deadLetter_eq:
  "deadLetter E m code detail lat =
     bind (inc_deadLettered (provider_name (msg_provider m))) (\<lambda>_.
     bind (complete E (msg_jobId m) (msg_attempt m)
             \<lparr>c_outcome = ''FAILED'', c_messageId = None, c_errorCode = Some code, c_latencyMs = Some lat\<rparr>) (\<lambda>_.
     bind (publish E (deadLetterExchange TOPOLOGY) (deadLetterRoutingKey TOPOLOGY) (message_text m) (Some (msg_jobId m))) (\<lambda>_.
     bind (date_now E) (\<lambda>now.
     bind (publishStatus E (status_event m DEAD_LETTERED (msg_attempt m) None (Some code) now)) (\<lambda>_.
     Resolve ACK)))))"
  by (simp add: deadLetter_def status_event_def)

text \<open>What the failure handlers leave: the whole disposition, or a part of it.\<close>

definition closed_as :: "EmailJobMessage \<Rightarrow> disposition \<Rightarrow> 'r world \<Rightarrow> 'r world \<Rightarrow> bool" where
  "closed_as m d w w' \<longleftrightarrow>
     own w' m = Some ''FAILED'' \<and> mails w' = mails w \<and> others_kept m w w' \<and>
     published w' = published w @ emitted m d"

definition half_closed :: "EmailJobMessage \<Rightarrow> 'r world \<Rightarrow> 'r world \<Rightarrow> bool" where
  "half_closed m w w' \<longleftrightarrow>
     own w' m \<in> {Some ''PENDING'', Some ''FAILED''} \<and> mails w' = mails w \<and> others_kept m w w' \<and>
     (\<exists>d n. possible m d \<and> published w' = published w @ take n (emitted m d))"

lemma half_closed_none:
  assumes "own w' m \<in> {Some ''PENDING'', Some ''FAILED''}" and "mails w' = mails w"
    and "others_kept m w w'" and "published w' = published w"
  shows "half_closed m w w'"
  unfolding half_closed_def using assms by (intro conjI exI [of _ Skipped] exI [of _ 0]) auto

lemma complete_then:
  assumes own: "own w m = Some ''PENDING''"
    and c: "c_outcome c = ''FAILED''"
    and cont: "\<And>w1. own w1 m = Some ''FAILED'' \<Longrightarrow> published w1 = published w \<Longrightarrow> mails w1 = mails w \<Longrightarrow>
        others_kept m w w1 \<Longrightarrow> wp k Q R w1"
    and fail: "\<And>e w1. half_closed m w w1 \<Longrightarrow> R e w1"
  shows "wp (bind (complete E (msg_jobId m) (msg_attempt m) c) (\<lambda>_. k)) Q R w"
  unfolding wp_bind
  by (rule wp_mono [OF complete_closing [OF own c]]) (use own in \<open>auto intro!: cont fail half_closed_none\<close>)

lemma deadLetter_wp:
  assumes "own w m = Some ''PENDING''"
  shows "wp (deadLetter E m code detail lat)
     (\<lambda>oc w'. oc = ACK \<and> (\<exists>t. closed_as m (Buried code t) w w')) (\<lambda>_. half_closed m w) w"
  unfolding deadLetter_eq wp_bind [of "inc_deadLettered _"] wp_counters
proof (rule complete_then)
  let ?w0 = "w\<lparr>metrics := (metrics w)\<lparr>jobsDeadLettered := inc (jobsDeadLettered (metrics w)) (provider_name (msg_provider m))\<rparr>\<rparr>"
  show "own ?w0 m = Some ''PENDING''" using assms by simp
  show "half_closed m w w1" if "half_closed m ?w0 w1" for w1
    using that by (simp add: half_closed_def others_kept_def)
  fix w1 :: "'a world"
  assume w1: "own w1 m = Some ''FAILED''" "published w1 = published ?w0" "mails w1 = mails ?w0" "others_kept m ?w0 w1"
  show "wp (bind (publish E (deadLetterExchange TOPOLOGY) (deadLetterRoutingKey TOPOLOGY) (message_text m) (Some (msg_jobId m))) (\<lambda>_.
     bind (date_now E) (\<lambda>now.
     bind (publishStatus E (status_event m DEAD_LETTERED (msg_attempt m) None (Some code) now)) (\<lambda>_.
     Resolve ACK)))) (\<lambda>oc w'. oc = ACK \<and> (\<exists>t. closed_as m (Buried code t) w w')) (\<lambda>_. half_closed m w) w1"
  proof (rule wp_mono [OF announce_wp], goal_cases)
    case (1 x w')
    then show ?case using w1 by (auto simp: closed_as_def others_kept_def)
  next
    case (2 e w')
    then obtain t n where "published w' = published w @ take n (emitted m (Buried code t))"
      using w1 by auto
    moreover have "possible m (Buried code t)" by simp
    ultimately show ?case
      using 2 w1 unfolding half_closed_def by (auto simp: others_kept_def simp del: emitted.simps possible.simps)
  qed
qed simp

lemma half_closed_steps:
  assumes "aside w1 = aside w" and "mails w1 = mails w" and "half_closed m w1 w'"
  shows "half_closed m w w'"
  using assms(2,3) asideD [OF assms(1)] by (simp add: half_closed_def others_kept_def)

lemma closed_as_steps:
  assumes "aside w1 = aside w" and "mails w1 = mails w" and "closed_as m d w1 w'"
  shows "closed_as m d w w'"
  using assms(2,3) asideD [OF assms(1)] by (simp add: closed_as_def others_kept_def)

text \<open>Rescheduling: the decision \<open>RETRY\<close> from a state where the attempt is \<open>PENDING\<close>.\<close>

definition reschedule :: "'r services \<Rightarrow> EmailJobMessage \<Rightarrow> string \<Rightarrow> int \<Rightarrow> string \<Rightarrow> int \<Rightarrow> ('r, DeliveryOutcome) io" where
  "reschedule E m code k queue lat =
     bind (inc_retried (provider_name (msg_provider m))) (\<lambda>_.
     bind (complete E (msg_jobId m) (msg_attempt m)
             \<lparr>c_outcome = ''FAILED'', c_messageId = None, c_errorCode = Some code, c_latencyMs = Some lat\<rparr>) (\<lambda>_.
     bind (publish E (retryExchange TOPOLOGY) queue (message_text (m\<lparr>msg_attempt := k\<rparr>)) (Some (msg_jobId m))) (\<lambda>_.
     bind (date_now E) (\<lambda>now.
     bind (publishStatus E (status_event m RETRY_SCHEDULED k None (Some code) now)) (\<lambda>_.
     Resolve ACK)))))"

lemma reschedule_wp:
  assumes "own w m = Some ''PENDING''" and retry: "decideFailureAction (msg_attempt m) = RETRY k queue s"
  shows "wp (reschedule E m code k queue lat)
     (\<lambda>oc w'. oc = ACK \<and> (\<exists>t. closed_as m (Retried code k queue t) w w')) (\<lambda>_. half_closed m w) w"
  unfolding reschedule_def wp_bind [of "inc_retried _"] wp_counters
proof (rule complete_then)
  let ?w0 = "w\<lparr>metrics := (metrics w)\<lparr>jobsRetried := inc (jobsRetried (metrics w)) (provider_name (msg_provider m))\<rparr>\<rparr>"
  show "own ?w0 m = Some ''PENDING''" using assms by simp
  show "half_closed m w w1" if "half_closed m ?w0 w1" for w1
    using that by (rule half_closed_steps [rotated 2]) simp_all
  fix w1 :: "'a world"
  assume w1: "own w1 m = Some ''FAILED''" "published w1 = published ?w0" "mails w1 = mails ?w0" "others_kept m ?w0 w1"
  show "wp (bind (publish E (retryExchange TOPOLOGY) queue (message_text (m\<lparr>msg_attempt := k\<rparr>)) (Some (msg_jobId m))) (\<lambda>_.
     bind (date_now E) (\<lambda>now.
     bind (publishStatus E (status_event m RETRY_SCHEDULED k None (Some code) now)) (\<lambda>_.
     Resolve ACK)))) (\<lambda>oc w'. oc = ACK \<and> (\<exists>t. closed_as m (Retried code k queue t) w w')) (\<lambda>_. half_closed m w) w1"
  proof (rule wp_mono [OF announce_wp], goal_cases)
    case (1 x w')
    then show ?case using w1 by (auto simp: closed_as_def others_kept_def)
  next
    case (2 e w')
    then obtain t n where "published w' = published w @ take n (emitted m (Retried code k queue t))"
      using w1 by auto
    moreover have "possible m (Retried code k queue t)" using retry by simp
    ultimately show ?case
      using 2 w1 unfolding half_closed_def by (auto simp: others_kept_def simp del: emitted.simps possible.simps)
  qed
qed simp

lemma handleFailure_eq:
  "handleFailure E m error lat =
     (case error of
        TransientProviderError code _ \<Rightarrow>
          bind (breaker_recordFailure E (provider_name (msg_provider m))) (\<lambda>_.
            case decideFailureAction (msg_attempt m) of
              RETRY k queue _ \<Rightarrow> reschedule E m (error_code_name code) k queue lat
            | DEAD_LETTER \<Rightarrow>
                deadLetter E m (error_code_name code)
                  (''transient failures exhausted after '' @ show_int (maxAttempts TOPOLOGY) @ '' attempts'') lat)
      | PermanentProviderError code msg \<Rightarrow> deadLetter E m (error_code_name code) msg lat
      | _ \<Rightarrow> bind (breaker_recordFailure E (provider_name (msg_provider m))) (\<lambda>_. Resolve REQUEUE))"
  by (simp add: handleFailure_def reschedule_def status_event_def cong: FailureDecision.case_cong exn.case_cong)

text \<open>
  A classified error ends in a disposition that its kind and the retry policy justify; any other
  error changes nothing and asks for the message to be requeued.
\<close>

definition justified :: "EmailJobMessage \<Rightarrow> disposition \<Rightarrow> bool" where
  "justified m d \<longleftrightarrow>
     (case d of
        Retried code k queue _ \<Rightarrow>
          code \<in> transient_codes \<and> (\<exists>s. decideFailureAction (msg_attempt m) = RETRY k queue s)
      | Buried code _ \<Rightarrow>
          code \<in> permanent_codes \<or> code \<in> transient_codes \<and> decideFailureAction (msg_attempt m) = DEAD_LETTER
      | _ \<Rightarrow> False)"

lemma handleFailure_wp:
  assumes own: "own w m = Some ''PENDING''" and e: "classified error"
  shows "wp (handleFailure E m error lat)
     (\<lambda>oc w'. oc = ACK \<and> (\<exists>d. justified m d \<and> closed_as m d w w')) (\<lambda>_. half_closed m w) w"
proof (cases error)
  case (TransientProviderError code msg)
  have code: "error_code_name code \<in> transient_codes" using e TransientProviderError by (simp add: classified_def)
  have kept: "own w1 m = Some ''PENDING''" if "aside w1 = aside w" for w1
    using own asideD(4) [OF that] by simp
  show ?thesis
  proof (cases "decideFailureAction (msg_attempt m)")
    case (RETRY k queue s)
    have d: "justified m (Retried (error_code_name code) k queue t)" for t
      using code RETRY by (auto simp: justified_def)
    show ?thesis
      unfolding handleFailure_eq TransientProviderError RETRY exn.case FailureDecision.case wp_bind
      by (rule wp_mono [OF recordFailure_quiet], rule wp_mono [OF reschedule_wp [OF _ RETRY]])
        (use kept d in \<open>auto intro: closed_as_steps half_closed_steps\<close>)
  next
    case DEAD_LETTER
    have d: "justified m (Buried (error_code_name code) t)" for t
      using code DEAD_LETTER by (auto simp: justified_def)
    show ?thesis
      unfolding handleFailure_eq TransientProviderError DEAD_LETTER exn.case FailureDecision.case wp_bind
      by (rule wp_mono [OF recordFailure_quiet], rule wp_mono [OF deadLetter_wp])
        (use kept d in \<open>auto intro: closed_as_steps half_closed_steps\<close>)
  qed
next
  case (PermanentProviderError code msg)
  then have "justified m (Buried (error_code_name code) t)" for t
    using e by (simp add: justified_def classified_def)
  then show ?thesis
    unfolding handleFailure_eq PermanentProviderError exn.case
    by (intro wp_mono [OF deadLetter_wp [OF own]]) auto
qed (use e in \<open>simp_all add: classified_def\<close>)

lemma handleFailure_unclassified:
  assumes "\<And>c s. error \<noteq> TransientProviderError c s" and "\<And>c s. error \<noteq> PermanentProviderError c s"
  shows "wp (handleFailure E m error lat)
     (\<lambda>oc w'. oc = REQUEUE \<and> aside w' = aside w \<and> mails w' = mails w) (\<lambda>_ _. False) w"
  using assms by (cases error)
    (auto simp: handleFailure_eq wp_bind wp_Resolve intro: wp_mono [OF recordFailure_quiet])

text \<open>Sending and recording, again from a state where the attempt is \<open>PENDING\<close>.\<close>

definition unclassified :: "exn \<Rightarrow> bool" where
  "unclassified e \<longleftrightarrow> (case e of TransientProviderError _ _ \<Rightarrow> False | PermanentProviderError _ _ \<Rightarrow> False | _ \<Rightarrow> True)"

definition sent_as :: "EmailJobMessage \<Rightarrow> disposition \<Rightarrow> 'r world \<Rightarrow> 'r world \<Rightarrow> bool" where
  "sent_as m d w w' \<longleftrightarrow>
     own w' m = Some ''DELIVERED'' \<and> mails w' = mails w @ [mail_of m] \<and> others_kept m w w' \<and>
     published w' = published w @ emitted m d"

definition half_sent :: "EmailJobMessage \<Rightarrow> 'r world \<Rightarrow> 'r world \<Rightarrow> bool" where
  "half_sent m w w' \<longleftrightarrow>
     own w' m \<in> {Some ''PENDING'', Some ''DELIVERED''} \<and> mails w' = mails w @ [mail_of m] \<and>
     others_kept m w w' \<and> (\<exists>d n. possible m d \<and> published w' = published w @ take n (emitted m d))"

lemma complete_unclassified:
  "wp (complete E j a c) (\<lambda>_ _. True) (\<lambda>e _. unclassified e) w"
  by (auto simp: complete_def wp_pg_query unclassified_def Let_def split: fate.split prod.split sum.split)

definition record_sent :: "'r services \<Rightarrow> EmailJobMessage \<Rightarrow> string \<Rightarrow> int \<Rightarrow> ('r, DeliveryOutcome) io" where
  "record_sent E m mid lat =
     bind (complete E (msg_jobId m) (msg_attempt m)
             \<lparr>c_outcome = ''DELIVERED'', c_messageId = Some mid, c_errorCode = None, c_latencyMs = Some lat\<rparr>) (\<lambda>_.
     bind (inc_delivered (provider_name (msg_provider m))) (\<lambda>_.
     bind (observe_send lat) (\<lambda>_.
     bind (date_now E) (\<lambda>now.
     bind (observe_delivery (now - msg_publishedAt m)) (\<lambda>_.
     bind (date_now E) (\<lambda>now.
     bind (publishStatus E (status_event m DELIVERED (msg_attempt m) (Some mid) None now)) (\<lambda>_.
     Resolve ACK)))))))"

lemma record_sent_wp:
  assumes own: "own w1 m = Some ''PENDING''" and mails: "mails w1 = mails w @ [mail_of m]" and aside: "aside w1 = aside w"
  shows "wp (record_sent E m mid lat) (\<lambda>oc w'. oc = ACK \<and> (\<exists>t. sent_as m (Sent mid t) w w'))
     (\<lambda>e w'. unclassified e \<and> half_sent m w w') w1"
proof -
  note eqs = asideD [OF aside]
  have none: "\<exists>d. possible m d" "\<exists>d n. possible m d \<and> ps = ps @ take n (emitted m d)" for ps
    by (rule exI [of _ Skipped], simp)+
  have all: "\<exists>d. possible m d \<and> (\<exists>n. [status_publication m DELIVERED (msg_attempt m) (Some mid) None t] = take n (emitted m d))" for t
    by (rule exI [of _ "Sent mid t"], simp, rule exI [of _ 1], simp)
  show ?thesis
    unfolding record_sent_def wp_bind [of "complete _ _ _ _"]
  proof (rule wp_mono [OF wp_conj [OF complete_closing [OF own refl] complete_unclassified]], goal_cases)
    case (1 x w2)
    then have 2: "own w2 m = Some ''DELIVERED''" "mails w2 = mails w @ [mail_of m]" "published w2 = published w"
        "others_kept m w w2"
      using mails eqs by (auto simp: others_kept_def)
    then show ?case
      by (auto simp: wp_rules wp_publishStatus Let_def sent_as_def half_sent_def others_kept_def unclassified_def
          none all split: fate.split)
  next
    case (2 e w2)
    then show ?case
      using mails eqs own none by (auto simp: half_sent_def others_kept_def)
  qed
qed

lemma send_and_record_eq:
  "send_and_record E m startedAt =
     (case resolve E (msg_provider m) of
        Inl e \<Rightarrow> Reject e
      | Inr send \<Rightarrow>
          bind (send (toSendRequest m)) (\<lambda>result.
          bind (date_now E) (\<lambda>now.
          bind (breaker_recordSuccess (provider_name (msg_provider m))) (\<lambda>_.
          record_sent E m (providerMessageId result) (now - startedAt)))))"
  by (simp add: send_and_record_def record_sent_def status_event_def Let_def cong: sum.case_cong)

lemma resolve_cases:
  "resolve E p = Inr (smtp_send E) \<and> p = Smtp \<or> (\<exists>s. resolve E p = Inl (PermanentProviderError PROVIDER_REJECTED s)) \<and> p \<noteq> Smtp"
  by (cases p) (simp_all add: resolve_def provider_map_def)

lemma send_and_record_wp:
  assumes own: "own w m = Some ''PENDING''"
  shows "wp (send_and_record E m startedAt) (\<lambda>oc w'. oc = ACK \<and> (\<exists>mid t. sent_as m (Sent mid t) w w'))
     (\<lambda>e w'. classified e \<and> aside w' = aside w \<and> mails w' \<in> {mails w, mails w @ [mail_of m]} \<or>
             unclassified e \<and> half_sent m w w') w"
proof (cases "msg_provider m = Smtp")
  case True
  then have r: "resolve E (msg_provider m) = Inr (smtp_send E)" using resolve_cases [of E "msg_provider m"] by auto
  have tail: "wp (bind (date_now E) (\<lambda>now.
          bind (breaker_recordSuccess (provider_name (msg_provider m))) (\<lambda>_.
          record_sent E m mid (now - startedAt)))) (\<lambda>oc w'. oc = ACK \<and> (\<exists>mid t. sent_as m (Sent mid t) w w'))
     (\<lambda>e w'. classified e \<and> aside w' = aside w \<and> mails w' \<in> {mails w, mails w @ [mail_of m]} \<or>
             unclassified e \<and> half_sent m w w') w1"
    if "mails w1 = mails w @ [mail_of m]" and "aside w1 = aside w" for w1 mid
    unfolding wp_bind wp_date_now breaker_recordSuccess_def wp_modify
    by (rule wp_mono [OF record_sent_wp [of _ m w]]) (use that own asideD(4) [OF that(2)] in auto)
  show ?thesis
    unfolding send_and_record_eq r sum.case wp_bind [of "smtp_send _ _"]
    by (rule wp_mono [OF smtp.send_spec], rule tail) (auto simp: mail_of_def)
next
  case False
  then obtain s where "resolve E (msg_provider m) = Inl (PermanentProviderError PROVIDER_REJECTED s)"
    using resolve_cases [of E "msg_provider m"] by auto
  then show ?thesis
    by (simp add: send_and_record_eq wp_Reject classified_def permanent_codes_def)
qed

section \<open>The delivery\<close>

lemma partial_quiet:
  assumes "aside w' = aside w" and "mails w' = mails w"
  shows "partial m w w'"
  unfolding partial_def
  using assms(2) asideD [OF assms(1)]
  by (auto simp: others_kept_def intro!: exI [of _ Skipped] exI [of _ 0])

lemma defer_wp:
  assumes a: "aside w1 = aside w" and ml: "mails w1 = mails w" and tier: "tier = RATE_LIMIT_DEFER_TIER \<or> tier = BREAKER_DEFER_TIER"
  shows "wp (defer_message E m tier) (\<lambda>oc w'. oc = ACK \<and> accounts m (Deferred tier) w w') (\<lambda>_. partial m w) w1"
proof -
  note eqs = asideD [OF a]
  have "partial m w w'" if "published w' = published w @ take n (emitted m (Deferred tier))"
      "mails w' = mails w" "attempt_status w' = attempt_status w" for w' n
    unfolding partial_def
  proof (intro conjI)
    show "\<exists>d n k. possible m d \<and> published w' = published w @ take n (emitted m d) \<and> mails w' = mails w @ replicate k (mail_of m) \<and>
        k \<le> 1 \<and> (k = 1 \<longrightarrow> open_status (own w m))"
      by (rule exI [of _ "Deferred tier"], rule exI [of _ n], rule exI [of _ 0]) (use that tier in simp)
  qed (use that in \<open>simp_all add: others_kept_def\<close>)
  note one = this
  have sent: "partial m w (w1\<lparr>steps := n, published := published w @
      [publication_of (retryExchange TOPOLOGY) (retryQueueName tier) (message_text m) (Some (msg_jobId m))]\<rparr>)" for n
    by (rule one [of _ 1]) (simp_all add: eqs ml fun_eq_iff)
  have none: "partial m w w1" "partial m w (w1\<lparr>steps := n\<rparr>)" for n
    using a ml by (auto intro: partial_quiet)
  show ?thesis
    using tier sent none by (auto simp: defer_message_def wp_rules Let_def accounts_def eqs ml others_kept_def
      intro!: exI [of _ 0] split: fate.split)
qed

lemma accounts_of:
  assumes "open_status (own w m)" and "others_kept m w w1" and "published w1 = published w" and "mails w1 = mails w"
  shows "sent_as m (Sent mid t) w1 w' \<Longrightarrow> accounts m (Sent mid t) w w'"
    and "half_sent m w1 w' \<Longrightarrow> partial m w w'"
proof -
  show "sent_as m (Sent mid t) w1 w' \<Longrightarrow> accounts m (Sent mid t) w w'"
    using assms by (auto simp: sent_as_def accounts_def others_kept_def intro!: exI [of _ 1])
  assume h: "half_sent m w1 w'"
  then obtain d n where d: "possible m d" "published w' = published w1 @ take n (emitted m d)"
    by (auto simp: half_sent_def)
  show "partial m w w'"
    unfolding partial_def
  proof (intro conjI)
    show "\<exists>d n k. possible m d \<and> published w' = published w @ take n (emitted m d) \<and>
        mails w' = mails w @ replicate k (mail_of m) \<and> k \<le> 1 \<and> (k = 1 \<longrightarrow> open_status (own w m))"
      using d assms h by (intro exI [of _ d] exI [of _ n] exI [of _ 1]) (simp add: half_sent_def)
  qed (use h assms in \<open>auto simp: half_sent_def others_kept_def\<close>)
qed

lemma accounts_closed:
  assumes "open_status (own w m)" and "others_kept m w w1" and "published w1 = published w"
    and "mails w1 \<in> {mails w, mails w @ [mail_of m]}"
  shows "justified m d \<Longrightarrow> closed_as m d w1 w' \<Longrightarrow> accounts m d w w'"
    and "half_closed m w1 w' \<Longrightarrow> partial m w w'"
proof -
  obtain k where k: "mails w1 = mails w @ replicate k (mail_of m)" "k \<le> 1"
    using assms(4) by (elim insertE) (auto intro: that [of 0] that [of 1])
  show "accounts m d w w'" if "justified m d" and "closed_as m d w1 w'"
    using assms(1-3) k that
    by (cases d) (auto simp: closed_as_def accounts_def others_kept_def justified_def)
  show "partial m w w'" if "half_closed m w1 w'"
    using assms(1-3) k that unfolding half_closed_def partial_def others_kept_def by auto
qed

lemma process_wp:
  "wp (process E m) (\<lambda>oc w'. oc = ACK \<and> (\<exists>d. accounts m d w w') \<or> oc = REQUEUE \<and> partial m w w') (\<lambda>_. partial m w) w"
proof -
  let ?Q = "\<lambda>oc w'. oc = ACK \<and> (\<exists>d. accounts m d w w') \<or> oc = REQUEUE \<and> partial m w w'"
  let ?R = "\<lambda>_. partial m w"
  have attempt: "wp (try_catch (send_and_record E m startedAt) (\<lambda>error.
          bind (date_now E) (\<lambda>now. handleFailure E m error (now - startedAt)))) ?Q ?R w1"
    if op: "open_status (own w m)" and own: "own w1 m = Some ''PENDING''" and o: "others_kept m w w1"
      and p: "published w1 = published w" and ml: "mails w1 = mails w" for w1 startedAt
    unfolding wp_try_catch wp_bind wp_date_now
  proof (rule wp_mono [OF send_and_record_wp [OF own]], goal_cases)
    case (1 oc w')
    then show ?case using accounts_of(1) [OF op o p ml] by blast
  next
    case (2 e w')
    then show ?case
    proof (elim disjE conjE)
      assume e: "classified e" and a: "aside w' = aside w1" and ml': "mails w' \<in> {mails w1, mails w1 @ [mail_of m]}"
      let ?w2 = "w'\<lparr>steps := Suc (steps w')\<rparr>"
      have "own ?w2 m = Some ''PENDING''" using own asideD(4) [OF a] by simp
      moreover have c: "others_kept m w ?w2" "published ?w2 = published w" "mails ?w2 \<in> {mails w, mails w @ [mail_of m]}"
        using asideD [OF a] o p ml ml' by (simp_all add: others_kept_def)
      ultimately show ?thesis
        using e accounts_closed [OF op c] by (intro wp_mono [OF handleFailure_wp]) blast+
    next
      assume e: "unclassified e" and h: "half_sent m w1 w'"
      have "half_sent m w1 w2" if "aside w2 = aside (w'\<lparr>steps := Suc (steps w')\<rparr>)" "mails w2 = mails w'" for w2
        using h that(2) asideD [OF that(1)] by (simp add: half_sent_def others_kept_def)
      then show ?thesis
        using e by (intro wp_mono [OF handleFailure_unclassified])
          (auto simp: unclassified_def intro: accounts_of(2) [OF op o p ml])
    qed
  qed
  have reserved: "wp (bind (reserve E m) (\<lambda>reserved.
            if \<not> reserved then bind inc_duplicates (\<lambda>_. Resolve ACK)
            else bind (date_now E) (\<lambda>startedAt.
              try_catch (send_and_record E m startedAt) (\<lambda>error.
                bind (date_now E) (\<lambda>now. handleFailure E m error (now - startedAt)))))) ?Q ?R w1"
    if a: "aside w1 = aside w" and ml: "mails w1 = mails w" for w1
    unfolding wp_bind [of "reserve _ _"]
  proof (rule wp_mono [OF reserve_full], goal_cases)
    case (1 granted w2)
    then have o: "others_kept m w w2" and p: "published w2 = published w" and ml2: "mails w2 = mails w"
      using asideD [OF a] ml by (auto simp: others_kept_def ledger_only_other ledger_only_parts)
    show ?case
    proof (cases granted)
      case True
      have "open_status (own w m)" "own w2 m = Some ''PENDING''"
        using 1 True asideD [OF a] by (auto simp: open_status_def)
      then show ?thesis
        using True o p ml2 by (simp add: wp_bind wp_date_now attempt others_kept_def)
    next
      case False
      then have "accounts m Skipped w w2"
        using 1 asideD [OF a] o p ml2 by (auto simp: accounts_def open_status_def intro!: exI [of _ 0])
      then show ?thesis
        using False by (auto simp: wp_rules accounts_def others_kept_def intro!: exI [of _ Skipped])
    qed
  next
    case (2 e w2)
    then show ?case
      using asideD [OF a] ml
      by (auto simp: partial_def ledger_only_parts others_kept_def ledger_only_other open_status_def
          intro!: exI [of _ Skipped] exI [of _ 0])
  qed
  show ?thesis
    unfolding process_def Let_def wp_bind [of "acquire _ _"]
  proof (rule wp_mono [OF acquire_quiet], goal_cases)
    case (1 granted w1)
    show ?case
    proof (cases granted)
      case False
      then show ?thesis using 1 by (auto intro!: wp_mono [OF defer_wp])
    next
      case True
      have "wp (if isOpen then defer_message E m BREAKER_DEFER_TIER else
          bind (reserve E m) (\<lambda>reserved.
            if \<not> reserved then bind inc_duplicates (\<lambda>_. Resolve ACK)
            else bind (date_now E) (\<lambda>startedAt.
              try_catch (send_and_record E m startedAt) (\<lambda>error.
                bind (date_now E) (\<lambda>now. handleFailure E m error (now - startedAt)))))) ?Q ?R w2"
        if "aside w2 = aside w1" "mails w2 = mails w1" for isOpen w2
        using 1 that by (cases isOpen) (auto intro!: wp_mono [OF defer_wp] reserved [simplified])
      then show ?thesis
        using True by (simp only: if_False not_True_eq_False wp_bind [of "breaker_isOpen _ _"])
          (rule wp_mono [OF isOpen_quiet]; simp)
    qed
  next
    case (2 e w1)
    then show ?case by (simp add: partial_quiet)
  qed
qed

end
