(* ===== verification/EmailConsumer.thy ===== *)
theory EmailConsumer
  imports Delivery
begin

text \<open>
  \<^verbatim>\<open>delivery/email.consumer.ts\<close>: what happens to one message RabbitMQ hands to the worker,
  and the drain on shutdown. \<open>settled\<close> records the acknowledgements the channel took:
  \<open>(tag, True)\<close> for an \<open>ack\<close>, \<open>(tag, False)\<close> for a \<open>nack\<close> with requeue.
\<close>

definition DRAIN_TIMEOUT_MS :: int where
  "DRAIN_TIMEOUT_MS = 10000"

section \<open>Operations\<close>

definition settle :: "'r services \<Rightarrow> ConsumeMessage \<Rightarrow> bool \<Rightarrow> ('r, unit) io" where
  "settle E raw ack = try_catch (channel_settle E raw ack) (\<lambda>_. Resolve ())"

definition dead_letter_raw :: "'r services \<Rightarrow> ConsumeMessage \<Rightarrow> ('r, DeliveryOutcome) io" where
  "dead_letter_raw E raw =
     bind (publish E (deadLetterExchange TOPOLOGY) (deadLetterRoutingKey TOPOLOGY) (raw_content raw) None) (\<lambda>_.
       Resolve ACK)"

definition process_raw :: "'r services \<Rightarrow> ConsumeMessage \<Rightarrow> ('r, DeliveryOutcome) io" where
  "process_raw E raw =
     (case json_parse (raw_content raw) of
        None \<Rightarrow> dead_letter_raw E raw
      | Some payload \<Rightarrow>
          (case emailJobMessageSchema (zod_formats E) payload of
             Inl _ \<Rightarrow> dead_letter_raw E raw
           | Inr message \<Rightarrow> process E message))"

definition add_inFlight :: "int \<Rightarrow> ('r, unit) io" where
  "add_inFlight n = modify (\<lambda>w. w\<lparr>inFlight := inFlight w + n\<rparr>)"

definition handle :: "'r services \<Rightarrow> ConsumeMessage option \<Rightarrow> ('r, unit) io" where
  "handle E raw =
     (case raw of
        None \<Rightarrow> Resolve ()
      | Some raw \<Rightarrow>
          bind (get channel) (\<lambda>ready.
            if \<not> ready then Resolve ()
            else bind (add_inFlight 1) (\<lambda>_.
              try_finally
                (try_catch
                  (bind (process_raw E raw) (\<lambda>outcome. settle E raw (outcome = ACK)))
                  (\<lambda>_. settle E raw False))
                (add_inFlight (- 1)))))"

text \<open>
  The loop of \<open>onModuleDestroy\<close>, \<open>True\<close> when it has left the loop within \<open>fuel\<close> rounds;
  a round that goes on waits 100 ms.
\<close>

definition delay :: "'r services \<Rightarrow> ('r, unit) io" where
  "delay E = Await (\<lambda>w. (Resolve (), w\<lparr>steps := Suc (steps w)\<rparr>))"

primrec drain_loop :: "nat \<Rightarrow> 'r services \<Rightarrow> int \<Rightarrow> ('r, bool) io" where
  "drain_loop 0 E deadline = Resolve False"
| "drain_loop (Suc fuel) E deadline =
     bind (get inFlight) (\<lambda>n.
       if n \<le> 0 then Resolve True
       else bind (date_now E) (\<lambda>now.
         if now < deadline then bind (delay E) (\<lambda>_. drain_loop fuel E deadline) else Resolve True))"

definition drain :: "nat \<Rightarrow> 'r services \<Rightarrow> ('r, bool) io" where
  "drain fuel E = bind (date_now E) (\<lambda>now. drain_loop fuel E (now + DRAIN_TIMEOUT_MS))"

section \<open>Settling\<close>

lemma wp_settle [wp_rules]:
  "wp (settle E raw ack) Q R w \<longleftrightarrow>
     (let w1 = w\<lparr>steps := Suc (steps w)\<rparr> in
      Q () (if ack_throws E (steps w) then w1 else w1\<lparr>settled := settled w @ [(raw_deliveryTag raw, ack)]\<rparr>))"
  by (simp add: settle_def channel_settle_def wp_rules Let_def)

lemma wp_add_inFlight [wp_rules]:
  "wp (add_inFlight n) Q R w \<longleftrightarrow> Q () (w\<lparr>inFlight := inFlight w + n\<rparr>)"
  by (simp add: add_inFlight_def wp_rules)

text \<open>A delivery does not settle anything itself and leaves the in-flight counter alone.\<close>

definition unsettled :: "'r world \<Rightarrow> 'r world \<Rightarrow> bool" where
  "unsettled w w' \<longleftrightarrow> settled w' = settled w \<and> inFlight w' = inFlight w \<and> jobs w' = jobs w"

interpretation unsettled: frame_relation unsettled
  by unfold_locales (simp_all add: unsettled_def)

lemma unsettled_aside: "aside w' = aside w \<Longrightarrow> unsettled w w'"
  by (simp add: unsettled_def aside_def)

lemma unsettled_ledger_only: "ledger_only j a w w' \<Longrightarrow> unsettled w w'"
  by (auto simp: unsettled_def ledger_only_def)

lemma unsettled_parts:
  "keeps unsettled (date_now E)" "keeps unsettled (breaker_recordSuccess p)"
  "keeps unsettled (inc_delivered p)" "keeps unsettled (inc_retried p)"
  "keeps unsettled (inc_deadLettered p)" "keeps unsettled inc_duplicates"
  "keeps unsettled (observe_send ms)" "keeps unsettled (observe_delivery ms)"
  by (auto intro!: keepsI simp: wp_rules unsettled_def breaker_recordSuccess_def)

lemma unsettled_publish: "keeps unsettled (publish E ex key c mid)"
  by (rule keepsI) (simp add: wp_publish Let_def unsettled_def split: fate.split)

lemma unsettled_calls:
  "keeps unsettled (acquire E k)" "keeps unsettled (breaker_isOpen E k)"
  "keeps unsettled (breaker_recordFailure E k)" "keeps unsettled (smtp_send E r)"
  by (auto intro!: keepsI intro: unsettled_aside wp_mono [OF acquire_quiet] wp_mono [OF isOpen_quiet]
      wp_mono [OF recordFailure_quiet] wp_mono [OF smtp.send_spec])

lemma unsettled_guard: "keeps unsettled (reserve E m)" "keeps unsettled (complete E j a c)"
  by (auto intro!: keepsI intro: unsettled_ledger_only wp_mono [OF reserve_ledger_only]
      wp_mono [OF complete_ledger_only])

lemmas unsettled_intros = unsettled.keeps_intros unsettled_parts unsettled_publish unsettled_calls unsettled_guard

lemma unsettled_deadLetter: "keeps unsettled (deadLetter E m c d lat)"
  unfolding deadLetter_def publishStatus_def by (intro unsettled_intros)

lemma unsettled_handleFailure: "keeps unsettled (handleFailure E m e lat)"
  unfolding handleFailure_def publishStatus_def
  by (cases e; cases "decideFailureAction (msg_attempt m)")
    (simp_all, (intro unsettled_intros unsettled_deadLetter)+)

lemma unsettled_send: "keeps unsettled (send_and_record E m s)"
proof (cases "msg_provider m = Smtp")
  case True
  then have "resolve E (msg_provider m) = Inr (smtp_send E)" using resolve_cases [of E "msg_provider m"] by auto
  then show ?thesis
    by (simp add: send_and_record_def Let_def publishStatus_def) (intro unsettled_intros)
next
  case False
  then obtain s where "resolve E (msg_provider m) = Inl (PermanentProviderError PROVIDER_REJECTED s)"
    using resolve_cases [of E "msg_provider m"] by auto
  then show ?thesis
    by (simp add: send_and_record_def unsettled.keeps_Reject)
qed

lemma unsettled_process: "keeps unsettled (process E m)"
  unfolding process_def defer_message_def Let_def
  by (intro unsettled_intros unsettled_send unsettled_handleFailure)

lemma unsettled_process_raw: "keeps unsettled (process_raw E raw)"
  unfolding process_raw_def dead_letter_raw_def
  by (intro unsettled_intros unsettled_process)

section \<open>What the handler guarantees\<close>

text \<open>One message with a channel open: the run of the handler in terms of the run of the delivery.\<close>

definition entered :: "'r world \<Rightarrow> 'r world" where
  "entered w = w\<lparr>inFlight := inFlight w + 1\<rparr>"

lemma handle_run:
  assumes "channel w"
  shows "run (handle E (Some raw)) w =
    (case run (process_raw E raw) (entered w) of (res, w1) \<Rightarrow>
       (Inr (), w1\<lparr>steps := Suc (steps w1), inFlight := inFlight w,
          settled := settled w @ (if ack_throws E (steps w1) then [] else [(raw_deliveryTag raw, res = Inr ACK)])\<rparr>))"
proof -
  obtain res w1 where r: "run (process_raw E raw) (entered w) = (res, w1)" by fastforce
  have "unsettled (entered w) w1"
    using keeps_run [OF unsettled_process_raw [of E raw], of "entered w"] r by simp
  then have u: "settled w1 = settled w" "inFlight w1 = inFlight w + 1"
    by (simp_all add: unsettled_def entered_def)
  have "wp (process_raw E raw) (\<lambda>x w'. res = Inr x \<and> w' = w1) (\<lambda>e w'. res = Inl e \<and> w' = w1) (entered w)"
    using r by (auto simp: wp_def split: sum.splits)
  note p = this [unfolded entered_def]
  have "wp (handle E (Some raw)) (\<lambda>_ w'. w' = w1\<lparr>steps := Suc (steps w1), inFlight := inFlight w,
          settled := settled w @ (if ack_throws E (steps w1) then [] else [(raw_deliveryTag raw, res = Inr ACK)])\<rparr>)
      (\<lambda>_ _. False) w"
    unfolding handle_def option.case wp_bind [of "get channel"] wp_get using assms
    by (simp add: wp_bind [of "add_inFlight 1"] wp_add_inFlight wp_try_finally wp_try_catch wp_bind)
      (intro conjI impI; rule wp_mono [OF p]; simp add: wp_settle wp_add_inFlight Let_def u(2) u(1) [symmetric])
  then show ?thesis
    by (auto simp: r wp_def split: prod.splits sum.splits)
qed

lemma handle_idle:
  "run (handle E None) w = (Inr (), w)"
  "\<not> channel w \<Longrightarrow> run (handle E (Some raw)) w = (Inr (), w)"
  by (simp_all add: handle_def run_bind run_get)

text \<open>Whatever the message was, an acknowledged one has been accounted for.\<close>

definition accounted :: "'r services \<Rightarrow> ConsumeMessage \<Rightarrow> 'r world \<Rightarrow> 'r world \<Rightarrow> bool" where
  "accounted E raw w w' \<longleftrightarrow>
     (case Option.bind (json_parse (raw_content raw)) (\<lambda>payload.
             case emailJobMessageSchema (zod_formats E) payload of Inl _ \<Rightarrow> None | Inr m \<Rightarrow> Some m) of
        None \<Rightarrow>
          published w' = published w @
            [publication_of (deadLetterExchange TOPOLOGY) (deadLetterRoutingKey TOPOLOGY) (raw_content raw) None] \<and>
          mails w' = mails w \<and> attempt_status w' = attempt_status w
      | Some m \<Rightarrow> \<exists>d. accounts m d w w')"

lemma dead_letter_raw_run:
  "run (dead_letter_raw E raw) w = (Inr ACK, w') \<Longrightarrow>
     published w' = published w @
       [publication_of (deadLetterExchange TOPOLOGY) (deadLetterRoutingKey TOPOLOGY) (raw_content raw) None] \<and>
     mails w' = mails w \<and> attempt_status w' = attempt_status w"
proof -
  have "wp (dead_letter_raw E raw) (\<lambda>_ w'. published w' = published w @
       [publication_of (deadLetterExchange TOPOLOGY) (deadLetterRoutingKey TOPOLOGY) (raw_content raw) None] \<and>
     mails w' = mails w \<and> attempt_status w' = attempt_status w) (\<lambda>_ _. True) w"
    by (auto simp: dead_letter_raw_def wp_rules Let_def attempt_status_def fun_eq_iff split: fate.split)
  then show "run (dead_letter_raw E raw) w = (Inr ACK, w') \<Longrightarrow> ?thesis" by (rule wp_runD)
qed

lemma process_raw_accounted:
  assumes "run (process_raw E raw) w = (Inr ACK, w')"
  shows "accounted E raw w w'"
proof (cases "json_parse (raw_content raw)")
  case None
  then show ?thesis
    using assms dead_letter_raw_run [of E raw w w'] by (simp add: process_raw_def accounted_def)
next
  case (Some payload)
  show ?thesis
  proof (cases "emailJobMessageSchema (zod_formats E) payload")
    case (Inl e)
    then show ?thesis
      using assms Some dead_letter_raw_run [of E raw w w'] by (simp add: process_raw_def accounted_def)
  next
    case (Inr m)
    then have "run (process E m) w = (Inr ACK, w')" using assms Some by (simp add: process_raw_def)
    then show ?thesis
      using wp_runD(1) [OF process_wp] Some Inr by (fastforce simp: accounted_def)
  qed
qed

text \<open>An acknowledged message, from the handler's point of view.\<close>

lemma handle_cases:
  assumes "channel w"
  obtains w' where "run (handle E (Some raw)) w = (Inr (), w')" and "inFlight w' = inFlight w"
    and "settled w' = settled w \<or> settled w' = settled w @ [(raw_deliveryTag raw, False)] \<or>
     settled w' = settled w @ [(raw_deliveryTag raw, True)] \<and> accounted E raw w w'"
proof -
  obtain res w1 where r: "run (process_raw E raw) (entered w) = (res, w1)" by fastforce
  let ?w' = "w1\<lparr>steps := Suc (steps w1), inFlight := inFlight w,
      settled := settled w @ (if ack_throws E (steps w1) then [] else [(raw_deliveryTag raw, res = Inr ACK)])\<rparr>"
  have 1: "run (handle E (Some raw)) w = (Inr (), ?w')" using handle_run [OF assms, of E raw] r by simp
  have 2: "accounted E raw w ?w'" if "res = Inr ACK"
    using process_raw_accounted [of E raw "entered w" w1] r that
    by (simp add: accounted_def accounts_def others_kept_def attempt_status_def entered_def fun_eq_iff
        split: option.splits)
  have 3: "settled ?w' = settled w \<or> settled ?w' = settled w @ [(raw_deliveryTag raw, False)] \<or>
     settled ?w' = settled w @ [(raw_deliveryTag raw, True)] \<and> accounted E raw w ?w'"
    using 2 by (cases "res = Inr ACK") auto
  show thesis by (rule that [OF 1 _ 3]) simp
qed

lemma handle_acknowledged:
  assumes "channel w" and "run (handle E (Some raw)) w = (Inr (), w')"
    and "settled w' = settled w @ [(raw_deliveryTag raw, True)]"
  shows "accounted E raw w w'"
  using handle_cases [OF assms(1), of E raw] assms(2,3) by auto

section \<open>Draining on shutdown\<close>

text \<open>The clock read in each round has advanced by at least the 100 ms waited.\<close>

definition ticking :: "'r services \<Rightarrow> nat \<Rightarrow> bool" where
  "ticking E s \<longleftrightarrow> (\<forall>i. clock E (s + 2 * i) + 100 \<le> clock E (s + 2 * Suc i))"

lemma ticking_later: "ticking E s \<Longrightarrow> ticking E (Suc (Suc s))"
  unfolding ticking_def by (metis add_Suc add_Suc_right mult_Suc_right numeral_2_eq_2 add_0)

lemma drain_loop_ends:
  assumes "ticking E (steps w)" and "deadline \<le> clock E (steps w) + 100 * int fuel"
  shows "wp (drain_loop (Suc fuel) E deadline) (\<lambda>left w'. left \<and> inFlight w' = inFlight w) (\<lambda>_ _. False) w"
  using assms
proof (induction fuel arbitrary: w)
  case 0
  then show ?case by (simp add: wp_rules)
next
  case (Suc fuel)
  let ?w2 = "w\<lparr>steps := Suc (Suc (steps w))\<rparr>"
  have t: "ticking E (steps ?w2)" using ticking_later [OF Suc.prems(1)] by simp
  have "clock E (steps w) + 100 \<le> clock E (steps ?w2)"
    using Suc.prems(1) [unfolded ticking_def, THEN spec, of 0] by (simp add: numeral_2_eq_2)
  then have "deadline \<le> clock E (steps ?w2) + 100 * int fuel" using Suc.prems(2) by simp
  from Suc.IH [OF t this]
  have "wp (drain_loop (Suc fuel) E deadline) (\<lambda>left w'. left \<and> inFlight w' = inFlight w) (\<lambda>_ _. False) ?w2"
    by simp
  then show ?case
    by (simp only: drain_loop.simps(2) [of "Suc fuel"])
      (simp add: wp_rules delay_def wp_Await del: drain_loop.simps)
qed

text \<open>With a clock that ticks from its start on, the drain is over after 101 rounds.\<close>

lemma drain_wp:
  assumes "ticking E (Suc (steps w))" and "clock E (steps w) \<le> clock E (Suc (steps w))"
  shows "wp (drain 101 E) (\<lambda>left w'. left \<and> inFlight w' = inFlight w) (\<lambda>_ _. False) w"
proof -
  let ?w = "w\<lparr>steps := Suc (steps w)\<rparr>"
  have "wp (drain_loop (Suc 100) E (clock E (steps w) + DRAIN_TIMEOUT_MS)) (\<lambda>left w'. left \<and> inFlight w' = inFlight ?w) (\<lambda>_ _. False) ?w"
    by (rule drain_loop_ends) (use assms in \<open>simp_all add: DRAIN_TIMEOUT_MS_def\<close>)
  then show ?thesis by (simp add: drain_def wp_bind wp_date_now numeral_eq_Suc del: drain_loop.simps)
qed

end
