(* ===== verification/EmailJobs.thy ===== *)
theory EmailJobs
  imports Services
begin

text \<open>
  The API's side of a job, \<^verbatim>\<open>src/email-jobs\<close>: the repository over the table \<open>email_jobs\<close>, the
  publisher, the service with \<open>submit\<close> and \<open>getStatus\<close>, and the response it builds. The ports of
  \<^verbatim>\<open>ports.ts\<close> are the locale \<open>job_repository\<close>, interpreted on the repository.
\<close>

section \<open>Repository\<close>

record EmailJobRecord =
  rec_id :: string
  rec_idempotencyKey :: string
  rec_status :: string
  rec_createdAt :: int

definition toRecord :: "EmailJob \<Rightarrow> EmailJobRecord" where
  "toRecord job =
     \<lparr>rec_id = ej_id job, rec_idempotencyKey = ej_idempotencyKey job,
      rec_status = job_status_name (ej_status job), rec_createdAt = ej_createdAt job\<rparr>"

text \<open>One query on the API database; the statement sees the time at which it runs.\<close>

definition prisma_query :: "'r services \<Rightarrow> (int \<Rightarrow> job_table \<Rightarrow> (string + 'a) \<times> job_table) \<Rightarrow> ('r, 'a) io" where
  "prisma_query E statement =
     call E (\<lambda>w. map_prod id (\<lambda>t. w\<lparr>jobs := t\<rparr>) (statement (clock E (steps w)) (jobs w)))"

definition repo_create :: "'r services \<Rightarrow> CreateJobInput \<Rightarrow> ('r, EmailJobRecord) io" where
  "repo_create E input = bind (prisma_query E (prisma_create input)) (\<lambda>job. Resolve (toRecord job))"

definition findById :: "'r services \<Rightarrow> string \<Rightarrow> ('r, EmailJobRecord option) io" where
  "findById E i =
     bind (prisma_query E (\<lambda>_ t. (Inr (prisma_findUnique i t), t))) (\<lambda>job. Resolve (map_option toRecord job))"

definition markPublished :: "'r services \<Rightarrow> string \<Rightarrow> ('r, unit) io" where
  "markPublished E i = prisma_query E (\<lambda>now. prisma_update i (publishedData now))"

definition markDelivered :: "'r services \<Rightarrow> string \<Rightarrow> ('r, unit) io" where
  "markDelivered E i =
     bind (date_now E) (\<lambda>now. prisma_query E (\<lambda>_ t. (Inr (), prisma_updateMany i (deliveredData now) t)))"

definition markRetryScheduled :: "'r services \<Rightarrow> string \<Rightarrow> ('r, unit) io" where
  "markRetryScheduled E i = prisma_query E (\<lambda>now t. (Inr (), prisma_updateMany i (retryScheduledData now) t))"

definition markDeadLettered :: "'r services \<Rightarrow> string \<Rightarrow> string option \<Rightarrow> ('r, unit) io" where
  "markDeadLettered E i errorCode =
     prisma_query E (\<lambda>now t. (Inr (), prisma_updateMany i (deadLetteredData errorCode now) t))"

section \<open>Publisher\<close>

text \<open>The members in the order in which \<open>submit\<close> writes them.\<close>

definition submitted_members :: "EmailJobMessage \<Rightarrow> (string \<times> js_value) list" where
  "submitted_members m =
     [(''jobId'', JsString (msg_jobId m)), (''tenantId'', JsString (msg_tenantId m)),
      (''provider'', JsString (provider_name (msg_provider m))), (''attempt'', JsNumber (msg_attempt m)),
      (''publishedAt'', JsNumber (msg_publishedAt m)), (''from'', JsString (msg_from m)),
      (''to'', JsString (msg_to m)), (''subject'', JsString (msg_subject m)),
      (''text'', JsString (msg_text m)), (''html'', js_optional (msg_html m))]"

definition publish_job :: "'r services \<Rightarrow> EmailJobMessage \<Rightarrow> ('r, unit) io" where
  "publish_job E message =
     publish E (exchange TOPOLOGY) (routingKey TOPOLOGY) (json_stringify (submitted_members message))
       (Some (msg_jobId message))"

section \<open>Response\<close>

record EmailJobResponse =
  res_id :: string
  res_status :: string
  res_createdAt :: string
  res_duplicate :: bool

text \<open>
  \<open>Date.prototype.toISOString\<close>: the proleptic Gregorian date and the time in UTC. Years are
  counted from March, so that the leap day is the last of its year; an era has 400 years.
\<close>

definition civil_from_days :: "int \<Rightarrow> int \<times> int \<times> int" where
  "civil_from_days days =
     (let z = days + 719468;
          era = z div 146097;
          doe = z mod 146097;
          yoe = (doe - doe div 1460 + doe div 36524 - doe div 146096) div 365;
          doy = doe - (365 * yoe + yoe div 4 - yoe div 100);
          mp = (5 * doy + 2) div 153;
          d = doy - (153 * mp + 2) div 5 + 1;
          m = (if mp < 10 then mp + 3 else mp - 9);
          y = yoe + era * 400
      in (if m \<le> 2 then y + 1 else y, m, d))"

definition pad :: "nat \<Rightarrow> int \<Rightarrow> string" where
  "pad n i = (let s = show_int i in replicate (n - length s) (CHR ''0'') @ s)"

definition toISOString :: "int \<Rightarrow> string" where
  "toISOString t =
     (let days = t div 86400000;
          ms = t mod 86400000;
          year = (\<lambda>y. if 0 \<le> y \<and> y \<le> 9999 then pad 4 y
                      else if y < 0 then ''-'' @ pad 6 (- y) else ''+'' @ pad 6 y)
      in case civil_from_days days of (y, m, d) \<Rightarrow>
           year y @ ''-'' @ pad 2 m @ ''-'' @ pad 2 d @ ''T''
           @ pad 2 (ms div 3600000) @ '':'' @ pad 2 (ms div 60000 mod 60) @ '':''
           @ pad 2 (ms div 1000 mod 60) @ ''.'' @ pad 3 (ms mod 1000) @ ''Z'')"

definition toEmailJobResponse :: "EmailJobRecord \<Rightarrow> bool \<Rightarrow> EmailJobResponse" where
  "toEmailJobResponse job duplicate =
     \<lparr>res_id = rec_id job, res_status = rec_status job,
      res_createdAt = toISOString (rec_createdAt job), res_duplicate = duplicate\<rparr>"

section \<open>Service\<close>

definition IDEMPOTENCY_TTL_SECONDS :: nat where
  "IDEMPOTENCY_TTL_SECONDS = 86400"

definition idem_key :: "string \<Rightarrow> string" where
  "idem_key idempotencyKey = ''idem:'' @ idempotencyKey"

definition redis_set_nx :: "'r services \<Rightarrow> string \<Rightarrow> string \<Rightarrow> ('r, bool) io" where
  "redis_set_nx E key v =
     call E (\<lambda>w. case redis_set_nx_ex E (redis w) key v IDEMPOTENCY_TTL_SECONDS of
                   (ok, r) \<Rightarrow> (Inr ok, w\<lparr>redis := r\<rparr>))"

definition redis_read :: "'r services \<Rightarrow> string \<Rightarrow> ('r, string option) io" where
  "redis_read E key = call E (\<lambda>w. (Inr (redis_get E (redis w) key), w))"

definition redis_delete :: "'r services \<Rightarrow> string \<Rightarrow> ('r, unit) io" where
  "redis_delete E key = call E (\<lambda>w. (Inr (), w\<lparr>redis := redis_del E (redis w) key\<rparr>))"

definition create_input :: "string \<Rightarrow> string \<Rightarrow> ProviderName \<Rightarrow> SubmitEmailJobBody \<Rightarrow> CreateJobInput" where
  "create_input jobId idempotencyKey prov body =
     \<lparr>in_id = jobId, in_idempotencyKey = idempotencyKey, in_tenantId = body_tenantId body,
      in_from = body_from body, in_to = body_to body, in_subject = body_subject body,
      in_text = body_text body, in_html = body_html body, in_provider = provider_name prov\<rparr>"

definition job_message :: "string \<Rightarrow> ProviderName \<Rightarrow> int \<Rightarrow> SubmitEmailJobBody \<Rightarrow> EmailJobMessage" where
  "job_message jobId prov now body =
     \<lparr>msg_tenantId = body_tenantId body, msg_from = body_from body, msg_to = body_to body,
      msg_subject = body_subject body, msg_text = body_text body, msg_html = body_html body,
      msg_jobId = jobId, msg_provider = prov, msg_attempt = 0, msg_publishedAt = now\<rparr>"

text \<open>The empty identifier is falsy, as an absent one is; \<open>job!\<close> on a missing row throws.\<close>

definition lookup_existing :: "'r services \<Rightarrow> string \<Rightarrow> ('r, EmailJobResponse) io" where
  "lookup_existing E key =
     bind (redis_read E key) (\<lambda>existingId.
     bind (case existingId of
             None \<Rightarrow> Resolve None
           | Some i \<Rightarrow> if i = [] then Resolve None else findById E i) (\<lambda>job.
     case job of
       Some job \<Rightarrow> Resolve (toEmailJobResponse job True)
     | None \<Rightarrow> Reject (HttpException 409
                 (MessageBody ''a request with this idempotency key is already in progress''))))"

definition submit :: "'r services \<Rightarrow> string \<Rightarrow> SubmitEmailJobBody \<Rightarrow> ('r, EmailJobResponse) io" where
  "submit E idempotencyKey body =
     bind (randomUUID E) (\<lambda>jobId.
     let key = idem_key idempotencyKey in
     bind (redis_set_nx E key jobId) (\<lambda>acquired.
     if \<not> acquired then lookup_existing E key
     else
       let prov = (case body_provider body of None \<Rightarrow> Smtp | Some p \<Rightarrow> p) in
       bind (repo_create E (create_input jobId idempotencyKey prov body)) (\<lambda>_.
       bind (date_now E) (\<lambda>now.
       bind (try_catch
               (bind (publish_job E (job_message jobId prov now body)) (\<lambda>_.
                bind (markPublished E jobId) (\<lambda>_.
                inc_submitted)))
               (\<lambda>error. bind (redis_delete E key) (\<lambda>_.
                  Reject (HttpException 503
                    (MessageBody ''submission failed, retry with the same idempotency key''))))) (\<lambda>_.
       bind (findById E jobId) (\<lambda>job.
       case job of
         Some job \<Rightarrow> Resolve (toEmailJobResponse job False)
       | None \<Rightarrow> Reject (JsError None ''Cannot read properties of null (reading 'id')'')))))))"

definition getStatus :: "'r services \<Rightarrow> string \<Rightarrow> ('r, EmailJobResponse) io" where
  "getStatus E i =
     bind (findById E i) (\<lambda>job.
       case job of
         None \<Rightarrow> Reject (HttpException 404 (MessageBody ''email job not found''))
       | Some job \<Rightarrow> Resolve (toEmailJobResponse job False))"

section \<open>The repository port\<close>

lemma wp_prisma_query [wp_rules]:
  "wp (prisma_query E f) Q R w \<longleftrightarrow>
     (let w1 = w\<lparr>steps := Suc (steps w)\<rparr> in
      case f (clock E (Suc (steps w))) (jobs w) of (res, t) \<Rightarrow>
        (case fate E (steps w) of
           Completes \<Rightarrow> (case res of Inl e \<Rightarrow> R (JsError None e) (w1\<lparr>jobs := t\<rparr>) | Inr x \<Rightarrow> Q x (w1\<lparr>jobs := t\<rparr>))
         | Refused e \<Rightarrow> R (JsError None e) w1
         | ReplyLost e \<Rightarrow> R (JsError None e) (w1\<lparr>jobs := t\<rparr>)))"
  by (auto simp: prisma_query_def wp_call Let_def split: prod.splits fate.splits sum.splits)

text \<open>
  What the service and the status consumer rely on: a map from identifiers to records, in
  which creating adds one entry that was not there, finding reads, and each mark sets the
  status of one entry if it exists. A failed call may have taken effect or not.
\<close>

definition with_status :: "EmailJobStatus \<Rightarrow> EmailJobRecord \<Rightarrow> EmailJobRecord" where
  "with_status s r = r\<lparr>rec_status := job_status_name s\<rparr>"

locale job_repository =
  fixes create :: "CreateJobInput \<Rightarrow> ('w, 'e, EmailJobRecord) async"
    and find :: "string \<Rightarrow> ('w, 'e, EmailJobRecord option) async"
    and mark :: "EmailJobStatus \<Rightarrow> string option \<Rightarrow> string \<Rightarrow> ('w, 'e, unit) async"
    and view :: "'w \<Rightarrow> string \<Rightarrow> EmailJobRecord option"
  assumes create_spec:
    "wp (create i)
       (\<lambda>r w'. view w (in_id i) = None \<and> view w' = (view w)(in_id i \<mapsto> r) \<and>
               rec_id r = in_id i \<and> rec_idempotencyKey r = in_idempotencyKey i \<and>
               rec_status r = job_status_name QUEUED)
       (\<lambda>_ w'. \<forall>k. k \<noteq> in_id i \<or> view w k \<noteq> None \<longrightarrow> view w' k = view w k) w"
    and find_spec:
    "wp (find k) (\<lambda>r w'. r = view w k \<and> view w' = view w) (\<lambda>_ w'. view w' = view w) w"
    and mark_spec:
    "wp (mark s c k)
       (\<lambda>_ w'. view w' = (view w)(k := map_option (with_status s) (view w k)))
       (\<lambda>_ w'. view w' \<in> {view w, (view w)(k := map_option (with_status s) (view w k))}) w"
begin

lemma create_mark_find:
  "wp (bind (create i) (\<lambda>_. bind (mark s c (in_id i)) (\<lambda>_. find (in_id i))))
     (\<lambda>r _. \<exists>x. r = Some x \<and> rec_id x = in_id i \<and> rec_status x = job_status_name s) (\<lambda>_ _. True) w"
  unfolding wp_bind
  by (rule wp_mono [OF create_spec], rule wp_mono [OF mark_spec], rule wp_mono [OF find_spec])
    (auto simp: with_status_def)

text \<open>Marks never create an entry, and the last one in a sequence decides the status.\<close>

lemma mark_keeps_domain:
  "wp (mark s c k) (\<lambda>_ w'. dom (view w') = dom (view w)) (\<lambda>_ w'. dom (view w') = dom (view w)) w"
  by (rule wp_mono [OF mark_spec]) (auto split: if_splits)

lemma last_mark_wins:
  assumes "view w k \<noteq> None"
  shows "wp (for_each (xs @ [(s, c)]) (\<lambda>(s, c). mark s c k))
     (\<lambda>_ w'. map_option rec_status (view w' k) = Some (job_status_name s)) (\<lambda>_ _. True) w"
  using assms
proof (induction xs arbitrary: w)
  case Nil
  then show ?case by (auto simp: wp_rules with_status_def intro!: wp_mono [OF mark_spec])
next
  case (Cons x xs)
  obtain s' c' where x: "x = (s', c')" by fastforce
  show ?case
    by (simp add: x wp_bind, rule wp_mono [OF mark_spec]) (use Cons in auto)
qed

end

definition job_view :: "'r world \<Rightarrow> string \<Rightarrow> EmailJobRecord option" where
  "job_view w k = map_option toRecord (prisma_findUnique k (jobs w))"

definition mark :: "'r services \<Rightarrow> EmailJobStatus \<Rightarrow> string option \<Rightarrow> string \<Rightarrow> ('r, unit) io" where
  "mark E s errorCode i =
     (case s of
        JOB_DELIVERED \<Rightarrow> markDelivered E i
      | JOB_RETRY_SCHEDULED \<Rightarrow> markRetryScheduled E i
      | JOB_DEAD_LETTERED \<Rightarrow> markDeadLettered E i errorCode
      | PUBLISHED \<Rightarrow> markPublished E i
      | _ \<Rightarrow> Reject (JsError None ''no such operation''))"

lemma view_updateMany:
  assumes "keeps_keys f" and "\<And>r. toRecord (f r) = with_status s (toRecord r)"
  shows "(\<lambda>k. map_option toRecord (prisma_findUnique k (prisma_updateMany i f t)))
    = (\<lambda>k. map_option toRecord (prisma_findUnique k t))(i := map_option (with_status s) (map_option toRecord (prisma_findUnique i t)))"
  by (rule ext) (simp add: findUnique_updateMany [OF assms(1)] assms(2) option.map_comp comp_def)

lemma toRecord_data:
  "toRecord (publishedData now r) = with_status PUBLISHED (toRecord r)"
  "toRecord (deliveredData now r) = with_status JOB_DELIVERED (toRecord r)"
  "toRecord (retryScheduledData now r) = with_status JOB_RETRY_SCHEDULED (toRecord r)"
  "toRecord (deadLetteredData c now r) = with_status JOB_DEAD_LETTERED (toRecord r)"
  by (simp_all add: toRecord_def with_status_def publishedData_def deliveredData_def retryScheduledData_def
      deadLetteredData_def Let_def split: option.split)

lemmas view_data =
  view_updateMany [OF keeps_keys_data(1) toRecord_data(1)]
  view_updateMany [OF keeps_keys_data(2) toRecord_data(2)]
  view_updateMany [OF keeps_keys_data(3) toRecord_data(3)]
  view_updateMany [OF keeps_keys_data(4) toRecord_data(4)]

lemma job_view_fun: "job_view w = (\<lambda>k. map_option toRecord (prisma_findUnique k (jobs w)))"
  by (simp add: job_view_def fun_eq_iff)

interpretation repo: job_repository "repo_create E" "findById E" "mark E" job_view for E
proof
  show "wp (repo_create E i)
       (\<lambda>r w'. job_view w (in_id i) = None \<and> job_view w' = (job_view w)(in_id i \<mapsto> r) \<and>
               rec_id r = in_id i \<and> rec_idempotencyKey r = in_idempotencyKey i \<and>
               rec_status r = job_status_name QUEUED)
       (\<lambda>_ w'. \<forall>k. k \<noteq> in_id i \<or> job_view w k \<noteq> None \<longrightarrow> job_view w' k = job_view w k) w" for i w
  proof (cases "prisma_create i (clock E (Suc (steps w))) (jobs w)")
    case (Pair res t)
    show ?thesis
    proof (cases res)
      case (Inl e)
      then have "t = jobs w" using Pair by (auto simp: prisma_create_def split: if_splits)
      then show ?thesis
        by (simp add: repo_create_def wp_bind wp_prisma_query Pair Inl Let_def job_view_def split: fate.split)
    next
      case (Inr j)
      note c = findUnique_create [OF Pair [unfolded Inr]]
      have fresh: "prisma_findUnique (in_id i) (jobs w) = None"
        using Pair Inr by (auto simp: prisma_create_def prisma_findUnique_def find_None_iff split: if_splits)
      show ?thesis
        by (auto simp: repo_create_def wp_bind wp_Resolve wp_prisma_query Pair Inr Let_def job_view_fun fresh c
            toRecord_def new_job_def split: fate.split)
    qed
  qed
  show "wp (findById E k) (\<lambda>r w'. r = job_view w k \<and> job_view w' = job_view w) (\<lambda>_ w'. job_view w' = job_view w) w" for k w
    by (auto simp: findById_def wp_bind wp_Resolve wp_prisma_query Let_def job_view_fun split: fate.split)
  show "wp (mark E s c k)
       (\<lambda>_ w'. job_view w' = (job_view w)(k := map_option (with_status s) (job_view w k)))
       (\<lambda>_ w'. job_view w' \<in> {job_view w, (job_view w)(k := map_option (with_status s) (job_view w k))}) w" for s c k w
    by (cases s)
      (auto simp: mark_def markDelivered_def markRetryScheduled_def markDeadLettered_def markPublished_def
        wp_bind wp_date_now wp_Reject wp_prisma_query Let_def job_view_fun view_data prisma_update_def
        split: fate.split)
qed

section \<open>Submitting\<close>

text \<open>A query on the API database changes that database only.\<close>

definition database_only :: "'r world \<Rightarrow> 'r world \<Rightarrow> bool" where
  "database_only w w' \<longleftrightarrow> (\<exists>n t. w' = w\<lparr>steps := n, jobs := t\<rparr>)"

lemma database_only_update: "database_only w (w\<lparr>steps := n, jobs := t\<rparr>)"
  unfolding database_only_def by blast

lemma database_only_steps: "database_only w (w\<lparr>steps := n\<rparr>)"
  using database_only_update [of w "jobs w" n] by simp

lemma database_only_trans:
  assumes "database_only w w1" and "database_only w1 w2"
  shows "database_only w w2"
proof -
  obtain n t where 1: "w1 = w\<lparr>steps := n, jobs := t\<rparr>" using assms(1) unfolding database_only_def by (elim exE)
  obtain n2 t2 where "w2 = w1\<lparr>steps := n2, jobs := t2\<rparr>" using assms(2) unfolding database_only_def by (elim exE)
  then have "w2 = w\<lparr>steps := n2, jobs := t2\<rparr>" using 1 by simp
  then show ?thesis by (simp only: database_only_update)
qed

interpretation database_only: frame_relation database_only
proof
  show "database_only w w" for w :: "'a world"
    using database_only_steps [of w "steps w"] by simp
qed (rule database_only_trans)

lemma database_only_parts:
  assumes "database_only w w'"
  shows "published w' = published w" and "redis w' = redis w" and "metrics w' = metrics w"
    and "channel w' = channel w" and "mails w' = mails w" and "ledger w' = ledger w"
    and "settled w' = settled w" and "inFlight w' = inFlight w"
  using assms by (auto simp: database_only_def)

lemma database_only_query: "keeps database_only (prisma_query E f)"
  by (rule keepsI)
    (auto simp: wp_prisma_query Let_def intro: database_only_update database_only_steps
      split: fate.split prod.split sum.split)

lemma database_only_date_now: "keeps database_only (date_now E)"
  by (rule keepsI) (simp add: wp_date_now database_only_steps)

lemma database_only_repo:
  "keeps database_only (repo_create E i)" "keeps database_only (findById E k)" "keeps database_only (mark E s c k)"
proof -
  show "keeps database_only (repo_create E i)" "keeps database_only (findById E k)"
    unfolding repo_create_def findById_def
    by (intro database_only.keeps_intros database_only_query)+
  show "keeps database_only (mark E s c k)"
    by (cases s) (simp_all add: mark_def markDelivered_def markRetryScheduled_def markDeadLettered_def
      markPublished_def database_only.keeps_intros database_only_query database_only_date_now)
qed

lemmas create_full = wp_conj [OF repo.create_spec keepsD [OF database_only_repo(1)]]
lemmas find_full = wp_conj [OF repo.find_spec keepsD [OF database_only_repo(2)]]
lemmas mark_full = wp_conj [OF repo.mark_spec keepsD [OF database_only_repo(3)]]

lemma markPublished_mark: "markPublished E i = mark E PUBLISHED None i"
  by (simp add: mark_def)

text \<open>What a new submission publishes.\<close>

definition body_provider_of :: "SubmitEmailJobBody \<Rightarrow> ProviderName" where
  "body_provider_of body = (case body_provider body of None \<Rightarrow> Smtp | Some p \<Rightarrow> p)"

definition job_publication :: "string \<Rightarrow> int \<Rightarrow> SubmitEmailJobBody \<Rightarrow> publication" where
  "job_publication jobId now body =
     publication_of (exchange TOPOLOGY) (routingKey TOPOLOGY)
       (json_stringify (submitted_members (job_message jobId (body_provider_of body) now body))) (Some jobId)"

text \<open>The members of a submission, in the order the API writes them, satisfy the worker's schema.\<close>

lemma submitted_members_schema:
  assumes "valid_message Z m"
  shows "emailJobMessageSchema Z (JObj (to_members (submitted_members m))) = Inr m"
  using assms
  by (cases "msg_html m")
    (simp_all add: emailJobMessageSchema_def emailAddressSchema_def zod_Inr valid_message_def
      valid_address_def submitted_members_def jget_simps)

lemma submitted_text_roundtrip:
  assumes "valid_message Z m"
  shows "map_option (emailJobMessageSchema Z) (json_parse (json_stringify (submitted_members m))) = Some (Inr m)"
proof -
  have "\<forall>p \<in> set (submitted_members m). safe_value (snd p)"
    using assms safe_int_abs
    by (auto simp: submitted_members_def valid_message_def simp del: abs_le_iff)
  then show ?thesis
    using submitted_members_schema [OF assms] by (simp add: json_roundtrip)
qed

lemma job_publication_valid:
  assumes "valid_body Z body" and "zod_uuid Z jobId" and "safe_int 1 now"
  shows "map_option (emailJobMessageSchema Z) (json_parse (pub_content (job_publication jobId now body)))
    = Some (Inr (job_message jobId (body_provider_of body) now body))"
proof -
  have "valid_message Z (job_message jobId (body_provider_of body) now body)"
    using assms by (simp add: valid_message_def valid_body_def job_message_def safe_int_def)
  then show ?thesis
    by (simp add: job_publication_def publication_of_def submitted_text_roundtrip)
qed

lemmas job_publication_text = job_publication_valid [OF submitEmailJobBodySchema_sound]

definition old_jobs_kept :: "'r world \<Rightarrow> 'r world \<Rightarrow> bool" where
  "old_jobs_kept w w' \<longleftrightarrow> (\<forall>k. job_view w k \<noteq> None \<longrightarrow> job_view w' k = job_view w k)"

definition accepted :: "SubmitEmailJobBody \<Rightarrow> 'r world \<Rightarrow> EmailJobResponse \<Rightarrow> 'r world \<Rightarrow> bool" where
  "accepted body w r w' \<longleftrightarrow>
     (\<exists>rec now. job_view w (rec_id rec) = None \<and> job_view w' = (job_view w)(rec_id rec \<mapsto> rec) \<and>
        rec_status rec = ''PUBLISHED'' \<and> r = toEmailJobResponse rec False \<and>
        published w' = published w @ [job_publication (rec_id rec) now body] \<and>
        metrics w' = (metrics w)\<lparr>jobsSubmitted := jobsSubmitted (metrics w) + 1\<rparr>)"

definition repeated :: "'r world \<Rightarrow> EmailJobResponse \<Rightarrow> 'r world \<Rightarrow> bool" where
  "repeated w r w' \<longleftrightarrow>
     (\<exists>rec. job_view w (res_id r) = Some rec \<and> r = toEmailJobResponse rec True) \<and>
     job_view w' = job_view w \<and> published w' = published w \<and> metrics w' = metrics w"

text \<open>A rejected submission may have left one new row and its message, and nothing else.\<close>

definition abandoned :: "SubmitEmailJobBody \<Rightarrow> 'r world \<Rightarrow> 'r world \<Rightarrow> bool" where
  "abandoned body w w' \<longleftrightarrow>
     old_jobs_kept w w' \<and>
     (\<exists>i now n. published w' = published w @ take n [job_publication i now body] \<and>
        (n = 0 \<or> job_view w i = None))"

lemma abandonedI:
  "old_jobs_kept w w' \<Longrightarrow> published w' = published w \<Longrightarrow> abandoned body w w'"
  "old_jobs_kept w w' \<Longrightarrow> published w' = published w @ [job_publication i now body] \<Longrightarrow> job_view w i = None \<Longrightarrow>
     abandoned body w w'"
proof -
  show "old_jobs_kept w w' \<Longrightarrow> published w' = published w \<Longrightarrow> abandoned body w w'"
    unfolding abandoned_def by (auto intro: exI [of _ 0])
  assume "old_jobs_kept w w'" "published w' = published w @ [job_publication i now body]" "job_view w i = None"
  then show "abandoned body w w'"
    unfolding abandoned_def by (intro conjI exI [of _ i] exI [of _ now] exI [of _ 1]) simp_all
qed

lemma job_view_simps [simp]:
  "job_view (w\<lparr>steps := n\<rparr>) = job_view w" "job_view (w\<lparr>redis := r\<rparr>) = job_view w"
  "job_view (w\<lparr>published := ps\<rparr>) = job_view w" "job_view (w\<lparr>metrics := m\<rparr>) = job_view w"
  by (simp_all add: job_view_def fun_eq_iff)

lemma job_view_id: "job_view w k = Some r \<Longrightarrow> rec_id r = k"
  by (auto simp: job_view_def toRecord_def dest: findUnique_Some_id)

text \<open>Only the call counter changes while an existing job is looked up.\<close>

definition looked_up :: "'r world \<Rightarrow> 'r world \<Rightarrow> bool" where
  "looked_up w w' \<longleftrightarrow> job_view w' = job_view w \<and> published w' = published w \<and> metrics w' = metrics w \<and> redis w' = redis w"

lemma find_looked_up:
  "looked_up w0 w \<Longrightarrow> wp (findById E i) (\<lambda>r w'. r = job_view w0 i \<and> looked_up w0 w') (\<lambda>_. looked_up w0) w"
  by (rule wp_mono [OF find_full]) (auto simp: looked_up_def database_only_parts)

lemma lookup_existing_wp:
  "wp (lookup_existing E key)
     (\<lambda>r w'. looked_up w w' \<and> (\<exists>i rec. redis_get E (redis w) key = Some i \<and> i \<noteq> [] \<and> job_view w i = Some rec \<and>
        r = toEmailJobResponse rec True))
     (\<lambda>e w'. looked_up w w' \<and>
        (e = HttpException 409 (MessageBody ''a request with this idempotency key is already in progress'') \<or>
         (\<exists>s. e = JsError None s))) w"
proof -
  let ?w = "w\<lparr>steps := Suc (steps w)\<rparr>"
  have up: "looked_up w ?w" "looked_up w w" by (simp_all add: looked_up_def)
  have err: "wp (findById E i) (\<lambda>_ _. True) (\<lambda>e _. \<exists>s. e = JsError None s) ?w" for i
    by (auto simp: findById_def wp_bind wp_Resolve wp_prisma_query Let_def split: fate.split)
  have "wp (findById E i) (\<lambda>r w'. r = job_view w i \<and> looked_up w w') (\<lambda>e w'. looked_up w w' \<and> (\<exists>s. e = JsError None s)) ?w" for i
    by (rule wp_mono [OF wp_conj [OF find_looked_up [OF up(1), of E i] err]]) auto
  note find = this
  show ?thesis
    using up
    by (auto simp: lookup_existing_def redis_read_def wp_bind wp_call Let_def wp_Resolve wp_Reject wp_option
        split: fate.split option.split intro!: wp_mono [OF find])
qed

lemma repeated_of:
  assumes "looked_up w w'" and "job_view w i = Some rec" and "r = toEmailJobResponse rec True"
  shows "repeated w r w'"
  using assms job_view_id [OF assms(2)]
  by (auto simp: repeated_def looked_up_def toEmailJobResponse_def)

text \<open>The \<open>try\<close> block of \<open>submit\<close> and its handler.\<close>

definition publish_or_release :: "'r services \<Rightarrow> string \<Rightarrow> string \<Rightarrow> int \<Rightarrow> SubmitEmailJobBody \<Rightarrow> ('r, unit) io" where
  "publish_or_release E key jobId now body =
     try_catch
       (bind (publish_job E (job_message jobId (body_provider_of body) now body)) (\<lambda>_.
        bind (markPublished E jobId) (\<lambda>_. inc_submitted)))
       (\<lambda>error. bind (redis_delete E key) (\<lambda>_.
          Reject (HttpException 503 (MessageBody ''submission failed, retry with the same idempotency key''))))"

lemma redis_delete_wp:
  "wp (redis_delete E key) (\<lambda>_ w'. \<exists>n. w' = w\<lparr>steps := n, redis := redis_del E (redis w) key\<rparr>)
     (\<lambda>e w'. (\<exists>s. e = JsError None s) \<and> (\<exists>n r. w' = w\<lparr>steps := n, redis := r\<rparr>)) w"
proof -
  have "\<exists>n r. w\<lparr>steps := k\<rparr> = w\<lparr>steps := n, redis := r\<rparr>" for k
    by (rule exI [of _ k], rule exI [of _ "redis w"]) simp
  then show ?thesis by (auto simp: redis_delete_def wp_call Let_def split: fate.split)
qed

definition touched :: "string \<Rightarrow> int \<Rightarrow> SubmitEmailJobBody \<Rightarrow> 'r world \<Rightarrow> 'r world \<Rightarrow> bool" where
  "touched jobId now body w w' \<longleftrightarrow>
     (\<forall>k. k \<noteq> jobId \<longrightarrow> job_view w' k = job_view w k) \<and>
     job_view w' jobId \<in> {job_view w jobId, map_option (with_status PUBLISHED) (job_view w jobId)} \<and>
     published w' \<in> {published w, published w @ [job_publication jobId now body]}"

lemma publish_or_release_wp:
  "wp (publish_or_release E key jobId now body)
     (\<lambda>_ w'. job_view w' = (job_view w)(jobId := map_option (with_status PUBLISHED) (job_view w jobId)) \<and>
        published w' = published w @ [job_publication jobId now body] \<and>
        metrics w' = (metrics w)\<lparr>jobsSubmitted := jobsSubmitted (metrics w) + 1\<rparr>)
     (\<lambda>e w'. touched jobId now body w w' \<and>
        ((\<exists>s. e = JsError None s) \<or>
         e = HttpException 503 (MessageBody ''submission failed, retry with the same idempotency key'') \<and>
         (\<exists>r. redis w' = redis_del E r key))) w"
  (is "wp _ ?Q ?R w")
proof -
  have release: "wp (bind (redis_delete E key) (\<lambda>_.
      Reject (HttpException 503 (MessageBody ''submission failed, retry with the same idempotency key'')))) ?Q ?R w1"
    if "touched jobId now body w w1" for w1
    unfolding wp_bind
    by (rule wp_mono [OF redis_delete_wp]) (use that in \<open>auto simp: wp_Reject touched_def\<close>)
  have ps: "publication_of (exchange TOPOLOGY) (routingKey TOPOLOGY)
      (json_stringify (submitted_members (job_message jobId (body_provider_of body) now body)))
      (Some (msg_jobId (job_message jobId (body_provider_of body) now body))) = job_publication jobId now body"
    by (simp add: job_publication_def job_message_def)
  have mark: "wp (bind (markPublished E jobId) (\<lambda>_. inc_submitted)) ?Q
      (\<lambda>e. wp (bind (redis_delete E key) (\<lambda>_.
        Reject (HttpException 503 (MessageBody ''submission failed, retry with the same idempotency key'')))) ?Q ?R)
      (w\<lparr>steps := n, published := published w @ [job_publication jobId now body]\<rparr>)" for n
    unfolding markPublished_mark wp_bind [of "mark _ _ _ _"]
  proof (rule wp_mono [OF mark_full], goal_cases)
    case (1 x w')
    then show ?case using database_only_parts(1,3) [of _ w'] by (auto simp: wp_counters)
  next
    case (2 e w')
    then have "touched jobId now body w w'" using database_only_parts(1) [of _ w'] by (auto simp: touched_def)
    then show ?case by (rule release)
  qed
  show ?thesis
    unfolding publish_or_release_def publish_job_def wp_try_catch wp_bind [of "publish _ _ _ _ _"] wp_publish ps
    using mark release by (simp add: Let_def touched_def split: fate.split)
qed

lemma submit_eq:
  "submit E idempotencyKey body =
     bind (randomUUID E) (\<lambda>jobId.
     bind (redis_set_nx E (idem_key idempotencyKey) jobId) (\<lambda>acquired.
     if \<not> acquired then lookup_existing E (idem_key idempotencyKey)
     else
       bind (repo_create E (create_input jobId idempotencyKey (body_provider_of body) body)) (\<lambda>_.
       bind (date_now E) (\<lambda>now.
       bind (publish_or_release E (idem_key idempotencyKey) jobId now body) (\<lambda>_.
       bind (findById E jobId) (\<lambda>job.
       case job of
         Some job \<Rightarrow> Resolve (toEmailJobResponse job False)
       | None \<Rightarrow> Reject (JsError None ''Cannot read properties of null (reading 'id')'')))))))"
  unfolding submit_def publish_or_release_def body_provider_of_def Let_def by (rule refl)

text \<open>How a submission can be refused.\<close>

definition refusal :: "exn \<Rightarrow> bool" where
  "refusal e \<longleftrightarrow>
     e = HttpException 409 (MessageBody ''a request with this idempotency key is already in progress'') \<or>
     e = HttpException 503 (MessageBody ''submission failed, retry with the same idempotency key'') \<or>
     (\<exists>s. e = JsError None s)"

lemma in_id_create_input [simp]: "in_id (create_input i k p b) = i"
  by (simp add: create_input_def)

text \<open>The part of \<open>submit\<close> after the key was acquired.\<close>

lemma create_and_publish_wp:
  "wp (bind (repo_create E (create_input jobId k p body)) (\<lambda>_.
       bind (date_now E) (\<lambda>now.
       bind (publish_or_release E key jobId now body) (\<lambda>_.
       bind (findById E jobId) (\<lambda>job.
       case job of
         Some job \<Rightarrow> Resolve (toEmailJobResponse job False)
       | None \<Rightarrow> Reject (JsError None ''Cannot read properties of null (reading 'id')''))))))
     (\<lambda>r. accepted body w r) (\<lambda>e w'. refusal e \<and> abandoned body w w') w"
  (is "wp _ ?Q ?R w")
proof -
  have err: "wp (repo_create E i) (\<lambda>_ _. True) (\<lambda>e _. \<exists>s. e = JsError None s) w" for i
    by (auto simp: repo_create_def wp_bind wp_Resolve wp_prisma_query Let_def split: fate.split prod.split sum.split)
  have err2: "wp (findById E i) (\<lambda>_ _. True) (\<lambda>e _. \<exists>s. e = JsError None s) w" for i w
    by (auto simp: findById_def wp_bind wp_Resolve wp_prisma_query Let_def split: fate.split)
  show ?thesis
    unfolding wp_bind [of "repo_create _ _"]
  proof (rule wp_mono [OF wp_conj [OF create_full err]], goal_cases)
    case (2 e w1)
    then have "old_jobs_kept w w1" "published w1 = published w"
      by (auto simp: old_jobs_kept_def database_only_parts)
    then show ?case using 2 abandonedI(1) by (auto simp: refusal_def)
  next
    case (1 rec w1)
    then have new: "job_view w jobId = None" and view: "job_view w1 = (job_view w)(jobId \<mapsto> rec)"
      and rec: "rec_id rec = jobId" and ps: "published w1 = published w" and ms: "metrics w1 = metrics w"
      by (auto simp: database_only_parts)
    let ?now = "clock E (steps w1)" and ?w2 = "w1\<lparr>steps := Suc (steps w1)\<rparr>"
    show ?case
      unfolding wp_bind [of "date_now _"] wp_date_now wp_bind [of "publish_or_release _ _ _ _ _"]
    proof (rule wp_mono [OF publish_or_release_wp], goal_cases)
      case (2 e w')
      have "job_view w' i = job_view w i" if "job_view w i \<noteq> None" for i
      proof -
        have "i \<noteq> jobId" using that new by auto
        then show ?thesis using 2 view by (simp add: touched_def)
      qed
      then have "old_jobs_kept w w'" unfolding old_jobs_kept_def by blast
      then show ?case using 2 ps new abandonedI by (auto simp: refusal_def touched_def)
    next
      case (1 _ w3)
      then have view3: "job_view w3 = (job_view w)(jobId \<mapsto> with_status PUBLISHED rec)"
        and ps3: "published w3 = published w @ [job_publication jobId ?now body]"
        and ms3: "metrics w3 = (metrics w)\<lparr>jobsSubmitted := jobsSubmitted (metrics w) + 1\<rparr>"
        using view ps ms by auto
      show ?case
        unfolding wp_bind [of "findById _ _"]
      proof (rule wp_mono [OF wp_conj [OF find_full err2]], goal_cases)
        case (1 r w')
        let ?rec = "with_status PUBLISHED rec"
        have "accepted body w (toEmailJobResponse ?rec False) w'"
          unfolding accepted_def
          using 1 view3 ps3 ms3 new rec
          by (intro exI [of _ ?rec] exI [of _ ?now]) (auto simp: with_status_def database_only_parts)
        then show ?case using 1 view3 by (simp add: wp_Resolve)
      next
        case (2 e w')
        then have "old_jobs_kept w w'" "published w' = published w @ [job_publication jobId ?now body]"
          using view3 ps3 new by (auto simp: old_jobs_kept_def database_only_parts)
        then show ?case using 2 new abandonedI(2) by (auto simp: refusal_def)
      qed
    qed
  qed
qed

lemma accepted_later:
  assumes "job_view w1 = job_view w" and "published w1 = published w" and "metrics w1 = metrics w"
  shows "accepted body w1 r w' \<Longrightarrow> accepted body w r w'" and "abandoned body w1 w' \<Longrightarrow> abandoned body w w'"
  using assms by (simp_all add: accepted_def abandoned_def old_jobs_kept_def)

lemma redis_set_nx_wp:
  "wp (redis_set_nx E key v)
     (\<lambda>ok w'. \<exists>n r. redis_set_nx_ex E (redis w) key v IDEMPOTENCY_TTL_SECONDS = (ok, r) \<and> w' = w\<lparr>steps := n, redis := r\<rparr>)
     (\<lambda>e w'. (\<exists>s. e = JsError None s) \<and> (\<exists>n r. w' = w\<lparr>steps := n, redis := r\<rparr>)) w"
proof -
  have "\<exists>n r. w\<lparr>steps := k\<rparr> = w\<lparr>steps := n, redis := r\<rparr>" for k
    by (rule exI [of _ k], rule exI [of _ "redis w"]) simp
  then show ?thesis by (auto simp: redis_set_nx_def wp_call Let_def split: fate.split prod.split)
qed

lemma submit_wp:
  "wp (submit E k body) (\<lambda>r w'. accepted body w r w' \<or> repeated w r w')
     (\<lambda>e w'. refusal e \<and> abandoned body w w') w"
  unfolding submit_eq wp_bind [of "randomUUID _"] wp_randomUUID wp_bind [of "redis_set_nx _ _ _"]
proof (rule wp_mono [OF redis_set_nx_wp], goal_cases)
  case (2 e w')
  then have "job_view w' = job_view w" "published w' = published w" by auto
  then show ?case using 2 by (auto simp: refusal_def old_jobs_kept_def intro: abandonedI(1))
next
  case (1 ok w1)
  then have w1: "job_view w1 = job_view w" "published w1 = published w" "metrics w1 = metrics w" by auto
  have rep: "repeated w r w'" if "looked_up w1 w'" "job_view w1 i = Some rec" "r = toEmailJobResponse rec True" for r w' i rec
    using repeated_of [OF that] w1 by (simp add: repeated_def)
  show ?case
  proof (cases ok)
    case True
    then show ?thesis
      by (simp, intro wp_mono [OF create_and_publish_wp]) (auto intro: accepted_later [OF w1])
  next
    case False
    have "abandoned body w w'" if "looked_up w1 w'" for w'
      using that w1 by (auto simp: looked_up_def old_jobs_kept_def intro: abandonedI(1))
    then show ?thesis
      using False rep by (simp, intro wp_mono [OF lookup_existing_wp]) (auto simp: refusal_def)
  qed
qed

section \<open>The idempotency key\<close>

text \<open>
  What the service relies on from Redis: \<open>SET NX\<close> writes exactly when the key is absent and
  says so, \<open>DEL\<close> removes the key, and neither touches another one.
\<close>

definition redis_strings :: "'r services \<Rightarrow> bool" where
  "redis_strings E \<longleftrightarrow>
     (\<forall>r k v ttl. case redis_set_nx_ex E r k v ttl of (ok, r') \<Rightarrow>
        ok = (redis_get E r k = None) \<and>
        (\<forall>k'. redis_get E r' k' = (if k' = k \<and> ok then Some v else redis_get E r k'))) \<and>
     (\<forall>r k k'. redis_get E (redis_del E r k) k' = (if k' = k then None else redis_get E r k'))"

lemma redis_strings_set:
  assumes "redis_strings E" and "redis_set_nx_ex E r k v ttl = (ok, r')"
  shows "ok \<longleftrightarrow> redis_get E r k = None"
    and "redis_get E r' k' = (if k' = k \<and> ok then Some v else redis_get E r k')"
  using assms(1)[unfolded redis_strings_def, THEN conjunct1, rule_format, of r k v ttl] assms(2) by auto

lemma redis_strings_del:
  "redis_strings E \<Longrightarrow> redis_get E (redis_del E r k) k' = (if k' = k then None else redis_get E r k')"
  by (simp add: redis_strings_def)

text \<open>A key whose job is known: the submission answers with that job, and submits nothing.\<close>

lemma submit_known_key_wp:
  assumes R: "redis_strings E" and key: "redis_get E (redis w) (idem_key k) = Some i" "i \<noteq> []"
    and job: "job_view w i = Some rec"
  shows "wp (submit E k body)
     (\<lambda>r w'. r = toEmailJobResponse rec True \<and> published w' = published w \<and> job_view w' = job_view w)
     (\<lambda>e w'. (\<exists>s. e = JsError None s) \<and> published w' = published w \<and> job_view w' = job_view w) w"
  unfolding submit_eq wp_bind [of "randomUUID _"] wp_randomUUID wp_bind [of "redis_set_nx _ _ _"]
proof (rule wp_mono [OF redis_set_nx_wp], goal_cases)
  case (1 ok w1)
  then obtain r where set: "redis_set_nx_ex E (redis w) (idem_key k) (random_uuid E (steps w)) IDEMPOTENCY_TTL_SECONDS = (ok, r)"
    and r: "redis w1 = r" and same: "job_view w1 = job_view w" "published w1 = published w" by auto
  note s = redis_strings_set [OF R set]
  have ok: "\<not> ok" using s(1) key by simp
  then have get: "redis_get E (redis w1) (idem_key k) = Some i" using s(2) key r by simp
  have found: "wp (lookup_existing E (idem_key k))
     (\<lambda>x w'. x = toEmailJobResponse rec True \<and> looked_up w1 w')
     (\<lambda>e w'. (\<exists>s. e = JsError None s) \<and> looked_up w1 w') w1"
  proof -
    let ?w = "w1\<lparr>steps := Suc (steps w1)\<rparr>"
    have up: "looked_up w1 ?w" "looked_up w1 w1" by (simp_all add: looked_up_def)
    have err: "wp (findById E i) (\<lambda>_ _. True) (\<lambda>e _. \<exists>s. e = JsError None s) ?w"
      by (auto simp: findById_def wp_bind wp_Resolve wp_prisma_query Let_def split: fate.split)
    have "wp (findById E i) (\<lambda>x w'. x = Some rec \<and> looked_up w1 w') (\<lambda>e w'. looked_up w1 w' \<and> (\<exists>s. e = JsError None s)) ?w"
      by (rule wp_mono [OF wp_conj [OF find_looked_up [OF up(1), of E i] err]]) (use job same in auto)
    note f = this
    show ?thesis
      using up get key(2)
      by (auto simp: lookup_existing_def redis_read_def wp_bind wp_call Let_def wp_Resolve split: fate.split
          intro!: wp_mono [OF f])
  qed
  show ?case
    using ok by simp (rule wp_mono [OF found]; use same in \<open>auto simp: looked_up_def\<close>)
next
  case (2 e w1)
  then show ?case by auto
qed

text \<open>
  A key is stuck when the table has a row with it and Redis has no identifier, or one that has
  no row. A submission with a stuck key is always refused and leaves the key stuck.
\<close>

definition stuck_key :: "'r services \<Rightarrow> string \<Rightarrow> 'r world \<Rightarrow> bool" where
  "stuck_key E k w \<longleftrightarrow>
     (\<exists>i rec. job_view w i = Some rec \<and> rec_idempotencyKey rec = k) \<and>
     (case redis_get E (redis w) (idem_key k) of None \<Rightarrow> True | Some i \<Rightarrow> job_view w i = None)"

lemma create_stuck:
  assumes "job_view w i = Some rec" and "rec_idempotencyKey rec = k"
  shows "wp (repo_create E (create_input j k p b)) (\<lambda>_ _. False) (\<lambda>_ w'. jobs w' = jobs w \<and> redis w' = redis w) w"
proof -
  obtain job where "job \<in> set (jobs w)" "ej_idempotencyKey job = k"
    using assms by (auto simp: job_view_def toRecord_def dest: findUnique_Some_id)
  then have "prisma_create (create_input j k p b) t (jobs w) = (Inl ''P2002'', jobs w)" for t
    by (auto simp: create_input_def intro: create_same_key)
  then show ?thesis
    by (simp add: repo_create_def wp_bind wp_prisma_query Let_def split: fate.split)
qed

lemma lookup_stuck:
  assumes "case redis_get E (redis w) key of None \<Rightarrow> True | Some i \<Rightarrow> job_view w i = None"
  shows "wp (lookup_existing E key) (\<lambda>_ _. False) (\<lambda>_. looked_up w) w"
  by (rule wp_mono [OF lookup_existing_wp]) (use assms in \<open>auto split: option.splits\<close>)

lemma submit_stuck_wp:
  assumes R: "redis_strings E" and stuck: "stuck_key E k w" and uuid: "job_view w (random_uuid E (steps w)) = None"
  shows "wp (submit E k body) (\<lambda>_ _. False) (\<lambda>_ w'. stuck_key E k w') w"
proof -
  obtain i rec where row: "job_view w i = Some rec" "rec_idempotencyKey rec = k"
    and red: "case redis_get E (redis w) (idem_key k) of None \<Rightarrow> True | Some i \<Rightarrow> job_view w i = None"
    using stuck by (auto simp: stuck_key_def)
  show ?thesis
    unfolding submit_eq wp_bind [of "randomUUID _"] wp_randomUUID wp_bind [of "redis_set_nx _ _ _"]
  proof (simp only: redis_set_nx_def wp_call Let_def, goal_cases)
    case 1
    obtain ok r where set: "redis_set_nx_ex E (redis w) (idem_key k) (random_uuid E (steps w)) IDEMPOTENCY_TTL_SECONDS = (ok, r)"
      by fastforce
    note s = redis_strings_set [OF R set]
    have red': "case redis_get E r (idem_key k) of None \<Rightarrow> True | Some i \<Rightarrow> job_view w i = None"
      using s red uuid by (auto split: option.splits)
    have keep: "stuck_key E k w'" if "job_view w' = job_view w" "redis w' = r" for w'
      using row red' that by (auto simp: stuck_key_def split: option.splits)
    have keep0: "stuck_key E k w'" if "job_view w' = job_view w" "redis w' = redis w" for w'
      using row red that by (auto simp: stuck_key_def split: option.splits)
    have keep_any: "stuck_key E k w'" if "job_view w' = job_view w" "redis w' = r \<or> redis w' = redis w" for w'
      using that keep keep0 by blast
    have body: "wp (if \<not> ok then lookup_existing E (idem_key k)
        else bind (repo_create E (create_input j k p body)) (\<lambda>_. c)) (\<lambda>_ _. False) (\<lambda>_ w'. stuck_key E k w') w1"
      if "job_view w1 = job_view w" "redis w1 = r" for w1 j p c
    proof (cases ok)
      case True
      have "stuck_key E k w'" if "jobs w' = jobs w1" "redis w' = redis w1" for w'
      proof (rule keep)
        show "job_view w' = job_view w"
          using \<open>job_view w1 = job_view w\<close> that(1) by (simp add: job_view_fun)
      qed (use \<open>redis w1 = r\<close> that(2) in simp)
      moreover have "job_view w1 i = Some rec" using that row by simp
      ultimately show ?thesis
        using True row(2) by (simp add: wp_bind) (rule wp_mono [OF create_stuck], auto)
    next
      case False
      then show ?thesis
        by (simp, intro wp_mono [OF lookup_stuck])
          (use that red' in \<open>auto intro!: keep simp: looked_up_def split: option.splits\<close>)
    qed
    show ?case
      using body [of "w\<lparr>steps := Suc (Suc (steps w)), redis := r\<rparr>"]
      by (cases ok) (auto simp: set intro!: keep_any split: fate.split)
  qed
qed

text \<open>A submission refused with 503 has left its key stuck.\<close>

lemma submit_unpublished_wp:
  assumes R: "redis_strings E"
  shows "wp (submit E k body) (\<lambda>_ _. True)
     (\<lambda>e w'. e = HttpException 503 (MessageBody ''submission failed, retry with the same idempotency key'') \<longrightarrow>
        stuck_key E k w') w"
  unfolding submit_eq wp_bind [of "randomUUID _"] wp_randomUUID wp_bind [of "redis_set_nx _ _ _"]
proof (rule wp_mono [OF redis_set_nx_wp], goal_cases)
  case (2 e w1)
  then show ?case by auto
next
  case (1 ok w1)
  let ?Q = "\<lambda>_ _. True" and ?R = "\<lambda>e w'. e = HttpException 503 (MessageBody ''submission failed, retry with the same idempotency key'') \<longrightarrow> stuck_key E k w'"
  let ?j = "random_uuid E (steps w)"
  have err: "wp (repo_create E i) ?Q (\<lambda>e _. \<exists>s. e = JsError None s) w1" for i
    by (auto simp: repo_create_def wp_bind wp_Resolve wp_prisma_query Let_def split: fate.split prod.split sum.split)
  have err2: "wp (findById E i) (\<lambda>_ _. True) (\<lambda>e _. \<exists>s. e = JsError None s) w" for i w
    by (auto simp: findById_def wp_bind wp_Resolve wp_prisma_query Let_def split: fate.split)
  show ?case
  proof (cases ok)
    case False
    then show ?thesis by (simp, intro wp_mono [OF lookup_existing_wp]) auto
  next
    case True
    have "wp (bind (repo_create E (create_input ?j k p body)) (\<lambda>_.
       bind (date_now E) (\<lambda>now.
       bind (publish_or_release E (idem_key k) ?j now body) (\<lambda>_.
       bind (findById E ?j) (\<lambda>job.
       case job of
         Some job \<Rightarrow> Resolve (toEmailJobResponse job False)
       | None \<Rightarrow> Reject (JsError None ''Cannot read properties of null (reading 'id')'')))))) ?Q ?R w1" for p
      unfolding wp_bind [of "repo_create _ _"]
    proof (rule wp_mono [OF wp_conj [OF repo.create_spec err]], goal_cases)
      case (2 e w2)
      then show ?case by auto
    next
      case (1 rec w2)
      show ?case
        unfolding wp_bind [of "date_now _"] wp_date_now wp_bind [of "publish_or_release _ _ _ _ _"]
      proof (rule wp_mono [OF publish_or_release_wp], goal_cases)
        case (2 e w3)
        have "job_view w3 ?j = Some rec \<or> job_view w3 ?j = Some (with_status PUBLISHED rec)"
          and key: "rec_idempotencyKey rec = k" "rec_idempotencyKey (with_status PUBLISHED rec) = k"
          using 1 2 by (auto simp: touched_def create_input_def with_status_def)
        then have "\<exists>i rec. job_view w3 i = Some rec \<and> rec_idempotencyKey rec = k" by blast
        then show ?case using 2 redis_strings_del [OF R] by (auto simp: stuck_key_def)
      next
        case (1 _ w3)
        show ?case
          unfolding wp_bind [of "findById _ _"]
          by (rule wp_mono [OF err2]) (auto simp: wp_Resolve wp_Reject split: option.split)
      qed
    qed
    then show ?thesis using True by simp
  qed
qed

end
