(* ===== verification/StatusConsumer.thy ===== *)
theory StatusConsumer
  imports EmailJobs
begin

text \<open>
  \<^verbatim>\<open>email-jobs/status.consumer.ts\<close>: the API process applies the status events of the worker
  to its table. A malformed or invalid event is dropped; one whose update fails is put back.
\<close>

definition parse_event :: "'r services \<Rightarrow> ConsumeMessage \<Rightarrow> DeliveryStatusEvent option" where
  "parse_event E raw =
     (case json_parse (raw_content raw) of
        None \<Rightarrow> None
      | Some payload \<Rightarrow>
          (case deliveryStatusEventSchema (zod_formats E) payload of Inl _ \<Rightarrow> None | Inr event \<Rightarrow> Some event))"

definition apply_event :: "'r services \<Rightarrow> DeliveryStatusEvent \<Rightarrow> ('r, unit) io" where
  "apply_event E event =
     (case ev_status event of
        DELIVERED \<Rightarrow> markDelivered E (ev_jobId event)
      | RETRY_SCHEDULED \<Rightarrow> markRetryScheduled E (ev_jobId event)
      | DEAD_LETTERED \<Rightarrow> markDeadLettered E (ev_jobId event) (ev_errorCode event))"

definition handle_status :: "'r services \<Rightarrow> ConsumeMessage option \<Rightarrow> ('r, unit) io" where
  "handle_status E raw =
     (case raw of
        None \<Rightarrow> Resolve ()
      | Some raw \<Rightarrow>
          bind (get channel) (\<lambda>ready.
            if \<not> ready then Resolve ()
            else try_catch
              (bind (case parse_event E raw of None \<Rightarrow> Resolve () | Some event \<Rightarrow> apply_event E event) (\<lambda>_.
                 channel_settle E raw True))
              (\<lambda>error. channel_settle E raw False)))"

section \<open>What an event does to the table\<close>

fun job_status_of :: "DeliveryStatus \<Rightarrow> EmailJobStatus" where
  "job_status_of DELIVERED = JOB_DELIVERED"
| "job_status_of RETRY_SCHEDULED = JOB_RETRY_SCHEDULED"
| "job_status_of DEAD_LETTERED = JOB_DEAD_LETTERED"

lemma apply_event_mark: "apply_event E e = mark E (job_status_of (ev_status e)) (ev_errorCode e) (ev_jobId e)"
  by (cases "ev_status e") (simp_all add: apply_event_def mark_def)

definition updated :: "DeliveryStatusEvent \<Rightarrow> (string \<Rightarrow> EmailJobRecord option) \<Rightarrow> string \<Rightarrow> EmailJobRecord option" where
  "updated e v = v(ev_jobId e := map_option (with_status (job_status_of (ev_status e))) (v (ev_jobId e)))"

text \<open>
  One message, with a channel open: either it is acknowledged, and then its event, if it is one,
  has been applied, or it is put back, and then it may have been; or settling it throws, and
  the promise nobody awaits is rejected.
\<close>

lemma handle_status_wp:
  assumes "channel w"
  shows "wp (handle_status E (Some raw))
     (\<lambda>_ w'. \<exists>ack. settled w' = settled w @ [(raw_deliveryTag raw, ack)] \<and> published w' = published w \<and>
        channel w' = channel w \<and>
        (case parse_event E raw of
           None \<Rightarrow> job_view w' = job_view w
         | Some e \<Rightarrow> job_view w' = updated e (job_view w) \<or> \<not> ack \<and> job_view w' = job_view w))
     (\<lambda>e w'. e = JsError None ''Channel closed'' \<and> settled w' = settled w \<and> published w' = published w) w"
  (is "wp _ ?Q ?R w")
proof -
  have view: "job_view (w1\<lparr>settled := s\<rparr>) = job_view w1" for w1 :: "'a world" and s
    by (simp add: job_view_fun)
  have nack: "wp (channel_settle E raw False) ?Q ?R w1"
    if "settled w1 = settled w" "published w1 = published w" "channel w1 = channel w"
      "case parse_event E raw of None \<Rightarrow> job_view w1 = job_view w
       | Some e \<Rightarrow> job_view w1 \<in> {job_view w, updated e (job_view w)}" for w1
    using that by (auto simp: wp_channel_settle Let_def view split: option.splits)
  have settle: "wp (channel_settle E raw True) ?Q (\<lambda>_. wp (channel_settle E raw False) ?Q ?R) w1"
    if "settled w1 = settled w" "published w1 = published w" "channel w1 = channel w"
      "case parse_event E raw of None \<Rightarrow> job_view w1 = job_view w
       | Some e \<Rightarrow> job_view w1 = updated e (job_view w)" for w1
    using that by (auto simp: wp_channel_settle Let_def view split: option.splits)
  show ?thesis
  proof (cases "parse_event E raw")
    case None
    then show ?thesis
      using assms settle [of w] by (simp add: handle_status_def wp_bind wp_get wp_try_catch wp_Resolve)
  next
    case (Some e)
    have "wp (apply_event E e) (\<lambda>_. wp (channel_settle E raw True) ?Q (\<lambda>_. wp (channel_settle E raw False) ?Q ?R))
        (\<lambda>_. wp (channel_settle E raw False) ?Q ?R) w"
      unfolding apply_event_mark
    proof (rule wp_mono [OF mark_full], goal_cases)
      case (1 x w1)
      then show ?case using Some by (intro settle) (auto simp: updated_def database_only_parts)
    next
      case (2 x w1)
      then show ?case using Some by (intro nack) (auto simp: updated_def database_only_parts)
    qed
    then show ?thesis
      using assms Some by (simp add: handle_status_def wp_bind wp_get wp_try_catch)
  qed
qed

text \<open>A list of messages handled one after the other.\<close>

definition handle_all :: "'r services \<Rightarrow> ConsumeMessage list \<Rightarrow> ('r, unit) io" where
  "handle_all E raws = for_each raws (\<lambda>raw. handle_status E (Some raw))"

definition events_of :: "'r services \<Rightarrow> ConsumeMessage list \<Rightarrow> DeliveryStatusEvent list" where
  "events_of E raws = List.map_filter (parse_event E) raws"

lemma events_of_simps [simp]:
  "events_of E [] = []"
  "events_of E (r # rs) = (case parse_event E r of None \<Rightarrow> events_of E rs | Some e \<Rightarrow> e # events_of E rs)"
  by (simp_all add: events_of_def List.map_filter_def split: option.split)

lemma handle_all_wp:
  assumes "channel w"
  shows "wp (handle_all E raws)
     (\<lambda>_ w'. \<exists>acks. length acks = length raws \<and>
        settled w' = settled w @ zip (List.map raw_deliveryTag raws) acks \<and>
        (list_all id acks \<longrightarrow> job_view w' = fold updated (events_of E raws) (job_view w)))
     (\<lambda>e _. e = JsError None ''Channel closed'') w"
  using assms
proof (induction raws arbitrary: w)
  case Nil
  then show ?case by (simp add: handle_all_def wp_Resolve)
next
  case (Cons raw raws)
  show ?case
    unfolding handle_all_def for_each.simps wp_bind
  proof (rule wp_mono [OF handle_status_wp [OF Cons.prems, of E raw]], goal_cases)
    case (2 e w1)
    then show ?case by simp
  next
    case (1 x w1)
    then obtain ack where ack: "settled w1 = settled w @ [(raw_deliveryTag raw, ack)]" and ch: "channel w1"
      and view: "case parse_event E raw of None \<Rightarrow> job_view w1 = job_view w
         | Some e \<Rightarrow> job_view w1 = updated e (job_view w) \<or> \<not> ack \<and> job_view w1 = job_view w"
      using Cons.prems by auto
    show ?case
      unfolding handle_all_def [symmetric]
    proof (rule wp_mono [OF Cons.IH [OF ch]], goal_cases)
      case (1 y w2)
      then obtain acks where acks: "length acks = length raws"
          "settled w2 = settled w1 @ zip (List.map raw_deliveryTag raws) acks"
          "list_all id acks \<longrightarrow> job_view w2 = fold updated (events_of E raws) (job_view w1)" by (elim exE conjE)
      show ?case
        by (rule exI [of _ "ack # acks"]) (use ack acks view in \<open>auto split: option.splits\<close>)
    qed
  qed
qed

lemma fold_updated_other:
  "\<forall>e \<in> set es. ev_jobId e \<noteq> k \<Longrightarrow> fold updated es v k = v k"
  by (induction es arbitrary: v) (auto simp: updated_def)

end
