(* ===== verification/Http.thy ===== *)
theory Http
  imports EmailJobs
begin

text \<open>
  The HTTP layer of the API: \<^verbatim>\<open>common/guards\<close>, \<^verbatim>\<open>common/pipes\<close>, \<^verbatim>\<open>common/filters\<close> and
  \<^verbatim>\<open>email-jobs.controller.ts\<close>, and the order in which Nest runs them on a request. What
  \<open>HttpException.getResponse\<close> makes of the argument of an exception is Nest's: it is the
  parameter \<open>get_response\<close>, and a payload is a text (\<open>Inl\<close>) or an object of a type left open.
\<close>

section \<open>ZodValidationPipe\<close>

fun join_path :: "string list \<Rightarrow> string" where
  "join_path [] = []"
| "join_path [k] = k"
| "join_path (k # ks) = k @ ''.'' @ join_path ks"

definition transform :: "(json \<Rightarrow> issue list + 'a) \<Rightarrow> json \<Rightarrow> exn + 'a" where
  "transform schema v =
     (case schema v of
        Inl issues \<Rightarrow>
          Inl (HttpException 400 (IssuesBody ''validation failed''
            (List.map (\<lambda>(path, message). (join_path path, message)) issues)))
      | Inr data \<Rightarrow> Inr data)"

section \<open>ApiKeyGuard\<close>

text \<open>A header of a request is absent, a text, or several texts.\<close>

datatype header = Absent | Single string | Several "string list"

text \<open>\<open>getAllAndOverride\<close>: the metadata of the handler, or else of its class.\<close>

definition is_public :: "bool option \<Rightarrow> bool option \<Rightarrow> bool" where
  "is_public on_handler on_class =
     (case on_handler of Some b \<Rightarrow> b | None \<Rightarrow> (case on_class of Some b \<Rightarrow> b | None \<Rightarrow> False))"

definition canActivate :: "(string \<Rightarrow> string option) \<Rightarrow> bool option \<Rightarrow> bool option \<Rightarrow> header \<Rightarrow> exn + bool" where
  "canActivate env on_handler on_class apiKey =
     (if is_public on_handler on_class then Inr True
      else if (case apiKey of Single k \<Rightarrow> Some k = env ''API_KEY'' | _ \<Rightarrow> False) then Inr True
      else Inl (HttpException 401 (MessageBody ''missing or invalid api key'')))"

section \<open>HttpExceptionFilter\<close>

datatype 'o error_body = ErrorMessage string | ErrorObject 'o

definition exception_response :: "(nat \<Rightarrow> http_body \<Rightarrow> string + 'o) \<Rightarrow> exn \<Rightarrow> nat \<times> 'o error_body" where
  "exception_response get_response e =
     (let status = (case e of HttpException s _ \<Rightarrow> s | _ \<Rightarrow> 500);
          payload = (case e of HttpException s b \<Rightarrow> get_response s b | _ \<Rightarrow> Inl ''internal server error'')
      in (status, case payload of Inl m \<Rightarrow> ErrorMessage m | Inr ob \<Rightarrow> ErrorObject ob))"

section \<open>EmailJobsController\<close>

definition controller_submit :: "'r services \<Rightarrow> string option \<Rightarrow> SubmitEmailJobBody \<Rightarrow> ('r, EmailJobResponse) io" where
  "controller_submit E idempotencyKey body =
     (case idempotencyKey of
        None \<Rightarrow> Reject (HttpException 400 (MessageBody ''idempotency-key header must be at least 8 characters''))
      | Some k \<Rightarrow>
          if k = [] \<or> length k < 8
          then Reject (HttpException 400 (MessageBody ''idempotency-key header must be at least 8 characters''))
          else submit E k body)"

definition controller_getStatus :: "'r services \<Rightarrow> string \<Rightarrow> ('r, EmailJobResponse) io" where
  "controller_getStatus E i = getStatus E i"

section \<open>A request\<close>

text \<open>
  \<open>POST /v1/email-jobs\<close> and \<open>GET /v1/email-jobs/:id\<close>: the guard, then the pipe on the body,
  then the controller, and the filter on whatever they throw. Neither handler is public.
\<close>

datatype 'o reply = HttpAnswer nat EmailJobResponse | HttpError nat "'o error_body"

definition lift_sum :: "'e + 'a \<Rightarrow> ('w, 'e, 'a) async" where
  "lift_sum v = (case v of Inl e \<Rightarrow> Reject e | Inr x \<Rightarrow> Resolve x)"

definition filtered :: "(nat \<Rightarrow> http_body \<Rightarrow> string + 'o) \<Rightarrow> ('r, 'o reply) io \<Rightarrow> ('r, 'o reply) io" where
  "filtered get_response m =
     try_catch m (\<lambda>e. case exception_response get_response e of (s, b) \<Rightarrow> Resolve (HttpError s b))"

definition post_email_job :: "'r services \<Rightarrow> (nat \<Rightarrow> http_body \<Rightarrow> string + 'o) \<Rightarrow> header \<Rightarrow> string option \<Rightarrow> json \<Rightarrow> ('r, 'o reply) io" where
  "post_email_job E get_response apiKey idempotencyKey body =
     filtered get_response
       (bind (lift_sum (canActivate (process_env E) None None apiKey)) (\<lambda>_.
        bind (lift_sum (transform (submitEmailJobBodySchema (zod_formats E)) body)) (\<lambda>data.
        bind (controller_submit E idempotencyKey data) (\<lambda>r.
        Resolve (HttpAnswer 201 r)))))"

definition get_email_job :: "'r services \<Rightarrow> (nat \<Rightarrow> http_body \<Rightarrow> string + 'o) \<Rightarrow> header \<Rightarrow> string \<Rightarrow> ('r, 'o reply) io" where
  "get_email_job E get_response apiKey i =
     filtered get_response
       (bind (lift_sum (canActivate (process_env E) None None apiKey)) (\<lambda>_.
        bind (controller_getStatus E i) (\<lambda>r.
        Resolve (HttpAnswer 200 r))))"

section \<open>What a request does\<close>

lemma wp_lift_sum [wp_rules]:
  "wp (lift_sum v) Q R w \<longleftrightarrow> (case v of Inl e \<Rightarrow> R e w | Inr x \<Rightarrow> Q x w)"
  by (cases v) (simp_all add: lift_sum_def wp_rules)

definition authorised :: "'r services \<Rightarrow> header \<Rightarrow> bool" where
  "authorised E apiKey \<longleftrightarrow> (\<exists>k. apiKey = Single k \<and> process_env E ''API_KEY'' = Some k)"

lemma canActivate_cases:
  "canActivate (process_env E) None None apiKey =
     (if authorised E apiKey then Inr True
      else Inl (HttpException 401 (MessageBody ''missing or invalid api key'')))"
  by (cases apiKey) (auto simp: canActivate_def is_public_def authorised_def)

text \<open>Only an authorised request with a valid body and a key of eight characters reaches the service.\<close>

definition admitted :: "'r services \<Rightarrow> header \<Rightarrow> string option \<Rightarrow> json \<Rightarrow> (string \<times> SubmitEmailJobBody) option" where
  "admitted E apiKey idempotencyKey body =
     (case idempotencyKey of
        None \<Rightarrow> None
      | Some k \<Rightarrow>
          (case submitEmailJobBodySchema (zod_formats E) body of
             Inl _ \<Rightarrow> None
           | Inr b \<Rightarrow> if authorised E apiKey \<and> 8 \<le> length k then Some (k, b) else None))"

lemma post_rejected:
  assumes "admitted E apiKey key body = None"
  shows "wp (post_email_job E g apiKey key body)
     (\<lambda>r w'. w' = w \<and> (\<exists>s b. r = HttpError s b \<and> s = (if authorised E apiKey then 400 else 401))) (\<lambda>_ _. False) w"
proof (cases "authorised E apiKey")
  case False
  then show ?thesis
    by (simp add: post_email_job_def filtered_def wp_rules canActivate_cases exception_response_def Let_def split: sum.split)
next
  case True
  then show ?thesis
    using assms
    by (cases "submitEmailJobBodySchema (zod_formats E) body"; cases key)
      (auto simp: post_email_job_def filtered_def wp_rules canActivate_cases exception_response_def Let_def
        transform_def controller_submit_def admitted_def split: sum.splits if_splits)
qed

lemma post_admitted:
  assumes "admitted E apiKey key body = Some (k, b)"
  shows "wp (post_email_job E g apiKey key body)
     (\<lambda>r w'. (\<exists>x. r = HttpAnswer 201 x \<and> (accepted b w x w' \<or> repeated w x w')) \<or>
             (\<exists>s p. r = HttpError s p \<and> s \<in> {409, 500, 503} \<and> abandoned b w w')) (\<lambda>_ _. False) w"
proof -
  have "authorised E apiKey" and key: "key = Some k" "8 \<le> length k"
    and body: "submitEmailJobBodySchema (zod_formats E) body = Inr b"
    using assms by (auto simp: admitted_def split: option.splits sum.splits if_splits)
  moreover have "k \<noteq> []" using key(2) by auto
  ultimately show ?thesis
    unfolding post_email_job_def filtered_def wp_try_catch
    by (simp add: wp_bind wp_lift_sum canActivate_cases transform_def controller_submit_def)
      (rule wp_mono [OF submit_wp], auto simp: wp_Resolve refusal_def exception_response_def Let_def split: sum.split)
qed

end
