(* ===== verification/System.thy ===== *)
theory System
  imports Interleaving EmailConsumer StatusConsumer Http
begin

text \<open>
  The handlers of the API and of the workers run at the same time over the same databases. Any
  number of HTTP requests, status messages and job messages, interleaved at their awaits in any
  order and with any failures, keep the unique constraints of both tables.
\<close>

definition tables_ok :: "'r world \<Rightarrow> bool" where
  "tables_ok w \<longleftrightarrow> ledger_inv (ledger w) \<and> jobs_inv (jobs w)"

lemma tables_ok_simps [simp]:
  "tables_ok (w\<lparr>steps := n\<rparr>) = tables_ok w" "tables_ok (w\<lparr>redis := r\<rparr>) = tables_ok w"
  "tables_ok (w\<lparr>published := ps\<rparr>) = tables_ok w" "tables_ok (w\<lparr>mails := ms\<rparr>) = tables_ok w"
  "tables_ok (w\<lparr>settled := ss\<rparr>) = tables_ok w" "tables_ok (w\<lparr>breakers := bs\<rparr>) = tables_ok w"
  "tables_ok (w\<lparr>metrics := mt\<rparr>) = tables_ok w" "tables_ok (w\<lparr>inFlight := k\<rparr>) = tables_ok w"
  "tables_ok (w\<lparr>jobs := t\<rparr>) \<longleftrightarrow> ledger_inv (ledger w) \<and> jobs_inv t"
  "tables_ok (w\<lparr>ledger := l\<rparr>) \<longleftrightarrow> ledger_inv l \<and> jobs_inv (jobs w)"
  by (simp_all add: tables_ok_def)

lemma guarded_call:
  assumes "\<And>w. tables_ok w \<Longrightarrow> tables_ok (snd (f w))"
  shows "guarded tables_ok (call E f)"
  unfolding call_def Let_def
proof (rule guarded.intros(4))
  fix w :: "'a world"
  let ?w1 = "w\<lparr>steps := Suc (steps w)\<rparr>"
  assume "tables_ok w"
  then have "tables_ok (snd (f ?w1))" by (intro assms) simp
  then show "tables_ok (snd (case fate E (steps w) of
       Completes \<Rightarrow> (case f ?w1 of (Inl e, w2) \<Rightarrow> (Reject (JsError None e), w2) | (Inr x, w2) \<Rightarrow> (Resolve x, w2))
     | Refused e \<Rightarrow> (Reject (JsError None e), ?w1)
     | ReplyLost e \<Rightarrow> (Reject (JsError None e), snd (f ?w1)))) \<and>
    guarded tables_ok (fst (case fate E (steps w) of
       Completes \<Rightarrow> (case f ?w1 of (Inl e, w2) \<Rightarrow> (Reject (JsError None e), w2) | (Inr x, w2) \<Rightarrow> (Resolve x, w2))
     | Refused e \<Rightarrow> (Reject (JsError None e), ?w1)
     | ReplyLost e \<Rightarrow> (Reject (JsError None e), snd (f ?w1))))"
    using \<open>tables_ok w\<close> by (auto simp: guarded.intros split: fate.split prod.split sum.split)
qed

lemma guarded_local:
  "guarded tables_ok (date_now E)" "guarded tables_ok (randomUUID E)" "guarded tables_ok (update_metrics f)"
  by (auto simp: date_now_def randomUUID_def update_metrics_def intro!: guarded_sync guarded_modify)

lemma guarded_counters:
  "guarded tables_ok inc_submitted" "guarded tables_ok (inc_delivered p)" "guarded tables_ok (inc_retried p)"
  "guarded tables_ok (inc_deadLettered p)" "guarded tables_ok inc_duplicates"
  "guarded tables_ok (observe_send ms)" "guarded tables_ok (observe_delivery ms)"
  by (simp_all add: counter_defs guarded_local)

lemma guarded_send_mail: "guarded tables_ok (send_mail E m)"
  unfolding send_mail_def
  by (rule guarded.intros(4)) (auto simp: Let_def guarded.intros split: smtp_reply.split)

lemma guarded_services:
  "guarded tables_ok (publish E ex key c mid)" "guarded tables_ok (acquire E k)"
  "guarded tables_ok (breaker_isOpen E k)" "guarded tables_ok (breaker_recordSuccess k)"
  "guarded tables_ok (breaker_recordFailure E k)" "guarded tables_ok (channel_settle E raw ack)"
  unfolding publish_def acquire_def breaker_isOpen_def breaker_recordSuccess_def breaker_recordFailure_def channel_settle_def
  by (auto intro!: guarded_intros guarded_local guarded_call guarded_sync guarded_modify
      simp: Let_def split: option.split prod.split)

lemma guarded_smtp: "guarded tables_ok (smtp_send E r)"
  unfolding smtp_send_def by (intro guarded_intros guarded_send_mail)

lemma guarded_guard: "guarded tables_ok (reserve E m)" "guarded tables_ok (complete E j a c)"
proof -
  have "guarded tables_ok (pg_query E f)" if "\<And>u t. ledger_inv t \<Longrightarrow> ledger_inv (snd (f u t))" for f :: "string \<Rightarrow> ledger \<Rightarrow> (string + 'x) \<times> ledger"
    unfolding pg_query_def by (rule guarded_call) (use that in \<open>simp add: map_prod_def case_prod_unfold tables_ok_def\<close>)
  note q = this
  show "guarded tables_ok (reserve E m)"
    unfolding reserve_def Let_def by (intro guarded_intros q) (simp_all add: ledger_inv_insert)
  show "guarded tables_ok (complete E j a c)"
    unfolding complete_def by (rule q) (simp add: ledger_inv_update)
qed

lemma guarded_repository:
  "guarded tables_ok (repo_create E i)" "guarded tables_ok (findById E k)"
  "guarded tables_ok (markPublished E k)" "guarded tables_ok (markDelivered E k)"
  "guarded tables_ok (markRetryScheduled E k)" "guarded tables_ok (markDeadLettered E k c)"
proof -
  have "guarded tables_ok (prisma_query E f)" if "\<And>u t. jobs_inv t \<Longrightarrow> jobs_inv (snd (f u t))" for f :: "int \<Rightarrow> job_table \<Rightarrow> (string + 'x) \<times> job_table"
    unfolding prisma_query_def by (rule guarded_call) (use that in \<open>simp add: map_prod_def case_prod_unfold tables_ok_def\<close>)
  note q = this
  show "guarded tables_ok (repo_create E i)" "guarded tables_ok (findById E k)"
    unfolding repo_create_def findById_def by (intro guarded_intros q; simp add: jobs_inv_create)+
  show "guarded tables_ok (markPublished E k)" "guarded tables_ok (markDelivered E k)"
    "guarded tables_ok (markRetryScheduled E k)" "guarded tables_ok (markDeadLettered E k c)"
    unfolding markPublished_def markDelivered_def markRetryScheduled_def markDeadLettered_def
    by (intro guarded_intros guarded_local q; simp add: jobs_inv_update jobs_inv_updateMany)+
qed

lemmas guarded_all = guarded_intros guarded_local guarded_counters guarded_services guarded_smtp
  guarded_guard guarded_repository

section \<open>Every handler\<close>

lemma guarded_deliver: "guarded tables_ok (process E m)"
proof -
  have dead: "guarded tables_ok (deadLetter E m c d lat)" for c d lat
    unfolding deadLetter_def publishStatus_def by (intro guarded_all)
  have fail: "guarded tables_ok (handleFailure E m e lat)" for e lat
    unfolding handleFailure_def publishStatus_def
    by (cases e; cases "decideFailureAction (msg_attempt m)") (simp_all, (intro guarded_all dead)+)
  have send: "guarded tables_ok (send_and_record E m s)" for s
  proof (cases "msg_provider m = Smtp")
    case True
    then have "resolve E (msg_provider m) = Inr (smtp_send E)" using resolve_cases [of E "msg_provider m"] by auto
    then show ?thesis
      by (simp add: send_and_record_def Let_def publishStatus_def) (intro guarded_all)
  next
    case False
    then obtain s where "resolve E (msg_provider m) = Inl (PermanentProviderError PROVIDER_REJECTED s)"
      using resolve_cases [of E "msg_provider m"] by auto
    then show ?thesis by (simp add: send_and_record_def guarded.intros)
  qed
  show ?thesis
    unfolding process_def defer_message_def Let_def by (intro guarded_all send fail)
qed

lemma guarded_handle: "guarded tables_ok (handle E raw)"
  unfolding handle_def process_raw_def dead_letter_raw_def settle_def add_inFlight_def
  by (intro guarded_all guarded_deliver guarded_modify) simp_all

lemma guarded_handle_status: "guarded tables_ok (handle_status E raw)"
proof -
  have "guarded tables_ok (apply_event E e)" for e
    by (cases "ev_status e") (simp_all add: apply_event_def guarded_repository)
  then show ?thesis
    unfolding handle_status_def by (intro guarded_all)
qed

lemma guarded_submit: "guarded tables_ok (submit E k b)"
  unfolding submit_def lookup_existing_def redis_set_nx_def redis_read_def redis_delete_def publish_job_def Let_def
  by (intro guarded_all guarded_call) (simp_all split: prod.split)

lemma guarded_requests:
  "guarded tables_ok (post_email_job E g key idem body)" "guarded tables_ok (get_email_job E g key i)"
proof -
  have lift: "guarded tables_ok (lift_sum v)" for v :: "exn + 'x"
    unfolding lift_sum_def by (intro guarded_all)
  have filter: "guarded tables_ok m \<Longrightarrow> guarded tables_ok (filtered g m)" for m :: "('r, 'o reply) io" and g
    unfolding filtered_def by (intro guarded_catch) (auto simp: guarded.intros split: prod.split)
  show "guarded tables_ok (post_email_job E g key idem body)"
    unfolding post_email_job_def controller_submit_def by (intro filter guarded_all lift guarded_submit)
  show "guarded tables_ok (get_email_job E g key i)"
    unfolding get_email_job_def controller_getStatus_def getStatus_def by (intro filter guarded_all lift)
qed

text \<open>A pool of handlers, each forgetting its result.\<close>

definition quietly :: "('r, 'a) io \<Rightarrow> ('r, unit) io" where
  "quietly m = bind m (\<lambda>_. Resolve ())"

inductive_set handlers :: "(nat \<Rightarrow> http_body \<Rightarrow> string + 'o) \<Rightarrow> 'r services set \<Rightarrow> ('r, unit) io set" for g Es where
  worker: "E \<in> Es \<Longrightarrow> handle E raw \<in> handlers g Es"
| status: "E \<in> Es \<Longrightarrow> handle_status E raw \<in> handlers g Es"
| post: "E \<in> Es \<Longrightarrow> quietly (post_email_job E g key idem body) \<in> handlers g Es"
| read: "E \<in> Es \<Longrightarrow> quietly (get_email_job E g key i) \<in> handlers g Es"

lemma handlers_guarded: "m \<in> handlers g Es \<Longrightarrow> guarded tables_ok m"
  by (induction rule: handlers.induct)
    (auto simp: guarded_handle guarded_handle_status quietly_def intro!: guarded_bind guarded_requests guarded.intros)

end
