(* ===== verification/Config.thy ===== *)
theory Config
  imports Services
begin

text \<open>
  The directory \<^verbatim>\<open>src/config\<close>: the environment schemas of the two services and \<open>parseEnv\<close>. The
  environment is a map from names to texts. The services read some variables again from
  \<open>process.env\<close>; the last section relates what they read to what was validated.
\<close>

section \<open>Schemas of a variable\<close>

definition z_default :: "'a \<Rightarrow> (json option \<Rightarrow> issue_code list + 'a) \<Rightarrow> json option \<Rightarrow> issue_code list + 'a" where
  "z_default d schema v = (case v of None \<Rightarrow> Inr d | Some _ \<Rightarrow> schema v)"

text \<open>\<open>z.coerce.number().int().min(lo).max(hi)\<close>; \<open>NaN\<close> is not a number to zod.\<close>

definition z_coerce_int :: "int \<Rightarrow> int option \<Rightarrow> json option \<Rightarrow> issue_code list + int" where
  "z_coerce_int lo hi v =
     (case v of
        Some (JStr s) \<Rightarrow>
          (case js_Number s of
             None \<Rightarrow> Inl [Invalid_type]
           | Some q \<Rightarrow>
               let too_big = (case hi of None \<Rightarrow> [] | Some h \<Rightarrow> if q > of_int h then [Too_big] else [])
               in (case z_int_min lo (Some (JNum q)) of
                     Inl is \<Rightarrow> Inl (if q \<noteq> of_int \<lfloor>q\<rfloor> then is else is @ too_big)
                   | Inr i \<Rightarrow> if too_big = [] then Inr i else Inl too_big))
      | _ \<Rightarrow> Inl [Invalid_type])"

definition z_length :: "nat \<Rightarrow> string \<Rightarrow> issue_code list" where
  "z_length n s = (if length s < n then [Too_small] else if length s > n then [Too_big] else [])"

definition node_env_of_name :: "string \<Rightarrow> string option" where
  "node_env_of_name s = (if s \<in> {''development'', ''test'', ''production''} then Some s else None)"

type_synonym env = "string \<Rightarrow> string option"

definition env_field :: "env \<Rightarrow> string \<Rightarrow> (json option \<Rightarrow> issue_code list + 'a) \<Rightarrow> issue list + 'a" where
  "env_field env k schema = map_sum (List.map (Pair [k])) id (schema (map_option JStr (env k)))"

section \<open>apiEnvSchema\<close>

record ApiEnv =
  api_NODE_ENV :: string
  api_PORT :: int
  api_API_KEY :: string
  api_DATABASE_URL :: string
  api_RABBITMQ_URL :: string
  api_REDIS_URL :: string
  api_CORS_ORIGINS :: string

definition apiEnvSchema :: "env \<Rightarrow> issue list + ApiEnv" where
  "apiEnvSchema env =
     z_and (z_and (z_and (z_and (z_and (z_and (z_and
       (Inr (\<lambda>node port key db mq red cors.
          \<lparr>api_NODE_ENV = node, api_PORT = port, api_API_KEY = key, api_DATABASE_URL = db,
           api_RABBITMQ_URL = mq, api_REDIS_URL = red, api_CORS_ORIGINS = cors\<rparr>))
       (env_field env ''NODE_ENV'' (z_default ''development'' (z_enum node_env_of_name))))
       (env_field env ''PORT'' (z_default 3000 (z_coerce_int 1 (Some 65535)))))
       (env_field env ''API_KEY'' (z_string (z_min 16))))
       (env_field env ''DATABASE_URL'' (z_string (z_min 1))))
       (env_field env ''RABBITMQ_URL'' (z_string (z_min 1))))
       (env_field env ''REDIS_URL'' (z_string (z_min 1))))
       (env_field env ''CORS_ORIGINS'' (z_default [] (z_string (\<lambda>_. []))))"

section \<open>workerEnvSchema\<close>

record WorkerEnv =
  we_NODE_ENV :: string
  we_WORKER_PORT :: int
  we_EMAIL_PROVIDER :: ProviderName
  we_CONSUMER_PREFETCH :: int
  we_SMTP_MAX_CONNECTIONS :: int
  we_WORKER_DATABASE_URL :: string
  we_RABBITMQ_URL :: string
  we_REDIS_URL :: string
  we_SMTP_HOST :: string
  we_SMTP_PORT :: int
  we_SMTP_USER :: "string option"
  we_SMTP_PASS :: "string option"
  we_TOKEN_ENCRYPTION_KEY :: string
  we_METRICS_PORT :: int
  we_RATE_LIMIT_PER_SECOND :: int
  we_RATE_LIMIT_BURST :: int
  we_BREAKER_FAILURE_THRESHOLD :: int
  we_BREAKER_COOLDOWN_MS :: int

definition workerEnvSchema :: "env \<Rightarrow> issue list + WorkerEnv" where
  "workerEnvSchema env =
     z_and (z_and (z_and (z_and (z_and (z_and (z_and (z_and (z_and (z_and (z_and (z_and (z_and (z_and
       (z_and (z_and (z_and (z_and
       (Inr (\<lambda>node port prov prefetch conns db mq red host smtp user pass token metrics_port rate burst threshold cooldown.
          \<lparr>we_NODE_ENV = node, we_WORKER_PORT = port, we_EMAIL_PROVIDER = prov,
           we_CONSUMER_PREFETCH = prefetch, we_SMTP_MAX_CONNECTIONS = conns,
           we_WORKER_DATABASE_URL = db, we_RABBITMQ_URL = mq, we_REDIS_URL = red,
           we_SMTP_HOST = host, we_SMTP_PORT = smtp, we_SMTP_USER = user, we_SMTP_PASS = pass,
           we_TOKEN_ENCRYPTION_KEY = token, we_METRICS_PORT = metrics_port,
           we_RATE_LIMIT_PER_SECOND = rate, we_RATE_LIMIT_BURST = burst,
           we_BREAKER_FAILURE_THRESHOLD = threshold, we_BREAKER_COOLDOWN_MS = cooldown\<rparr>))
       (env_field env ''NODE_ENV'' (z_default ''development'' (z_enum node_env_of_name))))
       (env_field env ''WORKER_PORT'' (z_default 3001 (z_coerce_int 1 (Some 65535)))))
       (env_field env ''EMAIL_PROVIDER'' (z_default Smtp (z_enum provider_of_name))))
       (env_field env ''CONSUMER_PREFETCH'' (z_default 10 (z_coerce_int 1 (Some 1000)))))
       (env_field env ''SMTP_MAX_CONNECTIONS'' (z_default 4 (z_coerce_int 1 (Some 64)))))
       (env_field env ''WORKER_DATABASE_URL'' (z_string (z_min 1))))
       (env_field env ''RABBITMQ_URL'' (z_string (z_min 1))))
       (env_field env ''REDIS_URL'' (z_string (z_min 1))))
       (env_field env ''SMTP_HOST'' (z_default ''localhost'' (z_string (\<lambda>_. [])))))
       (env_field env ''SMTP_PORT'' (z_default 1025 (z_coerce_int 1 (Some 65535)))))
       (env_field env ''SMTP_USER'' (z_optional (z_string (\<lambda>_. [])))))
       (env_field env ''SMTP_PASS'' (z_optional (z_string (\<lambda>_. [])))))
       (env_field env ''TOKEN_ENCRYPTION_KEY'' (z_string (z_length 64))))
       (env_field env ''METRICS_PORT'' (z_default 9464 (z_coerce_int 1 (Some 65535)))))
       (env_field env ''RATE_LIMIT_PER_SECOND'' (z_default 100 (z_coerce_int 1 None))))
       (env_field env ''RATE_LIMIT_BURST'' (z_default 200 (z_coerce_int 1 None))))
       (env_field env ''BREAKER_FAILURE_THRESHOLD'' (z_default 5 (z_coerce_int 1 None))))
       (env_field env ''BREAKER_COOLDOWN_MS'' (z_default 30000 (z_coerce_int 1000 None)))"

section \<open>parseEnv\<close>

text \<open>The text of an issue is zod's.\<close>

fun join_with :: "string \<Rightarrow> string list \<Rightarrow> string" where
  "join_with sep [] = []"
| "join_with sep [x] = x"
| "join_with sep (x # xs) = x @ sep @ join_with sep xs"

definition parseEnv :: "(issue_code \<Rightarrow> string) \<Rightarrow> (env \<Rightarrow> issue list + 'a) \<Rightarrow> env \<Rightarrow> exn + 'a" where
  "parseEnv issue_message schema source =
     (case schema source of
        Inl issues \<Rightarrow>
          (let lines = List.map (\<lambda>(path, message). ''  '' @ join_with ''.'' path @ '': '' @ issue_message message) issues
           in Inl (JsError None (''Invalid environment configuration:'' @ [CHR 10] @ join_with [CHR 10] lines)))
      | Inr data \<Rightarrow> Inr data)"

definition loadApiEnv :: "(issue_code \<Rightarrow> string) \<Rightarrow> env \<Rightarrow> exn + ApiEnv" where
  "loadApiEnv issue_message env = parseEnv issue_message apiEnvSchema env"

definition loadWorkerEnv :: "(issue_code \<Rightarrow> string) \<Rightarrow> env \<Rightarrow> exn + WorkerEnv" where
  "loadWorkerEnv issue_message env = parseEnv issue_message workerEnvSchema env"

section \<open>What was validated and what is read\<close>

lemma env_field_Inr: "env_field env k schema = Inr x \<longleftrightarrow> schema (map_option JStr (env k)) = Inr x"
  by (cases "schema (map_option JStr (env k))") (simp_all add: env_field_def)

lemma z_default_Inr: "z_default d schema v = Inr x \<longleftrightarrow> (v = None \<and> x = d \<or> v \<noteq> None \<and> schema v = Inr x)"
  by (auto simp: z_default_def split: option.splits)

lemma parseEnv_Inr: "parseEnv msg schema env = Inr c \<longleftrightarrow> schema env = Inr c"
  by (auto simp: parseEnv_def Let_def split: sum.splits)

lemma z_coerce_int_Inr:
  assumes "z_coerce_int lo hi v = Inr i"
  shows "\<exists>s. v = Some (JStr s) \<and> js_Number s = Some (of_int i)" and "lo \<le> i"
    and "hi = Some h \<Longrightarrow> i \<le> h"
proof -
  have int: "q = of_int i \<and> lo \<le> i" if "z_int_min lo (Some (JNum q)) = Inr i" for q
    using that by (auto simp: z_int_min_def Let_def split: if_splits)
  show "\<exists>s. v = Some (JStr s) \<and> js_Number s = Some (of_int i)" and "lo \<le> i" and "hi = Some h \<Longrightarrow> i \<le> h"
    using assms
    by (auto simp: z_coerce_int_def Let_def dest!: int split: option.splits json.splits if_splits sum.splits)
qed

lemma coerced_Inr:
  assumes "env_field env k (z_default d (z_coerce_int lo hi)) = Inr i"
  shows "(case env k of None \<Rightarrow> Some (of_int d) | Some s \<Rightarrow> js_Number s) = Some (of_int i)"
    and "env k \<noteq> None \<or> lo \<le> d \<Longrightarrow> lo \<le> i"
    and "hi = Some h \<Longrightarrow> env k \<noteq> None \<or> d \<le> h \<Longrightarrow> i \<le> h"
  using assms z_coerce_int_Inr [of lo hi "map_option JStr (env k)" i]
  by (auto simp: env_field_Inr z_default_Inr split: option.splits)

lemma workerEnv_fields:
  assumes "loadWorkerEnv msg env = Inr c"
  shows "env_field env ''CONSUMER_PREFETCH'' (z_default 10 (z_coerce_int 1 (Some 1000))) = Inr (we_CONSUMER_PREFETCH c)"
    and "env_field env ''WORKER_PORT'' (z_default 3001 (z_coerce_int 1 (Some 65535))) = Inr (we_WORKER_PORT c)"
    and "env_field env ''SMTP_PORT'' (z_default 1025 (z_coerce_int 1 (Some 65535))) = Inr (we_SMTP_PORT c)"
    and "env_field env ''SMTP_MAX_CONNECTIONS'' (z_default 4 (z_coerce_int 1 (Some 64))) = Inr (we_SMTP_MAX_CONNECTIONS c)"
    and "env_field env ''RATE_LIMIT_PER_SECOND'' (z_default 100 (z_coerce_int 1 None)) = Inr (we_RATE_LIMIT_PER_SECOND c)"
    and "env_field env ''RATE_LIMIT_BURST'' (z_default 200 (z_coerce_int 1 None)) = Inr (we_RATE_LIMIT_BURST c)"
    and "env_field env ''BREAKER_FAILURE_THRESHOLD'' (z_default 5 (z_coerce_int 1 None)) = Inr (we_BREAKER_FAILURE_THRESHOLD c)"
    and "env_field env ''BREAKER_COOLDOWN_MS'' (z_default 30000 (z_coerce_int 1000 None)) = Inr (we_BREAKER_COOLDOWN_MS c)"
    and "env_field env ''TOKEN_ENCRYPTION_KEY'' (z_string (z_length 64)) = Inr (we_TOKEN_ENCRYPTION_KEY c)"
    and "env_field env ''SMTP_HOST'' (z_default ''localhost'' (z_string (\<lambda>_. []))) = Inr (we_SMTP_HOST c)"
  using assms unfolding loadWorkerEnv_def parseEnv_Inr workerEnvSchema_def z_and_Inr by auto

text \<open>A worker that has started runs within these bounds.\<close>

definition worker_bounds :: "WorkerEnv \<Rightarrow> bool" where
  "worker_bounds c \<longleftrightarrow>
     we_WORKER_PORT c \<in> {1..65535} \<and> we_SMTP_PORT c \<in> {1..65535} \<and> we_METRICS_PORT c \<in> {1..65535} \<and>
     we_CONSUMER_PREFETCH c \<in> {1..1000} \<and> we_SMTP_MAX_CONNECTIONS c \<in> {1..64} \<and>
     1 \<le> we_RATE_LIMIT_PER_SECOND c \<and> 1 \<le> we_RATE_LIMIT_BURST c \<and>
     1 \<le> we_BREAKER_FAILURE_THRESHOLD c \<and> 1000 \<le> we_BREAKER_COOLDOWN_MS c \<and>
     length (we_TOKEN_ENCRYPTION_KEY c) = 64"

lemma workerEnv_metrics_port:
  "loadWorkerEnv msg env = Inr c \<Longrightarrow>
     env_field env ''METRICS_PORT'' (z_default 9464 (z_coerce_int 1 (Some 65535))) = Inr (we_METRICS_PORT c)"
  unfolding loadWorkerEnv_def parseEnv_Inr workerEnvSchema_def z_and_Inr by auto

lemma z_length_Inr: "env_field env k (z_string (z_length n)) = Inr s \<Longrightarrow> length s = n"
  by (auto simp: env_field_Inr z_string_Inr z_length_def split: if_splits)

lemma worker_bounds_hold:
  assumes "loadWorkerEnv msg env = Inr c"
  shows "worker_bounds c"
  using coerced_Inr(2,3) [OF workerEnv_fields(1) [OF assms]] coerced_Inr(2,3) [OF workerEnv_fields(2) [OF assms]]
    coerced_Inr(2,3) [OF workerEnv_fields(3) [OF assms]] coerced_Inr(2,3) [OF workerEnv_fields(4) [OF assms]]
    coerced_Inr(2) [OF workerEnv_fields(5) [OF assms]] coerced_Inr(2) [OF workerEnv_fields(6) [OF assms]]
    coerced_Inr(2) [OF workerEnv_fields(7) [OF assms]] coerced_Inr(2) [OF workerEnv_fields(8) [OF assms]]
    coerced_Inr(2,3) [OF workerEnv_metrics_port [OF assms]] z_length_Inr [OF workerEnv_fields(9) [OF assms]]
  by (simp add: worker_bounds_def)

text \<open>
  \<open>Number(process.env.X ?? fallback)\<close> reads the validated value, for the variables whose
  fallback is the default of the schema.
\<close>

lemma reread_agrees:
  assumes "loadWorkerEnv msg (process_env E) = Inr c"
  shows "env_number E ''CONSUMER_PREFETCH'' 10 = Some (of_int (we_CONSUMER_PREFETCH c))"
    and "env_number E ''SMTP_MAX_CONNECTIONS'' 4 = Some (of_int (we_SMTP_MAX_CONNECTIONS c))"
    and "env_number E ''BREAKER_FAILURE_THRESHOLD'' 5 = Some (of_int (we_BREAKER_FAILURE_THRESHOLD c))"
    and "env_number E ''BREAKER_COOLDOWN_MS'' 30000 = Some (of_int (we_BREAKER_COOLDOWN_MS c))"
  using coerced_Inr(1) [OF workerEnv_fields(1) [OF assms]] coerced_Inr(1) [OF workerEnv_fields(4) [OF assms]]
    coerced_Inr(1) [OF workerEnv_fields(7) [OF assms]] coerced_Inr(1) [OF workerEnv_fields(8) [OF assms]]
  by (simp_all add: env_number_def cong: option.case_cong)

text \<open>The rate limiter has no fallback: without the variable its script fails on every call.\<close>

lemma acquire_unset:
  assumes "process_env E ''RATE_LIMIT_PER_SECOND'' = None"
  shows "wp (acquire E key) (\<lambda>_ _. False) (\<lambda>_ w'. redis w' = redis w) w"
  using assms by (simp add: acquire_def wp_bind wp_date_now wp_call Let_def env_text_def script_unset split: fate.split)

end
