(* ===== verification/Example.thy ===== *)
theory Example
  imports EmailConsumer StatusConsumer Http Config Interleaving
begin

text \<open>
  A concrete instance of the services: every call completes, Redis is a pair of maps without
  expiry, the SMTP server takes every mail, and the clock stands still. The theorems that
  have hypotheses are applied to it, or to a variation of it.
\<close>

type_synonym demo_redis = "(string \<Rightarrow> string option) \<times> (string \<Rightarrow> bucket)"

definition demo_env :: env where
  "demo_env =
     [''API_KEY'' \<mapsto> ''secret-secret-secret'', ''RATE_LIMIT_PER_SECOND'' \<mapsto> show_nat 100, ''RATE_LIMIT_BURST'' \<mapsto> show_nat 200,
      ''WORKER_DATABASE_URL'' \<mapsto> ''pg'', ''RABBITMQ_URL'' \<mapsto> ''amqp'', ''REDIS_URL'' \<mapsto> ''redis'',
      ''TOKEN_ENCRYPTION_KEY'' \<mapsto> replicate 64 (CHR ''0'')]"

definition demo :: "demo_redis services" where
  "demo = \<lparr>
     fate = (\<lambda>_. Completes),
     clock = (\<lambda>_. 1000),
     random_uuid = (\<lambda>_. ''job-1''),
     smtp_server = (\<lambda>_ _. SmtpAccepted (Some ''<1@smtp>'')),
     ack_throws = (\<lambda>_. False),
     new_consumer_tag = (\<lambda>_. ''amq.ctag-1''),
     redis_set_nx_ex = (\<lambda>(s, b) k v _. if s k = None then (True, (s(k \<mapsto> v), b)) else (False, (s, b))),
     redis_get = (\<lambda>(s, b) k. s k),
     redis_del = (\<lambda>(s, b) k. (s(k := None), b)),
     redis_hmget = (\<lambda>(s, b) k. b k),
     redis_hset = (\<lambda>(s, b) k v. (s, b(k := v))),
     redis_pexpire = (\<lambda>r _ _. r),
     zod_formats = \<lparr>zod_email = (\<lambda>s. CHR ''@'' \<in> set s), zod_uuid = (\<lambda>s. s \<noteq> [])\<rparr>,
     process_env = demo_env\<rparr>"

definition no_metrics :: metrics where
  "no_metrics = \<lparr>jobsSubmitted = 0, jobsDelivered = (\<lambda>_. 0), jobsRetried = (\<lambda>_. 0),
     jobsDeadLettered = (\<lambda>_. 0), duplicatesSkipped = 0, deliveryDuration = [], sendDuration = [],
     queueDepth = (\<lambda>_. None)\<rparr>"

definition empty_world :: "demo_redis world" where
  "empty_world = \<lparr>steps = 0, redis = (\<lambda>_. None, \<lambda>_. \<lparr>tokens = None, ts = None\<rparr>), jobs = [], ledger = [],
     channel = True, published = [], mails = [], settled = [], breakers = (\<lambda>_. None),
     metrics = no_metrics, inFlight = 0, prefetch_count = None, consumers = [],
     consumerTag = None, statusConsumerTag = None\<rparr>"

definition demo_message :: EmailJobMessage where
  "demo_message =
     \<lparr>msg_tenantId = ''t'', msg_from = ''a@x'', msg_to = ''b@y'', msg_subject = ''s'', msg_text = ''hi'',
      msg_html = None, msg_jobId = ''job-1'', msg_provider = Smtp, msg_attempt = 0, msg_publishedAt = 900\<rparr>"

lemma demo_simps [simp]:
  "fate demo n = Completes" "clock demo n = 1000" "random_uuid demo n = ''job-1''"
  "smtp_server demo n m = SmtpAccepted (Some ''<1@smtp>'')" "ack_throws demo n = False"
  "process_env demo = demo_env"
  by (simp_all add: demo_def)

definition demo_with :: "(nat \<Rightarrow> fate) \<Rightarrow> (nat \<Rightarrow> Mail \<Rightarrow> smtp_reply) \<Rightarrow> demo_redis services" where
  "demo_with f server = demo\<lparr>fate := f, smtp_server := server\<rparr>"

lemma demo_with_simps [simp]:
  "fate (demo_with f server) = f" "clock (demo_with f server) n = 1000"
  "random_uuid (demo_with f server) n = ''job-1''" "smtp_server (demo_with f server) = server"
  "ack_throws (demo_with f server) n = False" "process_env (demo_with f server) = demo_env"
  by (simp_all add: demo_with_def demo_def)

lemma show_int_1000: "show_int 1000 = show_nat 1000"
  by (simp add: show_int_def)

lemma demo_env_rate:
  "env_text (demo_with f server) ''RATE_LIMIT_PER_SECOND'' = show_nat 100"
  "env_text (demo_with f server) ''RATE_LIMIT_BURST'' = show_nat 200"
  by (simp_all add: env_text_def demo_env_def)

text \<open>The rate limiter of the instance: a key whose bucket holds \<open>k\<close> tokens, or has not been used.\<close>

definition bucket_of :: "nat \<Rightarrow> bucket" where
  "bucket_of k = \<lparr>tokens = Some (of_nat k), ts = Some 1000\<rparr>"

lemma script_bucket_of:
  assumes "0 < k" "k \<le> 200"
  shows "\<exists>res. TOKEN_BUCKET_SCRIPT (show_nat 100) (show_nat 200) (show_nat 1000) (bucket_of k) = Some res \<and>
    allowed res \<and> hset res = bucket_of (k - 1) \<and> (\<exists>ms. pexpire res = Some ms)"
  using script_numbers [of 100 200 1000 "bucket_of k"] assms available_same_instant(1) [of k 200 100 1000]
  by (auto simp: bucket_of_def bucket_ok_def take_token_of_nat)

lemma script_fresh:
  "\<exists>res. TOKEN_BUCKET_SCRIPT (show_nat 100) (show_nat 200) (show_nat 1000) \<lparr>tokens = None, ts = None\<rparr> = Some res \<and>
    allowed res \<and> hset res = bucket_of 199 \<and> (\<exists>ms. pexpire res = Some ms)"
  using script_numbers [of 100 200 1000 fresh] available_same_instant(2) [of 200 100 1000] take_token_of_nat [of 200]
  by (auto simp: bucket_of_def bucket_ok_def fresh_def)

lemma demo_redis_ops [simp]:
  "redis_hmget (demo_with f server) (s, b) k = b k"
  "redis_hset (demo_with f server) (s, b) k v = (s, b(k := v))"
  "redis_pexpire (demo_with f server) r k ms = r"
  by (simp_all add: demo_with_def demo_def)

lemma wp_acquire_demo:
  assumes "redis w = (s, b)" and "f (Suc (steps w)) = Completes"
    and "b key = \<lparr>tokens = None, ts = None\<rparr> \<and> k = 200 \<or> b key = bucket_of k \<and> 0 < k \<and> k \<le> 200"
  shows "wp (acquire (demo_with f server) key) Q R w \<longleftrightarrow>
     Q True (w\<lparr>steps := Suc (Suc (steps w)), redis := (s, b(key := bucket_of (k - 1)))\<rparr>)"
proof -
  obtain res where "TOKEN_BUCKET_SCRIPT (show_nat 100) (show_nat 200) (show_nat 1000) (b key) = Some res"
      "allowed res" "hset res = bucket_of (k - 1)" "\<exists>ms. pexpire res = Some ms"
    using assms(3) script_bucket_of [of k] script_fresh by auto
  then show ?thesis
    using assms(1,2) by (auto simp: acquire_def wp_rules Let_def demo_env_rate show_int_1000)
qed

section \<open>Running a delivery\<close>

text \<open>
  A server that takes every mail, services of which one call is refused, and the equations
  that evaluate a delivery on them.
\<close>

definition accept_all :: "nat \<Rightarrow> Mail \<Rightarrow> smtp_reply" where
  "accept_all _ _ = SmtpAccepted (Some ''<1@smtp>'')"

definition fail_at :: "nat \<Rightarrow> nat \<Rightarrow> fate" where
  "fail_at k n = (if n = k then Refused ''connection refused'' else Completes)"

lemma acquire_fresh:
  assumes "f (Suc (steps w)) = Completes" and "snd (redis w) key = \<lparr>tokens = None, ts = None\<rparr>"
  shows "wp (acquire (demo_with f server) key) Q R w \<longleftrightarrow>
     Q True (w\<lparr>steps := Suc (Suc (steps w)), redis := (fst (redis w), (snd (redis w))(key := bucket_of 199))\<rparr>)"
  using wp_acquire_demo [of w "fst (redis w)" "snd (redis w)" f key 200] assms by simp

lemma acquire_199:
  assumes "f (Suc (steps w)) = Completes" and "snd (redis w) key = bucket_of 199"
  shows "wp (acquire (demo_with f server) key) Q R w \<longleftrightarrow>
     Q True (w\<lparr>steps := Suc (Suc (steps w)), redis := (fst (redis w), (snd (redis w))(key := bucket_of 198))\<rparr>)"
  using wp_acquire_demo [of w "fst (redis w)" "snd (redis w)" f key 199] assms by simp

lemmas demo_eval = process_def wp_bind Let_def acquire_fresh acquire_199 isOpen_closed
  reserve_def wp_pg_query insert_attempt_def fail_at_def int4_def is_attempt_def wp_rules
  send_and_record_def resolve_def provider_map_def smtp_send_def toSendRequest_def to_mail_def
  accept_all_def breaker_recordSuccess_def complete_def update_attempt_def handleFailure_def
  breaker_recordFailure_def publishStatus_def recordFailure_def recordSuccess_def env_number_def
  demo_env_def js_ge_def deadLetter_def decideFailureAction_cases js_index_def select_outcome_def
  counter_defs classifySmtpError_def error_code_def exn_message_def TRANSIENT_SMTP_CODES_def

section \<open>Advancing a delivery\<close>

text \<open>The equations that evaluate a schedule of deliveries on the instance.\<close>

definition demo_ttl :: rat where
  "demo_ttl = of_int \<lceil>fl (fl (of_nat 200 / of_nat 100) * 2000)\<rceil>"

lemma demo_ttl: "TOKEN_BUCKET_SCRIPT (show_nat 100) (show_nat 200) (show_nat 1000) st = Some r \<Longrightarrow> pexpire r = Some demo_ttl"
  by (auto simp: TOKEN_BUCKET_SCRIPT_def tonumber_show_nat Let_def demo_ttl_def split: option.splits prod.splits)

lemma script_demo:
  "0 < k \<Longrightarrow> k \<le> 200 \<Longrightarrow> TOKEN_BUCKET_SCRIPT (show_nat 100) (show_nat 200) (show_nat 1000) (bucket_of k) =
    Some \<lparr>allowed = True, hset = bucket_of (k - 1), pexpire = Some demo_ttl\<rparr>"
  using script_bucket_of [of k] demo_ttl by fastforce

lemma script_demo_fresh:
  "TOKEN_BUCKET_SCRIPT (show_nat 100) (show_nat 200) (show_nat 1000) \<lparr>tokens = None, ts = None\<rparr> =
    Some \<lparr>allowed = True, hset = bucket_of 199, pexpire = Some demo_ttl\<rparr>"
  using script_fresh demo_ttl by fastforce

lemmas demo_steps = finished_def advance_def process_def Let_def acquire_def date_now_def sync_def call_def
  demo_env_rate show_int_1000 script_demo script_demo_fresh empty_world_def demo_message_def breaker_isOpen_def isOpen_def reserve_def
  pg_query_def insert_attempt_def int4_def is_attempt_def select_outcome_def
  send_and_record_def resolve_def provider_map_def smtp_send_def toSendRequest_def to_mail_def accept_all_def send_mail_def
  breaker_recordSuccess_def modify_def recordSuccess_def complete_def

end
