(* ===== verification/DeliveryProperties.thy ===== *)
theory DeliveryProperties
  imports System Example
begin

text \<open>
  The properties of the worker: what becomes of a message, the retries, the idempotency guard,
  the circuit breaker and the rate limiter. Each is a theorem over the definitions of the model,
  with an application at a concrete input where it has hypotheses.
\<close>

section \<open>What becomes of a message\<close>

text \<open>C4: A delivery that is acknowledged has accounted for its message: it was a duplicate of a
  finished attempt, or was deferred, delivered, rescheduled or dead-lettered, with exactly the
  messages published, the mails sent and the outcome recorded that go with it. One that is not
  acknowledged has sent at most one mail and published a prefix of such messages.\<close>

theorem delivery_accounts:
  "case run (process E m) w of
     (Inr ACK, w') \<Rightarrow> \<exists>d. accounts m d w w'
   | (Inr REQUEUE, w') \<Rightarrow> partial m w w'
   | (Inl e, w') \<Rightarrow> partial m w w'"
  using process_wp [of E m w] by (auto simp: wp_def split: prod.splits sum.splits DeliveryOutcome.split)

text \<open>C5: An attempt that has its final outcome is never sent again, whatever fails, and keeps it.\<close>

theorem finished_attempt_not_resent:
  assumes "\<not> open_status (attempt_status w (msg_jobId m) (msg_attempt m))"
  shows "mails (snd (run (process E m) w)) = mails w \<and>
    attempt_status (snd (run (process E m) w)) (msg_jobId m) (msg_attempt m)
      = attempt_status w (msg_jobId m) (msg_attempt m)"
proof -
  have p: "mails w' = mails w \<and> own w' m = own w m" if "partial m w w'" for w'
    using that assms by (auto simp: partial_def)
  have a: "mails w' = mails w \<and> own w' m = own w m" if "accounts m d w w'" for d w'
    using that assms by (cases d) (auto simp: accounts_def)
  show ?thesis
    using process_wp [of E m w] p a by (auto simp: wp_def split: prod.splits sum.splits)
qed

definition delivered_world :: "demo_redis world" where
  "delivered_world = empty_world\<lparr>ledger :=
     [\<lparr>row_id = ''r'', job_id = ''job-1'', attempt = 0, provider = ''smtp'', outcome = ''DELIVERED'',
       message_id = None, error_code = None, latency_ms = None\<rparr>]\<rparr>"

lemma delivered_world_status: "attempt_status delivered_world (msg_jobId demo_message) (msg_attempt demo_message) = Some ''DELIVERED''"
  by (simp add: attempt_status_def outcome_of_def delivered_world_def demo_message_def is_attempt_def)

theorem finished_attempt_not_resent_witness:
  "attempt_status delivered_world (msg_jobId demo_message) (msg_attempt demo_message) = Some ''DELIVERED'' \<and>
   mails (snd (run (process demo demo_message) delivered_world)) = []"
  using finished_attempt_not_resent [of delivered_world demo_message demo] delivered_world_status
  by (simp add: open_status_def) (simp add: delivered_world_def empty_world_def)

text \<open>C8: With a channel open, handling a message resolves whatever happens; the in-flight counter is
  back where it was, the message is settled at most once, and it is acknowledged only when it has
  been accounted for: a malformed or invalid one went to the dead-letter exchange as it was.\<close>

theorem consumer_settles:
  assumes "channel w"
  shows "\<exists>w'. run (handle E (Some raw)) w = (Inr (), w') \<and> inFlight w' = inFlight w \<and>
    (settled w' = settled w \<or> settled w' = settled w @ [(raw_deliveryTag raw, False)] \<or>
     settled w' = settled w @ [(raw_deliveryTag raw, True)] \<and> accounted E raw w w')"
  using handle_cases [OF assms, of E raw] by blast

theorem consumer_settles_witness:
  "\<exists>w'. run (handle demo (Some \<lparr>raw_content = ''oops'', raw_deliveryTag = 7\<rparr>)) empty_world = (Inr (), w') \<and>
     inFlight w' = 0"
  using consumer_settles [of empty_world demo "\<lparr>raw_content = ''oops'', raw_deliveryTag = 7\<rparr>"]
  by (auto simp: empty_world_def)



section \<open>Routing and retries\<close>

text \<open>A message reaches one queue, which the topology declares.\<close>

definition reaches_one_queue :: "publication \<Rightarrow> bool" where
  "reaches_one_queue p \<longleftrightarrow>
     (\<exists>q. route topology_commands (pub_exchange p) (pub_routingKey p) = [q] \<and>
          args_of topology_commands q \<noteq> None)"

lemma publication_of_simps [simp]:
  "pub_exchange (publication_of ex key c mid) = ex" "pub_routingKey (publication_of ex key c mid) = key"
  by (simp_all add: publication_of_def)

lemma TOPOLOGY_keys:
  "routingKey TOPOLOGY = ''email.deliver''" "deadLetterRoutingKey TOPOLOGY = ''email.dead''"
  "statusRoutingKey TOPOLOGY = ''email.status''"
  by (simp_all add: TOPOLOGY_def)

lemma tier_reaches_one_queue:
  "tier \<in> {1, 2, 3, 4, 5} \<Longrightarrow>
     reaches_one_queue (publication_of (retryExchange TOPOLOGY) (retryQueueName tier) c mid)"
  by (elim insertE) (simp_all add: reaches_one_queue_def retryQueueName_def routes queue_arguments)

lemma fixed_reach_one_queue:
  "reaches_one_queue (publication_of (statusExchange TOPOLOGY) (statusRoutingKey TOPOLOGY) c mid)"
  "reaches_one_queue (publication_of (deadLetterExchange TOPOLOGY) (deadLetterRoutingKey TOPOLOGY) c mid)"
  "reaches_one_queue (publication_of (exchange TOPOLOGY) (routingKey TOPOLOGY) c mid)"
  by (simp_all add: reaches_one_queue_def TOPOLOGY_keys routes queue_arguments)

text \<open>Every message the worker publishes for a delivery, and the submission the API publishes, reaches
  exactly one declared queue: nothing that was published is dropped by the broker.\<close>

theorem published_messages_reach_a_queue:
  assumes "left m d s s' k" and "0 \<le> msg_attempt m" and "p \<in> set (emitted m d)"
  shows "reaches_one_queue p"
proof (cases d)
  case (Deferred tier)
  then show ?thesis
    using assms by (auto simp: RATE_LIMIT_DEFER_TIER_def BREAKER_DEFER_TIER_def
      tier_reaches_one_queue simp del: TOPOLOGY_exchanges)
next
  case (Retried code n q t)
  then obtain e where "decideFailureAction (msg_attempt m) = RETRY n q e" using assms(1) by auto
  from retry_tier [OF this assms(2)] show ?thesis
    using Retried assms(3) by (auto simp: status_publication_def fixed_reach_one_queue
      tier_reaches_one_queue simp del: TOPOLOGY_exchanges)
qed (use assms in \<open>auto simp: status_publication_def fixed_reach_one_queue simp del: TOPOLOGY_exchanges\<close>)

theorem published_messages_reach_a_queue_witness:
  "reaches_one_queue (publication_of (retryExchange TOPOLOGY) (retryQueueName 1) (message_text demo_message) (Some ''job-1''))"
  using published_messages_reach_a_queue [of demo_message "Deferred 1" None None 0
      "publication_of (retryExchange TOPOLOGY) (retryQueueName 1) (message_text demo_message) (Some ''job-1'')"]
  by (simp add: RATE_LIMIT_DEFER_TIER_def demo_message_def)

text \<open>C15: A retry is put on the queue whose time to live is the delay the policy decided on, and from there
  the broker moves it back to the work queue.\<close>

theorem retry_waits_and_returns:
  assumes "decideFailureAction a = RETRY n queue wait" and "0 \<le> a"
  shows "\<exists>s. wait = Some s \<and> n = a + 1 \<and>
    route topology_commands (retryExchange TOPOLOGY) queue = [queue] \<and>
    map_option x_message_ttl (args_of topology_commands queue) = Some (Some (s * 1000)) \<and>
    expires_to topology_commands queue = [mainQueue TOPOLOGY]"
proof -
  have q: "queue = retryQueueName n" "n \<in> {1, 2, 3, 4, 5}" "n = a + 1" using retry_tier [OF assms] by auto
  have d: "wait = js_index [5, 30, 120, 600, 1800] a"
    using assms(1) by (auto simp: decideFailureAction_cases split: if_splits)
  have m: "mainQueue TOPOLOGY = ''email.queue''" by (simp add: TOPOLOGY_def)
  from q(2) show ?thesis
    unfolding d m q(1) expires_to_def
    using q(3) by (elim insertE) (simp_all add: retryQueueName_def js_index_def routes queue_arguments tier_args_def)
qed

theorem retry_waits_and_returns_witness:
  "expires_to topology_commands (retryQueueName 3) = [mainQueue TOPOLOGY]"
  using retry_waits_and_returns [of 2 3 "retryQueueName 3" "Some 120"]
  by (simp add: decideFailureAction_cases js_index_def)


section \<open>The idempotency guard\<close>

text \<open>Reserving an attempt and completing it leaves it with its outcome: the reservation is granted
  exactly when the attempt has no final outcome, and after a granted one that was completed every
  later reservation is refused.\<close>

theorem completed_attempt_is_closed:
  "wp (bind (reserve_attempt E m j a) (\<lambda>granted.
         bind (complete_attempt E mid code lat j a ''DELIVERED'') (\<lambda>_.
         bind (reserve_attempt E m j a) (\<lambda>again. Resolve (granted, again)))))
     (\<lambda>(granted, again) w'. granted = open_status (attempt_status w j a) \<and> \<not> (granted \<and> again))
     (\<lambda>_ _. True) w"
  unfolding wp_bind
  by (rule wp_mono [OF ig.reserve_spec], rule wp_mono [OF ig.complete_spec], rule wp_mono [OF ig.reserve_spec])
    (auto simp: wp_Resolve open_status_def)

section \<open>The circuit breaker\<close>

text \<open>C13: Along any sequence of queries, successes and failures in the order of time, the breaker answers
  what its specification says: open exactly when the failures since the last success have reached
  the threshold and the last of them is more recent than the cool-down. The mutable state machine
  with its half-open state implements this.\<close>

theorem breaker_implements_specification:
  assumes "sorted (List.map event_time es)"
  shows "answers threshold cooldown name (\<lambda>_. None) es
    = spec_answers threshold cooldown \<lparr>failures = 0, lastFailure = 0\<rparr> es"
proof (cases es)
  case (Cons e es')
  have "breaker_rel threshold cooldown (event_time e) ((\<lambda>_. None) name) \<lparr>failures = 0, lastFailure = 0\<rparr>"
    by (simp add: breaker_rel_def)
  moreover have "sorted (event_time e # List.map event_time es)" using assms Cons by simp
  ultimately show ?thesis by (rule answers_simulate)
qed simp

theorem breaker_implements_specification_witness:
  "answers (Some 2) (Some 100) ''smtp'' (\<lambda>_. None) [Failure 0, Query 1, Failure 2, Query 3, Query 102, Failure 103, Query 104]
    = [False, True, False, True]"
  using breaker_implements_specification [of "[Failure 0, Query 1, Failure 2, Query 3, Query 102, Failure 103, Query 104]"
      "Some 2" "Some 100" "''smtp''"]
  by (simp add: spec_open_def js_ge_def)

text \<open>Every operation on the breakers keeps their invariant, a recorded breaker is closed exactly while
  its failures are below the threshold, and leaves the breakers of other providers alone.\<close>

theorem breaker_invariant:
  assumes "breaker_inv threshold bs"
  shows "breaker_inv threshold (snd (isOpen cooldown t bs name)) \<and> breaker_inv threshold (recordSuccess bs name) \<and>
    breaker_inv threshold (recordFailure threshold t bs name) \<and>
    (\<forall>name'. name = name' \<or> snd (isOpen cooldown t bs name) name' = bs name' \<and>
       recordSuccess bs name name' = bs name' \<and> recordFailure threshold t bs name name' = bs name')"
  using assms breaker_frame by (auto intro: breaker_inv_isOpen breaker_inv_recordSuccess breaker_inv_recordFailure)

theorem breaker_invariant_witness:
  "breaker_inv (Some 1) (recordFailure (Some 1) 5 (\<lambda>_. None) ''smtp'')"
  using breaker_invariant [of "Some 1" "\<lambda>_. None" None 5 "''smtp''"] by (simp add: breaker_inv_def)

section \<open>The rate limiter\<close>

text \<open>C14: The token bucket keeps between 0 and its capacity tokens, and grants a call exactly when at least
  one token is available at its time, whatever the clock did: with doubles, rounding included.\<close>

theorem bucket_stays_within_capacity:
  assumes "r \<le> 2 ^ 53" and "c \<le> 2 ^ 53" and "t \<le> 2 ^ 53" and "bucket_ok c st"
  shows "\<exists>res. TOKEN_BUCKET_SCRIPT (show_nat r) (show_nat c) (show_nat t) st = Some res \<and>
    bucket_ok c (hset res) \<and> allowed res = (1 \<le> available r c t st)"
  using script_numbers [OF assms] bucket_ok_step [OF assms(4,2)] by auto

theorem bucket_stays_within_capacity_witness:
  "\<exists>res. TOKEN_BUCKET_SCRIPT (show_nat 100) (show_nat 200) (show_nat 1000) fresh = Some res \<and> bucket_ok 200 (hset res)"
  using bucket_stays_within_capacity [of 100 200 1000 fresh] by (auto simp: bucket_ok_def fresh_def)

text \<open>Of any number of calls at one instant a fresh bucket grants exactly its capacity, and those first.\<close>

theorem burst_is_capacity:
  assumes "r \<le> 2 ^ 53" and "c \<le> 2 ^ 53" and "t \<le> 2 ^ 53"
  shows "replies (show_nat r) (show_nat c) (replicate n t) fresh = replicate (min c n) True @ replicate (n - c) False"
  by (rule replies_burst [OF assms])

theorem burst_is_capacity_witness:
  "replies (show_nat 100) (show_nat 2) (replicate 5 1000) fresh = replicate 2 True @ replicate 3 False"
  using burst_is_capacity [of 100 2 1000 5] by simp

section \<open>The mail server\<close>




section \<open>Shutting down\<close>

text \<open>On shutdown the consumer waits for its messages in flight, but not forever: with a clock that
  advances by the 100 ms each round waits, the loop is left within 101 rounds.\<close>

theorem drain_ends:
  assumes "ticking E (Suc (steps w))" and "clock E (Suc (steps w)) \<ge> clock E (steps w)"
  shows "wp (drain 101 E) (\<lambda>left w'. left \<and> inFlight w' = inFlight w) (\<lambda>_ _. False) w"
  by (rule drain_wp [OF assms])

theorem drain_ends_witness:
  "wp (drain 101 (demo\<lparr>clock := (\<lambda>n. 50 * int n)\<rparr>)) (\<lambda>left w'. left \<and> inFlight w' = 3) (\<lambda>_ _. False) (empty_world\<lparr>inFlight := 3\<rparr>)"
  using drain_ends [of "demo\<lparr>clock := (\<lambda>n. 50 * int n)\<rparr>" "empty_world\<lparr>inFlight := 3\<rparr>"] by (simp add: ticking_def)

section \<open>Where deliveries are lost or repeated\<close>






end
