(* ===== verification/ApiProperties.thy ===== *)
theory ApiProperties
  imports System Example
begin

text \<open>
  The properties of the API: the messages it exchanges with the worker, submissions and their
  idempotency keys, the status events, and the HTTP layer.
\<close>

section \<open>Messages\<close>

text \<open>A text the program writes with \<open>JSON.stringify\<close> is read back by \<open>JSON.parse\<close> as the same object
  without its undefined members, for any texts and any safe integers.\<close>

theorem json_text_roundtrip:
  assumes "\<forall>m \<in> set ms. safe_value (snd m)"
  shows "json_parse (json_stringify ms) = Some (JObj (to_members ms))"
  by (rule json_roundtrip [OF assms])

theorem json_text_roundtrip_witness:
  "json_parse (json_stringify [(''a'', JsString [CHR 0x22, CHR 10]), (''b'', JsNumber (- 7)), (''c'', Undefined)])
    = Some (JObj [(''a'', JStr [CHR 0x22, CHR 10]), (''b'', JNum (- 7))])"
  using json_text_roundtrip [of "[(''a'', JsString [CHR 0x22, CHR 10]), (''b'', JsNumber (- 7)), (''c'', Undefined)]"]
  by (simp add: to_members_def map_filter_simps)

text \<open>What the worker republishes is read back by a worker as the same message.\<close>

theorem republished_message_roundtrip:
  assumes "valid_message Z m"
  shows "map_option (emailJobMessageSchema Z) (json_parse (message_text m)) = Some (Inr m)"
  unfolding message_text_def by (rule message_text_roundtrip [OF assms])

lemma demo_message_valid: "valid_message (zod_formats demo) demo_message"
  by (simp add: valid_message_def valid_address_def demo_message_def demo_def safe_int_def)

theorem republished_message_roundtrip_witness:
  "map_option (emailJobMessageSchema (zod_formats demo)) (json_parse (message_text demo_message)) = Some (Inr demo_message)"
  by (rule republished_message_roundtrip [OF demo_message_valid])

text \<open>C17: A body the API has validated becomes a message every worker accepts, and accepts as what was submitted:
  no submission is dead-lettered for its format.\<close>

theorem submission_is_understood:
  assumes "submitEmailJobBodySchema Z v = Inr body" and "zod_uuid Z jobId" and "safe_int 1 now"
  shows "map_option (emailJobMessageSchema Z) (json_parse (pub_content (job_publication jobId now body)))
    = Some (Inr (job_message jobId (body_provider_of body) now body))"
  by (rule job_publication_text [OF assms])

definition demo_body :: SubmitEmailJobBody where
  "demo_body = \<lparr>body_tenantId = ''t'', body_from = ''a@x'', body_to = ''b@y'', body_subject = ''s'',
     body_text = ''hi'', body_html = None, body_provider = None\<rparr>"

definition demo_json :: json where
  "demo_json = JObj [(''tenantId'', JStr ''t''), (''from'', JStr ''a@x''), (''to'', JStr ''b@y''),
     (''subject'', JStr ''s''), (''text'', JStr ''hi'')]"

lemma demo_json_body: "submitEmailJobBodySchema (zod_formats demo) demo_json = Inr demo_body"
  by (simp add: submitEmailJobBodySchema_def emailAddressSchema_def zod_Inr demo_json_def demo_body_def demo_def
      jget_def)

theorem submission_is_understood_witness:
  "map_option (emailJobMessageSchema (zod_formats demo)) (json_parse (pub_content (job_publication ''job-1'' 1000 demo_body)))
    = Some (Inr (job_message ''job-1'' Smtp 1000 demo_body))"
  using submission_is_understood [OF demo_json_body, of "''job-1''" 1000]
  by (simp add: demo_def safe_int_def body_provider_of_def demo_body_def)

text \<open>Whatever a worker accepts satisfies the bounds of the contract, down to the lengths of its texts.\<close>

theorem accepted_message_is_valid:
  assumes "emailJobMessageSchema Z v = Inr m"
  shows "valid_message Z m"
  by (rule emailJobMessageSchema_sound [OF assms])

theorem accepted_message_is_valid_witness:
  "valid_message (zod_formats demo) demo_message"
  by (rule accepted_message_is_valid [OF emailJobMessageSchema_members [OF demo_message_valid]])

text \<open>A status event arrives as it was sent.\<close>

theorem status_event_roundtrip:
  assumes "valid_event (zod_formats E) e"
  shows "parse_event E \<lparr>raw_content = event_text e, raw_deliveryTag = tag\<rparr> = Some e"
proof -
  obtain v where "json_parse (event_text e) = Some v" "deliveryStatusEventSchema (zod_formats E) v = Inr e"
    using event_text_roundtrip [OF assms] by (auto simp: event_text_def)
  then show ?thesis by (simp add: parse_event_def)
qed

definition demo_event :: "DeliveryStatus \<Rightarrow> DeliveryStatusEvent" where
  "demo_event s = status_event demo_message s 0 None None 1000"

lemma demo_event_valid: "valid_event (zod_formats demo) (demo_event s)"
  by (simp add: valid_event_def demo_event_def status_event_def demo_message_def demo_def safe_int_def)

theorem status_event_roundtrip_witness:
  "parse_event demo \<lparr>raw_content = event_text (demo_event DELIVERED), raw_deliveryTag = 1\<rparr> = Some (demo_event DELIVERED)"
  by (rule status_event_roundtrip [OF demo_event_valid])

section \<open>Submissions\<close>

text \<open>C11: A submission that resolves either was accepted, with one new job in state \<open>PUBLISHED\<close>, exactly its message
  published and the counter raised, or repeated an existing job and changed nothing; one that is refused
  has left every existing job alone and published at most its one message.\<close>

theorem submission_outcome:
  "wp (submit E k body) (\<lambda>r w'. accepted body w r w' \<or> repeated w r w') (\<lambda>e w'. refusal e \<and> abandoned body w w') w"
  by (rule submit_wp)

text \<open>C12: While Redis holds the key of a known job, submitting it again answers with that job as a duplicate, and
  publishes nothing and creates nothing, whatever fails.\<close>

theorem known_key_is_idempotent:
  assumes "redis_strings E" and "redis_get E (redis w) (idem_key k) = Some i" and "i \<noteq> []"
    and "job_view w i = Some rec"
  shows "wp (submit E k body)
     (\<lambda>r w'. r = toEmailJobResponse rec True \<and> published w' = published w \<and> job_view w' = job_view w)
     (\<lambda>e w'. (\<exists>s. e = JsError None s) \<and> published w' = published w \<and> job_view w' = job_view w) w"
  by (rule submit_known_key_wp [OF assms])

lemma demo_redis_strings: "redis_strings demo"
  by (auto simp: redis_strings_def demo_def split: prod.splits if_splits)

definition known_world :: "demo_redis world" where
  "known_world = empty_world\<lparr>
     redis := ([''idem:key-12345'' \<mapsto> ''job-1''], snd (redis empty_world)),
     jobs := [new_job (create_input ''job-1'' ''key-12345'' Smtp demo_body) 900]\<rparr>"

lemma known_world_view:
  "job_view known_world ''job-1'' = Some (toRecord (new_job (create_input ''job-1'' ''key-12345'' Smtp demo_body) 900))"
  "job_view known_world j = None \<longleftrightarrow> j \<noteq> ''job-1''"
  by (auto simp: job_view_def known_world_def prisma_findUnique_def new_job_def create_input_def)

lemma known_world_redis: "redis_get demo (redis known_world) (idem_key ''key-12345'') = Some ''job-1''"
  by (simp add: known_world_def demo_def idem_key_def)

theorem known_key_is_idempotent_witness:
  "wp (submit demo ''key-12345'' demo_body) (\<lambda>r w'. res_id r = ''job-1'' \<and> res_duplicate r \<and> published w' = []) (\<lambda>_ w'. published w' = []) known_world"
  by (rule wp_mono [OF known_key_is_idempotent [OF demo_redis_strings known_world_redis _ known_world_view(1), of demo_body]])
    (auto simp: toEmailJobResponse_def toRecord_def new_job_def create_input_def known_world_def empty_world_def)



text \<open>C31: A stuck key never succeeds again: every later submission with it is refused, and the key stays stuck.\<close>

theorem stuck_key_is_always_refused:
  assumes "redis_strings E" and "stuck_key E k w" and "job_view w (random_uuid E (steps w)) = None"
  shows "wp (submit E k body) (\<lambda>_ _. False) (\<lambda>_ w'. stuck_key E k w') w"
  by (rule submit_stuck_wp [OF assms])

definition stuck_world :: "demo_redis world" where
  "stuck_world = known_world\<lparr>redis := redis empty_world,
     jobs := [new_job (create_input ''job-0'' ''key-12345'' Smtp demo_body) 900]\<rparr>"

theorem stuck_key_is_always_refused_witness:
  "wp (submit demo ''key-12345'' demo_body) (\<lambda>_ _. False) (\<lambda>_ _. True) stuck_world"
proof -
  have "stuck_key demo ''key-12345'' stuck_world"
    unfolding stuck_key_def
    by (intro conjI exI [of _ "''job-0''"] exI [of _ "toRecord (new_job (create_input ''job-0'' ''key-12345'' Smtp demo_body) 900)"])
      (simp_all add: stuck_world_def job_view_def prisma_findUnique_def new_job_def create_input_def toRecord_def
        demo_def empty_world_def)
  moreover have "job_view stuck_world (random_uuid demo (steps stuck_world)) = None"
    by (simp add: stuck_world_def job_view_def prisma_findUnique_def new_job_def create_input_def)
  ultimately show ?thesis
    by (intro wp_mono [OF stuck_key_is_always_refused [OF demo_redis_strings]]) auto
qed

text \<open>Asking for a job answers with its state, or with 404 when there is none, and changes nothing.\<close>

theorem status_is_read:
  "wp (getStatus E i)
     (\<lambda>r w'. (\<exists>rec. job_view w i = Some rec \<and> r = toEmailJobResponse rec False) \<and> job_view w' = job_view w)
     (\<lambda>e w'. (e = HttpException 404 (MessageBody ''email job not found'') \<and> job_view w i = None \<or> (\<exists>s. e = JsError None s)) \<and>
        job_view w' = job_view w) w"
proof -
  have err: "wp (findById E i) (\<lambda>_ _. True) (\<lambda>e _. \<exists>s. e = JsError None s) w"
    by (auto simp: findById_def wp_bind wp_Resolve wp_prisma_query Let_def split: fate.split)
  show ?thesis
    unfolding getStatus_def wp_bind
    by (rule wp_mono [OF wp_conj [OF repo.find_spec err]]) (auto simp: wp_Resolve wp_Reject split: option.split)
qed

section \<open>Status events\<close>

text \<open>A status message is settled exactly once unless the channel is gone: an acknowledged event has been applied
  to its job and to no other, a text that is no event has changed nothing, and one that was put back has been
  applied or not.\<close>

theorem status_message_outcome:
  assumes "channel w"
  shows "wp (handle_status E (Some raw))
     (\<lambda>_ w'. \<exists>ack. settled w' = settled w @ [(raw_deliveryTag raw, ack)] \<and>
        (case parse_event E raw of
           None \<Rightarrow> job_view w' = job_view w
         | Some e \<Rightarrow> if ack then job_view w' = updated e (job_view w)
                     else job_view w' \<in> {job_view w, updated e (job_view w)}))
     (\<lambda>e w'. e = JsError None ''Channel closed'' \<and> settled w' = settled w) w"
proof (rule wp_mono [OF handle_status_wp [OF assms]], goal_cases)
  case (1 x w')
  then obtain ack where "settled w' = settled w @ [(raw_deliveryTag raw, ack)]"
    and "case parse_event E raw of None \<Rightarrow> job_view w' = job_view w
         | Some e \<Rightarrow> job_view w' = updated e (job_view w) \<or> \<not> ack \<and> job_view w' = job_view w" by blast
  then show ?case by (intro exI [of _ ack]) (auto split: option.splits)
qed simp

theorem status_message_outcome_witness:
  "wp (handle_status demo (Some \<lparr>raw_content = ''x'', raw_deliveryTag = 3\<rparr>))
     (\<lambda>_ w'. \<exists>ack. settled w' = [(3, ack)]) (\<lambda>_ _. True) empty_world"
  by (rule wp_mono [OF status_message_outcome]) (auto simp: empty_world_def)

text \<open>C19: Status messages that are all acknowledged leave the table as if their events had been applied one after
  the other, and a job no event names is untouched.\<close>

theorem status_messages_fold:
  assumes "channel w"
  shows "wp (handle_all E raws)
     (\<lambda>_ w'. \<exists>acks. length acks = length raws \<and> settled w' = settled w @ zip (List.map raw_deliveryTag raws) acks \<and>
        (if list_all id acks
         then job_view w' = fold updated (events_of E raws) (job_view w) \<and>
              (\<forall>k. k \<in> ev_jobId ` set (events_of E raws) \<or> job_view w' k = job_view w k)
         else True))
     (\<lambda>e _. e = JsError None ''Channel closed'') w"
proof (rule wp_mono [OF handle_all_wp [OF assms]], goal_cases)
  case (1 x w')
  have "k \<in> ev_jobId ` set es \<or> fold updated es v k = v k" for es k and v :: "string \<Rightarrow> EmailJobRecord option"
    using fold_updated_other [of es k v] by blast
  then show ?case using 1 by auto
qed simp

theorem status_messages_fold_witness:
  "wp (handle_all demo [\<lparr>raw_content = ''x'', raw_deliveryTag = 3\<rparr>, \<lparr>raw_content = ''y'', raw_deliveryTag = 4\<rparr>])
     (\<lambda>_ w'. \<exists>acks. length acks = 2 \<and> settled w' = zip [3, 4] acks) (\<lambda>_ _. True) empty_world"
  by (rule wp_mono [OF status_messages_fold]) (auto simp: empty_world_def numeral_eq_Suc)

text \<open>The last event applied to a job decides its status, whatever came before: events carry an attempt and a
  time, but nothing orders them, so a late \<open>RETRY_SCHEDULED\<close> overwrites \<open>DELIVERED\<close>.\<close>

theorem last_event_decides:
  "map_option rec_status (fold updated (es @ [e]) v (ev_jobId e)) =
     map_option (\<lambda>_. job_status_name (job_status_of (ev_status e))) (fold updated es v (ev_jobId e))"
  by (simp add: updated_def with_status_def option.map_comp comp_def)


lemma demo_set_nx [simp]:
  "redis_set_nx_ex (demo_with f server) (s, b) k v ttl = (if s k = None then (True, (s(k \<mapsto> v), b)) else (False, (s, b)))"
  by (simp add: demo_with_def demo_def)


section \<open>Requests\<close>

text \<open>C20: A request without the API key is answered with 401, one with an invalid body or a key of fewer than eight
  characters with 400, and neither has any effect.\<close>

theorem refused_request_has_no_effect:
  assumes "admitted E apiKey key body = None"
  shows "wp (post_email_job E g apiKey key body)
     (\<lambda>r w'. w' = w \<and> (\<exists>s b. r = HttpError s b \<and> s = (if authorised E apiKey then 400 else 401))) (\<lambda>_ _. False) w"
  by (rule post_rejected [OF assms])

theorem refused_request_has_no_effect_witness:
  "wp (post_email_job demo (\<lambda>_ _. Inl ''e'' :: string + unit) Absent (Some ''key-12345'') demo_json)
     (\<lambda>r w'. w' = empty_world \<and> (\<exists>b. r = HttpError 401 b)) (\<lambda>_ _. False) empty_world"
  by (rule wp_mono [OF refused_request_has_no_effect]) (auto simp: admitted_def authorised_def split: sum.split)

text \<open>C21: An admitted request is answered, never left hanging: with 201 and the outcome of the submission, or with
  409, 500 or 503 after an abandoned one.\<close>

theorem admitted_request_is_answered:
  assumes "admitted E apiKey key body = Some (k, b)"
  shows "wp (post_email_job E g apiKey key body)
     (\<lambda>r w'. (\<exists>x. r = HttpAnswer 201 x \<and> (accepted b w x w' \<or> repeated w x w')) \<or>
             (\<exists>s p. r = HttpError s p \<and> s \<in> {409, 500, 503} \<and> abandoned b w w')) (\<lambda>_ _. False) w"
  by (rule post_admitted [OF assms])

theorem admitted_request_is_answered_witness:
  "wp (post_email_job demo (\<lambda>_ _. Inl ''e'' :: string + unit) (Single ''secret-secret-secret'') (Some ''key-12345'') demo_json)
     (\<lambda>r w'. \<exists>s x y. r = HttpAnswer 201 x \<or> r = HttpError s y \<and> s \<in> {409, 500, 503}) (\<lambda>_ _. False) empty_world"
  by (rule wp_mono [OF admitted_request_is_answered [of _ _ _ _ "''key-12345''" demo_body]])
    (auto simp: admitted_def demo_json_body authorised_def demo_env_def)

end
