(* ===== verification/Rabbitmq.thy ===== *)
theory Rabbitmq
  imports Services
begin

text \<open>
  The connection of \<^verbatim>\<open>infra/rabbitmq/rabbitmq.service.ts\<close> as a state machine: connecting,
  losing the connection, the timer of \<open>scheduleReconnect\<close>, and the callbacks that are told of
  every channel. Connections are numbered in the order in which the broker accepts them. A
  step is one piece of work the event loop runs without giving up the thread; \<open>connect\<close> is
  split at its awaits.
\<close>

record rabbitmq =
  connection :: "nat option"
  rchannel :: "nat option"
  reconnecting :: bool
  callbacks :: "nat list"
  timers :: nat
  connecting :: nat
  watched :: "nat set"
  accepted_connections :: nat
  told :: "(nat \<times> nat) list"

section \<open>Operations\<close>

text \<open>
  \<open>scheduleReconnect\<close>: nothing while a reconnection is pending, otherwise the channel and the
  connection are forgotten and a timer is set.
\<close>

definition scheduleReconnect :: "rabbitmq \<Rightarrow> rabbitmq" where
  "scheduleReconnect s =
     (if reconnecting s then s
      else s\<lparr>reconnecting := True, rchannel := None, connection := None, timers := Suc (timers s)\<rparr>)"

text \<open>The timer's callback: the flag is cleared and \<open>connect\<close> is called.\<close>

definition timer_fires :: "rabbitmq \<Rightarrow> rabbitmq" where
  "timer_fires s = s\<lparr>timers := timers s - 1, reconnecting := False, connecting := Suc (connecting s)\<rparr>"

text \<open>
  \<open>connect\<close> up to the fields and the listeners: the connection was made, its channel created
  and the topology asserted. The callbacks registered by then are told of the channel.
\<close>

definition connected :: "rabbitmq \<Rightarrow> rabbitmq" where
  "connected s =
     (let c = accepted_connections s in
      s\<lparr>connecting := connecting s - 1, connection := Some c, rchannel := Some c,
        watched := insert c (watched s), accepted_connections := Suc c,
        told := told s @ List.map (\<lambda>f. (f, c)) (callbacks s)\<rparr>)"

text \<open>\<open>connect\<close> rejects: both of its callers schedule a reconnection.\<close>

definition connect_fails :: "rabbitmq \<Rightarrow> rabbitmq" where
  "connect_fails s = scheduleReconnect (s\<lparr>connecting := connecting s - 1\<rparr>)"

text \<open>\<open>error\<close> and \<open>close\<close> of a connection that has its listeners.\<close>

definition connection_event :: "rabbitmq \<Rightarrow> rabbitmq" where
  "connection_event s = scheduleReconnect s"

definition onModuleInit :: "rabbitmq \<Rightarrow> rabbitmq" where
  "onModuleInit s = s\<lparr>connecting := Suc (connecting s)\<rparr>"

text \<open>
  Closing the channel and the connection on shutdown; the connection emits \<open>close\<close>, whose
  listener is still registered.
\<close>

definition onModuleDestroy :: "rabbitmq \<Rightarrow> rabbitmq" where
  "onModuleDestroy s = (case connection s of None \<Rightarrow> s | Some c \<Rightarrow> connection_event s)"

text \<open>A callback is registered once (a \<open>Set\<close>), and told of the channel if there is one.\<close>

definition onChannelReady :: "nat \<Rightarrow> rabbitmq \<Rightarrow> rabbitmq" where
  "onChannelReady f s =
     (let s1 = s\<lparr>callbacks := (if f \<in> set (callbacks s) then callbacks s else callbacks s @ [f])\<rparr>
      in case rchannel s of None \<Rightarrow> s1 | Some c \<Rightarrow> s1\<lparr>told := told s @ [(f, c)]\<rparr>)"

definition initial :: rabbitmq where
  "initial = \<lparr>connection = None, rchannel = None, reconnecting = False, callbacks = [], timers = 0,
     connecting = 0, watched = {}, accepted_connections = 0, told = []\<rparr>"

section \<open>Steps\<close>

inductive rstep :: "rabbitmq \<Rightarrow> rabbitmq \<Rightarrow> bool" where
  fires: "0 < timers s \<Longrightarrow> rstep s (timer_fires s)"
| connects: "0 < connecting s \<Longrightarrow> rstep s (connected s)"
| refuses: "0 < connecting s \<Longrightarrow> rstep s (connect_fails s)"
| drops: "c \<in> watched s \<Longrightarrow> rstep s (connection_event s)"
| registers: "rstep s (onChannelReady f s)"

inductive_cases rstepE: "rstep s s'"

inductive reachable :: "rabbitmq \<Rightarrow> bool" where
  start: "reachable (onModuleInit initial)"
| step: "reachable s \<Longrightarrow> rstep s s' \<Longrightarrow> reachable s'"

lemmas rabbitmq_ops = scheduleReconnect_def timer_fires_def connected_def connect_fails_def
  connection_event_def onModuleInit_def onChannelReady_def initial_def

section \<open>Invariant\<close>

text \<open>
  The channel and the connection are forgotten together and always belong together; the flag is
  raised exactly while one timer is set; the service without a channel has a timer or a
  \<open>connect\<close> under way, so it will try again; and whoever registered has been told of the
  channel in use.
\<close>

definition rabbitmq_inv :: "rabbitmq \<Rightarrow> bool" where
  "rabbitmq_inv s \<longleftrightarrow>
     rchannel s = connection s \<and>
     timers s = (if reconnecting s then 1 else 0) \<and>
     (rchannel s = None \<longrightarrow> 0 < timers s \<or> 0 < connecting s) \<and>
     (\<forall>c. rchannel s = Some c \<longrightarrow> c \<in> watched s \<and> c < accepted_connections s \<and>
        (\<forall>f \<in> set (callbacks s). (f, c) \<in> set (told s)))"

lemma rabbitmq_inv_init: "rabbitmq_inv (onModuleInit initial)"
  by (simp add: rabbitmq_inv_def rabbitmq_ops)

lemma rabbitmq_inv_scheduleReconnect:
  assumes "rchannel s = connection s" and "timers s = (if reconnecting s then 1 else 0)"
    and "\<forall>c. rchannel s = Some c \<longrightarrow> c \<in> watched s \<and> c < accepted_connections s \<and>
        (\<forall>f \<in> set (callbacks s). (f, c) \<in> set (told s))"
  shows "rabbitmq_inv (scheduleReconnect s)"
  using assms by (auto simp: rabbitmq_inv_def scheduleReconnect_def)

lemma rabbitmq_inv_step:
  assumes "rstep s s'" and "rabbitmq_inv s"
  shows "rabbitmq_inv s'"
  using assms
proof (cases rule: rstep.cases)
  case fires
  then show ?thesis using assms(2) by (auto simp: rabbitmq_inv_def timer_fires_def split: if_splits)
next
  case connects
  then show ?thesis using assms(2) by (auto simp: rabbitmq_inv_def connected_def Let_def)
next
  case refuses
  then show ?thesis
    using assms(2) unfolding connect_fails_def
    by (simp, intro rabbitmq_inv_scheduleReconnect) (auto simp: rabbitmq_inv_def)
next
  case (drops c)
  then show ?thesis
    using assms(2) unfolding connection_event_def
    by (simp, intro rabbitmq_inv_scheduleReconnect) (auto simp: rabbitmq_inv_def)
next
  case (registers f)
  then show ?thesis
    using assms(2) by (auto simp: rabbitmq_inv_def onChannelReady_def Let_def split: option.splits)
qed

lemma reachable_inv: "reachable s \<Longrightarrow> rabbitmq_inv s"
  by (induction rule: reachable.induct) (simp_all add: rabbitmq_inv_init rabbitmq_inv_step)

section \<open>Recovery\<close>

text \<open>From every reachable state two steps of a cooperating broker and timer restore a channel.\<close>

lemma connected_channel: "rchannel (connected s) \<noteq> None"
  by (simp add: connected_def Let_def)

lemma recovers:
  assumes "rabbitmq_inv s" and "rchannel s = None"
  shows "\<exists>s'. rstep\<^sup>*\<^sup>* s s' \<and> rchannel s' \<noteq> None"
proof (cases "0 < connecting s")
  case True
  then show ?thesis using rstep.connects connected_channel by blast
next
  case False
  then have "rstep s (timer_fires s)" using assms by (intro rstep.fires) (auto simp: rabbitmq_inv_def)
  moreover have "rstep (timer_fires s) (connected (timer_fires s))"
    by (rule rstep.connects) (simp add: timer_fires_def)
  ultimately show ?thesis using connected_channel by (meson rtranclp.rtrancl_into_rtrancl rtranclp.rtrancl_refl)
qed

end
