(* ===== verification/Metrics.thy ===== *)
theory Metrics
  imports Services
begin

text \<open>
  The polling of queue depths in \<^verbatim>\<open>infra/metrics/metrics.service.ts\<close>. The URL of the management
  API comes as the parts the class \<open>URL\<close> parses it into; the API itself is the parameter
  \<open>http_get\<close>: it takes the number of calls before, the address and the header, and fails, or
  answers with whether the status is in the 200s and with the body, if it is JSON.
\<close>

record url =
  url_protocol :: string
  url_host :: string
  url_username :: string
  url_password :: string

type_synonym http_get = "nat \<Rightarrow> string \<Rightarrow> string \<Rightarrow> (bool \<times> json option) option"

section \<open>Base 64\<close>

definition base64_char :: "nat \<Rightarrow> char" where
  "base64_char n =
     (''ABCDEFGHIJKLMNOPQRSTUVWXYZabcdefghijklmnopqrstuvwxyz0123456789+/'') ! n"

fun base64 :: "nat list \<Rightarrow> string" where
  "base64 (a # b # c # bs) =
     base64_char (a div 4) # base64_char (a mod 4 * 16 + b div 16) #
     base64_char (b mod 16 * 4 + c div 64) # base64_char (c mod 64) # base64 bs"
| "base64 [a, b] =
     [base64_char (a div 4), base64_char (a mod 4 * 16 + b div 16), base64_char (b mod 16 * 4), CHR ''='']"
| "base64 [a] = [base64_char (a div 4), base64_char (a mod 4 * 16), CHR ''='', CHR ''='']"
| "base64 [] = []"

definition bytes_of :: "string \<Rightarrow> nat list" where
  "bytes_of s = List.map of_char s"

section \<open>startQueueDepthPolling\<close>

definition authorization :: "url \<Rightarrow> string" where
  "authorization u = ''Basic '' @ base64 (bytes_of (url_username u @ '':'' @ url_password u))"

definition queue_url :: "url \<Rightarrow> string \<Rightarrow> string" where
  "queue_url u queue = url_protocol u @ ''//'' @ url_host u @ ''/api/queues/%2F/'' @ queue"

text \<open>
  \<open>data.messages ?? 0\<close>: reading a member of \<open>null\<close> throws, and so does setting a gauge to
  something that is not a number.
\<close>

definition depth_of :: "json \<Rightarrow> rat option" where
  "depth_of data =
     (case data of
        JNull \<Rightarrow> None
      | JObj ms \<Rightarrow>
          (case jget ms ''messages'' of
             None \<Rightarrow> Some 0
           | Some JNull \<Rightarrow> Some 0
           | Some (JNum q) \<Rightarrow> Some q
           | Some _ \<Rightarrow> None)
      | _ \<Rightarrow> Some 0)"

definition set_queueDepth :: "string \<Rightarrow> rat \<Rightarrow> ('r, unit) io" where
  "set_queueDepth queue q = update_metrics (\<lambda>m. m\<lparr>queueDepth := (queueDepth m)(queue := Some q)\<rparr>)"

definition http_fetch :: "http_get \<Rightarrow> string \<Rightarrow> string \<Rightarrow> ('r, bool \<times> json option) io" where
  "http_fetch get_url address auth = Await (\<lambda>w.
     let w1 = w\<lparr>steps := Suc (steps w)\<rparr> in
     case get_url (steps w) address auth of
       None \<Rightarrow> (Reject (JsError None ''fetch failed''), w1)
     | Some r \<Rightarrow> (Resolve r, w1))"

definition poll_queue :: "http_get \<Rightarrow> url \<Rightarrow> string \<Rightarrow> ('r, unit) io" where
  "poll_queue get_url u queue =
     try_catch
       (bind (http_fetch get_url (queue_url u queue) (authorization u)) (\<lambda>(ok, body).
          if \<not> ok then Resolve ()
          else case Option.bind body depth_of of
            None \<Rightarrow> Reject (JsError None ''TypeError'')
          | Some q \<Rightarrow> set_queueDepth queue q))
       (\<lambda>_. Resolve ())"

definition poll :: "http_get \<Rightarrow> url \<Rightarrow> ('r, unit) io" where
  "poll get_url u = for_each [mainQueue TOPOLOGY, deadLetterQueue TOPOLOGY] (poll_queue get_url u)"

section \<open>What a poll does\<close>

text \<open>The depth one answer stands for, if it stands for one.\<close>

definition answered :: "(bool \<times> json option) option \<Rightarrow> rat option" where
  "answered r = (case r of Some (True, Some data) \<Rightarrow> depth_of data | _ \<Rightarrow> None)"

lemma wp_poll_queue:
  "wp (poll_queue get_url u queue) Q R w \<longleftrightarrow>
     (let w1 = w\<lparr>steps := Suc (steps w)\<rparr> in
      case answered (get_url (steps w) (queue_url u queue) (authorization u)) of
        None \<Rightarrow> Q () w1
      | Some q \<Rightarrow> Q () (w1\<lparr>metrics := (metrics w)\<lparr>queueDepth := (queueDepth (metrics w))(queue := Some q)\<rparr>\<rparr>))"
  by (cases "get_url (steps w) (queue_url u queue) (authorization u)")
    (auto simp: poll_queue_def http_fetch_def wp_try_catch wp_bind wp_Await Let_def wp_Resolve wp_Reject
      answered_def set_queueDepth_def wp_update_metrics Option.bind_eq_None_conv split: option.splits bool.splits)

definition updated_depth :: "rat option \<Rightarrow> rat option \<Rightarrow> rat option" where
  "updated_depth answer old = (case answer of None \<Rightarrow> old | Some q \<Rightarrow> Some q)"

lemma poll_wp:
  "wp (poll get_url u)
     (\<lambda>_ w'. \<forall>q. queueDepth (metrics w') q =
        (if q = mainQueue TOPOLOGY
         then updated_depth (answered (get_url (steps w) (queue_url u q) (authorization u))) (queueDepth (metrics w) q)
         else if q = deadLetterQueue TOPOLOGY
         then updated_depth (answered (get_url (Suc (steps w)) (queue_url u q) (authorization u))) (queueDepth (metrics w) q)
         else queueDepth (metrics w) q))
     (\<lambda>_ _. False) w"
proof -
  have ne: "mainQueue TOPOLOGY \<noteq> deadLetterQueue TOPOLOGY" by (simp add: TOPOLOGY_def)
  then show ?thesis
    by (auto simp: poll_def wp_bind wp_poll_queue wp_Resolve Let_def updated_depth_def split: option.split)
qed

lemma length_base64: "length (base64 bs) = 4 * ((length bs + 2) div 3)"
  by (induction bs rule: base64.induct) (simp_all, presburger?)

end
