(* ===== verification/InfraProperties.thy ===== *)
theory InfraProperties
  imports Example Rabbitmq Metrics
begin

text \<open>
  The properties of the configuration, the connection to RabbitMQ and the queue-depth polling.
\<close>

section \<open>Configuration\<close>

text \<open>A worker that starts has a configuration within the bounds of its schema, the defaults included.\<close>

theorem worker_configuration_bounds:
  assumes "loadWorkerEnv msg env = Inr c"
  shows "worker_bounds c"
  by (rule worker_bounds_hold [OF assms])

definition demo_config :: WorkerEnv where
  "demo_config =
     \<lparr>we_NODE_ENV = ''development'', we_WORKER_PORT = 3001, we_EMAIL_PROVIDER = Smtp, we_CONSUMER_PREFETCH = 10,
      we_SMTP_MAX_CONNECTIONS = 4, we_WORKER_DATABASE_URL = ''pg'', we_RABBITMQ_URL = ''amqp'', we_REDIS_URL = ''redis'',
      we_SMTP_HOST = ''localhost'', we_SMTP_PORT = 1025, we_SMTP_USER = None, we_SMTP_PASS = None,
      we_TOKEN_ENCRYPTION_KEY = replicate 64 (CHR ''0''), we_METRICS_PORT = 9464, we_RATE_LIMIT_PER_SECOND = 100,
      we_RATE_LIMIT_BURST = 200, we_BREAKER_FAILURE_THRESHOLD = 5, we_BREAKER_COOLDOWN_MS = 30000\<rparr>"

definition unlimited_env :: env where
  "unlimited_env = demo_env(''RATE_LIMIT_PER_SECOND'' := None, ''RATE_LIMIT_BURST'' := None)"

lemma unlimited_config: "loadWorkerEnv msg unlimited_env = Inr demo_config"
  unfolding loadWorkerEnv_def parseEnv_Inr workerEnvSchema_def z_and_Inr
  by (simp add: env_field_Inr z_default_Inr z_string_Inr z_optional_Inr z_checks_Nil z_length_def
      unlimited_env_def demo_env_def demo_config_def)

theorem worker_configuration_bounds_witness: "worker_bounds demo_config"
  by (rule worker_configuration_bounds [OF unlimited_config])

text \<open>The services that read a variable again from the environment read the validated value: the prefetch, the
  SMTP connections, and the breaker's threshold and cool-down.\<close>

theorem reread_configuration_agrees:
  assumes "loadWorkerEnv msg (process_env E) = Inr c"
  shows "env_number E ''CONSUMER_PREFETCH'' 10 = Some (of_int (we_CONSUMER_PREFETCH c)) \<and>
    env_number E ''SMTP_MAX_CONNECTIONS'' 4 = Some (of_int (we_SMTP_MAX_CONNECTIONS c)) \<and>
    env_number E ''BREAKER_FAILURE_THRESHOLD'' 5 = Some (of_int (we_BREAKER_FAILURE_THRESHOLD c)) \<and>
    env_number E ''BREAKER_COOLDOWN_MS'' 30000 = Some (of_int (we_BREAKER_COOLDOWN_MS c))"
  using reread_agrees [OF assms] by simp

definition unlimited :: "demo_redis services" where
  "unlimited = demo\<lparr>process_env := unlimited_env\<rparr>"

lemma unlimited_process_env [simp]: "process_env unlimited = unlimited_env"
  by (simp add: unlimited_def)

theorem reread_configuration_agrees_witness:
  "env_number unlimited ''CONSUMER_PREFETCH'' 10 = Some 10"
  using reread_configuration_agrees [of "\<lambda>_. []" unlimited demo_config] unlimited_config
  by (simp add: demo_config_def)

text \<open>C29: The rate limit is the exception: it is read without its default, so a worker whose configuration is valid
  but leaves it out rejects every delivery, without effect, and the message is put back for ever.\<close>

theorem unset_rate_limit_stops_delivery:
  assumes "process_env E ''RATE_LIMIT_PER_SECOND'' = None"
  shows "wp (process E m) (\<lambda>_ _. False) (\<lambda>_ w'. mails w' = mails w \<and> published w' = published w \<and>
      attempt_status w' = attempt_status w) w"
proof -
  have "wp (acquire E k) (\<lambda>_ _. False) (\<lambda>_ w'. mails w' = mails w \<and> published w' = published w \<and>
      attempt_status w' = attempt_status w) w" for k
    by (rule wp_mono [OF wp_conj [OF acquire_unset [OF assms] acquire_quiet]]) (auto dest: asideD)
  then show ?thesis unfolding process_def Let_def wp_bind by (rule wp_mono) auto
qed

theorem unset_rate_limit_stops_delivery_witness:
  "loadWorkerEnv (\<lambda>_. []) (process_env unlimited) = Inr demo_config \<and>
   wp (process unlimited demo_message) (\<lambda>_ _. False) (\<lambda>_ w'. mails w' = []) empty_world"
proof
  show "loadWorkerEnv (\<lambda>_. []) (process_env unlimited) = Inr demo_config" by (simp add: unlimited_config)
  show "wp (process unlimited demo_message) (\<lambda>_ _. False) (\<lambda>_ w'. mails w' = []) empty_world"
    by (rule wp_mono [OF unset_rate_limit_stops_delivery]) (simp_all add: unlimited_env_def empty_world_def)
qed

section \<open>The connection to RabbitMQ\<close>

text \<open>C25: In every reachable state the channel and the connection belong together, the flag is raised exactly while
  a timer is set, and whoever registered has been told of the channel in use.\<close>

theorem connection_invariant:
  assumes "reachable s"
  shows "rabbitmq_inv s"
  by (rule reachable_inv [OF assms])

lemma reachable_connected: "reachable (connected (onModuleInit initial))"
  by (rule reachable.step [OF reachable.start rstep.connects]) (simp add: onModuleInit_def initial_def)

theorem connection_invariant_witness: "rabbitmq_inv (connected (onModuleInit initial))"
  by (rule connection_invariant [OF reachable_connected])

text \<open>C26: The service never gives up: from every reachable state without a channel, a timer that fires and a broker
  that accepts lead back to a channel.\<close>

theorem connection_recovers:
  assumes "reachable s" and "rchannel s = None"
  shows "\<exists>s'. rstep\<^sup>*\<^sup>* s s' \<and> rchannel s' \<noteq> None"
  by (rule recovers [OF reachable_inv [OF assms(1)] assms(2)])

theorem connection_recovers_witness: "\<exists>s'. rstep\<^sup>*\<^sup>* (onModuleInit initial) s' \<and> rchannel s' \<noteq> None"
  by (rule connection_recovers [OF reachable.start]) (simp add: onModuleInit_def initial_def)

text \<open>Closing the connection on shutdown makes its own listener schedule a reconnection.\<close>

theorem shutdown_schedules_reconnect:
  assumes "reachable s" and "connection s = Some c"
  shows "reconnecting s \<or> timers (onModuleDestroy s) = Suc (timers s)"
  using assms(2) by (simp add: onModuleDestroy_def connection_event_def scheduleReconnect_def)

theorem shutdown_schedules_reconnect_witness:
  "timers (onModuleDestroy (connected (onModuleInit initial))) = 1"
  using shutdown_schedules_reconnect [OF reachable_connected, of 0]
  by (simp add: connected_def onModuleInit_def initial_def)


section \<open>Queue depths\<close>

text \<open>A poll never fails: it sets the depth of the two queues it asks about to what the answers say, and a queue
  whose answer says nothing, like every other queue, keeps its last depth.\<close>

theorem poll_sets_depths:
  "wp (poll get_url u)
     (\<lambda>_ w'. \<forall>q. queueDepth (metrics w') q =
        (if q = mainQueue TOPOLOGY
         then updated_depth (answered (get_url (steps w) (queue_url u q) (authorization u))) (queueDepth (metrics w) q)
         else if q = deadLetterQueue TOPOLOGY
         then updated_depth (answered (get_url (Suc (steps w)) (queue_url u q) (authorization u))) (queueDepth (metrics w) q)
         else queueDepth (metrics w) q))
     (\<lambda>_ _. False) w"
  by (rule poll_wp)

end
