(* ===== verification/Wiring.thy ===== *)
theory Wiring
  imports Main
begin

text \<open>
  The wiring of the two processes: every \<open>@Module\<close> of \<^verbatim>\<open>src\<close> with its imports, controllers,
  providers and exports, what each class has injected (the parameters of its constructor), and the
  files a process loads. Nest's rule for injection is the relation \<open>available\<close>: a token is
  available in a module when one of its providers has it and can be built there, or when it is
  exported, and available, by a module it imports or by a global one. The module of \<open>@nestjs/terminus\<close>
  is a parameter.
\<close>

section \<open>Tokens, providers and modules\<close>

text \<open>What can be injected or instantiated: the classes of the program, its symbols, and those of libraries.\<close>

datatype token =
    ApiKeyGuard | ApiPrismaService | CircuitBreakerService | DeliveryService | EmailConsumer
  | EmailJobsController | EmailJobsPublisher | EmailJobsRepository | EmailJobsService
  | HealthController | IdempotencyGuard | MetricsController | MetricsService | PgPoolService
  | PinoLoggerService | ProviderFactory | RabbitmqService | RateLimiterService | RedisService
  | SmtpProvider | StatusConsumer | JOB_REPOSITORY | JOB_PUBLISHER | APP_GUARD
  | External string

datatype Provider =
    Class token
  | UseClass (provide_token: token) (use_class: token)
  | UseValue token string

datatype NestModule =
  NestModule (nest_name: string) (module_imports: "NestModule list") (controllers: "token list")
    (providers: "Provider list") (exports: "token list") (global: bool)

fun provided :: "Provider \<Rightarrow> token" where
  "provided (Class c) = c"
| "provided (UseClass t c) = t"
| "provided (UseValue t v) = t"

text \<open>The class a provider instantiates, unless it holds a value.\<close>

fun built :: "Provider \<Rightarrow> token option" where
  "built (Class c) = Some c"
| "built (UseClass t c) = Some c"
| "built (UseValue t v) = None"

primrec modules :: "NestModule \<Rightarrow> NestModule list" where
  "modules (NestModule n is cs ps es g) = NestModule n is cs ps es g # concat (List.map modules is)"

section \<open>Constructors\<close>

definition JOB_REPOSITORY_PROVIDER :: Provider where
  "JOB_REPOSITORY_PROVIDER = UseClass JOB_REPOSITORY EmailJobsRepository"

definition JOB_PUBLISHER_PROVIDER :: Provider where
  "JOB_PUBLISHER_PROVIDER = UseClass JOB_PUBLISHER EmailJobsPublisher"

definition EmailJobsService_parameters :: "token list" where
  "EmailJobsService_parameters =
     [JOB_REPOSITORY, JOB_PUBLISHER, RedisService, PinoLoggerService, MetricsService]"

definition DeliveryService_parameters :: "token list" where
  "DeliveryService_parameters =
     [ProviderFactory, RabbitmqService, IdempotencyGuard, RateLimiterService, CircuitBreakerService,
      MetricsService, PinoLoggerService]"

definition EmailConsumer_parameters :: "token list" where
  "EmailConsumer_parameters = [RabbitmqService, DeliveryService, MetricsService, PinoLoggerService]"

definition StatusConsumer_parameters :: "token list" where
  "StatusConsumer_parameters = [RabbitmqService, JOB_REPOSITORY, PinoLoggerService]"

definition HealthController_parameters :: "token list" where
  "HealthController_parameters = [External ''HealthCheckService'', External ''MemoryHealthIndicator'']"

fun parameters :: "token \<Rightarrow> token list" where
  "parameters ApiKeyGuard = [External ''Reflector'']"
| "parameters DeliveryService = DeliveryService_parameters"
| "parameters EmailConsumer = EmailConsumer_parameters"
| "parameters EmailJobsController = [EmailJobsService]"
| "parameters EmailJobsPublisher = [RabbitmqService]"
| "parameters EmailJobsRepository = [ApiPrismaService]"
| "parameters EmailJobsService = EmailJobsService_parameters"
| "parameters HealthController = HealthController_parameters"
| "parameters IdempotencyGuard = [PgPoolService]"
| "parameters MetricsController = [MetricsService]"
| "parameters ProviderFactory = [SmtpProvider]"
| "parameters RabbitmqService = [PinoLoggerService]"
| "parameters RateLimiterService = [RedisService]"
| "parameters StatusConsumer = StatusConsumer_parameters"
| "parameters _ = []"

text \<open>What has to be injected to build a provider.\<close>

definition injected :: "Provider \<Rightarrow> token list" where
  "injected p = (case built p of None \<Rightarrow> [] | Some c \<Rightarrow> parameters c)"

section \<open>The modules\<close>

text \<open>\<open>LoggerModule.forRoot({ app })\<close>\<close>

definition LoggerModule_forRoot :: "string \<Rightarrow> NestModule" where
  "LoggerModule_forRoot app =
     NestModule ''LoggerModule'' [] [] [UseValue PinoLoggerService app] [PinoLoggerService] True"

definition PrismaModule :: NestModule where
  "PrismaModule = NestModule ''PrismaModule'' [] [] [Class ApiPrismaService] [ApiPrismaService] True"

definition RedisModule :: NestModule where
  "RedisModule = NestModule ''RedisModule'' [] [] [Class RedisService] [RedisService] True"

definition RabbitmqModule :: NestModule where
  "RabbitmqModule = NestModule ''RabbitmqModule'' [] [] [Class RabbitmqService] [RabbitmqService] True"

definition MetricsModule :: NestModule where
  "MetricsModule =
     NestModule ''MetricsModule'' [] [MetricsController] [Class MetricsService] [MetricsService] True"

definition PgPoolModule :: NestModule where
  "PgPoolModule = NestModule ''PgPoolModule'' [] [] [Class PgPoolService] [PgPoolService] False"

definition ResilienceModule :: NestModule where
  "ResilienceModule =
     NestModule ''ResilienceModule'' [] [] [Class RateLimiterService, Class CircuitBreakerService]
       [RateLimiterService, CircuitBreakerService] False"

definition ProvidersModule :: NestModule where
  "ProvidersModule =
     NestModule ''ProvidersModule'' [] [] [Class SmtpProvider, Class ProviderFactory] [ProviderFactory] False"

definition DeliveryModule :: NestModule where
  "DeliveryModule =
     NestModule ''DeliveryModule'' [ProvidersModule, ResilienceModule, PgPoolModule] []
       [Class EmailConsumer, Class DeliveryService, Class IdempotencyGuard] [] False"

definition EmailJobsModule :: NestModule where
  "EmailJobsModule =
     NestModule ''EmailJobsModule'' [] [EmailJobsController]
       [Class EmailJobsService, Class EmailJobsRepository, Class EmailJobsPublisher,
        JOB_REPOSITORY_PROVIDER, JOB_PUBLISHER_PROVIDER, Class StatusConsumer] [] False"

definition HealthModule :: "NestModule \<Rightarrow> NestModule" where
  "HealthModule terminus = NestModule ''HealthModule'' [terminus] [HealthController] [] [] False"

definition ApiAppModule :: "NestModule \<Rightarrow> NestModule" where
  "ApiAppModule terminus =
     NestModule ''ApiAppModule''
       [LoggerModule_forRoot ''api'', PrismaModule, RedisModule, RabbitmqModule, EmailJobsModule,
        HealthModule terminus, MetricsModule]
       [] [UseClass APP_GUARD ApiKeyGuard] [] False"

definition WorkerAppModule :: "NestModule \<Rightarrow> NestModule" where
  "WorkerAppModule terminus =
     NestModule ''WorkerAppModule''
       [LoggerModule_forRoot ''worker'', RabbitmqModule, RedisModule, ProvidersModule, DeliveryModule,
        HealthModule terminus, MetricsModule]
       [] [] [] False"

lemmas module_defs = LoggerModule_forRoot_def PrismaModule_def RedisModule_def RabbitmqModule_def
  MetricsModule_def PgPoolModule_def ResilienceModule_def ProvidersModule_def DeliveryModule_def
  EmailJobsModule_def HealthModule_def ApiAppModule_def WorkerAppModule_def

lemmas parameter_defs = EmailJobsService_parameters_def DeliveryService_parameters_def
  EmailConsumer_parameters_def StatusConsumer_parameters_def HealthController_parameters_def
  JOB_REPOSITORY_PROVIDER_def JOB_PUBLISHER_PROVIDER_def

section \<open>Injection\<close>

inductive available :: "NestModule \<Rightarrow> NestModule \<Rightarrow> token \<Rightarrow> bool" for root where
  framework: "available root m (External ''Reflector'')"
| own: "\<lbrakk>p \<in> set (providers m); \<And>d. d \<in> set (injected p) \<Longrightarrow> available root m d\<rbrakk>
    \<Longrightarrow> available root m (provided p)"
| imported: "\<lbrakk>m' \<in> set (module_imports m); t \<in> set (exports m'); available root m' t\<rbrakk> \<Longrightarrow> available root m t"
| everywhere: "\<lbrakk>m' \<in> set (modules root); global m'; t \<in> set (exports m'); available root m' t\<rbrakk>
    \<Longrightarrow> available root m t"

text \<open>Every controller and provider of every module can be built, and every export is there to be exported.\<close>

definition buildable :: "NestModule \<Rightarrow> NestModule \<Rightarrow> bool" where
  "buildable root m \<longleftrightarrow>
     (\<forall>c \<in> set (controllers m). \<forall>d \<in> set (parameters c). available root m d) \<and>
     (\<forall>p \<in> set (providers m). \<forall>d \<in> set (injected p). available root m d) \<and>
     (\<forall>t \<in> set (exports m). available root m t)"

definition boots :: "NestModule \<Rightarrow> bool" where
  "boots root \<longleftrightarrow> (\<forall>m \<in> set (modules root). buildable root m)"

text \<open>The module of \<open>@nestjs/terminus\<close> as it is documented: it exports the health check service and the
  memory indicator, and builds its providers by itself, out of its own classes.\<close>

definition is_terminus :: "NestModule \<Rightarrow> bool" where
  "is_terminus m \<longleftrightarrow>
     module_imports m = [] \<and> controllers m = [] \<and> \<not> global m \<and>
     exports m = [External ''HealthCheckService'', External ''MemoryHealthIndicator''] \<and>
     (\<forall>p \<in> set (providers m). \<exists>s. provided p = External s \<and> (built p = None \<or> built p = Some (External s))) \<and>
     External ''HealthCheckService'' \<in> provided ` set (providers m) \<and>
     External ''MemoryHealthIndicator'' \<in> provided ` set (providers m)"

definition terminus_instance :: NestModule where
  "terminus_instance =
     NestModule ''TerminusModule'' [] []
       [Class (External ''HealthCheckService''), Class (External ''MemoryHealthIndicator'')]
       [External ''HealthCheckService'', External ''MemoryHealthIndicator''] False"

lemma terminus_instance: "is_terminus terminus_instance"
  by (auto simp: is_terminus_def terminus_instance_def)

lemma terminus_modules: "is_terminus m \<Longrightarrow> modules m = [m]"
  by (cases m) (simp add: is_terminus_def)

lemma external_parameters: "built p = None \<or> built p = Some (External s) \<Longrightarrow> injected p = []"
  by (auto simp: injected_def)

lemma own_simple: "p \<in> set (providers m) \<Longrightarrow> injected p = [] \<Longrightarrow> provided p = t \<Longrightarrow> available root m t"
  using available.own [of p m root] by simp

lemma terminus_available:
  assumes "is_terminus m" and "t \<in> set (exports m)"
  shows "available root m t"
proof -
  obtain p where "p \<in> set (providers m)" "provided p = t"
    using assms by (auto simp: is_terminus_def)
  then show ?thesis
    using assms(1) external_parameters by (intro own_simple [of p]) (auto simp: is_terminus_def)
qed

text \<open>What the global modules offer, wherever they are part of an application.\<close>

lemma global_available:
  assumes "m' \<in> set (modules root)" and "global m'" and "exports m' = [t]"
    and "p \<in> set (providers m')" and "provided p = t" and "injected p = []"
  shows "available root m t"
proof (rule available.everywhere [OF assms(1,2)])
  show "available root m' t" by (rule own_simple [OF assms(4,6,5)])
qed (simp add: assms(3))

lemma logger_available:
  "LoggerModule_forRoot app \<in> set (modules root) \<Longrightarrow> available root m PinoLoggerService"
  by (rule global_available [of "LoggerModule_forRoot app" _ _ "UseValue PinoLoggerService app"]) (simp_all add: LoggerModule_forRoot_def injected_def)

lemma redis_available: "RedisModule \<in> set (modules root) \<Longrightarrow> available root m RedisService"
  by (rule global_available [of RedisModule _ _ "Class RedisService"]) (simp_all add: RedisModule_def injected_def)

lemma prisma_available: "PrismaModule \<in> set (modules root) \<Longrightarrow> available root m ApiPrismaService"
  by (rule global_available [of PrismaModule _ _ "Class ApiPrismaService"]) (simp_all add: PrismaModule_def injected_def)

lemma metrics_available: "MetricsModule \<in> set (modules root) \<Longrightarrow> available root m MetricsService"
  by (rule global_available [of MetricsModule _ _ "Class MetricsService"]) (simp_all add: MetricsModule_def injected_def)

lemma rabbitmq_available:
  assumes "RabbitmqModule \<in> set (modules root)" and "\<And>m. available root m PinoLoggerService"
  shows "available root m RabbitmqService"
proof (rule available.everywhere [OF assms(1)])
  show "available root RabbitmqModule RabbitmqService"
    using available.own [of "Class RabbitmqService" RabbitmqModule root] assms(2)
    by (simp add: RabbitmqModule_def injected_def)
qed (simp_all add: RabbitmqModule_def)

section \<open>The applications boot\<close>

lemma own_available:
  assumes "Class c \<in> set (providers m)" and "\<forall>d \<in> set (parameters c). available root m d"
  shows "available root m c"
  using available.own [OF assms(1), of root] assms(2) by (simp add: injected_def)

lemma imported_available:
  assumes "m' \<in> set (module_imports m)" and "t \<in> set (exports m')" and "available root m' t"
  shows "available root m t"
  by (rule available.imported [OF assms])

lemma api_modules:
  assumes "is_terminus terminus"
  shows "modules (ApiAppModule terminus) =
    [ApiAppModule terminus, LoggerModule_forRoot ''api'', PrismaModule, RedisModule, RabbitmqModule,
     EmailJobsModule, HealthModule terminus, terminus, MetricsModule]"
  by (simp add: module_defs terminus_modules [OF assms])

lemma worker_modules:
  assumes "is_terminus terminus"
  shows "modules (WorkerAppModule terminus) =
    [WorkerAppModule terminus, LoggerModule_forRoot ''worker'', RabbitmqModule, RedisModule, ProvidersModule,
     DeliveryModule, ProvidersModule, ResilienceModule, PgPoolModule, HealthModule terminus, terminus, MetricsModule]"
  by (simp add: module_defs terminus_modules [OF assms])

text \<open>The infrastructure an application has, whatever else it has.\<close>

lemma infrastructure:
  assumes "LoggerModule_forRoot app \<in> set (modules root)" and "RabbitmqModule \<in> set (modules root)"
    and "RedisModule \<in> set (modules root)" and "MetricsModule \<in> set (modules root)"
  shows "available root m PinoLoggerService" "available root m RabbitmqService"
    "available root m RedisService" "available root m MetricsService"
  using logger_available [OF assms(1)] rabbitmq_available [OF assms(2)] redis_available [OF assms(3)]
    metrics_available [OF assms(4)] by blast+

lemma buildable_terminus: "is_terminus m \<Longrightarrow> buildable root m"
  using terminus_available [of m _ root] external_parameters
  by (fastforce simp: buildable_def is_terminus_def)

lemma buildable_health:
  assumes "is_terminus terminus"
  shows "buildable root (HealthModule terminus)"
proof -
  have "available root (HealthModule terminus) t" if "t \<in> set (exports terminus)" for t
    by (rule imported_available [OF _ that terminus_available [OF assms that]]) (simp add: HealthModule_def)
  then show ?thesis using assms by (simp add: buildable_def HealthModule_def HealthController_parameters_def is_terminus_def)
qed

lemma buildable_infrastructure:
  assumes "\<And>m. available root m PinoLoggerService" "\<And>m. available root m RabbitmqService"
    "\<And>m. available root m RedisService" "\<And>m. available root m MetricsService"
  shows "buildable root (LoggerModule_forRoot app)" "buildable root RabbitmqModule" "buildable root RedisModule"
    "buildable root MetricsModule"
  by (simp_all add: buildable_def module_defs injected_def assms)

lemma api_boots:
  assumes "is_terminus terminus"
  shows "boots (ApiAppModule terminus)"
proof -
  let ?root = "ApiAppModule terminus"
  note mods = api_modules [OF assms]
  have infra: "available ?root m PinoLoggerService" "available ?root m RabbitmqService"
    "available ?root m RedisService" "available ?root m MetricsService" for m
    by (rule infrastructure [of "''api''"]; simp add: mods)+
  have prisma: "available ?root m ApiPrismaService" for m
    by (rule prisma_available) (simp add: mods)
  have repository: "available ?root EmailJobsModule JOB_REPOSITORY"
    using available.own [of JOB_REPOSITORY_PROVIDER EmailJobsModule ?root] prisma
    by (simp add: EmailJobsModule_def JOB_REPOSITORY_PROVIDER_def injected_def)
  have publisher: "available ?root EmailJobsModule JOB_PUBLISHER"
    using available.own [of JOB_PUBLISHER_PROVIDER EmailJobsModule ?root] infra
    by (simp add: EmailJobsModule_def JOB_PUBLISHER_PROVIDER_def injected_def)
  have service: "available ?root EmailJobsModule EmailJobsService"
    by (rule own_available) (use infra repository publisher in \<open>simp_all add: EmailJobsModule_def EmailJobsService_parameters_def\<close>)
  have "buildable ?root EmailJobsModule"
    using infra prisma repository publisher service
    by (simp add: buildable_def EmailJobsModule_def injected_def parameter_defs)
  moreover have "buildable ?root ?root"
    by (simp add: buildable_def ApiAppModule_def injected_def available.framework)
  moreover have "buildable ?root PrismaModule"
    using prisma by (simp add: buildable_def PrismaModule_def injected_def)
  ultimately show ?thesis
    using buildable_infrastructure [OF infra] buildable_terminus [OF assms] buildable_health [OF assms]
    by (simp add: boots_def mods)
qed

lemma worker_boots:
  assumes "is_terminus terminus"
  shows "boots (WorkerAppModule terminus)"
proof -
  let ?root = "WorkerAppModule terminus"
  note mods = worker_modules [OF assms]
  have infra: "available ?root m PinoLoggerService" "available ?root m RabbitmqService"
    "available ?root m RedisService" "available ?root m MetricsService" for m
    by (rule infrastructure [of "''worker''"]; simp add: mods)+
  have smtp: "available ?root ProvidersModule SmtpProvider"
    by (rule own_available) (simp_all add: ProvidersModule_def)
  have factory: "available ?root ProvidersModule ProviderFactory"
    by (rule own_available) (use smtp in \<open>simp_all add: ProvidersModule_def\<close>)
  have limiter: "available ?root ResilienceModule RateLimiterService"
    by (rule own_available) (use infra in \<open>simp_all add: ResilienceModule_def\<close>)
  have breaker: "available ?root ResilienceModule CircuitBreakerService"
    by (rule own_available) (simp_all add: ResilienceModule_def)
  have pool: "available ?root PgPoolModule PgPoolService"
    by (rule own_available) (simp_all add: PgPoolModule_def)
  have imported: "available ?root DeliveryModule ProviderFactory" "available ?root DeliveryModule RateLimiterService"
    "available ?root DeliveryModule CircuitBreakerService" "available ?root DeliveryModule PgPoolService"
    using available.imported [OF _ _ factory, of DeliveryModule] available.imported [OF _ _ limiter, of DeliveryModule]
      available.imported [OF _ _ breaker, of DeliveryModule] available.imported [OF _ _ pool, of DeliveryModule]
    by (simp_all add: DeliveryModule_def ProvidersModule_def ResilienceModule_def PgPoolModule_def)
  have guard: "available ?root DeliveryModule IdempotencyGuard"
    by (rule own_available) (use imported in \<open>simp_all add: DeliveryModule_def\<close>)
  have delivery: "available ?root DeliveryModule DeliveryService"
    by (rule own_available) (use imported guard infra in \<open>simp_all add: DeliveryModule_def DeliveryService_parameters_def\<close>)
  have "buildable ?root DeliveryModule"
    using infra imported guard delivery by (simp add: buildable_def DeliveryModule_def injected_def parameter_defs)
  moreover have "buildable ?root ProvidersModule" "buildable ?root ResilienceModule" "buildable ?root PgPoolModule"
    using smtp factory limiter breaker pool infra
    by (simp_all add: buildable_def ProvidersModule_def ResilienceModule_def PgPoolModule_def injected_def)
  moreover have "buildable ?root ?root"
    by (simp add: buildable_def WorkerAppModule_def)
  ultimately show ?thesis
    using buildable_infrastructure [OF infra] buildable_terminus [OF assms] buildable_health [OF assms]
    by (simp add: boots_def mods)
qed

section \<open>Instances\<close>

text \<open>
  Nest builds one instance for each provider of each module, however often the module is
  imported. The classes that keep state rely on being built once: the circuit breakers, the
  connection to RabbitMQ, the SMTP pool, the counters.
\<close>

definition instances :: "NestModule \<Rightarrow> token \<Rightarrow> (string \<times> Provider) set" where
  "instances root c =
     {(nest_name m, p) | m p. m \<in> set (modules root) \<and> p \<in> set (providers m) \<and> built p = Some c}"

definition singletons :: "NestModule \<Rightarrow> token list \<Rightarrow> bool" where
  "singletons root cs \<longleftrightarrow> (\<forall>c \<in> set cs. \<exists>m p. instances root c = {(m, p)})"

lemma instances_modules:
  "instances root c = (\<Union>m \<in> set (modules root). Pair (nest_name m) ` {p \<in> set (providers m). built p = Some c})"
  by (auto simp: instances_def)

lemma terminus_builds_externals:
  assumes "is_terminus m" and "\<And>s. c \<noteq> External s"
  shows "{p \<in> set (providers m). built p = Some c} = {}"
  using assms by (fastforce simp: is_terminus_def)

lemma Collect_set_simps:
  "{p. (p = a \<or> Q p) \<and> P p} = (if P a then insert a {p. Q p \<and> P p} else {p. Q p \<and> P p})"
  "{p. p = a \<and> P p} = (if P a then {a} else {})"
  by auto

lemma api_instances:
  assumes "is_terminus terminus"
  shows "instances (ApiAppModule terminus) EmailJobsRepository =
      {(''EmailJobsModule'', Class EmailJobsRepository), (''EmailJobsModule'', JOB_REPOSITORY_PROVIDER)}"
    and "instances (ApiAppModule terminus) PgPoolService = {}"
    and "singletons (ApiAppModule terminus)
      [RabbitmqService, RedisService, ApiPrismaService, MetricsService, EmailJobsService, StatusConsumer]"
  by (simp_all add: singletons_def instances_modules api_modules [OF assms] terminus_builds_externals [OF assms])
    (simp_all add: module_defs Collect_set_simps JOB_REPOSITORY_PROVIDER_def JOB_PUBLISHER_PROVIDER_def)

lemma worker_instances:
  assumes "is_terminus terminus"
  shows "instances (WorkerAppModule terminus) ApiPrismaService = {}"
    and "singletons (WorkerAppModule terminus)
      [RabbitmqService, RedisService, PgPoolService, MetricsService, CircuitBreakerService, RateLimiterService,
       SmtpProvider, ProviderFactory, IdempotencyGuard, DeliveryService, EmailConsumer]"
  by (simp_all add: singletons_def instances_modules worker_modules [OF assms] terminus_builds_externals [OF assms])
    (simp_all add: module_defs Collect_set_simps)

section \<open>What a process loads\<close>

text \<open>
  Importing a file runs it, and a file that re-exports others imports them; a name is a path
  below \<^verbatim>\<open>src\<close>, or a package. Imports of types only are erased.
\<close>

definition infra_index :: "string list" where
  "infra_index =
     [''infra/logger/pino-logger.service'', ''infra/logger/logger.module'', ''infra/prisma/api-prisma.service'',
      ''infra/prisma/prisma.module'', ''infra/redis/redis.service'', ''infra/redis/redis.module'',
      ''infra/rabbitmq/rabbitmq.service'', ''infra/rabbitmq/rabbitmq.module'',
      ''infra/rabbitmq/topology.bootstrap'', ''infra/pg/pg-pool.service'', ''infra/pg/pg.module'',
      ''infra/metrics/metrics.service'', ''infra/metrics/metrics.controller'', ''infra/metrics/metrics.module'']"

definition contracts_index :: "string list" where
  "contracts_index =
     [''contracts/topology'', ''contracts/email-job'', ''contracts/events'', ''contracts/errors'',
      ''contracts/providers'', ''contracts/delivery-status'']"

definition config_index :: "string list" where
  "config_index = [''dotenv/config'', ''config/env'', ''config/api.env'', ''config/worker.env'']"

definition main_worker_imports :: "string list" where
  "main_worker_imports = [''config/index'', ''infra/index'', ''@nestjs/core'', ''app-worker.module'']"

definition main_api_imports :: "string list" where
  "main_api_imports =
     [''config/index'', ''common/filters/http-exception.filter'', ''infra/index'', ''helmet'',
      ''@nestjs/core'', ''app-api.module'']"

definition api_prisma_imports :: "string list" where
  "api_prisma_imports = [''@nestjs/common'', ''@prisma/adapter-pg'', ''pg'', ''generated/api/client'']"

definition file_imports :: "string \<Rightarrow> string list" where
  "file_imports f =
     (if f = ''main-worker'' then main_worker_imports
      else if f = ''main-api'' then main_api_imports
      else if f = ''infra/index'' then infra_index
      else if f = ''contracts/index'' then contracts_index
      else if f = ''config/index'' then config_index
      else if f = ''infra/prisma/api-prisma.service'' then api_prisma_imports
      else [])"

definition loads :: "string \<Rightarrow> string \<Rightarrow> bool" where
  "loads = (\<lambda>f g. g \<in> set (file_imports f))\<^sup>*\<^sup>*"

lemma loads_step: "loads f g \<Longrightarrow> h \<in> set (file_imports g) \<Longrightarrow> loads f h"
  unfolding loads_def by (rule rtranclp.rtrancl_into_rtrancl)

lemma loads_refl: "loads f f"
  by (simp add: loads_def)

lemma loads_database_client:
  assumes "''infra/index'' \<in> set (file_imports f)"
  shows "loads f ''generated/api/client''"
proof -
  have "loads f ''infra/index''" by (rule loads_step [OF loads_refl assms])
  then have "loads f ''infra/prisma/api-prisma.service''"
    by (rule loads_step) (simp add: file_imports_def infra_index_def)
  then show ?thesis by (rule loads_step) (simp add: file_imports_def api_prisma_imports_def)
qed

end
