(* ===== verification/Logger.thy ===== *)
theory Logger
  imports Json
begin

text \<open>
  \<^verbatim>\<open>infra/logger/pino-logger.service.ts\<close>: how the service configures pino, and what each of its
  methods writes. Of pino the model uses what its documentation says of levels: a line is
  written when its level is at least the logger's.
\<close>

record PinoLoggerOptions =
  opt_app :: string
  opt_level :: "string option"

record pino_transport =
  target :: string
  colorize :: bool
  translateTime :: string

record pino_logger =
  pino_level :: string
  pino_base :: "(string \<times> js_value) list"
  pino_transport :: "pino_transport option"

text \<open>The message of a line is \<open>unknown\<close>: a text, an object, or undefined.\<close>

datatype log_message = TextMessage string | ObjectMessage "(string \<times> js_value) list" | UndefinedMessage

record log_line =
  line_level :: string
  line_bindings :: "(string \<times> js_value) list"
  line_context :: "string option"
  line_trace :: "string option"
  line_msg :: "string option"

section \<open>Operations\<close>

definition PinoLoggerService_constructor :: "(string \<Rightarrow> string option) \<Rightarrow> PinoLoggerOptions \<Rightarrow> pino_logger" where
  "PinoLoggerService_constructor env options =
     (let isDevelopment = (env ''NODE_ENV'' \<noteq> Some ''production'') in
      \<lparr>pino_level = (case opt_level options of Some l \<Rightarrow> l | None \<Rightarrow> if isDevelopment then ''debug'' else ''info''),
       pino_base = [(''app'', JsString (opt_app options))],
       pino_transport =
         (if isDevelopment
          then Some \<lparr>target = ''pino-pretty'', colorize = True, translateTime = ''SYS:HH:MM:ss.l''\<rparr>
          else None)\<rparr>)"

text \<open>\<open>JSON.stringify\<close> of undefined is undefined.\<close>

fun stringify :: "log_message \<Rightarrow> string option" where
  "stringify (TextMessage s) = Some s"
| "stringify (ObjectMessage ms) = Some (json_stringify ms)"
| "stringify UndefinedMessage = None"

definition level_value :: "string \<Rightarrow> nat" where
  "level_value l =
     (if l = ''trace'' then 10 else if l = ''debug'' then 20 else if l = ''info'' then 30
      else if l = ''warn'' then 40 else if l = ''error'' then 50 else 60)"

definition pino_write ::
    "pino_logger \<Rightarrow> string \<Rightarrow> string option \<Rightarrow> string option \<Rightarrow> string option \<Rightarrow> log_line list \<Rightarrow> log_line list" where
  "pino_write L level context trace msg out =
     (if level_value (pino_level L) \<le> level_value level
      then out @ [\<lparr>line_level = level, line_bindings = pino_base L, line_context = context,
                   line_trace = trace, line_msg = msg\<rparr>]
      else out)"

definition logger_log :: "pino_logger \<Rightarrow> log_message \<Rightarrow> string option \<Rightarrow> log_line list \<Rightarrow> log_line list" where
  "logger_log L message context = pino_write L ''info'' context None (stringify message)"

definition logger_error ::
    "pino_logger \<Rightarrow> log_message \<Rightarrow> string option \<Rightarrow> string option \<Rightarrow> log_line list \<Rightarrow> log_line list" where
  "logger_error L message trace context = pino_write L ''error'' context trace (stringify message)"

definition logger_warn :: "pino_logger \<Rightarrow> log_message \<Rightarrow> string option \<Rightarrow> log_line list \<Rightarrow> log_line list" where
  "logger_warn L message context = pino_write L ''warn'' context None (stringify message)"

definition logger_debug :: "pino_logger \<Rightarrow> log_message \<Rightarrow> string option \<Rightarrow> log_line list \<Rightarrow> log_line list" where
  "logger_debug L message context = pino_write L ''debug'' context None (stringify message)"

definition logger_verbose :: "pino_logger \<Rightarrow> log_message \<Rightarrow> string option \<Rightarrow> log_line list \<Rightarrow> log_line list" where
  "logger_verbose L message context = pino_write L ''trace'' context None (stringify message)"

definition logger_child :: "pino_logger \<Rightarrow> (string \<times> js_value) list \<Rightarrow> pino_logger" where
  "logger_child L bindings = L\<lparr>pino_base := pino_base L @ bindings\<rparr>"

lemmas logger_methods = logger_log_def logger_error_def logger_warn_def logger_debug_def logger_verbose_def

section \<open>What is written\<close>

text \<open>The logger \<open>LoggerModule.forRoot({ app })\<close> builds.\<close>

definition app_logger :: "(string \<Rightarrow> string option) \<Rightarrow> string \<Rightarrow> pino_logger" where
  "app_logger env app = PinoLoggerService_constructor env \<lparr>opt_app = app, opt_level = None\<rparr>"

definition app_line :: "string \<Rightarrow> string \<Rightarrow> string option \<Rightarrow> string option \<Rightarrow> log_message \<Rightarrow> log_line" where
  "app_line app level context trace message =
     \<lparr>line_level = level, line_bindings = [(''app'', JsString app)], line_context = context,
      line_trace = trace, line_msg = stringify message\<rparr>"

lemma app_logger_writes:
  "pino_write (app_logger env app) level context trace (stringify message) out =
     (if level_value level < (if env ''NODE_ENV'' = Some ''production'' then 30 else 20) then out
      else out @ [app_line app level context trace message])"
  by (auto simp: pino_write_def app_logger_def PinoLoggerService_constructor_def app_line_def Let_def level_value_def)

text \<open>Warnings and errors are never lost, in any environment; traces always are, and debug lines in production.\<close>

lemma app_logger_methods:
  "logger_log (app_logger env app) m c out = out @ [app_line app ''info'' c None m]"
  "logger_warn (app_logger env app) m c out = out @ [app_line app ''warn'' c None m]"
  "logger_error (app_logger env app) m t c out = out @ [app_line app ''error'' c t m]"
  "logger_verbose (app_logger env app) m c out = out"
  "logger_debug (app_logger env app) m c out =
     (if env ''NODE_ENV'' = Some ''production'' then out else out @ [app_line app ''debug'' c None m])"
  by (simp_all add: logger_methods app_logger_writes) (simp_all add: level_value_def)

end
