(* ===== verification/Lifecycle.thy ===== *)
theory Lifecycle
  imports EmailConsumer StatusConsumer Config
begin

text \<open>
  How the two consumers start on a channel and stop: \<open>start\<close> and \<open>onModuleDestroy\<close> of
  \<^verbatim>\<open>delivery/email.consumer.ts\<close> and \<^verbatim>\<open>email-jobs/status.consumer.ts\<close>. The broker's side of the
  channel is its prefetch count and the list of the queues consumed, each with its tag; a tag is
  chosen by the broker. \<open>onModuleInit\<close> of both registers \<open>start\<close> with the connection
  (\<open>onChannelReady\<close> in theory \<open>Rabbitmq\<close>), which calls it for every new channel.
\<close>

section \<open>The channel\<close>

definition channel_prefetch :: "'r services \<Rightarrow> rat option \<Rightarrow> ('r, unit) io" where
  "channel_prefetch E n = call E (\<lambda>w. (Inr (), w\<lparr>prefetch_count := n\<rparr>))"

definition channel_consume :: "'r services \<Rightarrow> string \<Rightarrow> ('r, string) io" where
  "channel_consume E queue = call E (\<lambda>w.
     let tag = new_consumer_tag E (steps w) in (Inr tag, w\<lparr>consumers := consumers w @ [(queue, tag)]\<rparr>))"

definition channel_cancel :: "'r services \<Rightarrow> string \<Rightarrow> ('r, unit) io" where
  "channel_cancel E tag = call E (\<lambda>w. (Inr (), w\<lparr>consumers := filter (\<lambda>c. snd c \<noteq> tag) (consumers w)\<rparr>))"

text \<open>A new channel has no consumers.\<close>

definition fresh_channel :: "'r world \<Rightarrow> 'r world" where
  "fresh_channel w = w\<lparr>channel := True, prefetch_count := None, consumers := []\<rparr>"

section \<open>EmailConsumer\<close>

definition start :: "'r services \<Rightarrow> ('r, unit) io" where
  "start E =
     bind (channel_prefetch E (env_number E ''CONSUMER_PREFETCH'' 10)) (\<lambda>_.
     bind (channel_consume E (mainQueue TOPOLOGY)) (\<lambda>tag.
     modify (\<lambda>w. w\<lparr>consumerTag := Some tag\<rparr>)))"

text \<open>\<open>if (this.consumerTag && channel) await channel.cancel(...).catch(() => undefined)\<close>\<close>

definition cancel_consumer :: "'r services \<Rightarrow> ('r world \<Rightarrow> string option) \<Rightarrow> ('r, unit) io" where
  "cancel_consumer E tag_of =
     bind (get channel) (\<lambda>ready.
     bind (get tag_of) (\<lambda>tag.
       case tag of
         None \<Rightarrow> Resolve ()
       | Some t \<Rightarrow>
           if t \<noteq> [] \<and> ready then try_catch (channel_cancel E t) (\<lambda>_. Resolve ()) else Resolve ()))"

definition email_onModuleDestroy :: "nat \<Rightarrow> 'r services \<Rightarrow> ('r, bool) io" where
  "email_onModuleDestroy fuel E = bind (cancel_consumer E consumerTag) (\<lambda>_. drain fuel E)"

section \<open>StatusConsumer\<close>

definition status_start :: "'r services \<Rightarrow> ('r, unit) io" where
  "status_start E =
     bind (channel_prefetch E (Some 100)) (\<lambda>_.
     bind (channel_consume E (statusQueue TOPOLOGY)) (\<lambda>tag.
     modify (\<lambda>w. w\<lparr>statusConsumerTag := Some tag\<rparr>)))"

definition status_onModuleDestroy :: "'r services \<Rightarrow> ('r, unit) io" where
  "status_onModuleDestroy E = cancel_consumer E statusConsumerTag"

lemmas lifecycle_defs = channel_prefetch_def channel_consume_def channel_cancel_def start_def
  cancel_consumer_def email_onModuleDestroy_def status_start_def status_onModuleDestroy_def

section \<open>Starting\<close>

text \<open>
  A consumer that has started on a new channel is its one consumer, of the right queue, under the
  tag it remembers, with the prefetch of the configuration. One that has failed leaves the tag as
  it was: if the broker has registered it all the same, nobody will cancel it.
\<close>

lemma start_wp:
  "wp (start E)
     (\<lambda>_ w'. \<exists>tag. consumerTag w' = Some tag \<and> consumers w' = [(mainQueue TOPOLOGY, tag)] \<and>
        prefetch_count w' = env_number E ''CONSUMER_PREFETCH'' 10 \<and> inFlight w' = inFlight w)
     (\<lambda>e w'. consumerTag w' = consumerTag w \<and> (\<forall>c \<in> set (consumers w'). fst c = mainQueue TOPOLOGY) \<and> inFlight w' = inFlight w)
     (fresh_channel w)"
  by (auto simp: start_def channel_prefetch_def channel_consume_def fresh_channel_def wp_rules Let_def split: fate.split)

lemma status_start_wp:
  "wp (status_start E)
     (\<lambda>_ w'. \<exists>tag. statusConsumerTag w' = Some tag \<and> consumers w' = [(statusQueue TOPOLOGY, tag)] \<and>
        prefetch_count w' = Some 100)
     (\<lambda>e w'. statusConsumerTag w' = statusConsumerTag w \<and> (\<forall>c \<in> set (consumers w'). fst c = statusQueue TOPOLOGY))
     (fresh_channel w)"
  by (auto simp: status_start_def channel_prefetch_def channel_consume_def fresh_channel_def wp_rules Let_def split: fate.split)

section \<open>Stopping\<close>

text \<open>
  Cancelling never fails. Without a channel or a tag it does nothing; else it is one call, and
  when that was not refused no consumer with the tag is left.
\<close>

definition unchanged_but_consumers :: "'r world \<Rightarrow> 'r world \<Rightarrow> bool" where
  "unchanged_but_consumers w w' \<longleftrightarrow> (\<exists>n cs. w' = w\<lparr>steps := n, consumers := cs\<rparr> \<and> set cs \<subseteq> set (consumers w))"

lemma cancel_consumer_wp:
  "wp (cancel_consumer E tag_of)
     (\<lambda>_ w'. unchanged_but_consumers w w' \<and>
        (case tag_of w of
           None \<Rightarrow> w' = w
         | Some t \<Rightarrow>
             if t \<noteq> [] \<and> channel w
             then steps w' = Suc (steps w) \<and> ((\<exists>e. fate E (steps w) = Refused e) \<or> t \<notin> snd ` set (consumers w'))
             else w' = w))
     (\<lambda>_ _. False) w"
proof -
  have "\<exists>n cs. w = w\<lparr>steps := n, consumers := cs\<rparr> \<and> set cs \<subseteq> set (consumers w)"
    by (rule exI [of _ "steps w"], rule exI [of _ "consumers w"]) simp
  moreover have "\<exists>n' cs. w\<lparr>steps := n\<rparr> = w\<lparr>steps := n', consumers := cs\<rparr> \<and> set cs \<subseteq> set (consumers w)" for n
    by (rule exI [of _ n], rule exI [of _ "consumers w"]) simp
  moreover have "\<exists>n' cs'. w\<lparr>steps := n, consumers := filter P (consumers w)\<rparr> = w\<lparr>steps := n', consumers := cs'\<rparr> \<and>
      set cs' \<subseteq> set (consumers w)" for n P
    by (rule exI [of _ n], rule exI [of _ "filter P (consumers w)"]) auto
  ultimately show ?thesis
    by (auto simp: cancel_consumer_def channel_cancel_def wp_rules Let_def unchanged_but_consumers_def
        split: fate.split option.split)
qed

text \<open>A shutdown of the worker's consumer always resolves, within the rounds of its drain.\<close>

lemma email_onModuleDestroy_wp:
  assumes "\<And>s. s = steps w \<or> s = Suc (steps w) \<Longrightarrow> ticking E (Suc s) \<and> clock E s \<le> clock E (Suc s)"
  shows "wp (email_onModuleDestroy 101 E) (\<lambda>left w'. left \<and> inFlight w' = inFlight w) (\<lambda>_ _. False) w"
  unfolding email_onModuleDestroy_def wp_bind
proof (rule wp_mono [OF cancel_consumer_wp], goal_cases)
  case (1 x w1)
  have s: "steps w1 = steps w \<or> steps w1 = Suc (steps w)" and i: "inFlight w1 = inFlight w"
    using 1 by (auto simp: unchanged_but_consumers_def split: option.splits if_splits)
  have t: "ticking E (Suc (steps w1))" "clock E (steps w1) \<le> clock E (Suc (steps w1))" using assms [OF s] by auto
  show ?case by (rule wp_mono [OF drain_wp [OF t]]) (simp_all add: i)
qed simp

end
