(* ===== verification/Clients.thy ===== *)
theory Clients
  imports Config
begin

text \<open>
  The services that hold a client of a library: the connection pool of the worker
  (\<^verbatim>\<open>infra/pg\<close>), Redis (\<^verbatim>\<open>infra/redis\<close>), Prisma (\<^verbatim>\<open>infra/prisma\<close>) and the SMTP transport
  (\<^verbatim>\<open>providers/smtp.provider.ts\<close>): what they are configured with, and the life of the client from
  \<open>onModuleInit\<close> to \<open>onModuleDestroy\<close>. An \<open>undefined\<close> connection string is \<open>None\<close>; what the
  libraries answer is a parameter.
\<close>

datatype client = NoClient | Client "string option" | ClosedClient

definition type_error :: exn where
  "type_error = JsError None ''Cannot read properties of undefined''"

text \<open>A call on the client, whose answer is \<open>answer\<close>: on \<open>undefined\<close> it throws.\<close>

definition on_client :: "client \<Rightarrow> string + unit \<Rightarrow> client \<Rightarrow> (exn + unit) \<times> client" where
  "on_client s answer after =
     (case s of
        NoClient \<Rightarrow> (Inl type_error, s)
      | _ \<Rightarrow> (case answer of Inl e \<Rightarrow> (Inl (JsError None e), s) | Inr _ \<Rightarrow> (Inr (), after)))"

section \<open>PgPoolService\<close>

definition pg_onModuleInit :: "env \<Rightarrow> client" where
  "pg_onModuleInit env = Client (env ''WORKER_DATABASE_URL'')"

definition pg_onModuleDestroy :: "string + unit \<Rightarrow> client \<Rightarrow> (exn + unit) \<times> client" where
  "pg_onModuleDestroy ended pool = on_client pool ended ClosedClient"

section \<open>RedisService\<close>

definition redis_onModuleInit :: "env \<Rightarrow> client" where
  "redis_onModuleInit env = Client (env ''REDIS_URL'')"

text \<open>\<open>disconnect\<close> returns nothing and does not fail.\<close>

definition redis_onModuleDestroy :: "client \<Rightarrow> (exn + unit) \<times> client" where
  "redis_onModuleDestroy c = on_client c (Inr ()) ClosedClient"

section \<open>ApiPrismaService\<close>

record prisma_client =
  prisma_pool :: client
  prisma_connected :: bool

definition prisma_constructor :: "env \<Rightarrow> prisma_client" where
  "prisma_constructor env = \<lparr>prisma_pool = Client (env ''DATABASE_URL''), prisma_connected = False\<rparr>"

definition prisma_onModuleInit :: "string + unit \<Rightarrow> prisma_client \<Rightarrow> (exn + unit) \<times> prisma_client" where
  "prisma_onModuleInit connect p =
     (case connect of Inl e \<Rightarrow> (Inl (JsError None e), p) | Inr _ \<Rightarrow> (Inr (), p\<lparr>prisma_connected := True\<rparr>))"

definition prisma_onModuleDestroy :: "string + unit \<Rightarrow> prisma_client \<Rightarrow> (exn + unit) \<times> prisma_client" where
  "prisma_onModuleDestroy disconnect p =
     (case disconnect of Inl e \<Rightarrow> (Inl (JsError None e), p) | Inr _ \<Rightarrow> (Inr (), p\<lparr>prisma_connected := False\<rparr>))"

section \<open>SmtpProvider\<close>

text \<open>The options of \<open>nodemailer.createTransport\<close>; a number that is \<open>NaN\<close> is \<open>None\<close>.\<close>

record smtp_transport =
  smtp_host :: "string option"
  smtp_port :: "rat option"
  smtp_pool :: bool
  smtp_maxConnections :: "rat option"
  smtp_auth :: "(string \<times> string) option"
  smtp_open :: bool

definition SmtpProvider_constructor :: "'r services \<Rightarrow> smtp_transport" where
  "SmtpProvider_constructor E =
     (let auth =
        (case (process_env E ''SMTP_USER'', process_env E ''SMTP_PASS'') of
           (Some user, Some pass) \<Rightarrow> if user \<noteq> [] \<and> pass \<noteq> [] then Some (user, pass) else None
         | _ \<Rightarrow> None)
      in \<lparr>smtp_host = process_env E ''SMTP_HOST'',
          smtp_port = (case process_env E ''SMTP_PORT'' of None \<Rightarrow> None | Some s \<Rightarrow> js_Number s),
          smtp_pool = True,
          smtp_maxConnections = env_number E ''SMTP_MAX_CONNECTIONS'' 4,
          smtp_auth = auth, smtp_open = True\<rparr>)"

definition smtp_onModuleDestroy :: "smtp_transport \<Rightarrow> smtp_transport" where
  "smtp_onModuleDestroy t = t\<lparr>smtp_open := False\<rparr>"

section \<open>What the clients are configured with\<close>

lemma required_Inr: "env_field env k (z_string f) = Inr s \<Longrightarrow> env k = Some s"
  by (auto simp: env_field_Inr z_string_Inr)

lemma optional_Inr: "env_field env k (z_optional (z_string f)) = Inr s \<Longrightarrow> env k = s"
  by (auto simp: env_field_Inr z_optional_Inr z_string_Inr)

lemma workerEnv_texts:
  assumes "loadWorkerEnv msg env = Inr c"
  shows "env ''WORKER_DATABASE_URL'' = Some (we_WORKER_DATABASE_URL c)"
    and "env ''RABBITMQ_URL'' = Some (we_RABBITMQ_URL c)" and "env ''REDIS_URL'' = Some (we_REDIS_URL c)"
    and "env ''SMTP_USER'' = we_SMTP_USER c" and "env ''SMTP_PASS'' = we_SMTP_PASS c"
  using assms unfolding loadWorkerEnv_def parseEnv_Inr workerEnvSchema_def z_and_Inr
  by (auto dest!: required_Inr optional_Inr)

lemma apiEnv_texts:
  assumes "loadApiEnv msg env = Inr c"
  shows "env ''DATABASE_URL'' = Some (api_DATABASE_URL c)" and "env ''RABBITMQ_URL'' = Some (api_RABBITMQ_URL c)"
    and "env ''REDIS_URL'' = Some (api_REDIS_URL c)" and "env ''API_KEY'' = Some (api_API_KEY c)"
  using assms unfolding loadApiEnv_def parseEnv_Inr apiEnvSchema_def z_and_Inr
  by (auto dest!: required_Inr)

lemma apiEnv_key_length: "loadApiEnv msg env = Inr c \<Longrightarrow> 16 \<le> length (api_API_KEY c)"
  unfolding loadApiEnv_def parseEnv_Inr apiEnvSchema_def z_and_Inr
  by (auto simp: env_field_Inr z_string_Inr z_min_def split: if_splits)

lemma smtp_port_agrees:
  assumes "loadWorkerEnv msg (process_env E) = Inr c"
  shows "smtp_port (SmtpProvider_constructor E) =
    (if process_env E ''SMTP_PORT'' = None then None else Some (of_int (we_SMTP_PORT c)))"
    and "process_env E ''SMTP_PORT'' = None \<Longrightarrow> we_SMTP_PORT c = 1025"
  using coerced_Inr(1) [OF workerEnv_fields(3) [OF assms]]
  by (auto simp: SmtpProvider_constructor_def Let_def)

lemma smtp_host_agrees:
  assumes "loadWorkerEnv msg (process_env E) = Inr c"
  shows "smtp_host (SmtpProvider_constructor E) = process_env E ''SMTP_HOST''"
    and "we_SMTP_HOST c = (case process_env E ''SMTP_HOST'' of None \<Rightarrow> ''localhost'' | Some h \<Rightarrow> h)"
  using workerEnv_fields(10) [OF assms]
  by (auto simp: SmtpProvider_constructor_def Let_def env_field_Inr z_default_Inr z_string_Inr split: option.splits)

lemma smtp_maxConnections_agrees:
  assumes "loadWorkerEnv msg (process_env E) = Inr c"
  shows "smtp_maxConnections (SmtpProvider_constructor E) = Some (of_int (we_SMTP_MAX_CONNECTIONS c))"
  using reread_agrees(2) [OF assms] by (simp add: SmtpProvider_constructor_def Let_def)

text \<open>The transport authenticates exactly when both a user and a password are set and not empty.\<close>

lemma smtp_auth_iff:
  assumes "loadWorkerEnv msg (process_env E) = Inr c"
  shows "smtp_auth (SmtpProvider_constructor E) = Some (u, p) \<longleftrightarrow>
    we_SMTP_USER c = Some u \<and> we_SMTP_PASS c = Some p \<and> u \<noteq> [] \<and> p \<noteq> []"
  using workerEnv_texts(4,5) [OF assms]
  by (auto simp: SmtpProvider_constructor_def Let_def split: option.splits)

section \<open>The life of a client\<close>

text \<open>After \<open>onModuleInit\<close>, \<open>onModuleDestroy\<close> closes the client unless the library fails; before it, it throws.\<close>

lemma pg_life:
  "pg_onModuleDestroy (Inr ()) (pg_onModuleInit env) = (Inr (), ClosedClient)"
  "fst (pg_onModuleDestroy answer NoClient) = Inl type_error"
  by (simp_all add: pg_onModuleDestroy_def pg_onModuleInit_def on_client_def)

lemma redis_life:
  "redis_onModuleDestroy (redis_onModuleInit env) = (Inr (), ClosedClient)"
  "redis_onModuleDestroy NoClient = (Inl type_error, NoClient)"
  by (simp_all add: redis_onModuleDestroy_def redis_onModuleInit_def on_client_def)

end
