(* ===== verification/PrismaQueries.thy ===== *)
theory PrismaQueries
  imports JobTable
begin

text \<open>
  The queries of the Prisma client on the model \<open>EmailJob\<close>, as the generated types of
  \<^verbatim>\<open>src/node-pipeline/src/generated/api\<close> admit them and as Prisma documents their meaning: the
  filters of a \<open>where\<close>, the data of a \<open>create\<close> and of an \<open>update\<close>. An undefined member is \<open>None\<close>.
  Conditions have the three truth values of SQL, \<open>None\<close> for unknown; how the database compares
  texts is the parameter \<open>collation\<close>. The last section relates these queries, with the arguments
  the repository passes, to the operations of theory \<open>JobTable\<close>.

  A list of field references has no instance in this model, and an instant written as a text is
  the instant it denotes.
\<close>

section \<open>The model\<close>

datatype EmailJobScalarFieldEnum =
    F_id | F_idempotencyKey | F_tenantId | F_from | F_to | F_subject | F_text | F_html | F_provider
  | F_status | F_createdAt | F_updatedAt | F_deliveredAt | F_lastErrorCode

record EmailJobModel =
  m_id :: string
  m_idempotencyKey :: string
  m_tenantId :: string
  m_from :: string
  m_to :: string
  m_subject :: string
  m_text :: string
  m_html :: "string option"
  m_provider :: string
  m_status :: string
  m_createdAt :: int
  m_updatedAt :: int
  m_deliveredAt :: "int option"
  m_lastErrorCode :: "string option"

fun string_column :: "EmailJobModel \<Rightarrow> EmailJobScalarFieldEnum \<Rightarrow> string option" where
  "string_column r F_id = Some (m_id r)"
| "string_column r F_idempotencyKey = Some (m_idempotencyKey r)"
| "string_column r F_tenantId = Some (m_tenantId r)"
| "string_column r F_from = Some (m_from r)"
| "string_column r F_to = Some (m_to r)"
| "string_column r F_subject = Some (m_subject r)"
| "string_column r F_text = Some (m_text r)"
| "string_column r F_html = m_html r"
| "string_column r F_provider = Some (m_provider r)"
| "string_column r F_status = Some (m_status r)"
| "string_column r F_lastErrorCode = m_lastErrorCode r"
| "string_column r _ = None"

fun date_column :: "EmailJobModel \<Rightarrow> EmailJobScalarFieldEnum \<Rightarrow> int option" where
  "date_column r F_createdAt = Some (m_createdAt r)"
| "date_column r F_updatedAt = Some (m_updatedAt r)"
| "date_column r F_deliveredAt = m_deliveredAt r"
| "date_column r _ = None"

section \<open>Truth values and comparisons\<close>

fun k_not :: "bool option \<Rightarrow> bool option" where
  "k_not None = None"
| "k_not (Some b) = Some (\<not> b)"

fun k_and :: "bool option \<Rightarrow> bool option \<Rightarrow> bool option" where
  "k_and (Some False) _ = Some False"
| "k_and _ (Some False) = Some False"
| "k_and (Some True) b = b"
| "k_and b (Some True) = b"
| "k_and None None = None"

definition k_all :: "bool option list \<Rightarrow> bool option" where
  "k_all bs = foldr k_and bs (Some True)"

definition k_any :: "bool option list \<Rightarrow> bool option" where
  "k_any bs = k_not (k_all (List.map k_not bs))"

text \<open>A member of a filter adds a condition when it is defined.\<close>

definition cond :: "'a option \<Rightarrow> ('a \<Rightarrow> bool option) \<Rightarrow> bool option list" where
  "cond member f = (case member of None \<Rightarrow> [] | Some x \<Rightarrow> [f x])"

definition cmp :: "('a \<Rightarrow> 'a \<Rightarrow> bool) \<Rightarrow> 'a option \<Rightarrow> 'a option \<Rightarrow> bool option" where
  "cmp R v x = (case v of None \<Rightarrow> None | Some a \<Rightarrow> (case x of None \<Rightarrow> None | Some b \<Rightarrow> Some (R a b)))"

definition among :: "('a \<Rightarrow> 'a \<Rightarrow> bool) \<Rightarrow> 'a option \<Rightarrow> 'a list \<Rightarrow> bool option" where
  "among eq v xs = map_option (\<lambda>a. list_ex (eq a) xs) v"

text \<open>The operand of a comparison: a value, or a column of the same row; or null, where the type has it.\<close>

datatype 'a operand = Value 'a | FieldRef EmailJobScalarFieldEnum

datatype 'a nullable = Null | NotNull 'a

fun operand_value :: "(EmailJobScalarFieldEnum \<Rightarrow> 'a option) \<Rightarrow> 'a operand \<Rightarrow> 'a option" where
  "operand_value col (Value x) = Some x"
| "operand_value col (FieldRef f) = col f"

text \<open>\<open>equals: null\<close> asks whether the column is null.\<close>

definition equals_nullable ::
    "('a \<Rightarrow> 'a \<Rightarrow> bool) \<Rightarrow> (EmailJobScalarFieldEnum \<Rightarrow> 'a option) \<Rightarrow> 'a option \<Rightarrow> 'a operand nullable \<Rightarrow> bool option" where
  "equals_nullable eq col v x =
     (case x of Null \<Rightarrow> Some (v = None) | NotNull y \<Rightarrow> cmp eq v (operand_value col y))"

definition among_nullable :: "('a \<Rightarrow> 'a \<Rightarrow> bool) \<Rightarrow> 'a option \<Rightarrow> 'a list nullable \<Rightarrow> bool option" where
  "among_nullable eq v xs = (case xs of Null \<Rightarrow> Some (v = None) | NotNull ys \<Rightarrow> among eq v ys)"

datatype QueryMode = Default_mode | Insensitive

record collation =
  same_text :: "QueryMode \<Rightarrow> string \<Rightarrow> string \<Rightarrow> bool"
  less_text :: "QueryMode \<Rightarrow> string \<Rightarrow> string \<Rightarrow> bool"
  contains_text :: "QueryMode \<Rightarrow> string \<Rightarrow> string \<Rightarrow> bool"
  starts_text :: "QueryMode \<Rightarrow> string \<Rightarrow> string \<Rightarrow> bool"
  ends_text :: "QueryMode \<Rightarrow> string \<Rightarrow> string \<Rightarrow> bool"

text \<open>In the default mode two texts are the same when they are equal.\<close>

definition exact :: "collation \<Rightarrow> bool" where
  "exact D \<longleftrightarrow> same_text D Default_mode = (=)"

definition up_to :: "('a \<Rightarrow> 'a \<Rightarrow> bool) \<Rightarrow> ('a \<Rightarrow> 'a \<Rightarrow> bool) \<Rightarrow> 'a \<Rightarrow> 'a \<Rightarrow> bool" where
  "up_to R eq a b \<longleftrightarrow> R a b \<or> eq a b"

section \<open>Filters of a text\<close>

datatype NestedStringFilter =
    NestedStringFilter (nsf_equals: "string operand option") (nsf_in: "string list option")
      (nsf_notIn: "string list option") (nsf_lt: "string operand option") (nsf_lte: "string operand option")
      (nsf_gt: "string operand option") (nsf_gte: "string operand option")
      (nsf_contains: "string operand option") (nsf_startsWith: "string operand option")
      (nsf_endsWith: "string operand option") (nsf_not: "nested_string_not option")
and nested_string_not = NotStringFilter NestedStringFilter | NotString string

datatype NestedStringNullableFilter =
    NestedStringNullableFilter (nsnf_equals: "string operand nullable option")
      (nsnf_in: "string list nullable option") (nsnf_notIn: "string list nullable option")
      (nsnf_lt: "string operand option") (nsnf_lte: "string operand option")
      (nsnf_gt: "string operand option") (nsnf_gte: "string operand option")
      (nsnf_contains: "string operand option") (nsnf_startsWith: "string operand option")
      (nsnf_endsWith: "string operand option") (nsnf_not: "nested_string_nullable_not option")
and nested_string_nullable_not =
    NotStringNullableFilter NestedStringNullableFilter | NotStringNullable "string nullable"

record StringFilter =
  sf_equals :: "string operand option"
  sf_in :: "string list option"
  sf_notIn :: "string list option"
  sf_lt :: "string operand option"
  sf_lte :: "string operand option"
  sf_gt :: "string operand option"
  sf_gte :: "string operand option"
  sf_contains :: "string operand option"
  sf_startsWith :: "string operand option"
  sf_endsWith :: "string operand option"
  sf_mode :: "QueryMode option"
  sf_not :: "nested_string_not option"

record StringNullableFilter =
  snf_equals :: "string operand nullable option"
  snf_in :: "string list nullable option"
  snf_notIn :: "string list nullable option"
  snf_lt :: "string operand option"
  snf_lte :: "string operand option"
  snf_gt :: "string operand option"
  snf_gte :: "string operand option"
  snf_contains :: "string operand option"
  snf_startsWith :: "string operand option"
  snf_endsWith :: "string operand option"
  snf_mode :: "QueryMode option"
  snf_not :: "nested_string_nullable_not option"

text \<open>The comparisons the four kinds of filter share, on a column \<open>v\<close> of the row \<open>r\<close>.\<close>

definition text_order ::
    "collation \<Rightarrow> QueryMode \<Rightarrow> EmailJobModel \<Rightarrow> string option \<Rightarrow> string operand option \<Rightarrow> string operand option \<Rightarrow>
     string operand option \<Rightarrow> string operand option \<Rightarrow> string operand option \<Rightarrow> string operand option \<Rightarrow>
     string operand option \<Rightarrow> bool option list" where
  "text_order D q r v lt lte gt gte con starts ends =
     (let x = operand_value (string_column r) in
      cond lt (\<lambda>y. cmp (less_text D q) v (x y)) @
      cond lte (\<lambda>y. cmp (up_to (less_text D q) (same_text D q)) v (x y)) @
      cond gt (\<lambda>y. cmp (less_text D q) (x y) v) @
      cond gte (\<lambda>y. cmp (up_to (less_text D q) (same_text D q)) (x y) v) @
      cond con (\<lambda>y. cmp (contains_text D q) v (x y)) @
      cond starts (\<lambda>y. cmp (starts_text D q) v (x y)) @
      cond ends (\<lambda>y. cmp (ends_text D q) v (x y)))"

primrec eval_nested_string :: "collation \<Rightarrow> QueryMode \<Rightarrow> EmailJobModel \<Rightarrow> string option \<Rightarrow> NestedStringFilter \<Rightarrow> bool option"
    and eval_nested_string_not :: "collation \<Rightarrow> QueryMode \<Rightarrow> EmailJobModel \<Rightarrow> string option \<Rightarrow> nested_string_not \<Rightarrow> bool option" where
  "eval_nested_string D q r v (NestedStringFilter eq ins nin lt lte gt gte con starts ends no) =
     k_all (cond eq (\<lambda>y. cmp (same_text D q) v (operand_value (string_column r) y)) @
       cond ins (among (same_text D q) v) @ cond nin (\<lambda>xs. k_not (among (same_text D q) v xs)) @
       text_order D q r v lt lte gt gte con starts ends @
       cond (map_option (eval_nested_string_not D q r v) no) id)"
| "eval_nested_string_not D q r v (NotStringFilter f) = k_not (eval_nested_string D q r v f)"
| "eval_nested_string_not D q r v (NotString s) = k_not (cmp (same_text D q) v (Some s))"

primrec eval_nested_string_nullable :: "collation \<Rightarrow> QueryMode \<Rightarrow> EmailJobModel \<Rightarrow> string option \<Rightarrow> NestedStringNullableFilter \<Rightarrow> bool option"
    and eval_nested_string_nullable_not :: "collation \<Rightarrow> QueryMode \<Rightarrow> EmailJobModel \<Rightarrow> string option \<Rightarrow> nested_string_nullable_not \<Rightarrow> bool option" where
  "eval_nested_string_nullable D q r v (NestedStringNullableFilter eq ins nin lt lte gt gte con starts ends no) =
     k_all (cond eq (equals_nullable (same_text D q) (string_column r) v) @
       cond ins (among_nullable (same_text D q) v) @ cond nin (\<lambda>xs. k_not (among_nullable (same_text D q) v xs)) @
       text_order D q r v lt lte gt gte con starts ends @
       cond (map_option (eval_nested_string_nullable_not D q r v) no) id)"
| "eval_nested_string_nullable_not D q r v (NotStringNullableFilter f) = k_not (eval_nested_string_nullable D q r v f)"
| "eval_nested_string_nullable_not D q r v (NotStringNullable s) =
     k_not (equals_nullable (same_text D q) (string_column r) v (case s of Null \<Rightarrow> Null | NotNull t \<Rightarrow> NotNull (Value t)))"

definition mode_of :: "QueryMode option \<Rightarrow> QueryMode" where
  "mode_of m = (case m of None \<Rightarrow> Default_mode | Some q \<Rightarrow> q)"

definition eval_string :: "collation \<Rightarrow> EmailJobModel \<Rightarrow> string option \<Rightarrow> StringFilter \<Rightarrow> bool option" where
  "eval_string D r v f =
     eval_nested_string D (mode_of (sf_mode f)) r v
       (NestedStringFilter (sf_equals f) (sf_in f) (sf_notIn f) (sf_lt f) (sf_lte f) (sf_gt f) (sf_gte f)
         (sf_contains f) (sf_startsWith f) (sf_endsWith f) (sf_not f))"

definition eval_string_nullable :: "collation \<Rightarrow> EmailJobModel \<Rightarrow> string option \<Rightarrow> StringNullableFilter \<Rightarrow> bool option" where
  "eval_string_nullable D r v f =
     eval_nested_string_nullable D (mode_of (snf_mode f)) r v
       (NestedStringNullableFilter (snf_equals f) (snf_in f) (snf_notIn f) (snf_lt f) (snf_lte f) (snf_gt f)
         (snf_gte f) (snf_contains f) (snf_startsWith f) (snf_endsWith f) (snf_not f))"

section \<open>Filters of an instant\<close>

datatype NestedDateTimeFilter =
    NestedDateTimeFilter (ndf_equals: "int operand option") (ndf_in: "int list option")
      (ndf_notIn: "int list option") (ndf_lt: "int operand option") (ndf_lte: "int operand option")
      (ndf_gt: "int operand option") (ndf_gte: "int operand option") (ndf_not: "nested_date_not option")
and nested_date_not = NotDateTimeFilter NestedDateTimeFilter | NotDate int

datatype NestedDateTimeNullableFilter =
    NestedDateTimeNullableFilter (ndnf_equals: "int operand nullable option")
      (ndnf_in: "int list nullable option") (ndnf_notIn: "int list nullable option")
      (ndnf_lt: "int operand option") (ndnf_lte: "int operand option") (ndnf_gt: "int operand option")
      (ndnf_gte: "int operand option") (ndnf_not: "nested_date_nullable_not option")
and nested_date_nullable_not = NotDateTimeNullableFilter NestedDateTimeNullableFilter | NotDateNullable "int nullable"

record DateTimeFilter =
  df_equals :: "int operand option"
  df_in :: "int list option"
  df_notIn :: "int list option"
  df_lt :: "int operand option"
  df_lte :: "int operand option"
  df_gt :: "int operand option"
  df_gte :: "int operand option"
  df_not :: "nested_date_not option"

record DateTimeNullableFilter =
  dnf_equals :: "int operand nullable option"
  dnf_in :: "int list nullable option"
  dnf_notIn :: "int list nullable option"
  dnf_lt :: "int operand option"
  dnf_lte :: "int operand option"
  dnf_gt :: "int operand option"
  dnf_gte :: "int operand option"
  dnf_not :: "nested_date_nullable_not option"

definition date_order ::
    "EmailJobModel \<Rightarrow> int option \<Rightarrow> int operand option \<Rightarrow> int operand option \<Rightarrow> int operand option \<Rightarrow>
     int operand option \<Rightarrow> bool option list" where
  "date_order r v lt lte gt gte =
     (let x = operand_value (date_column r) in
      cond lt (\<lambda>y. cmp (<) v (x y)) @ cond lte (\<lambda>y. cmp (\<le>) v (x y)) @
      cond gt (\<lambda>y. cmp (<) (x y) v) @ cond gte (\<lambda>y. cmp (\<le>) (x y) v))"

primrec eval_nested_date :: "EmailJobModel \<Rightarrow> int option \<Rightarrow> NestedDateTimeFilter \<Rightarrow> bool option"
    and eval_nested_date_not :: "EmailJobModel \<Rightarrow> int option \<Rightarrow> nested_date_not \<Rightarrow> bool option" where
  "eval_nested_date r v (NestedDateTimeFilter eq ins nin lt lte gt gte no) =
     k_all (cond eq (\<lambda>y. cmp (=) v (operand_value (date_column r) y)) @
       cond ins (among (=) v) @ cond nin (\<lambda>xs. k_not (among (=) v xs)) @
       date_order r v lt lte gt gte @ cond (map_option (eval_nested_date_not r v) no) id)"
| "eval_nested_date_not r v (NotDateTimeFilter f) = k_not (eval_nested_date r v f)"
| "eval_nested_date_not r v (NotDate t) = k_not (cmp (=) v (Some t))"

primrec eval_nested_date_nullable :: "EmailJobModel \<Rightarrow> int option \<Rightarrow> NestedDateTimeNullableFilter \<Rightarrow> bool option"
    and eval_nested_date_nullable_not :: "EmailJobModel \<Rightarrow> int option \<Rightarrow> nested_date_nullable_not \<Rightarrow> bool option" where
  "eval_nested_date_nullable r v (NestedDateTimeNullableFilter eq ins nin lt lte gt gte no) =
     k_all (cond eq (equals_nullable (=) (date_column r) v) @
       cond ins (among_nullable (=) v) @ cond nin (\<lambda>xs. k_not (among_nullable (=) v xs)) @
       date_order r v lt lte gt gte @ cond (map_option (eval_nested_date_nullable_not r v) no) id)"
| "eval_nested_date_nullable_not r v (NotDateTimeNullableFilter f) = k_not (eval_nested_date_nullable r v f)"
| "eval_nested_date_nullable_not r v (NotDateNullable t) =
     k_not (equals_nullable (=) (date_column r) v (case t of Null \<Rightarrow> Null | NotNull x \<Rightarrow> NotNull (Value x)))"

definition eval_date :: "EmailJobModel \<Rightarrow> int option \<Rightarrow> DateTimeFilter \<Rightarrow> bool option" where
  "eval_date r v f =
     eval_nested_date r v (NestedDateTimeFilter (df_equals f) (df_in f) (df_notIn f) (df_lt f) (df_lte f)
       (df_gt f) (df_gte f) (df_not f))"

definition eval_date_nullable :: "EmailJobModel \<Rightarrow> int option \<Rightarrow> DateTimeNullableFilter \<Rightarrow> bool option" where
  "eval_date_nullable r v f =
     eval_nested_date_nullable r v (NestedDateTimeNullableFilter (dnf_equals f) (dnf_in f) (dnf_notIn f)
       (dnf_lt f) (dnf_lte f) (dnf_gt f) (dnf_gte f) (dnf_not f))"

section \<open>where\<close>

text \<open>A member of a \<open>where\<close> is a filter, or the value the column shall have.\<close>

datatype ('f, 'a) condition = Filter 'f | Is 'a

datatype EmailJobWhereInput =
  WhereInput (w_AND: "EmailJobWhereInput list option") (w_OR: "EmailJobWhereInput list option")
    (w_NOT: "EmailJobWhereInput list option")
    (w_id: "(StringFilter, string) condition option")
    (w_idempotencyKey: "(StringFilter, string) condition option")
    (w_tenantId: "(StringFilter, string) condition option")
    (w_from: "(StringFilter, string) condition option")
    (w_to: "(StringFilter, string) condition option")
    (w_subject: "(StringFilter, string) condition option")
    (w_text: "(StringFilter, string) condition option")
    (w_html: "(StringNullableFilter, string nullable) condition option")
    (w_provider: "(StringFilter, string) condition option")
    (w_status: "(StringFilter, string) condition option")
    (w_createdAt: "(DateTimeFilter, int) condition option")
    (w_updatedAt: "(DateTimeFilter, int) condition option")
    (w_deliveredAt: "(DateTimeNullableFilter, int nullable) condition option")
    (w_lastErrorCode: "(StringNullableFilter, string nullable) condition option")

definition string_condition :: "collation \<Rightarrow> EmailJobModel \<Rightarrow> EmailJobScalarFieldEnum \<Rightarrow> (StringFilter, string) condition \<Rightarrow> bool option" where
  "string_condition D r c x =
     (case x of Filter f \<Rightarrow> eval_string D r (string_column r c) f
      | Is s \<Rightarrow> cmp (same_text D Default_mode) (string_column r c) (Some s))"

definition nullable_value :: "'a nullable \<Rightarrow> 'a option" where
  "nullable_value x = (case x of Null \<Rightarrow> None | NotNull y \<Rightarrow> Some y)"

definition is_value :: "('a \<Rightarrow> 'a \<Rightarrow> bool) \<Rightarrow> 'a option \<Rightarrow> 'a nullable \<Rightarrow> bool option" where
  "is_value eq v x = (case x of Null \<Rightarrow> Some (v = None) | NotNull y \<Rightarrow> cmp eq v (Some y))"

definition string_nullable_condition :: "collation \<Rightarrow> EmailJobModel \<Rightarrow> EmailJobScalarFieldEnum \<Rightarrow> (StringNullableFilter, string nullable) condition \<Rightarrow> bool option" where
  "string_nullable_condition D r c x =
     (case x of Filter f \<Rightarrow> eval_string_nullable D r (string_column r c) f
      | Is s \<Rightarrow> is_value (same_text D Default_mode) (string_column r c) s)"

definition date_condition :: "EmailJobModel \<Rightarrow> EmailJobScalarFieldEnum \<Rightarrow> (DateTimeFilter, int) condition \<Rightarrow> bool option" where
  "date_condition r c x =
     (case x of Filter f \<Rightarrow> eval_date r (date_column r c) f | Is t \<Rightarrow> cmp (=) (date_column r c) (Some t))"

definition date_nullable_condition :: "EmailJobModel \<Rightarrow> EmailJobScalarFieldEnum \<Rightarrow> (DateTimeNullableFilter, int nullable) condition \<Rightarrow> bool option" where
  "date_nullable_condition r c x =
     (case x of Filter f \<Rightarrow> eval_date_nullable r (date_column r c) f | Is t \<Rightarrow> is_value (=) (date_column r c) t)"

text \<open>
  All members have to hold: those of \<open>AND\<close>, one of those of \<open>OR\<close>, none of those of \<open>NOT\<close>, and
  the conditions on the columns.
\<close>

primrec eval_where :: "collation \<Rightarrow> EmailJobModel \<Rightarrow> EmailJobWhereInput \<Rightarrow> bool option" where
  "eval_where D r (WhereInput an orr no wid key tenant wfrom wto subj txt html prov stat created updated delivered code) =
     k_all (cond (map_option (List.map (eval_where D r)) an) k_all @
       cond (map_option (List.map (eval_where D r)) orr) k_any @
       cond (map_option (List.map (eval_where D r)) no) (\<lambda>bs. k_all (List.map k_not bs)) @
       cond wid (string_condition D r F_id) @ cond key (string_condition D r F_idempotencyKey) @
       cond tenant (string_condition D r F_tenantId) @ cond wfrom (string_condition D r F_from) @
       cond wto (string_condition D r F_to) @ cond subj (string_condition D r F_subject) @
       cond txt (string_condition D r F_text) @ cond html (string_nullable_condition D r F_html) @
       cond prov (string_condition D r F_provider) @ cond stat (string_condition D r F_status) @
       cond created (date_condition r F_createdAt) @ cond updated (date_condition r F_updatedAt) @
       cond delivered (date_nullable_condition r F_deliveredAt) @
       cond code (string_nullable_condition D r F_lastErrorCode))"

definition no_where :: EmailJobWhereInput where
  "no_where = WhereInput None None None None None None None None None None None None None None None None None"

definition where_id :: "string option \<Rightarrow> EmailJobWhereInput" where
  "where_id i = WhereInput None None None (map_option Is i) None None None None None None None None None None None None None"

text \<open>A \<open>where\<close> for one row has \<open>id\<close> or \<open>idempotencyKey\<close> as values, and whatever else.\<close>

record EmailJobWhereUniqueInput =
  wu_id :: "string option"
  wu_idempotencyKey :: "string option"
  wu_rest :: EmailJobWhereInput

definition at_least_one :: "EmailJobWhereUniqueInput \<Rightarrow> bool" where
  "at_least_one u \<longleftrightarrow> wu_id u \<noteq> None \<or> wu_idempotencyKey u \<noteq> None"

definition eval_where_unique :: "collation \<Rightarrow> EmailJobModel \<Rightarrow> EmailJobWhereUniqueInput \<Rightarrow> bool option" where
  "eval_where_unique D r u =
     k_all (cond (wu_id u) (\<lambda>s. string_condition D r F_id (Is s)) @
       cond (wu_idempotencyKey u) (\<lambda>s. string_condition D r F_idempotencyKey (Is s)) @ [eval_where D r (wu_rest u)])"

section \<open>The data of a create\<close>

record EmailJobCreateInput =
  c_id :: "string option"
  c_idempotencyKey :: string
  c_tenantId :: string
  c_from :: string
  c_to :: string
  c_subject :: string
  c_text :: string
  c_html :: "string nullable option"
  c_provider :: string
  c_status :: "string option"
  c_createdAt :: "int option"
  c_updatedAt :: "int option"
  c_deliveredAt :: "int nullable option"
  c_lastErrorCode :: "string nullable option"

definition or_null :: "'a nullable option \<Rightarrow> 'a option" where
  "or_null x = Option.bind x nullable_value"

definition or_default :: "'a \<Rightarrow> 'a option \<Rightarrow> 'a" where
  "or_default d x = (case x of None \<Rightarrow> d | Some y \<Rightarrow> y)"

text \<open>The defaults are those of the schema: a new UUID, \<open>QUEUED\<close>, and the time of the insertion.\<close>

definition created_row :: "string \<Rightarrow> int \<Rightarrow> EmailJobCreateInput \<Rightarrow> EmailJobModel" where
  "created_row uuid now c =
     \<lparr>m_id = or_default uuid (c_id c), m_idempotencyKey = c_idempotencyKey c, m_tenantId = c_tenantId c,
      m_from = c_from c, m_to = c_to c, m_subject = c_subject c, m_text = c_text c,
      m_html = or_null (c_html c), m_provider = c_provider c, m_status = or_default ''QUEUED'' (c_status c),
      m_createdAt = or_default now (c_createdAt c), m_updatedAt = or_default now (c_updatedAt c),
      m_deliveredAt = or_null (c_deliveredAt c), m_lastErrorCode = or_null (c_lastErrorCode c)\<rparr>"

section \<open>The data of an update\<close>

datatype StringFieldUpdateOperationsInput = SetText "string option"
datatype NullableStringFieldUpdateOperationsInput = SetNullableText "string nullable option"
datatype DateTimeFieldUpdateOperationsInput = SetDate "int option"
datatype NullableDateTimeFieldUpdateOperationsInput = SetNullableDate "int nullable option"

text \<open>A member of the data is an operation, or the new value.\<close>

datatype ('o, 'a) field_update = Operation 'o | To 'a

record EmailJobUpdateInput =
  u_id :: "(StringFieldUpdateOperationsInput, string) field_update option"
  u_idempotencyKey :: "(StringFieldUpdateOperationsInput, string) field_update option"
  u_tenantId :: "(StringFieldUpdateOperationsInput, string) field_update option"
  u_from :: "(StringFieldUpdateOperationsInput, string) field_update option"
  u_to :: "(StringFieldUpdateOperationsInput, string) field_update option"
  u_subject :: "(StringFieldUpdateOperationsInput, string) field_update option"
  u_text :: "(StringFieldUpdateOperationsInput, string) field_update option"
  u_html :: "(NullableStringFieldUpdateOperationsInput, string nullable) field_update option"
  u_provider :: "(StringFieldUpdateOperationsInput, string) field_update option"
  u_status :: "(StringFieldUpdateOperationsInput, string) field_update option"
  u_createdAt :: "(DateTimeFieldUpdateOperationsInput, int) field_update option"
  u_updatedAt :: "(DateTimeFieldUpdateOperationsInput, int) field_update option"
  u_deliveredAt :: "(NullableDateTimeFieldUpdateOperationsInput, int nullable) field_update option"
  u_lastErrorCode :: "(NullableStringFieldUpdateOperationsInput, string nullable) field_update option"

text \<open>\<open>updateMany\<close> takes the same members.\<close>

type_synonym EmailJobUpdateManyMutationInput = EmailJobUpdateInput

definition no_update :: EmailJobUpdateInput where
  "no_update =
     \<lparr>u_id = None, u_idempotencyKey = None, u_tenantId = None, u_from = None, u_to = None, u_subject = None,
      u_text = None, u_html = None, u_provider = None, u_status = None, u_createdAt = None,
      u_updatedAt = None, u_deliveredAt = None, u_lastErrorCode = None\<rparr>"

definition set_text :: "(StringFieldUpdateOperationsInput, string) field_update option \<Rightarrow> string \<Rightarrow> string" where
  "set_text u old =
     (case u of None \<Rightarrow> old | Some (To s) \<Rightarrow> s | Some (Operation (SetText x)) \<Rightarrow> or_default old x)"

definition set_date :: "(DateTimeFieldUpdateOperationsInput, int) field_update option \<Rightarrow> int \<Rightarrow> int" where
  "set_date u old =
     (case u of None \<Rightarrow> old | Some (To s) \<Rightarrow> s | Some (Operation (SetDate x)) \<Rightarrow> or_default old x)"

definition set_nullable_text ::
    "(NullableStringFieldUpdateOperationsInput, string nullable) field_update option \<Rightarrow> string option \<Rightarrow> string option" where
  "set_nullable_text u old =
     (case u of None \<Rightarrow> old | Some (To x) \<Rightarrow> nullable_value x
      | Some (Operation (SetNullableText x)) \<Rightarrow> (case x of None \<Rightarrow> old | Some y \<Rightarrow> nullable_value y))"

definition set_nullable_date ::
    "(NullableDateTimeFieldUpdateOperationsInput, int nullable) field_update option \<Rightarrow> int option \<Rightarrow> int option" where
  "set_nullable_date u old =
     (case u of None \<Rightarrow> old | Some (To x) \<Rightarrow> nullable_value x
      | Some (Operation (SetNullableDate x)) \<Rightarrow> (case x of None \<Rightarrow> old | Some y \<Rightarrow> nullable_value y))"

text \<open>\<open>updatedAt\<close> is the time of the update, unless the data sets it.\<close>

definition updated_row :: "int \<Rightarrow> EmailJobUpdateInput \<Rightarrow> EmailJobModel \<Rightarrow> EmailJobModel" where
  "updated_row now u r =
     \<lparr>m_id = set_text (u_id u) (m_id r), m_idempotencyKey = set_text (u_idempotencyKey u) (m_idempotencyKey r),
      m_tenantId = set_text (u_tenantId u) (m_tenantId r), m_from = set_text (u_from u) (m_from r),
      m_to = set_text (u_to u) (m_to r), m_subject = set_text (u_subject u) (m_subject r),
      m_text = set_text (u_text u) (m_text r), m_html = set_nullable_text (u_html u) (m_html r),
      m_provider = set_text (u_provider u) (m_provider r), m_status = set_text (u_status u) (m_status r),
      m_createdAt = set_date (u_createdAt u) (m_createdAt r), m_updatedAt = set_date (u_updatedAt u) now,
      m_deliveredAt = set_nullable_date (u_deliveredAt u) (m_deliveredAt r),
      m_lastErrorCode = set_nullable_text (u_lastErrorCode u) (m_lastErrorCode r)\<rparr>"

section \<open>Queries\<close>

type_synonym model_table = "EmailJobModel list"

record BatchPayload =
  batch_count :: nat

definition unique_rows :: "model_table \<Rightarrow> bool" where
  "unique_rows t \<longleftrightarrow> distinct (List.map m_id t) \<and> distinct (List.map m_idempotencyKey t)"

definition query_create :: "string \<Rightarrow> int \<Rightarrow> EmailJobCreateInput \<Rightarrow> model_table \<Rightarrow> (string + EmailJobModel) \<times> model_table" where
  "query_create uuid now c t =
     (let r = created_row uuid now c in
      if unique_rows (t @ [r]) then (Inr r, t @ [r]) else (Inl ''P2002'', t))"

definition query_findUnique :: "collation \<Rightarrow> EmailJobWhereUniqueInput \<Rightarrow> model_table \<Rightarrow> EmailJobModel option" where
  "query_findUnique D u t = List.find (\<lambda>r. eval_where_unique D r u = Some True) t"

definition query_updateMany ::
    "collation \<Rightarrow> EmailJobWhereInput \<Rightarrow> int \<Rightarrow> EmailJobUpdateManyMutationInput \<Rightarrow> model_table \<Rightarrow> (string + BatchPayload) \<times> model_table" where
  "query_updateMany D wh now u t =
     (let hit = (\<lambda>r. eval_where D r wh = Some True);
          t' = List.map (\<lambda>r. if hit r then updated_row now u r else r) t
      in if unique_rows t' then (Inr \<lparr>batch_count = length (filter hit t)\<rparr>, t') else (Inl ''P2002'', t))"

definition query_update ::
    "collation \<Rightarrow> EmailJobWhereUniqueInput \<Rightarrow> int \<Rightarrow> EmailJobUpdateInput \<Rightarrow> model_table \<Rightarrow> (string + EmailJobModel) \<times> model_table" where
  "query_update D wh now u t =
     (let hit = (\<lambda>r. eval_where_unique D r wh = Some True);
          t' = List.map (\<lambda>r. if hit r then updated_row now u r else r) t
      in case List.find hit t of
           None \<Rightarrow> (Inl ''P2025'', t)
         | Some r \<Rightarrow> if unique_rows t' then (Inr (updated_row now u r), t') else (Inl ''P2002'', t))"

section \<open>The queries of the repository\<close>

text \<open>The arguments \<^verbatim>\<open>email-jobs.repository.ts\<close> passes.\<close>

definition unique_id :: "string \<Rightarrow> EmailJobWhereUniqueInput" where
  "unique_id i = \<lparr>wu_id = Some i, wu_idempotencyKey = None, wu_rest = no_where\<rparr>"

definition create_args :: "CreateJobInput \<Rightarrow> EmailJobCreateInput" where
  "create_args i =
     \<lparr>c_id = Some (in_id i), c_idempotencyKey = in_idempotencyKey i, c_tenantId = in_tenantId i,
      c_from = in_from i, c_to = in_to i, c_subject = in_subject i, c_text = in_text i,
      c_html = map_option NotNull (in_html i), c_provider = in_provider i, c_status = None,
      c_createdAt = None, c_updatedAt = None, c_deliveredAt = None, c_lastErrorCode = None\<rparr>"

definition published_args :: EmailJobUpdateInput where
  "published_args = no_update\<lparr>u_status := Some (To ''PUBLISHED'')\<rparr>"

definition delivered_args :: "int \<Rightarrow> EmailJobUpdateInput" where
  "delivered_args now =
     no_update\<lparr>u_status := Some (To ''DELIVERED''), u_deliveredAt := Some (To (NotNull now)),
       u_lastErrorCode := Some (To Null)\<rparr>"

definition retry_args :: EmailJobUpdateInput where
  "retry_args = no_update\<lparr>u_status := Some (To ''RETRY_SCHEDULED'')\<rparr>"

definition dead_args :: "string option \<Rightarrow> EmailJobUpdateInput" where
  "dead_args errorCode =
     no_update\<lparr>u_status := Some (To ''DEAD_LETTERED''),
       u_lastErrorCode := map_option (\<lambda>c. To (NotNull c)) errorCode\<rparr>"

text \<open>A row of the typed table as Prisma returns it.\<close>

definition model_of :: "EmailJob \<Rightarrow> EmailJobModel" where
  "model_of r =
     \<lparr>m_id = ej_id r, m_idempotencyKey = ej_idempotencyKey r, m_tenantId = ej_tenantId r,
      m_from = ej_from r, m_to = ej_to r, m_subject = ej_subject r, m_text = ej_text r,
      m_html = ej_html r, m_provider = ej_provider r, m_status = job_status_name (ej_status r),
      m_createdAt = ej_createdAt r, m_updatedAt = ej_updatedAt r, m_deliveredAt = ej_deliveredAt r,
      m_lastErrorCode = ej_lastErrorCode r\<rparr>"

lemmas update_arg_defs = published_args_def delivered_args_def retry_args_def dead_args_def no_update_def
  set_text_def set_date_def set_nullable_text_def set_nullable_date_def or_default_def nullable_value_def

lemma k_and_True [simp]: "k_and b (Some True) = b"
  by (cases b; simp; rename_tac x; case_tac x; simp)

lemma k_all_simps [simp]: "k_all [] = Some True" "k_all [b] = b"
  by (simp_all add: k_all_def)

lemma eval_where_id:
  assumes "exact D"
  shows "eval_where D r (where_id (Some i)) = Some (m_id r = i)"
    and "eval_where D r (where_id None) = Some True"
    and "eval_where_unique D r (unique_id i) = Some (m_id r = i)"
  using assms
  by (simp_all add: where_id_def unique_id_def no_where_def eval_where_unique_def cond_def string_condition_def
      cmp_def exact_def k_all_def)

lemma updated_model_of:
  "updated_row now published_args (model_of r) = model_of (publishedData now r)"
  "updated_row now (delivered_args now) (model_of r) = model_of (deliveredData now r)"
  "updated_row now retry_args (model_of r) = model_of (retryScheduledData now r)"
  "updated_row now (dead_args c) (model_of r) = model_of (deadLetteredData c now r)"
  by (simp_all add: updated_row_def model_of_def update_arg_defs publishedData_def deliveredData_def
      retryScheduledData_def deadLetteredData_def Let_def split: option.split)

lemma unique_rows_model_of: "unique_rows (List.map model_of t) = jobs_inv t"
  by (simp add: unique_rows_def jobs_inv_def comp_def model_of_def)

lemma updateMany_model_of:
  assumes "exact D" and "jobs_inv t" and "keeps_keys f"
    and "\<And>r. updated_row now u (model_of r) = model_of (f r)"
  shows "query_updateMany D (where_id (Some i)) now u (List.map model_of t) =
    (Inr \<lparr>batch_count = length (filter (\<lambda>r. ej_id r = i) t)\<rparr>, List.map model_of (prisma_updateMany i f t))"
proof -
  have e: "List.map (\<lambda>r. if m_id r = i then updated_row now u r else r) (List.map model_of t)
      = List.map model_of (prisma_updateMany i f t)"
    using assms(4) by (simp add: prisma_updateMany_def) (simp add: model_of_def)
  have "unique_rows (List.map model_of (prisma_updateMany i f t))"
    by (simp only: unique_rows_model_of jobs_inv_updateMany [OF assms(3,2)])
  moreover have "length (filter (\<lambda>r. m_id r = i) (List.map model_of t)) = length (filter (\<lambda>r. ej_id r = i) t)"
    by (simp add: filter_map comp_def model_of_def)
  ultimately show ?thesis
    by (simp only: query_updateMany_def eval_where_id [OF assms(1)] Let_def option.inject eq_True e if_True)
qed

lemma find_model_of: "List.find (\<lambda>r. m_id r = i) (List.map model_of t) = map_option model_of (prisma_findUnique i t)"
  by (induction t) (simp_all add: prisma_findUnique_def model_of_def)

lemma findUnique_model_of:
  assumes "exact D"
  shows "query_findUnique D (unique_id i) (List.map model_of t) = map_option model_of (prisma_findUnique i t)"
  by (simp add: query_findUnique_def eval_where_id [OF assms] find_model_of)

lemma update_model_of:
  assumes "exact D" and "jobs_inv t" and "keeps_keys f"
    and "\<And>r. updated_row now u (model_of r) = model_of (f r)"
  shows "query_update D (unique_id i) now u (List.map model_of t) =
    (case prisma_findUnique i t of
       None \<Rightarrow> (Inl ''P2025'', List.map model_of t)
     | Some r \<Rightarrow> (Inr (model_of (f r)), List.map model_of (snd (prisma_update i f t))))"
proof -
  have e: "List.map (\<lambda>r. if m_id r = i then updated_row now u r else r) (List.map model_of t)
      = List.map model_of (prisma_updateMany i f t)"
    using assms(4) by (simp add: prisma_updateMany_def) (simp add: model_of_def)
  have "unique_rows (List.map model_of (prisma_updateMany i f t))"
    by (simp only: unique_rows_model_of jobs_inv_updateMany [OF assms(3,2)])
  then show ?thesis
    unfolding query_update_def eval_where_id [OF assms(1)] Let_def option.inject eq_True find_model_of e
    by (simp add: prisma_update_def assms(4) split: option.split)
qed

lemma create_model_of:
  assumes "jobs_inv t"
  shows "query_create uuid now (create_args i) (List.map model_of t) =
    (case prisma_create i now t of (res, t') \<Rightarrow> (map_sum id model_of res, List.map model_of t'))"
proof -
  have r: "created_row uuid now (create_args i) = model_of (new_job i now)"
    by (cases "in_html i") (simp_all add: created_row_def create_args_def model_of_def new_job_def
        or_default_def or_null_def nullable_value_def)
  have "unique_rows (List.map model_of t @ [model_of (new_job i now)]) = jobs_inv (t @ [new_job i now])"
    using unique_rows_model_of [of "t @ [new_job i now]"] by simp
  also have "jobs_inv (t @ [new_job i now]) \<longleftrightarrow> \<not> (\<exists>r \<in> set t. ej_id r = in_id i \<or> ej_idempotencyKey r = in_idempotencyKey i)"
    using assms by (force simp: jobs_inv_def new_job_def)
  finally show ?thesis unfolding query_create_def r Let_def by (simp add: prisma_create_def)
qed

end
