(* ===== verification/Benchmark.thy ===== *)
theory Benchmark
  imports Bootstrap
begin

text \<open>
  The benchmark of the program, \<^verbatim>\<open>benchmark/loadgen.mjs\<close> and \<^verbatim>\<open>benchmark/run.mjs\<close>: the requests
  the load generator sends and counts, and how the report is computed from what the databases
  say. The containers, the clock and the responses are parameters. The paced mode, which does not
  wait for its requests, and the killing of a worker are not modelled.
\<close>

section \<open>loadgen.mjs\<close>

record bench_settings =
  DURATION_MS :: "rat option"
  CONCURRENCY :: "rat option"
  TARGET_RPS :: "rat option"
  BENCH_API_KEY :: string
  BASE :: string
  RUN_ID :: string

text \<open>\<open>process.env.X || fallback\<close>\<close>

definition env_or :: "env \<Rightarrow> string \<Rightarrow> string \<Rightarrow> string" where
  "env_or env name fallback = (case env name of None \<Rightarrow> fallback | Some s \<Rightarrow> if s = [] then fallback else s)"

definition env_number_or :: "env \<Rightarrow> string \<Rightarrow> rat \<Rightarrow> rat option" where
  "env_number_or env name fallback =
     (case env name of None \<Rightarrow> Some fallback | Some s \<Rightarrow> if s = [] then Some fallback else js_Number s)"

definition bench_settings_of :: "env \<Rightarrow> bench_settings" where
  "bench_settings_of env =
     \<lparr>DURATION_MS = map_option (\<lambda>q. fl (q * 1000)) (env_number_or env ''DURATION_SEC'' 60),
      CONCURRENCY = env_number_or env ''CONCURRENCY'' 60,
      TARGET_RPS = env_number_or env ''TARGET_RPS'' 0,
      BENCH_API_KEY = env_or env ''API_KEY'' ''local-dev-api-key-change-me-please'',
      BASE = env_or env ''API_URL'' ''http://localhost:3000'',
      RUN_ID = env_or env ''RUN_ID'' ''bench''\<rparr>"

record bench_request =
  br_url :: string
  br_apiKey :: string
  br_idempotencyKey :: string
  br_body :: string

record load =
  calls :: nat
  sent :: nat
  ok :: nat
  failed :: nat
  requests :: "bench_request list"

type_synonym 'a bench = "(load, exn, 'a) async"

definition body_members :: "string \<Rightarrow> (string \<times> js_value) list" where
  "body_members key =
     [(''tenantId'', JsString ''bench-tenant''), (''from'', JsString ''sender@example.com''),
      (''to'', JsString ''recipient@example.com''), (''subject'', JsString (''bench '' @ key)),
      (''text'', JsString (''benchmark body '' @ key))]"

definition bench_request_of :: "bench_settings \<Rightarrow> string \<Rightarrow> bench_request" where
  "bench_request_of S key =
     \<lparr>br_url = BASE S @ ''/v1/email-jobs'', br_apiKey = BENCH_API_KEY S, br_idempotencyKey = key,
      br_body = json_stringify (body_members key)\<rparr>"

text \<open>The status of the answer to the \<open>n\<close>-th call, if there is one.\<close>

definition bench_fetch :: "(nat \<Rightarrow> nat option) \<Rightarrow> bench_request \<Rightarrow> nat bench" where
  "bench_fetch respond r = Await (\<lambda>w.
     let w1 = w\<lparr>calls := Suc (calls w), requests := requests w @ [r]\<rparr> in
     case respond (calls w) of None \<Rightarrow> (Reject (JsError None ''fetch failed''), w1) | Some s \<Rightarrow> (Resolve s, w1))"

definition submitOne :: "bench_settings \<Rightarrow> (nat \<Rightarrow> nat option) \<Rightarrow> string \<Rightarrow> unit bench" where
  "submitOne S respond key =
     bind (modify (\<lambda>w. w\<lparr>sent := sent w + 1\<rparr>)) (\<lambda>_.
       try_catch
         (bind (bench_fetch respond (bench_request_of S key)) (\<lambda>status.
            modify (\<lambda>w. if status = 201 then w\<lparr>ok := ok w + 1\<rparr> else w\<lparr>failed := failed w + 1\<rparr>)))
         (\<lambda>_. modify (\<lambda>w. w\<lparr>failed := failed w + 1\<rparr>)))"

definition bench_key :: "string \<Rightarrow> nat \<Rightarrow> nat \<Rightarrow> string" where
  "bench_key rid i seq = rid @ ''-'' @ show_nat i @ ''-'' @ show_nat seq"

text \<open>One worker of \<open>closedLoop\<close>; \<open>now\<close> is \<open>performance.now()\<close>, \<open>True\<close> says that the loop was left.\<close>

primrec bench_worker ::
    "nat \<Rightarrow> bench_settings \<Rightarrow> (nat \<Rightarrow> nat option) \<Rightarrow> (nat \<Rightarrow> rat) \<Rightarrow> rat \<Rightarrow> nat \<Rightarrow> nat \<Rightarrow> bool bench" where
  "bench_worker 0 S respond now deadline i seq = Resolve False"
| "bench_worker (Suc fuel) S respond now deadline i seq =
     bind (sync (\<lambda>w. (now (calls w), w\<lparr>calls := Suc (calls w)\<rparr>))) (\<lambda>t.
       if t < deadline
       then bind (submitOne S respond (bench_key (RUN_ID S) i seq)) (\<lambda>_. bench_worker fuel S respond now deadline i (seq + 1))
       else Resolve True)"

definition closedLoop ::
    "nat \<Rightarrow> bench_settings \<Rightarrow> (nat \<Rightarrow> nat option) \<Rightarrow> (nat \<Rightarrow> rat) \<Rightarrow> rat \<Rightarrow> bool bench list" where
  "closedLoop fuel S respond now deadline =
     List.map (\<lambda>i. bench_worker fuel S respond now deadline i 0)
       [0..<(case CONCURRENCY S of None \<Rightarrow> 0 | Some q \<Rightarrow> nat \<lfloor>q\<rfloor>)]"

section \<open>run.mjs\<close>

text \<open>The option \<open>--name value\<close> of the command line; \<open>Number\<close> of a text that is no number is \<open>NaN\<close>.\<close>

fun index_of :: "'a \<Rightarrow> 'a list \<Rightarrow> nat option" where
  "index_of x [] = None"
| "index_of x (y # ys) = (if x = y then Some 0 else map_option Suc (index_of x ys))"

definition arg :: "string list \<Rightarrow> string \<Rightarrow> rat \<Rightarrow> rat option" where
  "arg args name fallback =
     (case index_of (''--'' @ name) args of
        None \<Rightarrow> Some fallback
      | Some i \<Rightarrow>
          if i + 1 < length args \<and> args ! (i + 1) \<noteq> [] then js_Number (args ! (i + 1)) else Some fallback)"

text \<open>\<open>parseInt(line, 10)\<close>\<close>

definition parse_int :: "string \<Rightarrow> int option" where
  "parse_int s =
     (let (neg, t) = split_sign (dropWhile js_space s); ds = takeWhile is_digit t in
      if ds = [] then None else Some (if neg then - int (digits_val ds) else int (digits_val ds)))"

definition newline :: char where
  "newline = CHR 10"

definition countRows :: "string \<Rightarrow> int option" where
  "countRows out =
     (case List.find (list_ex is_digit) (split_on newline out) of None \<Rightarrow> Some 0 | Some line \<Rightarrow> parse_int line)"

definition js_round :: "rat \<Rightarrow> int" where
  "js_round x = \<lfloor>x + 1 / 2\<rfloor>"

text \<open>\<open>Math.round(x * 10) / 10\<close>\<close>

definition round1 :: "rat \<Rightarrow> rat" where
  "round1 x = fl (of_int (js_round (fl (x * 10))) / 10)"

definition percentile_index :: "nat \<Rightarrow> rat \<Rightarrow> int" where
  "percentile_index n p = min (int n - 1) (max 0 (\<lceil>fl (p * of_nat n)\<rceil> - 1))"

definition percentile :: "int list \<Rightarrow> rat \<Rightarrow> rat option" where
  "percentile sorted_ms p =
     (if sorted_ms = [] then None
      else Some (round1 (of_int (sorted_ms ! nat (percentile_index (length sorted_ms) p)))))"

text \<open>
  The wait for the workers: each round counts the jobs and the deliveries; the observations are
  the argument. The loop ends when all is delivered, when the deliveries have not moved for six
  rounds, or at its deadline, when there are no more observations.
\<close>

datatype drain_end = AllDelivered | NumbersStable | DeadlinePassed

fun drain_rounds :: "(int \<times> int) list \<Rightarrow> int \<Rightarrow> nat \<Rightarrow> drain_end" where
  "drain_rounds [] lastLedger still = DeadlinePassed"
| "drain_rounds ((submitted, delivered) # obs) lastLedger still =
     (if submitted > 0 \<and> delivered \<ge> submitted then AllDelivered
      else let still = (if delivered = lastLedger then still + 1 else 0)
           in if still \<ge> 6 then NumbersStable else drain_rounds obs delivered still)"

text \<open>The rows \<open>id,time\<close> of a query, one per line; \<open>parse_date\<close> is the class \<open>Date\<close>, in milliseconds.\<close>

definition row_of_line :: "string \<Rightarrow> (string \<times> string) option" where
  "row_of_line line = (case split_on (CHR '','') line of [a, b] \<Rightarrow> Some (a, b) | _ \<Rightarrow> None)"

definition jobTimes :: "(string \<Rightarrow> int) \<Rightarrow> string \<Rightarrow> string \<Rightarrow> int option" where
  "jobTimes parse_date jobsOut =
     foldl (\<lambda>m line. case row_of_line line of
              None \<Rightarrow> m
            | Some (i, t) \<Rightarrow> if i = [] then m else m(i \<mapsto> parse_date (js_trim t)))
       Map.empty (split_on newline jobsOut)"

definition latencies :: "(string \<Rightarrow> int) \<Rightarrow> string \<Rightarrow> string \<Rightarrow> int list" where
  "latencies parse_date jobsOut attemptsOut =
     sort (List.map_filter
       (\<lambda>line. case row_of_line line of
          None \<Rightarrow> None
        | Some (i, t) \<Rightarrow> map_option (\<lambda>created. parse_date (js_trim t) - created) (jobTimes parse_date jobsOut i))
       (split_on newline attemptsOut))"

record bench_results =
  br_submitted :: int
  br_delivered :: int
  br_lost :: int
  br_sustained :: rat
  br_p50 :: "rat option"
  br_p95 :: "rat option"
  br_p99 :: "rat option"
  br_samples :: nat
  br_zero_loss :: bool

definition bench_results_of :: "int \<Rightarrow> int \<Rightarrow> int \<Rightarrow> int \<Rightarrow> int list \<Rightarrow> bench_results" where
  "bench_results_of t0 t1 submittedFinal ledgerFinal samples =
     (let elapsedSec = fl (of_int (js_round (fl (fl (of_int (t1 - t0) / 1000) * 10))) / 10) in
      \<lparr>br_submitted = submittedFinal, br_delivered = ledgerFinal, br_lost = submittedFinal - ledgerFinal,
       br_sustained = (if elapsedSec > 0 then round1 (fl (of_int ledgerFinal / elapsedSec)) else 0),
       br_p50 = percentile samples (1 / 2), br_p95 = percentile samples (fl (95 / 100)),
       br_p99 = percentile samples (fl (99 / 100)), br_samples = length samples,
       br_zero_loss = (ledgerFinal = submittedFinal \<and> submittedFinal > 0)\<rparr>)"

section \<open>Counting requests\<close>

definition settled_load :: "load \<Rightarrow> int" where
  "settled_load w = int (sent w) - int (ok w) - int (failed w)"

lemma submitOne_wp:
  "wp (submitOne S respond key)
     (\<lambda>_ w'. settled_load w' = settled_load w \<and> sent w' = sent w + 1 \<and>
        requests w' = requests w @ [bench_request_of S key])
     (\<lambda>_ _. False) w"
  by (auto simp: submitOne_def bench_fetch_def wp_rules wp_Await Let_def settled_load_def split: option.split)

lemma bench_worker_wp:
  "wp (bench_worker fuel S respond now deadline i seq)
     (\<lambda>_ w'. settled_load w' = settled_load w \<and>
        (\<exists>n \<le> fuel. sent w' = sent w + n \<and>
           requests w' = requests w @ List.map (\<lambda>k. bench_request_of S (bench_key (RUN_ID S) i k)) [seq..<seq + n]))
     (\<lambda>_ _. False) w"
proof (induction fuel arbitrary: seq w)
  case 0
  then show ?case by (simp add: wp_Resolve)
next
  case (Suc fuel)
  have stop: "\<exists>n \<le> Suc fuel. sent w = sent w + n \<and>
      requests w = requests w @ List.map (\<lambda>k. bench_request_of S (bench_key (RUN_ID S) i k)) [seq..<seq + n]"
    by (rule exI [of _ 0]) simp
  have go_on: "wp (submitOne S respond (bench_key (RUN_ID S) i seq))
     (\<lambda>_. wp (bench_worker fuel S respond now deadline i (Suc seq))
       (\<lambda>_ w'. settled_load w' = settled_load w \<and>
        (\<exists>n \<le> Suc fuel. sent w' = sent w + n \<and>
           requests w' = requests w @ List.map (\<lambda>k. bench_request_of S (bench_key (RUN_ID S) i k)) [seq..<seq + n]))
       (\<lambda>_ _. False)) (\<lambda>_ _. False) (w\<lparr>calls := c\<rparr>)" for c
  proof (rule wp_mono [OF submitOne_wp], goal_cases)
    case (1 x w1)
    show ?case
    proof (rule wp_mono [OF Suc.IH], goal_cases)
      case (1 y w2)
      then obtain n where n: "n \<le> fuel" "sent w2 = sent w1 + n"
          "requests w2 = requests w1 @ List.map (\<lambda>k. bench_request_of S (bench_key (RUN_ID S) i k)) [Suc seq..<Suc seq + n]"
        by blast
      have "[seq..<seq + Suc n] = seq # [Suc seq..<Suc seq + n]" by (simp add: upt_rec)
      then show ?case
        using 1 n \<open>settled_load w1 = _ \<and> _\<close>
        by (intro conjI exI [of _ "Suc n"]) (auto simp: settled_load_def)
    qed
  qed simp
  show ?case using stop go_on by (simp add: wp_bind wp_sync wp_Resolve settled_load_def)
qed

section \<open>Keys\<close>

lemma split_digits_unique:
  assumes "xs @ CHR ''-'' # ys = us @ CHR ''-'' # vs" and "CHR ''-'' \<notin> set xs" and "CHR ''-'' \<notin> set us"
  shows "xs = us \<and> ys = vs"
  using assms
proof (induction xs arbitrary: us)
  case Nil
  then show ?case by (cases us) auto
next
  case (Cons x xs)
  then show ?case by (cases us) auto
qed

lemma show_nat_no_dash: "CHR ''-'' \<notin> set (show_nat n)"
  using show_nat_digits [of "CHR ''-''" n] by (auto simp: is_digit_def)

lemma bench_key_inject: "bench_key rid i seq = bench_key rid j seq' \<longleftrightarrow> i = j \<and> seq = seq'"
proof
  assume "bench_key rid i seq = bench_key rid j seq'"
  then have "show_nat i @ CHR ''-'' # show_nat seq = show_nat j @ CHR ''-'' # show_nat seq'"
    by (simp add: bench_key_def)
  from split_digits_unique [OF this show_nat_no_dash show_nat_no_dash] show "i = j \<and> seq = seq'" by simp
qed simp

lemma bench_key_length: "length rid + 4 \<le> length (bench_key rid i seq)"
proof -
  have "1 \<le> length (show_nat n)" for n by (simp add: Suc_le_eq)
  from this [of i] this [of seq] show ?thesis by (simp add: bench_key_def)
qed

section \<open>Percentiles\<close>

lemma percentile_index_bounds: "0 < n \<Longrightarrow> 0 \<le> percentile_index n p \<and> percentile_index n p < int n"
  by (auto simp: percentile_index_def)

lemma percentile_index_mono:
  assumes "p \<le> q"
  shows "percentile_index n p \<le> percentile_index n q"
proof -
  have "fl (p * of_nat n) \<le> fl (q * of_nat n)" using assms by (intro fl_mono mult_right_mono) simp_all
  then have "\<lceil>fl (p * of_nat n)\<rceil> \<le> \<lceil>fl (q * of_nat n)\<rceil>" by (rule ceiling_mono)
  then have "max 0 (\<lceil>fl (p * of_nat n)\<rceil> - 1) \<le> max 0 (\<lceil>fl (q * of_nat n)\<rceil> - 1)" by (intro max.mono) simp_all
  then show ?thesis unfolding percentile_index_def by (intro min.mono) simp_all
qed

lemma round1_mono:
  assumes "x \<le> y"
  shows "round1 x \<le> round1 y"
proof -
  have "fl (x * 10) \<le> fl (y * 10)" using assms by (intro fl_mono) simp
  then have "js_round (fl (x * 10)) \<le> js_round (fl (y * 10))" unfolding js_round_def by (intro floor_mono) simp
  then have "(of_int (js_round (fl (x * 10))) / 10 :: rat) \<le> of_int (js_round (fl (y * 10))) / 10"
    by (intro divide_right_mono) simp_all
  then show ?thesis unfolding round1_def by (rule fl_mono)
qed

lemma percentile_mono:
  assumes "sorted ds" and "ds \<noteq> []" and "p \<le> q"
  shows "the (percentile ds p) \<le> the (percentile ds q)"
proof -
  have n: "0 < length ds" using assms(2) by simp
  have "nat (percentile_index (length ds) p) \<le> nat (percentile_index (length ds) q)"
    by (rule nat_mono [OF percentile_index_mono [OF assms(3)]])
  moreover have "nat (percentile_index (length ds) q) < length ds" using percentile_index_bounds [OF n, of q] by linarith
  ultimately have "ds ! nat (percentile_index (length ds) p) \<le> ds ! nat (percentile_index (length ds) q)"
    by (rule sorted_nth_mono [OF assms(1)])
  then show ?thesis using assms(2) by (simp add: percentile_def round1_mono)
qed

section \<open>Reading the databases\<close>

text \<open>What \<open>psql\<close> prints of a count is read as that count.\<close>

lemma countRows_show: "countRows (show_nat n @ [newline]) = Some (int n)"
proof -
  have digits: "list_all is_digit (show_nat n)" by (simp add: list_all_iff show_nat_digits)
  obtain d ds where d: "show_nat n = d # ds" "is_digit d" using digits by (cases "show_nat n") auto
  have "newline \<notin> set (show_nat n)" using show_nat_digits [of newline n] by (auto simp: newline_def is_digit_def)
  then have "split_on newline (show_nat n @ [newline]) = [show_nat n, []]" by (simp add: split_on_append)
  moreover have "parse_int (show_nat n) = Some (int n)"
  proof -
    have "\<not> js_space d" "d \<noteq> CHR ''-''" "d \<noteq> CHR ''+''"
      using d(2) by (auto simp: js_space_def is_space_def is_digit_def)
    moreover have tw: "takeWhile is_digit (d # ds) = d # ds" using digits d by (simp add: list_all_iff)
    moreover have "digits_val (d # ds) = n" using digits_val_show_nat [of n] d by simp
    ultimately show ?thesis unfolding d(1) parse_int_def
      by (simp add: split_sign_def Let_def tw del: takeWhile.simps)
  qed
  ultimately show ?thesis using d by (simp add: countRows_def)
qed

text \<open>The wait ends with everything delivered only when it is.\<close>

lemma drain_rounds_delivered:
  "drain_rounds obs l s = AllDelivered \<Longrightarrow> \<exists>(submitted, delivered) \<in> set obs. submitted > 0 \<and> delivered \<ge> submitted"
  by (induction obs l s rule: drain_rounds.induct) (auto simp: Let_def split: if_splits)

end
