(* ===== verification/PlatformProperties.thy ===== *)
theory PlatformProperties
  imports Bootstrap PrismaQueries Benchmark Example InfraProperties
begin

text \<open>
  The properties of what the two processes are made of: their modules and routes, their start and
  stop, the clients they open, and the queries of the repository.
\<close>

section \<open>Modules\<close>

text \<open>C24: A process that is up has a module for everything it injects, listens on a port, and has a key to ask for.\<close>

theorem processes_are_wired:
  assumes "is_terminus terminus"
  shows "boots (ApiAppModule terminus) \<and> boots (WorkerAppModule terminus)"
  using api_boots [OF assms] worker_boots [OF assms] by simp

theorem processes_are_wired_witness: "boots (WorkerAppModule terminus_instance)"
  using processes_are_wired [OF terminus_instance] by simp

text \<open>The services that keep state are built once in each process; only the repository, which keeps
  none, is built twice, as itself and as \<open>JOB_REPOSITORY\<close>. Neither process builds the other's database client.\<close>

theorem state_is_built_once:
  assumes "is_terminus terminus"
  shows "singletons (WorkerAppModule terminus)
      [RabbitmqService, RedisService, PgPoolService, MetricsService, CircuitBreakerService, RateLimiterService,
       SmtpProvider, ProviderFactory, IdempotencyGuard, DeliveryService, EmailConsumer] \<and>
    singletons (ApiAppModule terminus)
      [RabbitmqService, RedisService, ApiPrismaService, MetricsService, EmailJobsService, StatusConsumer] \<and>
    card (instances (ApiAppModule terminus) EmailJobsRepository) = 2 \<and>
    instances (WorkerAppModule terminus) ApiPrismaService = {} \<and> instances (ApiAppModule terminus) PgPoolService = {}"
  using worker_instances [OF assms] api_instances [OF assms] by (simp add: JOB_REPOSITORY_PROVIDER_def)

theorem state_is_built_once_witness:
  "card (instances (ApiAppModule terminus_instance) EmailJobsRepository) = 2"
  using state_is_built_once [OF terminus_instance] by simp

text \<open>The files are another matter: the worker loads the API's database client, through the index of \<^verbatim>\<open>infra\<close>.\<close>

theorem worker_loads_api_client:
  "loads ''main-worker'' ''generated/api/client'' \<and> loads ''main-api'' ''generated/api/client''"
  by (intro conjI loads_database_client) (simp_all add: file_imports_def main_worker_imports_def main_api_imports_def)

section \<open>Routes\<close>

text \<open>C22: In the API every route but the health check and the metrics asks for the key; the worker has those two only.\<close>

theorem routes_are_guarded:
  assumes "is_terminus terminus"
  shows "List.map (\<lambda>r. (route_method r, route_path r)) (app_routes (ApiAppModule terminus)) =
      [(POST, ''/v1/email-jobs''), (GET, ''/v1/email-jobs/:id''), (GET, ''/health''), (GET, ''/metrics'')] \<and>
    List.map (\<lambda>r. (route_method r, route_path r)) (app_routes (WorkerAppModule terminus)) =
      [(GET, ''/health''), (GET, ''/metrics'')] \<and>
    list_all (\<lambda>r. (admit (ApiAppModule terminus) (process_env E) r apiKey = Inr True) =
        (authorised E apiKey \<or> route_path r \<in> {''/health'', ''/metrics''}))
      (app_routes (ApiAppModule terminus))"
proof -
  have "admit (ApiAppModule terminus) (process_env E) r apiKey =
      (if route_metadata r IS_PUBLIC_KEY = Some True \<or> authorised E apiKey then Inr True
       else Inl (HttpException 401 (MessageBody ''missing or invalid api key'')))"
    if "route_metadata r IS_PUBLIC_KEY \<in> {None, Some True}" for r
    using that canActivate_cases [of E apiKey] api_routes(2) [OF assms]
    by (auto simp: admit_def canActivate_def is_public_def)
  then show ?thesis
    by (simp add: api_routes [OF assms] worker_routes [OF assms]) (simp add: route_defs)
qed

theorem routes_are_guarded_witness:
  "List.map route_path (app_routes (WorkerAppModule terminus_instance)) = [''/health'', ''/metrics'']"
  using routes_are_guarded [OF terminus_instance, of demo Absent] by (auto simp: map_eq_Cons_conv)

section \<open>CORS\<close>

text \<open>The allowed origins are texts without commas or surrounding white space, none of them empty, and any such
  list is read back from the text that joins it with commas.\<close>

theorem cors_origins_roundtrip:
  assumes "\<forall>w \<in> set os. w \<noteq> [] \<and> js_trim w = w \<and> CHR '','' \<notin> set w"
  shows "cors_origins (join_with '','' os) = os \<and>
    list_all (\<lambda>w. w \<noteq> [] \<and> js_trim w = w \<and> CHR '','' \<notin> set w) (cors_origins s)"
  using cors_origins_join [OF assms] cors_origins_clean [of _ s] by (simp add: list_all_iff)

theorem cors_origins_roundtrip_witness:
  "cors_origins ''http://a,http://b'' = [''http://a'', ''http://b'']"
  using cors_origins_roundtrip [of "[''http://a'', ''http://b'']" "[]"] by (simp add: js_trim_def trim_by_def js_space_def is_space_def)

section \<open>Starting and stopping\<close>

text \<open>With a valid configuration, \<open>start\<close> on a new channel makes the worker its one consumer, of the work queue, with
  the prefetch that was configured, under the tag the worker remembers; when it fails the tag it had stays.\<close>

theorem consumer_starts:
  assumes "loadWorkerEnv msg (process_env E) = Inr c"
  shows "wp (start E)
     (\<lambda>_ w'. \<exists>tag. consumerTag w' = Some tag \<and> consumers w' = [(mainQueue TOPOLOGY, tag)] \<and>
        prefetch_count w' = Some (of_int (we_CONSUMER_PREFETCH c)))
     (\<lambda>_ w'. consumerTag w' = consumerTag w)
     (fresh_channel w)"
  by (rule wp_mono [OF start_wp]) (auto simp: reread_agrees(1) [OF assms])

theorem consumer_starts_witness:
  "wp (start unlimited) (\<lambda>_ w'. consumers w' = [(''email.queue'', ''amq.ctag-1'')] \<and> prefetch_count w' = Some 10) (\<lambda>_ _. False)
     (fresh_channel empty_world)"
proof -
  have "wp (start unlimited) (\<lambda>_ w'. consumerTag w' = Some ''amq.ctag-1'') (\<lambda>_ _. False) (fresh_channel empty_world)"
    by (simp add: lifecycle_defs wp_rules fresh_channel_def Let_def unlimited_def demo_def)
  from wp_conj [OF this consumer_starts [of "\<lambda>_. []" unlimited demo_config empty_world]]
  show ?thesis
    by (rule wp_mono) (auto simp: unlimited_config demo_config_def TOPOLOGY_def)
qed

text \<open>C27: A shutdown of the worker's consumer always resolves, with a clock that advances by the 100 ms each round of the
  drain waits within 101 rounds, whether or not the consumer could be cancelled.\<close>

theorem consumer_stops:
  assumes "\<And>s. s = steps w \<or> s = Suc (steps w) \<Longrightarrow> ticking E (Suc s) \<and> clock E s \<le> clock E (Suc s)"
  shows "wp (email_onModuleDestroy 101 E) (\<lambda>left w'. left \<and> inFlight w' = inFlight w) (\<lambda>_ _. False) w"
  by (rule email_onModuleDestroy_wp [OF assms])

theorem consumer_stops_witness:
  "wp (email_onModuleDestroy 101 (demo\<lparr>clock := (\<lambda>n. 50 * int n)\<rparr>)) (\<lambda>left w'. left \<and> inFlight w' = 3) (\<lambda>_ _. False)
     (empty_world\<lparr>inFlight := 3, consumerTag := Some ''amq.ctag-1''\<rparr>)"
  using consumer_stops [of "empty_world\<lparr>inFlight := 3, consumerTag := Some ''amq.ctag-1''\<rparr>" "demo\<lparr>clock := (\<lambda>n. 50 * int n)\<rparr>"]
  by (simp add: ticking_def)

section \<open>Clients\<close>



section \<open>The queries of the repository\<close>




section \<open>The benchmark\<close>

lemma bench_body_parsed: "json_parse (json_stringify (body_members key)) = Some (JObj (to_members (body_members key)))"
  by (rule json_roundtrip) (simp add: body_members_def)

definition bench_body :: "string \<Rightarrow> SubmitEmailJobBody" where
  "bench_body key = \<lparr>body_tenantId = ''bench-tenant'', body_from = ''sender@example.com'',
     body_to = ''recipient@example.com'', body_subject = ''bench '' @ key, body_text = ''benchmark body '' @ key,
     body_html = None, body_provider = None\<rparr>"

lemma bench_body_schema:
  assumes "zod_email Z ''sender@example.com''" and "zod_email Z ''recipient@example.com''" and "length key \<le> 400"
  shows "submitEmailJobBodySchema Z (JObj (to_members (body_members key))) = Inr (bench_body key)"
  using assms
  by (simp add: submitEmailJobBodySchema_def emailAddressSchema_def zod_Inr body_members_def bench_body_def jget_simps)

text \<open>Every request the load generator sends, with the key of the API and a run id of four characters or more, gets
  past the guard, the validation and the bound on the idempotency key; and no two requests of a run share their key.\<close>

theorem benchmark_requests_are_admitted:
  assumes "zod_email (zod_formats E) ''sender@example.com''" and "zod_email (zod_formats E) ''recipient@example.com''"
    and "process_env E ''API_KEY'' = Some (BENCH_API_KEY S)" and "4 \<le> length (RUN_ID S)"
    and "length (bench_key (RUN_ID S) i seq) \<le> 400"
  shows "Option.bind (json_parse (br_body (bench_request_of S (bench_key (RUN_ID S) i seq))))
      (admitted E (Single (br_apiKey (bench_request_of S (bench_key (RUN_ID S) i seq)))) (Some (bench_key (RUN_ID S) i seq)))
    = Some (bench_key (RUN_ID S) i seq, bench_body (bench_key (RUN_ID S) i seq)) \<and>
    (bench_key (RUN_ID S) i seq = bench_key (RUN_ID S) j k) = (i = j \<and> seq = k)"
proof -
  have "8 \<le> length (bench_key (RUN_ID S) i seq)" using bench_key_length [of "RUN_ID S" i seq] assms(4) by simp
  then show ?thesis
    using bench_body_schema [OF assms(1,2,5)] assms(3)
    by (simp add: bench_request_of_def bench_body_parsed admitted_def authorised_def bench_key_inject)
qed

theorem benchmark_requests_are_admitted_witness:
  "bench_key ''bench'' 1 2 \<noteq> bench_key ''bench'' 12 0"
proof -
  let ?S = "(bench_settings_of Map.empty)\<lparr>BENCH_API_KEY := the (demo_env ''API_KEY'')\<rparr>"
  have S: "RUN_ID ?S = ''bench''" by (simp add: bench_settings_of_def env_or_def)
  have "process_env demo ''API_KEY'' = Some (BENCH_API_KEY ?S)" by (simp add: demo_env_def)
  moreover have "length (bench_key ''bench'' 1 2) \<le> 400" by (simp add: bench_key_def show_nat.simps)
  ultimately show ?thesis
    using benchmark_requests_are_admitted [of demo ?S 1 2 12 0] by (simp add: S demo_def)
qed

end
