(* ===== verification/Broker.thy ===== *)
theory Broker
  imports System
begin

text \<open>
  RabbitMQ between the two processes. A queue is the list of the texts of its messages, those that
  are being handled included: a message leaves its queue when it is acknowledged and stays, to be
  delivered again, when it is not. What a handler publishes is copied to the queues the
  declarations of \<^verbatim>\<open>topology.bootstrap.ts\<close> bind, and a message whose time to live has passed
  moves on to where its queue dead-letters it.

  A step of the network is one handler, run to its end with any services, hence with any failures;
  or the expiry of a message; or a change of the connection.
\<close>

section \<open>The network\<close>

record 'r net =
  queue :: "string \<Rightarrow> string list"
  node :: "'r world"

definition enqueue :: "publication \<Rightarrow> (string \<Rightarrow> string list) \<Rightarrow> string \<Rightarrow> string list" where
  "enqueue p qs q =
     (if q \<in> set (route topology_commands (pub_exchange p) (pub_routingKey p))
      then qs q @ [pub_content p] else qs q)"

definition newly_published :: "'r world \<Rightarrow> 'r world \<Rightarrow> publication list" where
  "newly_published w w' = drop (length (published w)) (published w')"

definition acknowledged :: "ConsumeMessage \<Rightarrow> 'r world \<Rightarrow> 'r world \<Rightarrow> bool" where
  "acknowledged raw w w' \<longleftrightarrow> settled w' = settled w @ [(raw_deliveryTag raw, True)]"

text \<open>The queues after a handler that took \<open>raw\<close> from queue \<open>q\<close>, or that took no message.\<close>

definition settled_queue :: "string \<Rightarrow> ConsumeMessage \<Rightarrow> 'r net \<Rightarrow> 'r world \<Rightarrow> string \<Rightarrow> string list" where
  "settled_queue q raw n w' =
     (if acknowledged raw (node n) w'
      then (queue n)(q := remove1 (raw_content raw) (queue n q)) else queue n)"

definition work :: "'r services \<Rightarrow> ConsumeMessage \<Rightarrow> 'r net \<Rightarrow> 'r net" where
  "work E raw n =
     (let w' = snd (run (handle E (Some raw)) (node n)) in
      \<lparr>queue = fold enqueue (newly_published (node n) w') (settled_queue (mainQueue TOPOLOGY) raw n w'), node = w'\<rparr>)"

definition report :: "'r services \<Rightarrow> ConsumeMessage \<Rightarrow> 'r net \<Rightarrow> 'r net" where
  "report E raw n =
     (let w' = snd (run (handle_status E (Some raw)) (node n)) in
      \<lparr>queue = fold enqueue (newly_published (node n) w') (settled_queue (statusQueue TOPOLOGY) raw n w'), node = w'\<rparr>)"

definition serve :: "('r, 'a) io \<Rightarrow> 'r net \<Rightarrow> 'r net" where
  "serve m n =
     (let w' = snd (run m (node n)) in
      \<lparr>queue = fold enqueue (newly_published (node n) w') (queue n), node = w'\<rparr>)"

definition expire :: "string \<Rightarrow> string \<Rightarrow> 'r net \<Rightarrow> 'r net" where
  "expire q c n =
     n\<lparr>queue := \<lambda>q'. ((queue n)(q := remove1 c (queue n q))) q' @
        (if q' \<in> set (expires_to topology_commands q) then [c] else [])\<rparr>"

definition has_ttl :: "string \<Rightarrow> bool" where
  "has_ttl q \<longleftrightarrow> (case args_of topology_commands q of None \<Rightarrow> False | Some a \<Rightarrow> x_message_ttl a \<noteq> None)"

inductive net_step :: "(nat \<Rightarrow> http_body \<Rightarrow> string + 'o) \<Rightarrow> 'r services set \<Rightarrow> 'r net \<Rightarrow> 'r net \<Rightarrow> bool" for g Es where
  step_work: "E \<in> Es \<Longrightarrow> raw_content raw \<in> set (queue n (mainQueue TOPOLOGY)) \<Longrightarrow> net_step g Es n (work E raw n)"
| step_report: "E \<in> Es \<Longrightarrow> raw_content raw \<in> set (queue n (statusQueue TOPOLOGY)) \<Longrightarrow> net_step g Es n (report E raw n)"
| step_post: "E \<in> Es \<Longrightarrow> net_step g Es n (serve (post_email_job E g apiKey key body) n)"
| step_read: "E \<in> Es \<Longrightarrow> net_step g Es n (serve (get_email_job E g apiKey i) n)"
| step_expire: "c \<in> set (queue n q) \<Longrightarrow> has_ttl q \<Longrightarrow> net_step g Es n (expire q c n)"
| step_connection: "net_step g Es n (n\<lparr>node := (node n)\<lparr>channel := up\<rparr>\<rparr>)"

inductive_cases net_stepE: "net_step g Es n n'"

text \<open>Before the first request: declared queues, empty tables, nothing published.\<close>

definition fresh_net :: "'r net \<Rightarrow> bool" where
  "fresh_net n \<longleftrightarrow>
     (\<forall>q. queue n q = []) \<and> published (node n) = [] \<and> mails (node n) = [] \<and>
     ledger (node n) = [] \<and> jobs (node n) = []"

section \<open>Queues\<close>

definition reaches :: "publication \<Rightarrow> string \<Rightarrow> bool" where
  "reaches p q \<longleftrightarrow> q \<in> set (route topology_commands (pub_exchange p) (pub_routingKey p))"

lemma set_enqueued:
  "set (fold enqueue ps qs q) = set (qs q) \<union> {pub_content p |p. p \<in> set ps \<and> reaches p q}"
proof (induction ps arbitrary: qs)
  case (Cons p ps)
  have "set (enqueue p qs q) = set (qs q) \<union> (if reaches p q then {pub_content p} else {})"
    by (simp add: enqueue_def reaches_def)
  then show ?case using Cons [of "enqueue p qs"] by auto
qed simp

lemma newly_published_append: "published w' = published w @ ps \<Longrightarrow> newly_published w w' = ps"
  by (simp add: newly_published_def)

lemma set_remove1_sub: "c' \<in> set xs \<Longrightarrow> c' \<noteq> c \<Longrightarrow> c' \<in> set (remove1 c xs)"
  by (simp add: in_set_remove1)

definition work_queues :: "string list" where
  "work_queues = mainQueue TOPOLOGY # List.map retryQueueName [1, 2, 3, 4, 5]"

lemma work_queues_eq:
  "work_queues = [''email.queue'', ''email.retry.tier1'', ''email.retry.tier2'', ''email.retry.tier3'',
     ''email.retry.tier4'', ''email.retry.tier5'']"
  by (simp add: work_queues_def TOPOLOGY_def retryQueueName_def)

lemma has_ttl_expires:
  assumes "has_ttl q"
  shows "q \<in> set work_queues" and "q \<noteq> mainQueue TOPOLOGY" and "expires_to topology_commands q = [mainQueue TOPOLOGY]"
proof -
  have q: "q \<in> set (tl work_queues)"
    using assms by (auto simp: has_ttl_def topology_commands_eq no_args_def work_queues_eq split: if_splits)
  then show "q \<in> set work_queues" by (auto simp: work_queues_def)
  show "q \<noteq> mainQueue TOPOLOGY" using q by (auto simp: work_queues_eq TOPOLOGY_def)
  have "mainQueue TOPOLOGY = ''email.queue''" by (simp add: TOPOLOGY_def)
  then show "expires_to topology_commands q = [mainQueue TOPOLOGY]"
    using q by (auto simp: work_queues_eq expires_to_def queue_arguments tier_args_def routes)
qed

text \<open>Which of the messages a worker publishes come back to a worker.\<close>

lemma reaches_work_queue:
  assumes "q \<in> set work_queues"
  shows "\<not> reaches (publication_of (statusExchange TOPOLOGY) key c mid) q"
    and "\<not> reaches (publication_of (deadLetterExchange TOPOLOGY) key c mid) q"
  using assms by (auto simp: reaches_def publication_of_def topology_commands_eq work_queues_eq split: if_splits)

lemma reaches_dead_letter:
  "reaches (publication_of (deadLetterExchange TOPOLOGY) (deadLetterRoutingKey TOPOLOGY) c mid) q
     \<longleftrightarrow> q = deadLetterQueue TOPOLOGY"
  by (simp add: reaches_def publication_of_def TOPOLOGY_def topology_commands_eq)

lemma reaches_retry:
  "tier \<in> {1, 2, 3, 4, 5} \<Longrightarrow>
     reaches (publication_of (retryExchange TOPOLOGY) (retryQueueName tier) c mid) q \<longleftrightarrow> q = retryQueueName tier"
  by (auto simp: reaches_def publication_of_def retryQueueName_def routes)

lemma retry_queue_is_work_queue: "tier \<in> {1, 2, 3, 4, 5} \<Longrightarrow> retryQueueName tier \<in> set work_queues"
  by (auto simp: work_queues_def)

end
