(* ===== verification/Pipeline.thy ===== *)
theory Pipeline
  imports Broker
begin

text \<open>
  Where a job is while it travels: in a work or retry queue, in the dead-letter queue, or sent. The
  theory follows the message of one job through every step of the network of theory \<open>Broker\<close>, and
  shows that no step loses it.
\<close>

section \<open>What the API does to the network\<close>

definition delivery_kept :: "'r world \<Rightarrow> 'r world \<Rightarrow> bool" where
  "delivery_kept w w' \<longleftrightarrow> ledger w' = ledger w \<and> mails w' = mails w"

interpretation delivery_kept: frame_relation delivery_kept
  by unfold_locales (simp_all add: delivery_kept_def)

lemma delivery_kept_call:
  assumes "\<And>w. delivery_kept w (snd (f w))"
  shows "keeps delivery_kept (call E f)"
proof (rule keepsI)
  fix w :: "'a world"
  have "delivery_kept w (snd (f (w\<lparr>steps := Suc (steps w)\<rparr>)))"
    using assms [of "w\<lparr>steps := Suc (steps w)\<rparr>"] by (simp add: delivery_kept_def)
  then show "wp (call E f) (\<lambda>_. delivery_kept w) (\<lambda>_. delivery_kept w) w"
    by (simp add: wp_call Let_def split: fate.split prod.split sum.split) (auto simp: delivery_kept_def)
qed

lemma delivery_kept_parts:
  "keeps delivery_kept (date_now E)" "keeps delivery_kept (randomUUID E)" "keeps delivery_kept inc_submitted"
  "keeps delivery_kept (publish E ex key c mid)" "keeps delivery_kept (channel_settle E raw ack)"
  "keeps delivery_kept (prisma_query E f)" "keeps delivery_kept (redis_set_nx E k v)"
  "keeps delivery_kept (redis_read E k)" "keeps delivery_kept (redis_delete E k)"
  by (auto intro!: keepsI delivery_kept_call [THEN keepsD, THEN wp_mono]
      simp: wp_date_now wp_randomUUID wp_counters wp_publish wp_channel_settle Let_def delivery_kept_def
        prisma_query_def redis_set_nx_def redis_read_def redis_delete_def map_prod_def case_prod_unfold
      split: fate.split)

lemmas delivery_kept_intros = delivery_kept.keeps_intros delivery_kept_parts

lemma delivery_kept_submit: "keeps delivery_kept (submit E k b)"
  unfolding submit_def lookup_existing_def repo_create_def findById_def publish_job_def markPublished_def Let_def
  by (intro delivery_kept_intros)

lemma delivery_kept_requests:
  "keeps delivery_kept (post_email_job E g key idem body)" "keeps delivery_kept (get_email_job E g key i)"
proof -
  have lift: "keeps delivery_kept (lift_sum v)" for v :: "exn + 'x"
    unfolding lift_sum_def by (intro delivery_kept_intros)
  have filter: "keeps delivery_kept m \<Longrightarrow> keeps delivery_kept (filtered g m)" for m :: "('r, 'o reply) io" and g
    unfolding filtered_def by (intro delivery_kept.keeps_catch) (auto simp: delivery_kept.keeps_Resolve split: prod.split)
  show "keeps delivery_kept (post_email_job E g key idem body)"
    unfolding post_email_job_def controller_submit_def by (intro filter delivery_kept_intros lift delivery_kept_submit)
  show "keeps delivery_kept (get_email_job E g key i)"
    unfolding get_email_job_def controller_getStatus_def getStatus_def findById_def
    by (intro filter delivery_kept_intros lift)
qed

lemma delivery_kept_status: "keeps delivery_kept (handle_status E raw)"
proof -
  have "keeps delivery_kept (apply_event E e)" for e
    by (cases "ev_status e") (simp_all add: apply_event_def markDelivered_def markRetryScheduled_def markDeadLettered_def
      delivery_kept_intros)
  then show ?thesis unfolding handle_status_def by (intro delivery_kept_intros)
qed

text \<open>A request publishes nothing, or one new job, under a fresh identifier that its table then knows.\<close>

definition posted :: "'r services \<Rightarrow> SubmitEmailJobBody \<Rightarrow> 'r world \<Rightarrow> 'r world \<Rightarrow> bool" where
  "posted E b w w' \<longleftrightarrow>
     (\<forall>i. job_view w i \<noteq> None \<longrightarrow> job_view w' i \<noteq> None) \<and>
     (published w' = published w \<or>
      (\<exists>s t. published w' = published w @ [job_publication (random_uuid E s) (clock E t) b] \<and>
         job_view w (random_uuid E s) = None \<and> job_view w' (random_uuid E s) \<noteq> None))"

lemma posted_nothing: "job_view w' = job_view w \<Longrightarrow> published w' = published w \<Longrightarrow> posted E b w w'"
  by (simp add: posted_def)

lemma create_and_publish_posted:
  assumes id: "jobId = random_uuid E s"
  shows "wp (bind (repo_create E (create_input jobId k p b)) (\<lambda>_.
       bind (date_now E) (\<lambda>now.
       bind (publish_or_release E key jobId now b) (\<lambda>_.
       bind (findById E jobId) (\<lambda>job.
       case job of
         Some job \<Rightarrow> Resolve (toEmailJobResponse job False)
       | None \<Rightarrow> Reject (JsError None ''Cannot read properties of null (reading 'id')''))))))
     (\<lambda>_. posted E b w) (\<lambda>_. posted E b w) w"
  unfolding wp_bind [of "repo_create _ _"]
proof (rule wp_mono [OF create_full], goal_cases)
  case (2 e w1)
  then show ?case by (auto simp: posted_def database_only_parts create_input_def)
next
  case (1 rec w1)
  then have new: "job_view w jobId = None" and view: "job_view w1 = (job_view w)(jobId \<mapsto> rec)"
    and ps: "published w1 = published w"
    by (auto simp: database_only_parts)
  have reached: "posted E b w w'"
    if "\<forall>i. job_view w1 i \<noteq> None \<longrightarrow> job_view w' i \<noteq> None"
      and "published w' \<in> {published w, published w @ [job_publication jobId (clock E (steps w1)) b]}" for w'
    using that new view unfolding posted_def id by auto
  show ?case
    unfolding wp_bind [of "date_now _"] wp_date_now wp_bind [of "publish_or_release _ _ _ _ _"]
  proof (rule wp_mono [OF publish_or_release_wp], goal_cases)
    case (2 e w')
    then have "job_view w' i \<noteq> None" if "job_view w1 i \<noteq> None" for i
      using that by (cases "i = jobId") (auto simp: touched_def)
    then show ?case using 2 ps by (intro reached) (auto simp: touched_def)
  next
    case (1 _ w3)
    have tail: "wp (findById E jobId) (\<lambda>r w'. posted E b w w') (\<lambda>_. posted E b w) w3"
      by (rule wp_mono [OF find_full]) (use 1 ps in \<open>auto intro!: reached simp: database_only_parts\<close>)
    show ?case
      unfolding wp_bind [of "findById _ _"]
      by (rule wp_mono [OF tail]) (auto simp: wp_rules split: option.split)
  qed
qed

lemma submit_posted: "wp (submit E k b) (\<lambda>_. posted E b w) (\<lambda>_. posted E b w) w"
  unfolding submit_eq wp_bind [of "randomUUID _"] wp_randomUUID wp_bind [of "redis_set_nx _ _ _"]
proof (rule wp_mono [OF redis_set_nx_wp], goal_cases)
  case (2 e w')
  then show ?case by (auto intro: posted_nothing)
next
  case (1 ok w1)
  then have w1: "job_view w1 = job_view w" "published w1 = published w" by auto
  then have later: "posted E b w1 w' \<Longrightarrow> posted E b w w'" for w' by (simp add: posted_def)
  show ?case
  proof (cases ok)
    case True
    then show ?thesis
      by (simp, intro wp_mono [OF create_and_publish_posted [OF refl]]) (auto intro: later)
  next
    case False
    then show ?thesis
      by (simp, intro wp_mono [OF lookup_existing_wp]) (auto intro!: later posted_nothing simp: looked_up_def)
  qed
qed

lemma post_posted:
  "wp (post_email_job E g apiKey key body)
     (\<lambda>_ w'. w' = w \<or> (\<exists>b. valid_body (zod_formats E) b \<and> posted E b w w')) (\<lambda>_ _. False) w"
proof (cases "admitted E apiKey key body")
  case None
  then show ?thesis by (intro wp_mono [OF post_rejected [OF None]]) auto
next
  case (Some kb)
  obtain k b where kb: "kb = (k, b)" by fastforce
  have "authorised E apiKey" and key: "key = Some k" "8 \<le> length k"
    and body: "submitEmailJobBodySchema (zod_formats E) body = Inr b"
    using Some kb by (auto simp: admitted_def split: option.splits sum.splits if_splits)
  moreover have "k \<noteq> []" using key(2) by auto
  moreover have "valid_body (zod_formats E) b" by (rule submitEmailJobBodySchema_sound [OF body])
  ultimately show ?thesis
    unfolding post_email_job_def filtered_def wp_try_catch
    by (simp add: wp_bind wp_lift_sum canActivate_cases transform_def controller_submit_def)
      (rule wp_mono [OF submit_posted], auto simp: wp_Resolve split: prod.split)
qed

section \<open>What the worker does to the network\<close>

definition received :: "zod \<Rightarrow> string \<Rightarrow> EmailJobMessage option" where
  "received Z c = (case map_option (emailJobMessageSchema Z) (json_parse c) of Some (Inr m) \<Rightarrow> Some m | _ \<Rightarrow> None)"

lemma received_iff: "received Z c = Some m \<longleftrightarrow> map_option (emailJobMessageSchema Z) (json_parse c) = Some (Inr m)"
  by (auto simp: received_def split: option.splits sum.splits)

lemma received_valid: "received Z c = Some m \<Longrightarrow> valid_message Z m"
  by (auto simp: received_iff intro: emailJobMessageSchema_sound)

text \<open>A message a worker takes: it is accounted for, or not acknowledged.\<close>

lemma handle_effect:
  assumes "channel w" and w': "w' = snd (run (handle E (Some raw)) w)"
  shows "job_view w' = job_view w"
    and "received (zod_formats E) (raw_content raw) = Some m \<Longrightarrow>
      (\<exists>d. accounts m d w w') \<or> partial m w w' \<and> \<not> acknowledged raw w w'"
    and "received (zod_formats E) (raw_content raw) = None \<Longrightarrow>
      mails w' = mails w \<and> attempt_status w' = attempt_status w \<and>
      (\<exists>n. published w' = published w @ take n
        [publication_of (deadLetterExchange TOPOLOGY) (deadLetterRoutingKey TOPOLOGY) (raw_content raw) None])"
proof -
  obtain res w1 where r: "run (process_raw E raw) (entered w) = (res, w1)" by fastforce
  have w'_eq: "w' = w1\<lparr>steps := Suc (steps w1), inFlight := inFlight w,
      settled := settled w @ (if ack_throws E (steps w1) then [] else [(raw_deliveryTag raw, res = Inr ACK)])\<rparr>"
    using handle_run [OF assms(1), of E raw] r w' by simp
  have "unsettled (entered w) w1"
    using keeps_run [OF unsettled_process_raw [of E raw], of "entered w"] r by simp
  then show "job_view w' = job_view w"
    by (simp add: w'_eq unsettled_def job_view_fun entered_def)
  have acked: "acknowledged raw w w' \<Longrightarrow> res = Inr ACK"
    by (auto simp: acknowledged_def w'_eq split: if_splits)
  have same: "accounts m d w w' = accounts m d (entered w) w1" "partial m w w' = partial m (entered w) w1" for m d
    by (simp_all add: accounts_def partial_def others_kept_def attempt_status_def w'_eq entered_def)
  show "(\<exists>d. accounts m d w w') \<or> partial m w w' \<and> \<not> acknowledged raw w w'"
    if "received (zod_formats E) (raw_content raw) = Some m"
  proof -
    have "run (process E m) (entered w) = (res, w1)"
      using r that by (auto simp: process_raw_def received_iff)
    then show ?thesis
      using process_wp [of E m "entered w"] acked same by (auto simp: wp_def split: sum.splits)
  qed
  show "mails w' = mails w \<and> attempt_status w' = attempt_status w \<and>
      (\<exists>n. published w' = published w @ take n
        [publication_of (deadLetterExchange TOPOLOGY) (deadLetterRoutingKey TOPOLOGY) (raw_content raw) None])"
    if "received (zod_formats E) (raw_content raw) = None"
  proof -
    let ?p = "publication_of (deadLetterExchange TOPOLOGY) (deadLetterRoutingKey TOPOLOGY) (raw_content raw) None"
    let ?K = "\<lambda>w'. mails w' = mails w \<and> attempt_status w' = attempt_status w \<and> (\<exists>n. published w' = published w @ take n [?p])"
    have one: "\<exists>n. [?p] = take n [?p]" by (rule exI [of _ 1]) simp
    have "process_raw E raw = dead_letter_raw E raw"
      using that by (auto simp: process_raw_def received_def split: option.splits sum.splits)
    moreover have "wp (dead_letter_raw E raw) (\<lambda>_. ?K) (\<lambda>_. ?K) (entered w)"
      using one by (auto simp: dead_letter_raw_def wp_rules Let_def attempt_status_def fun_eq_iff entered_def split: fate.split)
    ultimately have "?K w1" using r by (auto simp: wp_def split: sum.splits)
    then show ?thesis by (simp add: w'_eq attempt_status_def fun_eq_iff)
  qed
qed

text \<open>
  When the calls to the databases, Redis and RabbitMQ complete, whatever the mail server answers, a
  delivery that is not acknowledged has not closed its attempt: the failure is recorded only
  together with the retry or the dead letter that follows from it.
\<close>

definition reliable :: "'r services \<Rightarrow> bool" where
  "reliable E \<longleftrightarrow> (\<forall>n. fate E n = Completes)"

lemma complete_reliable:
  assumes "reliable E"
  shows "wp (complete E j a c) (\<lambda>_ w'. channel w' = channel w)
    (\<lambda>_ w'. attempt_status w' = attempt_status w \<and> channel w' = channel w) w"
proof -
  have "t = ledger w" if "update_attempt j a c (ledger w) = (Inl e, t)" for e t
    using that by (auto simp: update_attempt_def split: if_splits)
  then show ?thesis
    using assms by (auto simp: complete_def wp_pg_query reliable_def Let_def attempt_status_def fun_eq_iff
        split: prod.split sum.split)
qed

lemma announce_reliable:
  assumes "reliable E" and "channel w"
  shows "wp (bind (publish E ex key content mid) (\<lambda>_. bind (date_now E) (\<lambda>now.
      bind (publishStatus E (status_event m st att smid code now)) (\<lambda>_. Resolve ACK)))) (\<lambda>oc _. oc = ACK) (\<lambda>_ _. False) w"
  using assms by (simp add: wp_rules wp_publishStatus Let_def reliable_def)

lemma close_reliable:
  assumes "reliable E" and "channel w"
  shows "wp (deadLetter E m code detail lat) (\<lambda>oc _. oc = ACK) (\<lambda>_ w'. attempt_status w' = attempt_status w) w"
    and "wp (reschedule E m code k q lat) (\<lambda>oc _. oc = ACK) (\<lambda>_ w'. attempt_status w' = attempt_status w) w"
proof -
  have tail: "wp (bind (complete E j a c) (\<lambda>_.
      bind (publish E ex key content mid) (\<lambda>_. bind (date_now E) (\<lambda>now.
        bind (publishStatus E (status_event m st att smid ecode now)) (\<lambda>_. Resolve ACK)))))
      (\<lambda>oc _. oc = ACK) (\<lambda>_ w'. attempt_status w' = attempt_status w) (w\<lparr>metrics := x\<rparr>)"
    for j a c ex key content mid st att smid ecode x
    unfolding wp_bind [of "complete _ _ _ _"]
  proof (rule wp_mono [OF complete_reliable [OF assms(1)]])
    fix w1 :: "'a world"
    assume "channel w1 = channel (w\<lparr>metrics := x\<rparr>)"
    then have "channel w1" using assms(2) by simp
    then show "wp (bind (publish E ex key content mid) (\<lambda>_. bind (date_now E) (\<lambda>now.
        bind (publishStatus E (status_event m st att smid ecode now)) (\<lambda>_. Resolve ACK))))
      (\<lambda>oc _. oc = ACK) (\<lambda>_ w'. attempt_status w' = attempt_status w) w1"
      by (rule wp_mono [OF announce_reliable [OF assms(1)]]) simp_all
  qed (simp add: attempt_status_def fun_eq_iff)
  show "wp (deadLetter E m code detail lat) (\<lambda>oc _. oc = ACK) (\<lambda>_ w'. attempt_status w' = attempt_status w) w"
    unfolding deadLetter_eq wp_bind [of "inc_deadLettered _"] wp_counters by (rule tail)
  show "wp (reschedule E m code k q lat) (\<lambda>oc _. oc = ACK) (\<lambda>_ w'. attempt_status w' = attempt_status w) w"
    unfolding reschedule_def wp_bind [of "inc_retried _"] wp_counters by (rule tail)
qed

lemma handleFailure_reliable:
  assumes "reliable E" and "channel w"
  shows "wp (handleFailure E m e lat) (\<lambda>oc w'. oc = ACK \<or> attempt_status w' = attempt_status w)
    (\<lambda>_ w'. attempt_status w' = attempt_status w) w"
proof -
  have quiet: "wp (bind (breaker_recordFailure E p) (\<lambda>_. k)) (\<lambda>oc w'. oc = ACK \<or> attempt_status w' = attempt_status w)
      (\<lambda>_ w'. attempt_status w' = attempt_status w) w"
    if "\<And>w1. channel w1 \<Longrightarrow> wp k (\<lambda>oc w'. oc = ACK \<or> attempt_status w' = attempt_status w1)
      (\<lambda>_ w'. attempt_status w' = attempt_status w1) w1" for p k
    unfolding wp_bind
  proof (rule wp_mono [OF recordFailure_quiet], goal_cases)
    case (1 x w1)
    then have "channel w1" "attempt_status w1 = attempt_status w" using asideD [of w1 w] assms(2) by auto
    then show ?case using that [of w1] by (simp add: wp_mono)
  qed simp
  note closed = close_reliable [OF assms(1), THEN wp_mono]
  show ?thesis
    by (cases e; cases "decideFailureAction (msg_attempt m)")
      (auto simp: handleFailure_eq wp_Resolve intro!: quiet closed assms(2))
qed

lemma send_and_record_reliable:
  assumes "reliable E" and "channel w"
  shows "wp (send_and_record E m startedAt) (\<lambda>oc _. oc = ACK)
    (\<lambda>_ w'. attempt_status w' = attempt_status w \<and> channel w' = channel w) w"
proof (cases "msg_provider m = Smtp")
  case True
  then have r: "resolve E (msg_provider m) = Inr (smtp_send E)" using resolve_cases [of E "msg_provider m"] by auto
  have recorded: "wp (record_sent E m mid lat) (\<lambda>oc _. oc = ACK)
      (\<lambda>_ w'. attempt_status w' = attempt_status w \<and> channel w' = channel w) w1"
    if "attempt_status w1 = attempt_status w" and "channel w1 = channel w" for w1 mid lat
    unfolding record_sent_def wp_bind [of "complete _ _ _ _"]
    by (rule wp_mono [OF complete_reliable [OF assms(1)]])
      (use that assms in \<open>auto simp: wp_rules wp_publishStatus Let_def reliable_def\<close>)
  show ?thesis
    unfolding send_and_record_eq r sum.case wp_bind [of "smtp_send _ _"]
  proof (rule wp_mono [OF smtp.send_spec], goal_cases)
    case (1 x w1)
    then show ?case
      using asideD(3,4) [of w1 w]
      by (simp add: wp_bind wp_date_now breaker_recordSuccess_def wp_modify, intro recorded)
        (simp_all add: attempt_status_def fun_eq_iff)
  next
    case (2 e w1)
    then show ?case using asideD(3,4) [of w1 w] by simp
  qed
next
  case False
  then obtain s where "resolve E (msg_provider m) = Inl (PermanentProviderError PROVIDER_REJECTED s)"
    using resolve_cases [of E "msg_provider m"] by auto
  then show ?thesis
    by (simp add: send_and_record_eq wp_Reject)
qed

definition not_closed :: "EmailJobMessage \<Rightarrow> 'r world \<Rightarrow> 'r world \<Rightarrow> bool" where
  "not_closed m w w' \<longleftrightarrow> (own w' m = Some ''FAILED'' \<longrightarrow> own w m = Some ''FAILED'')"

lemma process_reliable:
  assumes "reliable E" and "channel w"
  shows "wp (process E m) (\<lambda>oc w'. oc = ACK \<or> not_closed m w w') (\<lambda>_. not_closed m w) w"
proof -
  let ?Q = "\<lambda>oc w'. oc = ACK \<or> not_closed m w w'" and ?R = "\<lambda>_. not_closed m w"
  have attempt: "wp (try_catch (send_and_record E m startedAt) (\<lambda>error.
          bind (date_now E) (\<lambda>now. handleFailure E m error (now - startedAt)))) ?Q ?R w1"
    if "own w1 m = Some ''PENDING''" "channel w1" for w1 startedAt
    unfolding wp_try_catch wp_bind wp_date_now
  proof (rule wp_mono [OF send_and_record_reliable [OF assms(1) that(2)]], goal_cases)
    case (2 e w2)
    then show ?case
      using that by (intro wp_mono [OF handleFailure_reliable [OF assms(1)]]) (auto simp: not_closed_def)
  qed simp
  have deferred: "wp (defer_message E m tier) ?Q ?R w1" if "channel w1" for w1 tier
    using that assms(1) by (simp add: defer_message_def wp_rules Let_def reliable_def)
  have reserved: "wp (bind (reserve E m) (\<lambda>reserved.
            if \<not> reserved then bind inc_duplicates (\<lambda>_. Resolve ACK)
            else bind (date_now E) (\<lambda>startedAt.
              try_catch (send_and_record E m startedAt) (\<lambda>error.
                bind (date_now E) (\<lambda>now. handleFailure E m error (now - startedAt)))))) ?Q ?R w1"
    if "own w1 m = own w m" "channel w1" for w1
    unfolding wp_bind [of "reserve _ _"]
  proof (rule wp_mono [OF reserve_full], goal_cases)
    case (1 granted w2)
    then have "channel w2" using that by (auto simp: ledger_only_parts)
    then show ?case
      using 1 by (cases granted) (simp_all add: wp_bind wp_date_now attempt wp_counters wp_Resolve)
  next
    case (2 e w2)
    then show ?case using that by (auto simp: not_closed_def)
  qed
  show ?thesis
    unfolding process_def Let_def wp_bind [of "acquire _ _"]
  proof (rule wp_mono [OF acquire_quiet], goal_cases)
    case (1 granted w1)
    then have w1: "own w1 m = own w m" "channel w1" using asideD [of w1 w] assms(2) by auto
    show ?case
    proof (cases granted)
      case False
      then show ?thesis using deferred [OF w1(2)] by simp
    next
      case True
      have "wp (if isOpen then defer_message E m BREAKER_DEFER_TIER else
          bind (reserve E m) (\<lambda>reserved.
            if \<not> reserved then bind inc_duplicates (\<lambda>_. Resolve ACK)
            else bind (date_now E) (\<lambda>startedAt.
              try_catch (send_and_record E m startedAt) (\<lambda>error.
                bind (date_now E) (\<lambda>now. handleFailure E m error (now - startedAt)))))) ?Q ?R w2"
        if "aside w2 = aside w1" for isOpen w2
        using asideD [OF that] w1 by (cases isOpen) (auto intro!: deferred reserved [simplified])
      then show ?thesis
        using True by (simp only: if_False not_True_eq_False wp_bind [of "breaker_isOpen _ _"])
          (rule wp_mono [OF isOpen_quiet]; simp)
    qed
  next
    case (2 e w1)
    then show ?case using asideD [of w1 w] by (simp add: not_closed_def)
  qed
qed

section \<open>Where a job is\<close>

text \<open>The attempt a text carries, when it is a message of the same job.\<close>

definition attempt_in :: "zod \<Rightarrow> EmailJobMessage \<Rightarrow> string \<Rightarrow> int option" where
  "attempt_in Z m c =
     (case received Z c of
        None \<Rightarrow> None
      | Some m' \<Rightarrow> if m'\<lparr>msg_attempt := msg_attempt m\<rparr> = m then Some (msg_attempt m') else None)"

definition waiting :: "zod \<Rightarrow> 'r net \<Rightarrow> EmailJobMessage \<Rightarrow> int \<Rightarrow> bool" where
  "waiting Z n m a \<longleftrightarrow> (\<exists>q \<in> set work_queues. \<exists>c \<in> set (queue n q). attempt_in Z m c = Some a)"

definition buried :: "zod \<Rightarrow> 'r net \<Rightarrow> EmailJobMessage \<Rightarrow> bool" where
  "buried Z n m \<longleftrightarrow> (\<exists>c \<in> set (queue n (deadLetterQueue TOPOLOGY)). attempt_in Z m c \<noteq> None)"

definition mailed :: "'r net \<Rightarrow> EmailJobMessage \<Rightarrow> bool" where
  "mailed n m \<longleftrightarrow> mail_of m \<in> set (mails (node n))"

text \<open>The messages the API has published.\<close>

definition submitted :: "zod \<Rightarrow> 'r world \<Rightarrow> EmailJobMessage set" where
  "submitted Z w = {m. \<exists>p \<in> set (published w). pub_exchange p = exchange TOPOLOGY \<and> received Z (pub_content p) = Some m}"

abbreviation attempt_of :: "'r net \<Rightarrow> EmailJobMessage \<Rightarrow> int \<Rightarrow> string option" where
  "attempt_of n m a \<equiv> attempt_status (node n) (msg_jobId m) a"

text \<open>
  A job that was submitted is waiting, buried or mailed; or, when calls may fail, an attempt of it
  has been closed as failed. \<open>strict\<close> says whether calls may fail.
\<close>

definition traced :: "zod \<Rightarrow> bool \<Rightarrow> 'r net \<Rightarrow> EmailJobMessage \<Rightarrow> bool" where
  "traced Z strict n m \<longleftrightarrow>
     (\<forall>a. attempt_of n m a \<in> {None, Some ''PENDING'', Some ''FAILED'', Some ''DELIVERED''}) \<and>
     (\<forall>a. attempt_of n m a = Some ''DELIVERED'' \<longrightarrow> mailed n m) \<and>
     (strict \<longrightarrow> (\<forall>a. attempt_of n m a = Some ''FAILED'' \<longrightarrow> (\<exists>b > a. waiting Z n m b) \<or> buried Z n m \<or> mailed n m)) \<and>
     ((\<exists>a. waiting Z n m a) \<or> buried Z n m \<or> mailed n m \<or> \<not> strict \<and> (\<exists>a. attempt_of n m a = Some ''FAILED''))"

definition net_inv :: "zod \<Rightarrow> bool \<Rightarrow> 'r net \<Rightarrow> bool" where
  "net_inv Z strict n \<longleftrightarrow>
     (\<forall>q \<in> set work_queues. \<forall>c \<in> set (queue n q). \<forall>m. received Z c = Some m \<longrightarrow>
        (\<exists>m0 \<in> submitted Z (node n). m\<lparr>msg_attempt := msg_attempt m0\<rparr> = m0)) \<and>
     (\<forall>m \<in> submitted Z (node n). \<forall>m' \<in> submitted Z (node n). msg_jobId m = msg_jobId m' \<longrightarrow> m = m') \<and>
     (\<forall>m \<in> submitted Z (node n). job_view (node n) (msg_jobId m) \<noteq> None) \<and>
     (\<forall>j a. attempt_status (node n) j a \<noteq> None \<longrightarrow> job_view (node n) j \<noteq> None) \<and>
     (\<forall>m \<in> submitted Z (node n). traced Z strict n m)"

lemma tracedI:
  assumes "\<And>a. attempt_of n m a \<in> {None, Some ''PENDING'', Some ''FAILED'', Some ''DELIVERED''}"
    and "\<And>a. attempt_of n m a = Some ''DELIVERED'' \<Longrightarrow> mailed n m"
    and "\<And>a. strict \<Longrightarrow> attempt_of n m a = Some ''FAILED'' \<Longrightarrow> (\<exists>b > a. waiting Z n m b) \<or> buried Z n m \<or> mailed n m"
    and "(\<exists>a. waiting Z n m a) \<or> buried Z n m \<or> mailed n m \<or> \<not> strict \<and> (\<exists>a. attempt_of n m a = Some ''FAILED'')"
  shows "traced Z strict n m"
  unfolding traced_def using assms by blast

lemma tracedD:
  assumes "traced Z strict n m"
  shows "attempt_of n m a \<in> {None, Some ''PENDING'', Some ''FAILED'', Some ''DELIVERED''}"
    and "attempt_of n m a = Some ''DELIVERED'' \<Longrightarrow> mailed n m"
    and "strict \<Longrightarrow> attempt_of n m a = Some ''FAILED'' \<Longrightarrow> (\<exists>b > a. waiting Z n m b) \<or> buried Z n m \<or> mailed n m"
    and "(\<exists>a. waiting Z n m a) \<or> buried Z n m \<or> mailed n m \<or> \<not> strict \<and> (\<exists>a. attempt_of n m a = Some ''FAILED'')"
  using assms unfolding traced_def by blast+

section \<open>One message through one delivery\<close>

lemma variant_jobId: "m'\<lparr>msg_attempt := a\<rparr> = m \<Longrightarrow> msg_jobId m' = msg_jobId m"
  by auto

lemma mail_of_variant: "m'\<lparr>msg_attempt := a\<rparr> = m \<Longrightarrow> mail_of m' = mail_of m"
  by (auto simp: mail_of_def toSendRequest_def to_mail_def)

lemma received_republished:
  assumes "received Z c = Some m" and "k = msg_attempt m \<or> 0 \<le> k \<and> k \<le> 5"
  shows "received Z (message_text (m\<lparr>msg_attempt := k\<rparr>)) = Some (m\<lparr>msg_attempt := k\<rparr>)"
proof -
  have "valid_message Z (m\<lparr>msg_attempt := k\<rparr>)"
    using received_valid [OF assms(1)] assms(2) by (auto simp: valid_message_def safe_int_def)
  then show ?thesis
    by (simp add: received_iff message_text_def message_text_roundtrip)
qed

text \<open>What of a delivery's messages comes back to a worker: the message itself, or its next attempt.\<close>

lemma emitted_returns:
  assumes "possible m d" and "0 \<le> msg_attempt m" and "p \<in> set (emitted m d)"
    and "q \<in> set work_queues" and "reaches p q"
  shows "\<exists>k. pub_content p = message_text (m\<lparr>msg_attempt := k\<rparr>) \<and> (k = msg_attempt m \<or> 0 \<le> k \<and> k \<le> 5)"
proof (cases d)
  case (Deferred tier)
  have "m\<lparr>msg_attempt := msg_attempt m\<rparr> = m" by simp
  then show ?thesis
    using assms(3) Deferred by (auto simp: publication_of_def intro!: exI [of _ "msg_attempt m"])
next
  case (Retried code k queue t)
  then have "0 \<le> k \<and> k \<le> 5" using assms(1,2) retry_tier by fastforce
  then show ?thesis
    using assms(3-5) Retried reaches_work_queue(1) by (auto simp: status_publication_def publication_of_def)
qed (use assms(3-5) reaches_work_queue in \<open>auto simp: status_publication_def\<close>)

lemma emitted_not_submitted: "p \<in> set (emitted m d) \<Longrightarrow> pub_exchange p \<noteq> exchange TOPOLOGY"
  by (cases d) (auto simp: status_publication_def publication_of_def)

text \<open>A step that leaves the attempts of a job alone and takes none of its messages away.\<close>

lemma traced_kept:
  assumes "traced Z strict n m"
    and "\<And>a. attempt_of n' m a = attempt_of n m a"
    and "\<And>a. waiting Z n m a \<Longrightarrow> waiting Z n' m a"
    and "buried Z n m \<Longrightarrow> buried Z n' m" and "mailed n m \<Longrightarrow> mailed n' m"
  shows "traced Z strict n' m"
  using assms unfolding traced_def by metis

text \<open>
  The delivery of a message \<open>mc\<close> of the job \<open>m\<close> takes at most that message from the queues, and only
  when it is acknowledged.
\<close>

definition takes_only :: "zod \<Rightarrow> EmailJobMessage \<Rightarrow> EmailJobMessage \<Rightarrow> bool \<Rightarrow> 'r net \<Rightarrow> 'r net \<Rightarrow> bool" where
  "takes_only Z m mc acked n n' \<longleftrightarrow>
     mc\<lparr>msg_attempt := msg_attempt m\<rparr> = m \<and>
     (\<forall>b. waiting Z n m b \<and> (b \<noteq> msg_attempt mc \<or> \<not> acked) \<longrightarrow> waiting Z n' m b) \<and>
     (buried Z n m \<longrightarrow> buried Z n' m)"

lemma takes_onlyD:
  assumes "takes_only Z m mc acked n n'"
  shows "mail_of mc = mail_of m" and "own w mc = attempt_status w (msg_jobId m) (msg_attempt mc)"
    and "waiting Z n m b \<Longrightarrow> b \<noteq> msg_attempt mc \<or> \<not> acked \<Longrightarrow> waiting Z n' m b" and "buried Z n m \<Longrightarrow> buried Z n' m"
    and "others_kept mc (node n) (node n') \<Longrightarrow> a \<noteq> msg_attempt mc \<Longrightarrow> attempt_of n' m a = attempt_of n m a"
proof -
  have job: "mc\<lparr>msg_attempt := msg_attempt m\<rparr> = m" using assms by (simp add: takes_only_def)
  note j = variant_jobId [OF job]
  show "mail_of mc = mail_of m" by (rule mail_of_variant [OF job])
  show "own w mc = attempt_status w (msg_jobId m) (msg_attempt mc)" by (simp add: j)
  show "others_kept mc (node n) (node n') \<Longrightarrow> a \<noteq> msg_attempt mc \<Longrightarrow> attempt_of n' m a = attempt_of n m a"
    by (simp add: others_kept_def j)
qed (use assms in \<open>auto simp: takes_only_def\<close>)

lemma mailed_kept: "mails (node n') = mails (node n) @ ms \<Longrightarrow> mailed n m \<Longrightarrow> mailed n' m"
  by (simp add: mailed_def)

lemma traced_unacknowledged:
  assumes t: "takes_only Z m mc False n n'" and before: "traced Z strict n m"
    and p: "partial mc (node n) (node n')" and open': "strict \<Longrightarrow> not_closed mc (node n) (node n')"
  shows "traced Z strict n' m"
proof -
  let ?a = "msg_attempt mc"
  note own = takes_onlyD(2) [OF t]
  have o: "\<And>a. a \<noteq> ?a \<Longrightarrow> attempt_of n' m a = attempt_of n m a" using p takes_onlyD(5) [OF t] by (simp add: partial_def)
  have w: "\<And>b. waiting Z n m b \<Longrightarrow> waiting Z n' m b" using takes_onlyD(3) [OF t] by blast
  have ml: "mailed n m \<Longrightarrow> mailed n' m" using p mailed_kept by (auto simp: partial_def)
  have s: "attempt_of n' m ?a \<in> {attempt_of n m ?a, Some ''PENDING'', Some ''FAILED'', Some ''DELIVERED''}"
    and d: "attempt_of n' m ?a = Some ''DELIVERED'' \<Longrightarrow> attempt_of n m ?a = Some ''DELIVERED'' \<or> mailed n' m"
    and c: "\<not> open_status (attempt_of n m ?a) \<Longrightarrow> attempt_of n' m ?a = attempt_of n m ?a"
    using p by (auto simp: partial_def mailed_def own takes_onlyD(1) [OF t])
  have f: "strict \<Longrightarrow> attempt_of n' m ?a = Some ''FAILED'' \<Longrightarrow> attempt_of n m ?a = Some ''FAILED''"
    using open' by (simp add: not_closed_def own)
  have fs: "attempt_of n m a = Some ''FAILED'' \<Longrightarrow> attempt_of n' m a = Some ''FAILED''" for a
    using c o by (cases "a = ?a") (simp_all add: open_status_def)
  show ?thesis
    unfolding traced_def
  proof (intro conjI allI impI)
    show "attempt_of n' m a \<in> {None, Some ''PENDING'', Some ''FAILED'', Some ''DELIVERED''}" for a
      using tracedD(1) [OF before, of a] s o by (cases "a = ?a") auto
    show "mailed n' m" if "attempt_of n' m a = Some ''DELIVERED''" for a
      using that tracedD(2) [OF before] d ml o by (cases "a = ?a") auto
    show "(\<exists>b > a. waiting Z n' m b) \<or> buried Z n' m \<or> mailed n' m"
      if "strict" and "attempt_of n' m a = Some ''FAILED''" for a
    proof -
      have "attempt_of n m a = Some ''FAILED''" using that f o by (cases "a = ?a") auto
      then show ?thesis using before that(1) w takes_onlyD(4) [OF t] ml unfolding traced_def by blast
    qed
    show "(\<exists>a. waiting Z n' m a) \<or> buried Z n' m \<or> mailed n' m \<or> \<not> strict \<and> (\<exists>a. attempt_of n' m a = Some ''FAILED'')"
      using before w takes_onlyD(4) [OF t] ml fs unfolding traced_def by blast
  qed
qed

text \<open>
  An acknowledged delivery. Its messages have reached their queues: a deferral put the same attempt
  back, a retry the next one, and a dead letter buried the job.
\<close>

definition followed_up :: "zod \<Rightarrow> EmailJobMessage \<Rightarrow> EmailJobMessage \<Rightarrow> disposition \<Rightarrow> 'r net \<Rightarrow> bool" where
  "followed_up Z m mc d n' \<longleftrightarrow>
     (case d of
        Deferred _ \<Rightarrow> waiting Z n' m (msg_attempt mc)
      | Retried _ k _ _ \<Rightarrow> waiting Z n' m k
      | Buried _ _ \<Rightarrow> buried Z n' m
      | _ \<Rightarrow> True)"

lemma traced_acknowledged:
  assumes t: "takes_only Z m mc True n n'" and before: "traced Z strict n m"
    and ac: "accounts mc d (node n) (node n')" and up: "followed_up Z m mc d n'" and pos: "0 \<le> msg_attempt mc"
  shows "traced Z strict n' m"
proof -
  let ?a = "msg_attempt mc"
  note own = takes_onlyD(2) [OF t]
  have o: "attempt_of n' m a = attempt_of n m a" if "a \<noteq> ?a" for a
    using that ac takes_onlyD(5) [OF t] by (simp add: accounts_def)
  have w: "waiting Z n' m b" if "waiting Z n m b" "b \<noteq> ?a" for b using that takes_onlyD(3) [OF t] by blast
  have ml: "mailed n m \<Longrightarrow> mailed n' m" using ac mailed_kept by (auto simp: accounts_def)
  obtain k where k: "mails (node n') = mails (node n) @ replicate k (mail_of m)"
    and l: "left mc d (attempt_of n m ?a) (attempt_of n' m ?a) k"
    using ac by (auto simp: accounts_def own takes_onlyD(1) [OF t])
  note before4 = tracedD [OF before]
  have statuses: "attempt_of n' m a \<in> {None, Some ''PENDING'', Some ''FAILED'', Some ''DELIVERED''}" for a
    using before4(1) [of a] o l by (cases "a = ?a"; cases d) auto
  have delivered: "mailed n' m" if "attempt_of n' m a = Some ''DELIVERED''" for a
  proof (cases "a = ?a \<and> (\<exists>i t. d = Sent i t)")
    case True
    then show ?thesis using k l by (auto simp: mailed_def)
  next
    case False
    then have "attempt_of n m a = Some ''DELIVERED''"
      using that o l by (cases "a = ?a"; cases d) auto
    then show ?thesis using before4(2) ml by blast
  qed
  have failed: "attempt_of n m a = Some ''FAILED'' \<Longrightarrow> attempt_of n' m a = Some ''FAILED''" for a
    using o l by (cases "a = ?a"; cases d) (auto simp: open_status_def)
  have bk: "buried Z n m \<Longrightarrow> buried Z n' m" by (rule takes_onlyD(4) [OF t])
  have replaced: "buried Z n' m \<or> mailed n' m \<or> (\<exists>b \<ge> ?a. waiting Z n' m b) \<or>
      \<not> strict \<and> (\<exists>a. attempt_of n' m a = Some ''FAILED'')"
  proof (cases d)
    case Skipped
    then have "attempt_of n m ?a = Some ''FAILED'' \<or> attempt_of n m ?a = Some ''DELIVERED''"
      using l before4(1) [of ?a] by (auto simp: open_status_def)
    then show ?thesis
      using before4(2,3) failed ml bk w by (metis less_imp_le less_irrefl)
  next
    case (Retried code k' q' t')
    then have "k' = ?a + 1" using l pos retry_tier by auto
    then show ?thesis using up Retried by (auto simp: followed_up_def intro!: exI [of _ k'])
  qed (use up k l in \<open>auto simp: followed_up_def mailed_def\<close>)
  have still: "buried Z n' m \<or> mailed n' m \<or> (\<exists>b' \<ge> b. waiting Z n' m b') \<or>
      \<not> strict \<and> (\<exists>a. attempt_of n' m a = Some ''FAILED'')" if "waiting Z n m b" for b
    using replaced w [OF that] by (cases "b = ?a") auto
  have onward: "buried Z n' m \<or> mailed n' m \<or> (\<exists>b > a. waiting Z n' m b)"
    if "strict" and "attempt_of n' m a = Some ''FAILED''" for a
  proof (cases "attempt_of n m a = Some ''FAILED''")
    case True
    then show ?thesis using before4(3) [OF that(1)] still that(1) ml bk by (meson less_le_trans)
  next
    case False
    then have a: "a = ?a" using o [of a] that(2) by (cases "a = ?a") simp_all
    show ?thesis
    proof (cases d)
      case (Retried code k' q' t')
      then have "k' = ?a + 1" using l pos retry_tier by auto
      then show ?thesis using up Retried a by (auto simp: followed_up_def intro!: exI [of _ k'])
    qed (use up l a that False in \<open>auto simp: followed_up_def\<close>)
  qed
  show ?thesis
  proof (rule tracedI)
    show "(\<exists>a. waiting Z n' m a) \<or> buried Z n' m \<or> mailed n' m \<or> \<not> strict \<and> (\<exists>a. attempt_of n' m a = Some ''FAILED'')"
      using before4(4) still ml bk failed by blast
  qed (use statuses delivered onward in blast)+
qed

section \<open>A worker's step\<close>

lemma work_idle: "\<not> channel (node n) \<Longrightarrow> work E raw n = n"
  by (simp add: work_def handle_idle newly_published_def settled_queue_def acknowledged_def)

lemma work_queue:
  "set (queue (work E raw n) q) =
     set (settled_queue (mainQueue TOPOLOGY) raw n (node (work E raw n)) q) \<union>
     {pub_content p |p. p \<in> set (newly_published (node n) (node (work E raw n))) \<and> reaches p q}"
  by (simp add: work_def Let_def set_enqueued)

lemma settled_queue_sub: "set (settled_queue q raw n w' q') \<subseteq> set (queue n q')"
  by (auto simp: settled_queue_def split: if_splits dest: set_remove1_subset [THEN subsetD])

lemma settled_queue_keeps:
  "c \<in> set (queue n q') \<Longrightarrow> q' \<noteq> q \<or> c \<noteq> raw_content raw \<or> \<not> acknowledged raw (node n) w' \<Longrightarrow>
     c \<in> set (settled_queue q raw n w' q')"
  by (auto simp: settled_queue_def set_remove1_sub)

lemma dead_letter_queue_apart:
  "deadLetterQueue TOPOLOGY \<notin> set work_queues" "statusQueue TOPOLOGY \<notin> set work_queues"
  "deadLetterQueue TOPOLOGY \<noteq> mainQueue TOPOLOGY" "statusQueue TOPOLOGY \<noteq> deadLetterQueue TOPOLOGY"
  "mainQueue TOPOLOGY \<in> set work_queues"
  by (simp_all add: work_queues_eq TOPOLOGY_def)

lemma work_keeps_waiting:
  assumes "waiting Z n m b"
    and "attempt_in Z m (raw_content raw) \<noteq> Some b \<or> \<not> acknowledged raw (node n) (node (work E raw n))"
  shows "waiting Z (work E raw n) m b"
proof -
  obtain q c where "q \<in> set work_queues" "c \<in> set (queue n q)" "attempt_in Z m c = Some b"
    using assms(1) by (auto simp: waiting_def)
  then show ?thesis
    using assms(2) settled_queue_keeps [of c n q "mainQueue TOPOLOGY" raw "node (work E raw n)"]
    unfolding waiting_def work_queue by blast
qed

lemma work_keeps_buried: "buried Z n m \<Longrightarrow> buried Z (work E raw n) m"
  using settled_queue_keeps [of _ n "deadLetterQueue TOPOLOGY" "mainQueue TOPOLOGY" raw "node (work E raw n)"]
    dead_letter_queue_apart(3)
  unfolding buried_def work_queue by blast

lemma attempt_in_received: "received Z c = Some mc \<Longrightarrow> mc\<lparr>msg_attempt := msg_attempt m\<rparr> = m \<Longrightarrow> attempt_in Z m c = Some (msg_attempt mc)"
  by (simp add: attempt_in_def)

lemma work_takes_only:
  assumes "received Z (raw_content raw) = Some mc" and "mc\<lparr>msg_attempt := msg_attempt m\<rparr> = m"
    and "acked = acknowledged raw (node n) (node (work E raw n))"
  shows "takes_only Z m mc acked n (work E raw n)"
  using assms work_keeps_waiting [of Z n m _ raw E] work_keeps_buried attempt_in_received [OF assms(1,2)]
  unfolding takes_only_def by auto

lemma waitingI: "q \<in> set work_queues \<Longrightarrow> c \<in> set (queue n q) \<Longrightarrow> attempt_in Z m c = Some a \<Longrightarrow> waiting Z n m a"
  by (auto simp: waiting_def)

lemma work_follows_up:
  assumes r: "received Z (raw_content raw) = Some mc" and v: "mc\<lparr>msg_attempt := msg_attempt m\<rparr> = m"
    and ac: "accounts mc d (node n) (node (work E raw n))"
  shows "followed_up Z m mc d (work E raw n)"
proof -
  have new: "newly_published (node n) (node (work E raw n)) = emitted mc d"
    using ac by (intro newly_published_append) (simp add: accounts_def)
  have pos: "0 \<le> msg_attempt mc" using received_valid [OF r] by (simp add: valid_message_def safe_int_def)
  have q: "pub_content p \<in> set (queue (work E raw n) q)" if "p \<in> set (emitted mc d)" "reaches p q" for p q
    using that unfolding work_queue new by blast
  have a: "attempt_in Z m (message_text (mc\<lparr>msg_attempt := k\<rparr>)) = Some k" if "k = msg_attempt mc \<or> 0 \<le> k \<and> k \<le> 5" for k
    using received_republished [OF r that] v by (simp add: attempt_in_def)
  have a0: "attempt_in Z m (message_text mc) = Some (msg_attempt mc)" using a [of "msg_attempt mc"] by simp
  have poss: "possible mc d" using ac left_possible unfolding accounts_def by blast
  have returns: "waiting Z (work E raw n) m k"
    if "publication_of (retryExchange TOPOLOGY) (retryQueueName tier) c mid \<in> set (emitted mc d)"
      "tier \<in> {1, 2, 3, 4, 5}" "attempt_in Z m c = Some k" for tier c mid k
  proof (rule waitingI [OF retry_queue_is_work_queue [OF that(2)] _ that(3)])
    show "c \<in> set (queue (work E raw n) (retryQueueName tier))"
      using q [OF that(1), of "retryQueueName tier"] reaches_retry [OF that(2)] by (simp add: publication_of_def)
  qed
  show ?thesis
  proof (cases d)
    case (Deferred tier)
    then have "tier \<in> {1, 2, 3, 4, 5}" using poss by (auto simp: RATE_LIMIT_DEFER_TIER_def BREAKER_DEFER_TIER_def)
    then show ?thesis using returns [OF _ _ a0] Deferred by (simp add: followed_up_def)
  next
    case (Retried code k qn t)
    then obtain x where "decideFailureAction (msg_attempt mc) = RETRY k qn x" using poss by auto
    from retry_tier [OF this pos] have k: "k \<in> {1, 2, 3, 4, 5}" "qn = retryQueueName k" by blast+
    then have "0 \<le> k \<and> k \<le> 5" by auto
    then have "waiting Z (work E raw n) m k"
      using returns [of k "message_text (mc\<lparr>msg_attempt := k\<rparr>)" "Some (msg_jobId mc)" k] k a Retried by simp
    then show ?thesis using Retried by (simp add: followed_up_def)
  next
    case (Buried code t)
    have "message_text mc \<in> set (queue (work E raw n) (deadLetterQueue TOPOLOGY))"
      using q [of "publication_of (deadLetterExchange TOPOLOGY) (deadLetterRoutingKey TOPOLOGY) (message_text mc) (Some (msg_jobId mc))"]
        reaches_dead_letter Buried by (simp add: publication_of_def)
    then show ?thesis using a0 Buried by (auto simp: followed_up_def buried_def)
  qed (simp_all add: followed_up_def)
qed

text \<open>Every submitted job is still traced after a worker's step.\<close>

lemma handle_reliable:
  assumes "reliable E" and "channel w" and "received (zod_formats E) (raw_content raw) = Some m"
    and "w' = snd (run (handle E (Some raw)) w)" and "\<not> (\<exists>d. accounts m d w w')"
  shows "not_closed m w w'"
proof -
  obtain res w1 where r: "run (process_raw E raw) (entered w) = (res, w1)" by fastforce
  have w'_eq: "w' = w1\<lparr>steps := Suc (steps w1), inFlight := inFlight w,
      settled := settled w @ (if ack_throws E (steps w1) then [] else [(raw_deliveryTag raw, res = Inr ACK)])\<rparr>"
    using handle_run [OF assms(2), of E raw] r assms(4) by simp
  have p: "run (process E m) (entered w) = (res, w1)"
    using r assms(3) by (auto simp: process_raw_def received_iff)
  have same: "accounts m d w w' = accounts m d (entered w) w1" "not_closed m w w' = not_closed m (entered w) w1" for d
    by (simp_all add: accounts_def others_kept_def attempt_status_def not_closed_def w'_eq entered_def)
  have "wp (process E m) (\<lambda>oc w'. oc = ACK \<or> not_closed m (entered w) w') (\<lambda>_. not_closed m (entered w)) (entered w)"
    by (rule process_reliable) (use assms in \<open>simp_all add: entered_def\<close>)
  then show ?thesis
    using process_wp [of E m "entered w"] p same assms(5) by (auto simp: wp_def split: sum.splits)
qed

lemma attempt_in_other:
  assumes "received Z c = Some mc" and "msg_jobId mc \<noteq> msg_jobId m"
  shows "attempt_in Z m c = None"
  using assms by (auto simp: attempt_in_def dest: variant_jobId)

lemma work_traced:
  assumes E: "zod_formats E = Z" and strict: "strict \<Longrightarrow> reliable E"
    and raw: "raw_content raw \<in> set (queue n (mainQueue TOPOLOGY))"
    and inv: "net_inv Z strict n" and m: "m \<in> submitted Z (node n)"
  shows "traced Z strict (work E raw n) m"
proof (cases "channel (node n)")
  case False
  then show ?thesis using inv m by (simp add: work_idle net_inv_def)
next
  case True
  let ?n' = "work E raw n" and ?acked = "acknowledged raw (node n) (node (work E raw n))"
  have before: "traced Z strict n m" using inv m by (simp add: net_inv_def)
  have w': "node ?n' = snd (run (handle E (Some raw)) (node n))" by (simp add: work_def Let_def)
  note eff = handle_effect [OF True w']
  have untouched: "traced Z strict ?n' m"
    if "attempt_in Z m (raw_content raw) = None" "\<And>a. attempt_of ?n' m a = attempt_of n m a"
      "\<exists>ms. mails (node ?n') = mails (node n) @ ms"
    using before that work_keeps_waiting [of Z n m _ raw E] work_keeps_buried mailed_kept
    by (elim traced_kept) auto
  show ?thesis
  proof (cases "received Z (raw_content raw)")
    case None
    then show ?thesis
      using eff(3) E by (intro untouched) (auto simp: attempt_in_def)
  next
    case (Some mc)
    then obtain m0 where m0: "m0 \<in> submitted Z (node n)" "mc\<lparr>msg_attempt := msg_attempt m0\<rparr> = m0"
      using inv raw dead_letter_queue_apart(5) unfolding net_inv_def by meson
    have pos: "0 \<le> msg_attempt mc" using received_valid [OF Some] by (simp add: valid_message_def safe_int_def)
    have cases: "(\<exists>d. accounts mc d (node n) (node ?n')) \<or> partial mc (node n) (node ?n') \<and> \<not> ?acked"
      using eff(2) Some E by blast
    show ?thesis
    proof (cases "m = m0")
      case True
      then have v: "mc\<lparr>msg_attempt := msg_attempt m\<rparr> = m" using m0 by simp
      note only = work_takes_only [OF Some v refl, of n E]
      show ?thesis
      proof (cases "\<exists>d. accounts mc d (node n) (node ?n')")
        case True
        then obtain d where d: "accounts mc d (node n) (node ?n')" ..
        have "takes_only Z m mc True n ?n'"
          using only by (auto simp: takes_only_def)
        from traced_acknowledged [OF this before d work_follows_up [OF Some v d] pos] show ?thesis .
      next
        case False
        then have p: "partial mc (node n) (node ?n')" and "\<not> ?acked" using cases by auto
        then have "takes_only Z m mc False n ?n'" using only by simp
        from traced_unacknowledged [OF this before p] show ?thesis
          using handle_reliable [OF strict \<open>channel (node n)\<close> _ w' False] Some E by blast
      qed
    next
      case False
      then have j: "msg_jobId mc \<noteq> msg_jobId m"
        using inv m m0 variant_jobId [OF m0(2)] unfolding net_inv_def by metis
      have "others_kept mc (node n) (node ?n')" "\<exists>ms. mails (node ?n') = mails (node n) @ ms"
        using cases by (auto simp: accounts_def partial_def)
      then show ?thesis
        using attempt_in_other [OF Some j] j by (intro untouched) (auto simp: others_kept_def)
    qed
  qed
qed

lemma submitted_append:
  "published w' = published w @ ps \<Longrightarrow> \<forall>p \<in> set ps. pub_exchange p \<noteq> exchange TOPOLOGY \<Longrightarrow> submitted Z w' = submitted Z w"
  by (auto simp: submitted_def)

lemma work_published:
  assumes "channel (node n)" and "zod_formats E = Z"
  shows "\<exists>ps. published (node (work E raw n)) = published (node n) @ ps \<and>
    (\<forall>p \<in> set ps. pub_exchange p \<noteq> exchange TOPOLOGY \<and>
      (\<forall>q \<in> set work_queues. reaches p q \<longrightarrow>
        (\<exists>mc k. received Z (raw_content raw) = Some mc \<and> pub_content p = message_text (mc\<lparr>msg_attempt := k\<rparr>) \<and>
           (k = msg_attempt mc \<or> 0 \<le> k \<and> k \<le> 5))))"
proof -
  let ?n' = "work E raw n"
  have w': "node ?n' = snd (run (handle E (Some raw)) (node n))" by (simp add: work_def Let_def)
  note eff = handle_effect [OF assms(1) w']
  show ?thesis
  proof (cases "received Z (raw_content raw)")
    case None
    then obtain k where "published (node ?n') = published (node n) @ take k
        [publication_of (deadLetterExchange TOPOLOGY) (deadLetterRoutingKey TOPOLOGY) (raw_content raw) None]"
      using eff(3) assms(2) by auto
    then show ?thesis
      using reaches_work_queue(2)
      by (intro exI [of _ "take k _"] conjI) (auto dest!: in_set_takeD simp: publication_of_def)
  next
    case (Some mc)
    have pos: "0 \<le> msg_attempt mc" using received_valid [OF Some] by (simp add: valid_message_def safe_int_def)
    obtain d i where d: "possible mc d" "published (node ?n') = published (node n) @ take i (emitted mc d)"
    proof -
      consider d where "accounts mc d (node n) (node ?n')" | "partial mc (node n) (node ?n')"
        using eff(2) Some assms(2) by blast
      then show thesis
      proof cases
        case 1
        then have "possible mc d" "published (node ?n') = published (node n) @ take (length (emitted mc d)) (emitted mc d)"
          using left_possible by (auto simp: accounts_def)
        then show thesis by (rule that)
      next
        case 2
        then show thesis using that unfolding partial_def by blast
      qed
    qed
    show ?thesis
      using d(2) emitted_not_submitted emitted_returns [OF d(1) pos] Some
      by (intro exI [of _ "take i (emitted mc d)"]) (auto dest!: in_set_takeD)
  qed
qed

lemma net_invI:
  assumes "\<And>q c m. q \<in> set work_queues \<Longrightarrow> c \<in> set (queue n q) \<Longrightarrow> received Z c = Some m \<Longrightarrow>
      \<exists>m0 \<in> submitted Z (node n). m\<lparr>msg_attempt := msg_attempt m0\<rparr> = m0"
    and "\<And>m m'. m \<in> submitted Z (node n) \<Longrightarrow> m' \<in> submitted Z (node n) \<Longrightarrow> msg_jobId m = msg_jobId m' \<Longrightarrow> m = m'"
    and "\<And>m. m \<in> submitted Z (node n) \<Longrightarrow> job_view (node n) (msg_jobId m) \<noteq> None"
    and "\<And>j a. attempt_status (node n) j a \<noteq> None \<Longrightarrow> job_view (node n) j \<noteq> None"
    and "\<And>m. m \<in> submitted Z (node n) \<Longrightarrow> traced Z strict n m"
  shows "net_inv Z strict n"
  unfolding net_inv_def using assms by blast

lemma net_invD:
  assumes "net_inv Z strict n"
  shows "q \<in> set work_queues \<Longrightarrow> c \<in> set (queue n q) \<Longrightarrow> received Z c = Some m \<Longrightarrow>
      \<exists>m0 \<in> submitted Z (node n). m\<lparr>msg_attempt := msg_attempt m0\<rparr> = m0"
    and "m \<in> submitted Z (node n) \<Longrightarrow> m' \<in> submitted Z (node n) \<Longrightarrow> msg_jobId m = msg_jobId m' \<Longrightarrow> m = m'"
    and "m \<in> submitted Z (node n) \<Longrightarrow> job_view (node n) (msg_jobId m) \<noteq> None"
    and "attempt_status (node n) j a \<noteq> None \<Longrightarrow> job_view (node n) j \<noteq> None"
    and "m \<in> submitted Z (node n) \<Longrightarrow> traced Z strict n m"
  using assms unfolding net_inv_def by blast+

lemma work_net_inv:
  assumes E: "zod_formats E = Z" and strict: "strict \<Longrightarrow> reliable E"
    and raw: "raw_content raw \<in> set (queue n (mainQueue TOPOLOGY))" and inv: "net_inv Z strict n"
  shows "net_inv Z strict (work E raw n)"
proof (cases "channel (node n)")
  case False
  then show ?thesis using inv by (simp add: work_idle)
next
  case True
  let ?n' = "work E raw n"
  have w': "node ?n' = snd (run (handle E (Some raw)) (node n))" by (simp add: work_def Let_def)
  note eff = handle_effect [OF True w']
  obtain ps where ps: "published (node ?n') = published (node n) @ ps"
      "\<forall>p \<in> set ps. pub_exchange p \<noteq> exchange TOPOLOGY"
      "\<And>p q. p \<in> set ps \<Longrightarrow> q \<in> set work_queues \<Longrightarrow> reaches p q \<Longrightarrow>
        \<exists>mc k. received Z (raw_content raw) = Some mc \<and> pub_content p = message_text (mc\<lparr>msg_attempt := k\<rparr>) \<and>
           (k = msg_attempt mc \<or> 0 \<le> k \<and> k \<le> 5)"
    using work_published [OF True E, of raw] by blast
  have sub: "submitted Z (node ?n') = submitted Z (node n)" by (rule submitted_append [OF ps(1,2)])
  have origin: "\<exists>m0 \<in> submitted Z (node n). mc\<lparr>msg_attempt := msg_attempt m0\<rparr> = m0"
    if "received Z (raw_content raw) = Some mc" for mc
    using net_invD(1) [OF inv dead_letter_queue_apart(5) raw that] .
  show ?thesis
  proof (rule net_invI, unfold sub eff(1))
    fix q c m
    assume q: "q \<in> set work_queues" and c: "c \<in> set (queue ?n' q)" and m: "received Z c = Some m"
    show "\<exists>m0 \<in> submitted Z (node n). m\<lparr>msg_attempt := msg_attempt m0\<rparr> = m0"
    proof (cases "c \<in> set (queue n q)")
      case True
      then show ?thesis by (rule net_invD(1) [OF inv q _ m])
    next
      case False
      then obtain p where "p \<in> set ps" "reaches p q" "c = pub_content p"
        using c settled_queue_sub unfolding work_queue newly_published_append [OF ps(1)] by blast
      then obtain mc k where mc: "received Z (raw_content raw) = Some mc" "c = message_text (mc\<lparr>msg_attempt := k\<rparr>)"
          "k = msg_attempt mc \<or> 0 \<le> k \<and> k \<le> 5"
        using ps(3) q by blast
      then have "m = mc\<lparr>msg_attempt := k\<rparr>" using received_republished [OF mc(1,3)] m by simp
      then show ?thesis using origin [OF mc(1)] by simp
    qed
  next
    fix j a
    assume a: "attempt_status (node ?n') j a \<noteq> None"
    show "job_view (node n) j \<noteq> None"
    proof (cases "received Z (raw_content raw)")
      case None
      then show ?thesis using eff(3) E a net_invD(4) [OF inv] by simp
    next
      case (Some mc)
      then have "others_kept mc (node n) (node ?n')" using eff(2) E by (auto simp: accounts_def partial_def)
      moreover have "job_view (node n) (msg_jobId mc) \<noteq> None"
        using origin [OF Some] net_invD(3) [OF inv] variant_jobId by metis
      ultimately show ?thesis
        using a net_invD(4) [OF inv] by (cases "j = msg_jobId mc") (auto simp: others_kept_def)
    qed
  qed (use net_invD(2,3) [OF inv] work_traced [OF E strict raw inv] in blast)+
qed

section \<open>The other steps\<close>

text \<open>A step that delivers nothing: messages only move between the queues a worker takes them from.\<close>

lemma quiet_net_inv:
  assumes inv: "net_inv Z strict n"
    and same: "delivery_kept (node n) (node n')" "published (node n') = published (node n)"
    and known: "\<And>i. job_view (node n) i \<noteq> None \<Longrightarrow> job_view (node n') i \<noteq> None"
    and out: "\<And>q c. q \<in> set work_queues \<Longrightarrow> c \<in> set (queue n q) \<Longrightarrow> \<exists>q' \<in> set work_queues. c \<in> set (queue n' q')"
    and into: "\<And>q c. q \<in> set work_queues \<Longrightarrow> c \<in> set (queue n' q) \<Longrightarrow> \<exists>q' \<in> set work_queues. c \<in> set (queue n q')"
    and dead: "set (queue n (deadLetterQueue TOPOLOGY)) \<subseteq> set (queue n' (deadLetterQueue TOPOLOGY))"
  shows "net_inv Z strict n'"
proof -
  have sub: "submitted Z (node n') = submitted Z (node n)" by (simp add: submitted_def same(2))
  have st: "attempt_status (node n') = attempt_status (node n)" and ml: "mails (node n') = mails (node n)"
    using same(1) by (simp_all add: delivery_kept_def attempt_status_def fun_eq_iff)
  have w: "waiting Z n' m b" if wt: "waiting Z n m b" for m b
  proof -
    obtain q c where "q \<in> set work_queues" "c \<in> set (queue n q)" and c: "attempt_in Z m c = Some b"
      using wt unfolding waiting_def by blast
    then obtain q' where "q' \<in> set work_queues" "c \<in> set (queue n' q')" using out by blast
    then show ?thesis by (rule waitingI [OF _ _ c])
  qed
  have bu: "buried Z n m \<Longrightarrow> buried Z n' m" for m using dead unfolding buried_def by blast
  show ?thesis
  proof (rule net_invI, unfold sub st)
    fix q c m
    assume "q \<in> set work_queues" "c \<in> set (queue n' q)" and m: "received Z c = Some m"
    then obtain q' where q': "q' \<in> set work_queues" "c \<in> set (queue n q')" using into by blast
    show "\<exists>m0 \<in> submitted Z (node n). m\<lparr>msg_attempt := msg_attempt m0\<rparr> = m0"
      by (rule net_invD(1) [OF inv q' m])
  next
    fix m
    assume "m \<in> submitted Z (node n)"
    from net_invD(5) [OF inv this] show "traced Z strict n' m"
      by (rule traced_kept [OF _ _ w bu]) (simp_all add: st ml mailed_def)
  next
    show "m = m'" if "m \<in> submitted Z (node n)" "m' \<in> submitted Z (node n)" "msg_jobId m = msg_jobId m'" for m m'
      using net_invD(2) [OF inv that] .
    show "job_view (node n') (msg_jobId m) \<noteq> None" if "m \<in> submitted Z (node n)" for m
      by (rule known [OF net_invD(3) [OF inv that]])
    show "job_view (node n') j \<noteq> None" if "attempt_status (node n) j a \<noteq> None" for j a
      by (rule known [OF net_invD(4) [OF inv that]])
  qed
qed

text \<open>What reads or marks jobs publishes nothing and forgets no job.\<close>

definition no_news :: "'r world \<Rightarrow> 'r world \<Rightarrow> bool" where
  "no_news w w' \<longleftrightarrow> published w' = published w \<and> dom (job_view w) \<subseteq> dom (job_view w')"

interpretation no_news: frame_relation no_news
  by unfold_locales (auto simp: no_news_def)

lemma no_news_parts:
  "keeps no_news (findById E i)" "keeps no_news (mark E s c i)" "keeps no_news (channel_settle E raw ack)"
proof -
  show "keeps no_news (findById E i)"
    by (rule keepsI, rule wp_mono [OF find_full]) (auto simp: no_news_def database_only_parts)
  show "keeps no_news (mark E s c i)"
    by (rule keepsI, rule wp_mono [OF wp_conj [OF repo.mark_keeps_domain keepsD [OF database_only_repo(3)]]])
      (auto simp: no_news_def database_only_parts)
  show "keeps no_news (channel_settle E raw ack)"
    by (rule keepsI) (simp add: wp_channel_settle Let_def no_news_def job_view_fun)
qed

lemma no_news_handlers: "keeps no_news (handle_status E raw)" "keeps no_news (get_email_job E g key i)"
proof -
  show "keeps no_news (handle_status E raw)"
    unfolding handle_status_def apply_event_mark by (intro no_news.keeps_intros no_news_parts)
  have lift: "keeps no_news (lift_sum v)" for v :: "exn + 'x"
    unfolding lift_sum_def by (intro no_news.keeps_intros)
  have filter: "keeps no_news m \<Longrightarrow> keeps no_news (filtered g m)" for m :: "('r, 'o reply) io" and g
    unfolding filtered_def by (intro no_news.keeps_catch) (auto simp: no_news.keeps_Resolve split: prod.split)
  show "keeps no_news (get_email_job E g key i)"
    unfolding get_email_job_def controller_getStatus_def getStatus_def
    by (intro filter no_news.keeps_intros no_news_parts lift)
qed

lemma no_news_D:
  assumes "no_news w w'"
  shows "published w' = published w" and "newly_published w w' = []" and "job_view w i \<noteq> None \<Longrightarrow> job_view w' i \<noteq> None"
  using assms by (auto simp: no_news_def newly_published_def)

lemma report_net_inv: "net_inv Z strict n \<Longrightarrow> net_inv Z strict (report E raw n)"
proof (erule quiet_net_inv)
  let ?w' = "node (report E raw n)"
  have w': "?w' = snd (run (handle_status E (Some raw)) (node n))" by (simp add: report_def Let_def)
  have "no_news (node n) ?w'" unfolding w' by (rule keeps_run [OF no_news_handlers(1)])
  note q = no_news_D [OF this]
  have qs: "queue (report E raw n) = settled_queue (statusQueue TOPOLOGY) raw n ?w'"
    using q(2) by (simp add: report_def Let_def)
  show "delivery_kept (node n) ?w'" unfolding w' by (rule keeps_run [OF delivery_kept_status])
  show "published ?w' = published (node n)" by (rule q(1))
  show "job_view (node n) i \<noteq> None \<Longrightarrow> job_view ?w' i \<noteq> None" for i by (rule q(3))
  have same: "queue (report E raw n) q = queue n q" if "q \<noteq> statusQueue TOPOLOGY" for q
    using that by (simp add: qs settled_queue_def)
  have apart: "q \<noteq> statusQueue TOPOLOGY" if "q \<in> set work_queues" for q
    using that dead_letter_queue_apart(2) by blast
  show "\<exists>q' \<in> set work_queues. c \<in> set (queue (report E raw n) q')" if "q \<in> set work_queues" "c \<in> set (queue n q)" for q c
    using that same [OF apart [OF that(1)]] by (intro bexI [of _ q]) simp_all
  show "\<exists>q' \<in> set work_queues. c \<in> set (queue n q')" if "q \<in> set work_queues" "c \<in> set (queue (report E raw n) q)" for q c
    using that same [OF apart [OF that(1)]] by (intro bexI [of _ q]) simp_all
  show "set (queue n (deadLetterQueue TOPOLOGY)) \<subseteq> set (queue (report E raw n) (deadLetterQueue TOPOLOGY))"
    using same [of "deadLetterQueue TOPOLOGY"] dead_letter_queue_apart(4) by simp
qed

lemma read_net_inv: "net_inv Z strict n \<Longrightarrow> net_inv Z strict (serve (get_email_job E g key i) n)"
proof (erule quiet_net_inv)
  let ?n' = "serve (get_email_job E g key i) n"
  have w': "node ?n' = snd (run (get_email_job E g key i) (node n))" by (simp add: serve_def Let_def)
  have "no_news (node n) (node ?n')" unfolding w' by (rule keeps_run [OF no_news_handlers(2)])
  note q = no_news_D [OF this]
  have qs: "queue ?n' = queue n" using q(2) by (simp add: serve_def Let_def)
  show "delivery_kept (node n) (node ?n')" unfolding w' by (rule keeps_run [OF delivery_kept_requests(2)])
  show "published (node ?n') = published (node n)" by (rule q(1))
  show "job_view (node n) i' \<noteq> None \<Longrightarrow> job_view (node ?n') i' \<noteq> None" for i' by (rule q(3))
  show "\<exists>q' \<in> set work_queues. c \<in> set (queue ?n' q')" if "q \<in> set work_queues" "c \<in> set (queue n q)" for q c
    using that qs by auto
  show "\<exists>q' \<in> set work_queues. c \<in> set (queue n q')" if "q \<in> set work_queues" "c \<in> set (queue ?n' q)" for q c
    using that qs by auto
  show "set (queue n (deadLetterQueue TOPOLOGY)) \<subseteq> set (queue ?n' (deadLetterQueue TOPOLOGY))"
    by (simp add: qs)
qed

lemma expire_net_inv:
  assumes "net_inv Z strict n" and c: "c \<in> set (queue n q)" and q: "has_ttl q"
  shows "net_inv Z strict (expire q c n)"
proof (rule quiet_net_inv [OF assms(1)])
  note e = has_ttl_expires [OF q]
  have qs: "set (queue (expire q c n) q') =
      set (((queue n)(q := remove1 c (queue n q))) q') \<union> (if q' = mainQueue TOPOLOGY then {c} else {})" for q'
    by (auto simp: expire_def e(3))
  show "\<exists>q' \<in> set work_queues. c' \<in> set (queue (expire q c n) q')" if "q1 \<in> set work_queues" "c' \<in> set (queue n q1)" for q1 c'
  proof (cases "q1 = q \<and> c' = c")
    case True
    then show ?thesis using dead_letter_queue_apart(5) by (intro bexI [of _ "mainQueue TOPOLOGY"]) (simp_all add: qs)
  next
    case False
    then show ?thesis using that by (intro bexI [of _ q1]) (auto simp: qs set_remove1_sub)
  qed
  show "set (queue n (deadLetterQueue TOPOLOGY)) \<subseteq> set (queue (expire q c n) (deadLetterQueue TOPOLOGY))"
    using e(1) dead_letter_queue_apart(1) by (auto simp: qs)
  show "\<exists>q' \<in> set work_queues. c' \<in> set (queue n q')"
    if "q1 \<in> set work_queues" "c' \<in> set (queue (expire q c n) q1)" for q1 c'
  proof (cases "c' = c")
    case True
    then show ?thesis using c e(1) by (intro bexI [of _ q]) simp_all
  next
    case False
    then have "c' \<in> set (queue n q1)"
      using that(2) by (auto simp: qs split: if_splits dest: set_remove1_subset [THEN subsetD])
    then show ?thesis using that(1) by (intro bexI [of _ q1])
  qed
qed (simp_all add: expire_def delivery_kept_def)

text \<open>
  What the following relies on of the environment: \<open>randomUUID\<close> makes texts zod takes for UUIDs, and
  the clock shows a positive time a double can hold.
\<close>

definition plausible :: "zod \<Rightarrow> 'r services \<Rightarrow> bool" where
  "plausible Z E \<longleftrightarrow> zod_formats E = Z \<and> (\<forall>s. zod_uuid Z (random_uuid E s)) \<and> (\<forall>t. safe_int 1 (clock E t))"

lemma reaches_work: "reaches (job_publication i now b) q \<longleftrightarrow> q = mainQueue TOPOLOGY"
  by (simp add: reaches_def job_publication_def publication_of_def TOPOLOGY_def topology_commands_eq)

lemma serve_queue:
  assumes "published (node (serve m n)) = published (node n) @ ps"
  shows "queue (serve m n) = fold enqueue ps (queue n)"
  using newly_published_append [OF assms] by (simp add: serve_def Let_def)

lemma post_net_inv:
  assumes E: "plausible Z E" and inv: "net_inv Z strict n"
  shows "net_inv Z strict (serve (post_email_job E g apiKey key body) n)"
proof -
  let ?n' = "serve (post_email_job E g apiKey key body) n"
  have w': "node ?n' = snd (run (post_email_job E g apiKey key body) (node n))" by (simp add: serve_def Let_def)
  have kept: "delivery_kept (node n) (node ?n')" unfolding w' by (rule keeps_run [OF delivery_kept_requests(1)])
  have "node ?n' = node n \<or> (\<exists>b. valid_body Z b \<and> posted E b (node n) (node ?n'))"
    using post_posted [of E g apiKey key body "node n"] E w' by (auto simp: wp_def plausible_def split: prod.splits sum.splits)
  then show ?thesis
  proof (elim disjE exE conjE)
    assume 2: "node ?n' = node n"
    then have "queue ?n' = queue n" using serve_queue [of "post_email_job E g apiKey key body" n "[]"] by simp
    then have "?n' = n" using 2 by (cases ?n'; cases n) simp
    then show ?thesis using inv by simp
  next
    fix b
    assume b: "valid_body Z b" "posted E b (node n) (node ?n')"
    have known: "job_view (node n) i \<noteq> None \<Longrightarrow> job_view (node ?n') i \<noteq> None" for i
      using b(2) by (simp add: posted_def)
    show ?thesis
    proof (cases "published (node ?n') = published (node n)")
      case True
      then have "queue ?n' = queue n" using serve_queue [of "post_email_job E g apiKey key body" n "[]"] by simp
      then show ?thesis
        by (intro quiet_net_inv [OF inv kept True known]) auto
    next
      case False
      then obtain s t where ps: "published (node ?n') = published (node n) @ [job_publication (random_uuid E s) (clock E t) b]"
          and new: "job_view (node n) (random_uuid E s) = None" "job_view (node ?n') (random_uuid E s) \<noteq> None"
        using b(2) by (auto simp: posted_def)
      let ?p = "job_publication (random_uuid E s) (clock E t) b"
      define m where "m = job_message (random_uuid E s) (body_provider_of b) (clock E t) b"
      have rec: "received Z (pub_content ?p) = Some m"
        using job_publication_valid [OF b(1), of "random_uuid E s" "clock E t"] E by (simp add: received_iff plausible_def m_def)
      have id: "msg_jobId m = random_uuid E s" and a0: "msg_attempt m = 0" by (simp_all add: m_def job_message_def)
      have sub: "submitted Z (node ?n') = insert m (submitted Z (node n))"
        using rec by (auto simp: submitted_def ps job_publication_def publication_of_def)
      have qs: "set (queue ?n' q) = set (queue n q) \<union> (if q = mainQueue TOPOLOGY then {pub_content ?p} else {})" for q
        using set_enqueued [of "[?p]" "queue n" q] by (auto simp: serve_queue [OF ps] reaches_work)
      have st: "attempt_status (node ?n') = attempt_status (node n)" and ml: "mails (node ?n') = mails (node n)"
        using kept by (simp_all add: delivery_kept_def attempt_status_def fun_eq_iff)
      have old: "msg_jobId m' \<noteq> random_uuid E s" if "m' \<in> submitted Z (node n)" for m'
        using net_invD(3) [OF inv that] new(1) by metis
      have main: "pub_content ?p \<in> set (queue ?n' (mainQueue TOPOLOGY))" by (simp add: qs)
      show ?thesis
      proof (rule net_invI, unfold sub st)
        fix q c m'
        assume q: "q \<in> set work_queues" and c: "c \<in> set (queue ?n' q)" and m': "received Z c = Some m'"
        show "\<exists>m0 \<in> insert m (submitted Z (node n)). m'\<lparr>msg_attempt := msg_attempt m0\<rparr> = m0"
        proof (cases "c \<in> set (queue n q)")
          case True
          then show ?thesis using net_invD(1) [OF inv q True m'] by blast
        next
          case False
          then have "c = pub_content ?p" using c by (auto simp: qs split: if_splits)
          then have "m' = m" using rec m' by simp
          then show ?thesis by simp
        qed
      next
        show "m1 = m2" if "m1 \<in> insert m (submitted Z (node n))" "m2 \<in> insert m (submitted Z (node n))" "msg_jobId m1 = msg_jobId m2"
          for m1 m2 using that net_invD(2) [OF inv] old id by (metis insert_iff)
        show "job_view (node ?n') (msg_jobId m') \<noteq> None" if "m' \<in> insert m (submitted Z (node n))" for m'
          using that new(2) id known net_invD(3) [OF inv] by (metis insert_iff)
        show "job_view (node ?n') j \<noteq> None" if "attempt_status (node n) j a \<noteq> None" for j a
          by (rule known [OF net_invD(4) [OF inv that]])
      next
        fix m'
        assume "m' \<in> insert m (submitted Z (node n))"
        then consider "m' = m" | "m' \<in> submitted Z (node n)" by blast
        then show "traced Z strict ?n' m'"
        proof cases
          case 1
          have none: "attempt_of ?n' m a = None" for a
            using net_invD(4) [OF inv, of "random_uuid E s" a] new(1)
            by (cases "attempt_status (node n) (random_uuid E s) a") (simp_all add: st id)
          have "waiting Z ?n' m 0"
            by (rule waitingI [OF dead_letter_queue_apart(5) main]) (use rec a0 in \<open>simp add: attempt_in_def\<close>)
          then show ?thesis using none 1 by (intro tracedI) auto
        next
          case 2
          have more: "set (queue n q) \<subseteq> set (queue ?n' q)" for q by (simp add: qs)
          from net_invD(5) [OF inv 2] show ?thesis
          proof (rule traced_kept)
            show "waiting Z ?n' m' a" if "waiting Z n m' a" for a
              using that more unfolding waiting_def by blast
            show "buried Z n m' \<Longrightarrow> buried Z ?n' m'" using more unfolding buried_def by blast
          qed (simp_all add: st ml mailed_def)
        qed
      qed
    qed
  qed
qed

lemma connection_net_inv: "net_inv Z strict n \<Longrightarrow> net_inv Z strict (n\<lparr>node := (node n)\<lparr>channel := up\<rparr>\<rparr>)"
  by (erule quiet_net_inv) (auto simp: delivery_kept_def job_view_fun)

lemma net_step_inv:
  assumes "net_step g Es n n'" and "net_inv Z strict n"
    and "\<forall>E \<in> Es. plausible Z E \<and> (strict \<longrightarrow> reliable E)"
  shows "net_inv Z strict n'"
  using assms(1)
proof (cases rule: net_step.cases)
  case (step_work E raw)
  then show ?thesis using assms(2,3) by (auto simp: plausible_def intro: work_net_inv)
qed (use assms(2,3) in \<open>auto intro: report_net_inv read_net_inv post_net_inv expire_net_inv connection_net_inv\<close>)

lemma fresh_net_inv: "fresh_net n \<Longrightarrow> net_inv Z strict n"
  by (simp add: net_inv_def fresh_net_def submitted_def attempt_status_def)

lemma net_reachable_inv:
  assumes "(net_step g Es)\<^sup>*\<^sup>* n0 n" and "fresh_net n0"
    and "\<forall>E \<in> Es. plausible Z E \<and> (strict \<longrightarrow> reliable E)"
  shows "net_inv Z strict n"
  using assms(1)
proof induction
  case base
  then show ?case by (rule fresh_net_inv [OF assms(2)])
next
  case (step n1 n2)
  then show ?case using net_step_inv [OF step(2) step(3) assms(3)] by simp
qed

end
