(* ===== verification/EndToEnd.thy ===== *)
theory EndToEnd
  imports Pipeline "HOL-Library.Multiset"
begin

text \<open>
  One job from its submission to its delivery and back, on services that work: the calls complete,
  the mail server accepts, the limiter has a token and the breaker is not open. The lemmas give what
  each of the four handlers does then; theory \<open>PipelineProperties\<close> composes them.
\<close>

definition healthy :: "nat \<Rightarrow> nat \<Rightarrow> 'r services \<Rightarrow> bool" where
  "healthy rate burst E \<longleftrightarrow>
     reliable E \<and> plausible (zod_formats E) E \<and> redis_strings E \<and>
     (\<forall>x k v ttl key. redis_hmget E (snd (redis_set_nx_ex E x k v ttl)) key = redis_hmget E x key) \<and>
     (\<forall>n. \<not> ack_throws E n) \<and> (\<forall>n m. \<exists>i. smtp_server E n m = SmtpAccepted i) \<and>
     (\<forall>s t. clock E s - clock E t < 2 ^ 31) \<and>
     env_text E ''RATE_LIMIT_PER_SECOND'' = show_nat rate \<and> env_text E ''RATE_LIMIT_BURST'' = show_nat burst \<and>
     0 < rate \<and> rate \<le> 2 ^ 53 \<and> burst \<le> 2 ^ 53"

definition ready :: "nat \<Rightarrow> nat \<Rightarrow> 'r services \<Rightarrow> string \<Rightarrow> 'r world \<Rightarrow> bool" where
  "ready rate burst E k w \<longleftrightarrow>
     channel w \<and> redis_get E (redis w) (idem_key k) = None \<and>
     (\<forall>j \<in> set (jobs w). ej_idempotencyKey j \<noteq> k \<and> (\<forall>s. ej_id j \<noteq> random_uuid E s)) \<and>
     (\<forall>row \<in> set (ledger w). \<forall>s. row_id row \<noteq> random_uuid E s \<and> job_id row \<noteq> random_uuid E s) \<and>
     bucket_ok burst (redis_hmget E (redis w) ''rl:smtp'') \<and>
     (\<forall>t. 1 \<le> available rate burst (nat (clock E t)) (redis_hmget E (redis w) ''rl:smtp'')) \<and>
     (case breakers w ''smtp'' of None \<Rightarrow> True | Some b \<Rightarrow> state b \<noteq> OPEN)"

text \<open>What a successful submission leaves to the worker.\<close>

definition handed_over :: "'r services \<Rightarrow> 'r world \<Rightarrow> 'r world \<Rightarrow> bool" where
  "handed_over E w w' \<longleftrightarrow>
     channel w' = channel w \<and> ledger w' = ledger w \<and> mails w' = mails w \<and> breakers w' = breakers w \<and>
     redis_hmget E (redis w') = redis_hmget E (redis w)"

lemma create_fresh:
  assumes "\<forall>j \<in> set t. ej_idempotencyKey j \<noteq> in_idempotencyKey i \<and> ej_id j \<noteq> in_id i"
  shows "prisma_create i now t = (Inr (new_job i now), t @ [new_job i now])"
  using assms by (auto simp: prisma_create_def)

lemma submit_healthy:
  assumes h: "healthy rate burst E" and r: "ready rate burst E k w"
  shows "wp (submit E k b)
     (\<lambda>r w'. \<exists>t. published w' = published w @ [job_publication (random_uuid E (steps w)) t b] \<and> safe_int 1 t \<and>
        res_id r = random_uuid E (steps w) \<and> res_status r = ''PUBLISHED'' \<and> \<not> res_duplicate r \<and>
        (\<exists>rec. job_view w' (random_uuid E (steps w)) = Some rec \<and> r = toEmailJobResponse rec False) \<and>
        handed_over E w w')
     (\<lambda>_ _. False) w"
proof -
  obtain r where set: "redis_set_nx_ex E (redis w) (idem_key k) (random_uuid E (steps w)) IDEMPOTENCY_TTL_SECONDS = (True, r)"
    using redis_strings_set(1) [of E "redis w" "idem_key k" "random_uuid E (steps w)" IDEMPOTENCY_TTL_SECONDS] h r
    by (cases "redis_set_nx_ex E (redis w) (idem_key k) (random_uuid E (steps w)) IDEMPOTENCY_TTL_SECONDS")
      (auto simp: healthy_def ready_def)
  have hm: "redis_hmget E r = redis_hmget E (redis w)"
    using h set unfolding healthy_def by (metis ext snd_conv)
  have c: "prisma_create (create_input (random_uuid E (steps w)) k p b) now (jobs w) =
      (Inr (new_job (create_input (random_uuid E (steps w)) k p b) now),
       jobs w @ [new_job (create_input (random_uuid E (steps w)) k p b) now])" for p now
    by (rule create_fresh) (use r in \<open>auto simp: ready_def create_input_def\<close>)
  let ?i = "random_uuid E (steps w)"
  let ?j = "\<lambda>p now. new_job (create_input ?i k p b) now"
  have f: "prisma_findUnique ?i (jobs w @ [?j p now]) = Some (?j p now)" for p now
  proof -
    have "List.find (\<lambda>j. ej_id j = ?i) (jobs w) = None"
      using r by (auto simp: find_None_iff ready_def)
    then show ?thesis by (simp add: prisma_findUnique_def find_job_append new_job_def)
  qed
  then have u: "prisma_update ?i (publishedData t) (jobs w @ [?j p now]) =
      (Inr (), prisma_updateMany ?i (publishedData t) (jobs w @ [?j p now]))" for p now t
    by (simp add: prisma_update_def)
  have g: "prisma_findUnique ?i (prisma_updateMany ?i (publishedData t) (jobs w @ [?j p now])) = Some (publishedData t (?j p now))"
    for p now t
    by (simp add: findUnique_updateMany f)
  have id: "msg_jobId (job_message ?i p now b) = ?i" for p now by (simp add: job_message_def)
  have v: "toEmailJobResponse (toRecord (publishedData t (?j p now))) False =
      \<lparr>res_id = ?i, res_status = ''PUBLISHED'', res_createdAt = toISOString now, res_duplicate = False\<rparr>" for p now t
    by (simp add: toEmailJobResponse_def toRecord_def publishedData_def new_job_def create_input_def)
  have s: "safe_int 1 (clock E n)" for n using h by (simp add: healthy_def plausible_def)
  show ?thesis
    using h r set hm
    by (simp add: submit_eq wp_rules redis_set_nx_def Let_def repo_create_def c u f g id publish_or_release_def publish_job_def
      markPublished_def findById_def healthy_def reliable_def ready_def)
      (rule exI [of _ "clock E (Suc (Suc (Suc (steps w))))"];
       simp add: job_publication_def job_view_def g v s handed_over_def)
qed

section \<open>The worker\<close>

lemma acquire_healthy:
  assumes h: "healthy rate burst E"
    and b: "bucket_ok burst (redis_hmget E (redis w) k)"
    and a: "\<forall>t. 1 \<le> available rate burst (nat (clock E t)) (redis_hmget E (redis w) k)"
  shows "\<exists>r. \<forall>Q R. wp (acquire E k) Q R w \<longleftrightarrow> Q True (w\<lparr>steps := Suc (Suc (steps w)), redis := r\<rparr>)"
proof -
  let ?t = "nat (clock E (steps w))"
  have t: "safe_int 1 (clock E (steps w))" using h by (simp add: healthy_def plausible_def)
  have e: "env_text E ''RATE_LIMIT_PER_SECOND'' = show_nat rate" "env_text E ''RATE_LIMIT_BURST'' = show_nat burst"
    and n: "0 < rate" "rate \<le> 2 ^ 53" "burst \<le> 2 ^ 53" and f: "fate E s = Completes" for s
    using h by (simp_all add: healthy_def reliable_def)
  have "?t \<le> 2 ^ 53" and now: "show_int (clock E (steps w)) = show_nat ?t"
    using t by (auto simp: safe_int_def show_int_def)
  then obtain res ms where res: "TOKEN_BUCKET_SCRIPT (show_nat rate) (show_nat burst) (show_nat ?t) (redis_hmget E (redis w) k) = Some res"
      "allowed res" "pexpire res = Some ms"
    using script_numbers [OF n(2,3) _ b, of ?t] a n(1) by auto
  show ?thesis
    by (rule exI [of _ "redis_pexpire E (redis_hset E (redis w) k (hset res)) k ms"])
      (simp add: acquire_def wp_rules Let_def e f now res)
qed

lemma process_healthy:
  assumes h: "healthy rate burst E" and ch: "channel w"
    and m: "msg_provider m = Smtp" "int4 (msg_attempt m)"
    and b: "bucket_ok burst (redis_hmget E (redis w) ''rl:smtp'')"
      "\<forall>t. 1 \<le> available rate burst (nat (clock E t)) (redis_hmget E (redis w) ''rl:smtp'')"
    and br: "case breakers w ''smtp'' of None \<Rightarrow> True | Some b \<Rightarrow> state b \<noteq> OPEN"
    and l: "\<forall>row \<in> set (ledger w). \<not> is_attempt (msg_jobId m) (msg_attempt m) row \<and> (\<forall>s. row_id row \<noteq> random_uuid E s)"
  shows "wp (process E m)
     (\<lambda>r w'. r = ACK \<and> (\<exists>mid n. published w' = published w @ [status_publication m DELIVERED (msg_attempt m) (Some mid) None (clock E n)]) \<and>
        mails w' = mails w @ [mail_of m] \<and> channel w' \<and> jobs w' = jobs w)
     (\<lambda>_ _. False) w"
proof -
  obtain r where acq: "wp (acquire E ''rl:smtp'') Q R w \<longleftrightarrow> Q True (w\<lparr>steps := Suc (Suc (steps w)), redis := r\<rparr>)" for Q R
    using acquire_healthy [OF h b] by blast
  have f: "fate E s = Completes" and d: "clock E s - clock E t < 2 ^ 31" and sm: "\<exists>i. smtp_server E s mail = SmtpAccepted i" for s t mail
    using h by (simp_all add: healthy_def reliable_def)
  have lat: "int4 (clock E s - clock E t)" for s t
    using d [of s t] d [of t s] by (simp add: int4_def)
  obtain T where T: "T s p = snd (insert_attempt (random_uuid E s) (msg_jobId m) (msg_attempt m) p (ledger w))" for s p
    by (rule that) (rule refl)
  have ins: "insert_attempt (random_uuid E s) (msg_jobId m) (msg_attempt m) p (ledger w) = (Inr [random_uuid E s], T s p)" for s p
    using l m(2) by (auto simp: T insert_attempt_def)
  obtain U where U: "U c t = snd (update_attempt (msg_jobId m) (msg_attempt m) c t)" for c t
    by (rule that) (rule refl)
  have upd: "update_attempt (msg_jobId m) (msg_attempt m)
      \<lparr>c_outcome = x, c_messageId = y, c_errorCode = z, c_latencyMs = Some (clock E s - clock E s')\<rparr> t =
      (Inr (), U \<lparr>c_outcome = x, c_messageId = y, c_errorCode = z, c_latencyMs = Some (clock E s - clock E s')\<rparr> t)" for x y z s s' t
    using lat m(2) by (simp add: U update_attempt_def)
  obtain I where I: "smtp_server E s mail = SmtpAccepted (I s mail)" for s mail
    using h unfolding healthy_def by metis
  show ?thesis
    using ch m(1) br
    by (simp add: process_def Let_def wp_bind acq isOpen_closed reserve_def wp_pg_query f ins wp_Resolve wp_date_now
        wp_try_catch send_and_record_def resolve_def provider_map_def smtp_send_def wp_send_mail I complete_def upd
        breaker_recordSuccess_def wp_modify wp_counters publishStatus_def wp_publish mail_of_def
        status_publication_def status_event_def)
      (rule exI, rule exI, rule refl)
qed

lemma handle_healthy:
  assumes h: "healthy rate burst E" and ch: "channel w"
    and rec: "received (zod_formats E) (raw_content raw) = Some m"
    and m: "msg_provider m = Smtp" "int4 (msg_attempt m)"
    and b: "bucket_ok burst (redis_hmget E (redis w) ''rl:smtp'')"
      "\<forall>t. 1 \<le> available rate burst (nat (clock E t)) (redis_hmget E (redis w) ''rl:smtp'')"
    and br: "case breakers w ''smtp'' of None \<Rightarrow> True | Some b \<Rightarrow> state b \<noteq> OPEN"
    and l: "\<forall>row \<in> set (ledger w). \<not> is_attempt (msg_jobId m) (msg_attempt m) row \<and> (\<forall>s. row_id row \<noteq> random_uuid E s)"
  shows "\<exists>w' mid n. run (handle E (Some raw)) w = (Inr (), w') \<and> acknowledged raw w w' \<and>
     published w' = published w @ [status_publication m DELIVERED (msg_attempt m) (Some mid) None (clock E n)] \<and>
     mails w' = mails w @ [mail_of m] \<and> channel w' \<and> jobs w' = jobs w"
proof -
  have "process_raw E raw = process E m"
    using rec by (auto simp: process_raw_def received_iff)
  moreover have "wp (process E m)
     (\<lambda>r w'. r = ACK \<and> (\<exists>mid n. published w' = published w @ [status_publication m DELIVERED (msg_attempt m) (Some mid) None (clock E n)]) \<and>
        mails w' = mails w @ [mail_of m] \<and> channel w' \<and> jobs w' = jobs w) (\<lambda>_ _. False) (entered w)"
    using process_healthy [OF h _ m, of "entered w"] ch b br l by (simp add: entered_def)
  ultimately obtain w1 mid n where "run (process_raw E raw) (entered w) = (Inr ACK, w1)"
      "published w1 = published w @ [status_publication m DELIVERED (msg_attempt m) (Some mid) None (clock E n)]"
      "mails w1 = mails w @ [mail_of m]" "channel w1" "jobs w1 = jobs w"
    by (auto simp: wp_def split: prod.splits sum.splits)
  then show ?thesis
    using handle_run [OF ch, of E raw] h by (auto simp: acknowledged_def healthy_def)
qed

section \<open>The way back\<close>

lemma status_publication_parsed:
  assumes "zod_uuid (zod_formats E) (msg_jobId m)" and "safe_int 0 att" and "safe_int 1 t"
  shows "\<exists>e. parse_event E \<lparr>raw_content = pub_content (status_publication m st att mid code t), raw_deliveryTag = tag\<rparr> = Some e \<and>
    ev_jobId e = msg_jobId m \<and> ev_status e = st"
proof -
  let ?e = "status_event m st att mid code t"
  have "valid_event (zod_formats E) ?e" using assms by (simp add: valid_event_def status_event_def)
  from event_text_roundtrip [OF this] show ?thesis
    by (auto simp: parse_event_def status_publication_def publication_of_def event_text_def status_event_def)
qed

lemma status_healthy:
  assumes h: "healthy rate burst E" and ch: "channel w"
    and e: "parse_event E raw = Some e" "ev_status e = DELIVERED"
  shows "\<exists>w'. run (handle_status E (Some raw)) w = (Inr (), w') \<and> acknowledged raw w w' \<and>
     job_view w' = updated e (job_view w) \<and> published w' = published w \<and> mails w' = mails w"
proof -
  have f: "fate E n = Completes" and a: "\<not> ack_throws E n" for n
    using h by (simp_all add: healthy_def reliable_def)
  have d: "job_view (v\<lparr>jobs := prisma_updateMany i (deliveredData t) (jobs w), steps := n, settled := s\<rparr>) =
      (job_view w)(i := map_option (with_status JOB_DELIVERED) (job_view w i))" for v :: "'a world" and n i t s
    using view_updateMany [of "deliveredData t" JOB_DELIVERED i "jobs w", OF keeps_keys_data(2) toRecord_data(2)]
    by (simp add: job_view_fun)
  have "wp (handle_status E (Some raw)) (\<lambda>_ w'. acknowledged raw w w' \<and>
     job_view w' = updated e (job_view w) \<and> published w' = published w \<and> mails w' = mails w) (\<lambda>_ _. False) w"
    using ch e
    by (simp add: handle_status_def wp_rules apply_event_def markDelivered_def Let_def f a wp_channel_settle acknowledged_def
      updated_def d)
  then show ?thesis by (auto simp: wp_def split: prod.splits sum.splits)
qed

lemma get_healthy:
  assumes h: "healthy rate burst E" and a: "authorised E apiKey" and v: "job_view w i = Some rec"
  shows "fst (run (get_email_job E g apiKey i) w) = Inr (HttpAnswer 200 (toEmailJobResponse rec False))"
proof -
  have f: "fate E n = Completes" for n using h by (simp add: healthy_def reliable_def)
  have "wp (get_email_job E g apiKey i) (\<lambda>r _. r = HttpAnswer 200 (toEmailJobResponse rec False)) (\<lambda>_ _. False) w"
    using a v by (auto simp: get_email_job_def filtered_def wp_rules canActivate_cases controller_getStatus_def
      getStatus_def findById_def Let_def f job_view_def)
  then show ?thesis by (auto simp: wp_def split: prod.splits sum.splits)
qed

lemma post_healthy:
  assumes h: "healthy rate burst E" and r: "ready rate burst E k w"
    and a: "admitted E apiKey key body = Some (k, b)"
  shows "\<exists>w' t rec. run (post_email_job E g apiKey key body) w = (Inr (HttpAnswer 201 (toEmailJobResponse rec False)), w') \<and>
     published w' = published w @ [job_publication (random_uuid E (steps w)) t b] \<and> safe_int 1 t \<and>
     rec_id rec = random_uuid E (steps w) \<and> rec_status rec = ''PUBLISHED'' \<and>
     job_view w' (random_uuid E (steps w)) = Some rec \<and> handed_over E w w'"
proof -
  have "authorised E apiKey" and key: "key = Some k" "8 \<le> length k"
    and body: "submitEmailJobBodySchema (zod_formats E) body = Inr b"
    using a by (auto simp: admitted_def split: option.splits sum.splits if_splits)
  moreover have "k \<noteq> []" using key(2) by auto
  ultimately have "wp (post_email_job E g apiKey key body) (\<lambda>x w'. \<exists>t rec. x = HttpAnswer 201 (toEmailJobResponse rec False) \<and>
       published w' = published w @ [job_publication (random_uuid E (steps w)) t b] \<and> safe_int 1 t \<and>
       rec_id rec = random_uuid E (steps w) \<and> rec_status rec = ''PUBLISHED'' \<and>
       job_view w' (random_uuid E (steps w)) = Some rec \<and> handed_over E w w') (\<lambda>_ _. False) w"
    unfolding post_email_job_def filtered_def wp_try_catch
    by (simp add: wp_bind wp_lift_sum canActivate_cases transform_def controller_submit_def)
      (rule wp_mono [OF submit_healthy [OF h r]], auto simp: wp_Resolve toEmailJobResponse_def)
  then show ?thesis by (auto simp: wp_def split: prod.splits sum.splits)
qed

section \<open>The journey of a job\<close>

text \<open>
  A request is posted, the worker takes the message it put at the end of the work queue, and the API
  the one the worker put at the end of the status queue.
\<close>

definition journey :: "'r services \<Rightarrow> (nat \<Rightarrow> http_body \<Rightarrow> string + 'o) \<Rightarrow> header \<Rightarrow> string option \<Rightarrow> json \<Rightarrow> nat \<Rightarrow> nat \<Rightarrow> 'r net \<Rightarrow> 'r net" where
  "journey E g apiKey key body tag tag' n =
     (let n1 = serve (post_email_job E g apiKey key body) n;
          n2 = work E \<lparr>raw_content = last (queue n1 (mainQueue TOPOLOGY)), raw_deliveryTag = tag\<rparr> n1
      in report E \<lparr>raw_content = last (queue n2 (statusQueue TOPOLOGY)), raw_deliveryTag = tag'\<rparr> n2)"

definition body_mail :: "SubmitEmailJobBody \<Rightarrow> Mail" where
  "body_mail b =
     \<lparr>mail_from = body_from b, mail_to = body_to b, mail_subject = body_subject b, mail_text = body_text b, mail_html = body_html b\<rparr>"

lemma mail_of_job_message: "mail_of (job_message i p t b) = body_mail b"
  by (simp add: mail_of_def toSendRequest_def to_mail_def job_message_def body_mail_def)

lemma reaches_status: "reaches (status_publication m st a mid code t) q \<longleftrightarrow> q = statusQueue TOPOLOGY"
  by (simp add: reaches_def status_publication_def publication_of_def TOPOLOGY_def topology_commands_eq)

lemma post_step:
  assumes h: "healthy rate burst E" and r: "ready rate burst E k (node n)"
    and a: "admitted E apiKey key body = Some (k, b)"
    and n': "n' = serve (post_email_job E g apiKey key body) n" and i: "i = random_uuid E (steps (node n))"
  shows "\<exists>t rec. fst (run (post_email_job E g apiKey key body) (node n)) = Inr (HttpAnswer 201 (toEmailJobResponse rec False)) \<and>
     rec_id rec = i \<and> rec_status rec = ''PUBLISHED'' \<and> job_view (node n') i = Some rec \<and> safe_int 1 t \<and>
     (\<forall>q. queue n' q = queue n q @ (if q = mainQueue TOPOLOGY then [pub_content (job_publication i t b)] else [])) \<and>
     handed_over E (node n) (node n')"
proof -
  obtain w' t rec where post: "run (post_email_job E g apiKey key body) (node n) = (Inr (HttpAnswer 201 (toEmailJobResponse rec False)), w')"
      and ps: "published w' = published (node n) @ [job_publication i t b]" and t: "safe_int 1 t"
      and rec: "rec_id rec = i" "rec_status rec = ''PUBLISHED''" "job_view w' i = Some rec" and ho: "handed_over E (node n) w'"
    using post_healthy [OF h r a, of g] unfolding i by auto
  have "node n' = w'" "queue n' = enqueue (job_publication i t b) (queue n)"
    using newly_published_append [OF ps] by (simp_all add: n' serve_def Let_def post)
  then show ?thesis
    using post t rec ho reaches_work [of i t b] by (auto simp: enqueue_def reaches_def)
qed

lemma work_step:
  assumes h: "healthy rate burst E" and r: "ready rate burst E k w" and ho: "handed_over E w (node n)"
    and read: "received (zod_formats E) c = Some (job_message (random_uuid E s0) Smtp t b)"
    and n': "n' = work E \<lparr>raw_content = c, raw_deliveryTag = tag\<rparr> n"
  shows "\<exists>mid s. mails (node n') = mails (node n) @ [body_mail b] \<and> channel (node n') \<and> jobs (node n') = jobs (node n) \<and>
     (\<forall>q. queue n' q = (if q = mainQueue TOPOLOGY then remove1 c (queue n q)
        else queue n q @ (if q = statusQueue TOPOLOGY
          then [pub_content (status_publication (job_message (random_uuid E s0) Smtp t b) DELIVERED 0 (Some mid) None (clock E s))]
          else [])))"
proof -
  let ?m = "job_message (random_uuid E s0) Smtp t b" and ?raw = "\<lparr>raw_content = c, raw_deliveryTag = tag\<rparr>"
  have ok: "msg_provider ?m = Smtp" "int4 (msg_attempt ?m)" "channel (node n)"
    "bucket_ok burst (redis_hmget E (redis (node n)) ''rl:smtp'')"
    "\<forall>t. 1 \<le> available rate burst (nat (clock E t)) (redis_hmget E (redis (node n)) ''rl:smtp'')"
    "case breakers (node n) ''smtp'' of None \<Rightarrow> True | Some b \<Rightarrow> state b \<noteq> OPEN"
    "\<forall>row \<in> set (ledger (node n)). \<not> is_attempt (msg_jobId ?m) (msg_attempt ?m) row \<and> (\<forall>s. row_id row \<noteq> random_uuid E s)"
    using r ho by (auto simp: job_message_def int4_def ready_def handed_over_def is_attempt_def)
  obtain w' mid s where work: "run (handle E (Some ?raw)) (node n) = (Inr (), w')" "acknowledged ?raw (node n) w'"
      "published w' = published (node n) @ [status_publication ?m DELIVERED 0 (Some mid) None (clock E s)]"
      "mails w' = mails (node n) @ [mail_of ?m]" "channel w'" "jobs w' = jobs (node n)"
    using handle_healthy [OF h ok(3), of ?raw ?m, OF _ ok(1,2,4-7)] read by (auto simp: job_message_def)
  let ?p = "status_publication ?m DELIVERED 0 (Some mid) None (clock E s)"
  have "node n' = w'" "queue n' = enqueue ?p ((queue n)(mainQueue TOPOLOGY := remove1 c (queue n (mainQueue TOPOLOGY))))"
    using newly_published_append [OF work(3)] work(1,2) by (simp_all add: n' work_def Let_def settled_queue_def)
  moreover have "mainQueue TOPOLOGY \<noteq> statusQueue TOPOLOGY" by (simp add: TOPOLOGY_def)
  ultimately show ?thesis
    using work(4-6) reaches_status [of ?m DELIVERED 0 "Some mid" None "clock E s"]
    by (intro exI [of _ mid] exI [of _ s]) (auto simp: enqueue_def reaches_def mail_of_job_message)
qed

lemma report_step:
  assumes h: "healthy rate burst E" and ch: "channel (node n)"
    and p: "msg_jobId m = random_uuid E s0" "c = pub_content (status_publication m DELIVERED 0 (Some mid) None (clock E s))"
    and n': "n' = report E \<lparr>raw_content = c, raw_deliveryTag = tag\<rparr> n"
    and v: "job_view (node n) (random_uuid E s0) = Some rec"
  shows "job_view (node n') (random_uuid E s0) = Some (with_status JOB_DELIVERED rec)" and "mails (node n') = mails (node n)"
    and "queue n' = (queue n)(statusQueue TOPOLOGY := remove1 c (queue n (statusQueue TOPOLOGY)))"
proof -
  let ?raw = "\<lparr>raw_content = c, raw_deliveryTag = tag\<rparr>"
  have "zod_uuid (zod_formats E) (msg_jobId m)" "safe_int 0 0" "safe_int 1 (clock E s)"
    using h by (simp_all add: healthy_def plausible_def p safe_int_def)
  from status_publication_parsed [OF this, of DELIVERED "Some mid" None tag]
  obtain e where e: "parse_event E ?raw = Some e" "ev_jobId e = random_uuid E s0" "ev_status e = DELIVERED"
    by (auto simp: p)
  obtain w' where rep: "run (handle_status E (Some ?raw)) (node n) = (Inr (), w')" "acknowledged ?raw (node n) w'"
      "job_view w' = updated e (job_view (node n))" "published w' = published (node n)" "mails w' = mails (node n)"
    using status_healthy [OF h ch e(1,3)] by auto
  have node: "node n' = w'" by (simp add: n' report_def Let_def rep(1))
  show "queue n' = (queue n)(statusQueue TOPOLOGY := remove1 c (queue n (statusQueue TOPOLOGY)))"
    using newly_published_append [of w' "node n" "[]"] rep(1,2,4) by (simp add: n' report_def Let_def settled_queue_def)
  show "mails (node n') = mails (node n)" by (simp add: node rep(5))
  show "job_view (node n') (random_uuid E s0) = Some (with_status JOB_DELIVERED rec)"
    using e(3) v by (simp only: node rep(3)) (simp add: updated_def e)
qed

lemma journey_result:
  assumes h: "healthy rate burst E" and r: "ready rate burst E k (node n)"
    and a: "admitted E apiKey key body = Some (k, b)" and p: "body_provider_of b = Smtp"
    and n': "n' = journey E g apiKey key body tag tag' n"
  shows "\<exists>x. fst (run (post_email_job E g apiKey key body) (node n)) = Inr (HttpAnswer 201 x) \<and> res_status x = ''PUBLISHED'' \<and>
     fst (run (get_email_job E g apiKey (res_id x)) (node n')) = Inr (HttpAnswer 200 (x\<lparr>res_status := ''DELIVERED''\<rparr>)) \<and>
     mails (node n') = mails (node n) @ [body_mail b] \<and> (\<forall>q. mset (queue n' q) = mset (queue n q))"
proof -
  let ?i = "random_uuid E (steps (node n))"
  let ?n1 = "serve (post_email_job E g apiKey key body) n"
  obtain t rec where post: "fst (run (post_email_job E g apiKey key body) (node n)) = Inr (HttpAnswer 201 (toEmailJobResponse rec False))"
      and rec: "rec_id rec = ?i" "rec_status rec = ''PUBLISHED''" "job_view (node ?n1) ?i = Some rec" and t: "safe_int 1 t"
      and q1: "queue ?n1 q = queue n q @ (if q = mainQueue TOPOLOGY then [pub_content (job_publication ?i t b)] else [])"
      and ho: "handed_over E (node n) (node ?n1)" for q
    using post_step [OF h r a refl refl] by metis
  have au: "authorised E apiKey" and body: "submitEmailJobBodySchema (zod_formats E) body = Inr b"
    using a by (auto simp: admitted_def split: option.splits sum.splits if_splits)
  let ?c1 = "pub_content (job_publication ?i t b)"
  let ?n2 = "work E \<lparr>raw_content = ?c1, raw_deliveryTag = tag\<rparr> ?n1"
  have "zod_uuid (zod_formats E) ?i" using h by (simp add: healthy_def plausible_def)
  then have read: "received (zod_formats E) ?c1 = Some (job_message ?i Smtp t b)"
    using job_publication_text [OF body _ t] p by (simp add: received_iff)
  obtain mid s where n2: "mails (node ?n2) = mails (node ?n1) @ [body_mail b]" "channel (node ?n2)" "jobs (node ?n2) = jobs (node ?n1)"
      and q2: "queue ?n2 q = (if q = mainQueue TOPOLOGY then remove1 ?c1 (queue ?n1 q)
        else queue ?n1 q @ (if q = statusQueue TOPOLOGY
          then [pub_content (status_publication (job_message ?i Smtp t b) DELIVERED 0 (Some mid) None (clock E s))] else []))" for q
    using work_step [OF h r ho read refl] by metis
  let ?c2 = "pub_content (status_publication (job_message ?i Smtp t b) DELIVERED 0 (Some mid) None (clock E s))"
  have j: "n' = report E \<lparr>raw_content = ?c2, raw_deliveryTag = tag'\<rparr> ?n2"
    by (simp add: n' journey_def Let_def q1 q2) (simp add: TOPOLOGY_def)
  have "job_view (node ?n2) ?i = Some rec" using rec(3) n2(3) by (auto simp: job_view_def)
  note n3 = report_step [OF h n2(2) _ refl j this, unfolded job_message_def, simplified]
  from get_healthy [OF h au n3(1), of g]
  have get: "fst (run (get_email_job E g apiKey ?i) (node n')) = Inr (HttpAnswer 200 ((toEmailJobResponse rec False)\<lparr>res_status := ''DELIVERED''\<rparr>))"
    by (simp add: toEmailJobResponse_def with_status_def)
  have "mset (queue n' q) = mset (queue n q)" for q
    by (simp add: n3(3) q2 q1 job_message_def) (simp add: TOPOLOGY_def)
  moreover have "mails (node n') = mails (node n) @ [body_mail b]"
    using n3(2) n2(1) ho by (simp add: handed_over_def)
  ultimately show ?thesis
    using post get rec(1,2) by (auto simp: toEmailJobResponse_def)
qed

end
