(* ===== verification/PrismaReads.thy ===== *)
theory PrismaReads
  imports PrismaQueries "HOL-Library.Multiset"
begin

text \<open>
  The reading half of the delegate \<open>prisma.emailJob\<close> that is generated in
  \<^verbatim>\<open>generated/api/models/EmailJob.ts\<close>: the arguments of \<open>findUnique\<close>, \<open>findFirst\<close>, \<open>findMany\<close>,
  \<open>count\<close>, \<open>aggregate\<close> and \<open>groupBy\<close> as its types declare them, and what its comments, and the pages of
  Prisma's documentation they link to, say of their results. The client runs these in the runtime
  library; the repository of this program uses \<open>findUnique\<close> only.

  A table lists its rows in the order in which the database comes upon them. A sort keeps that
  order among rows its keys do not tell apart.
\<close>

section \<open>Columns\<close>

datatype cell = Text string | Instant int

definition cell_of :: "EmailJobModel \<Rightarrow> EmailJobScalarFieldEnum \<Rightarrow> cell option" where
  "cell_of r f =
     (case date_column r f of Some t \<Rightarrow> Some (Instant t) | None \<Rightarrow> map_option Text (string_column r f))"

definition all_fields :: "EmailJobScalarFieldEnum list" where
  "all_fields =
     [F_id, F_idempotencyKey, F_tenantId, F_from, F_to, F_subject, F_text, F_html, F_provider, F_status,
      F_createdAt, F_updatedAt, F_deliveredAt, F_lastErrorCode]"

fun field_name :: "EmailJobScalarFieldEnum \<Rightarrow> string" where
  "field_name F_id = ''id''"
| "field_name F_idempotencyKey = ''idempotencyKey''"
| "field_name F_tenantId = ''tenantId''"
| "field_name F_from = ''from''"
| "field_name F_to = ''to''"
| "field_name F_subject = ''subject''"
| "field_name F_text = ''text''"
| "field_name F_html = ''html''"
| "field_name F_provider = ''provider''"
| "field_name F_status = ''status''"
| "field_name F_createdAt = ''createdAt''"
| "field_name F_updatedAt = ''updatedAt''"
| "field_name F_deliveredAt = ''deliveredAt''"
| "field_name F_lastErrorCode = ''lastErrorCode''"

section \<open>Ordering\<close>

datatype SortOrder = Asc | Desc

datatype NullsOrder = Nulls_first | Nulls_last

record SortOrderInput =
  soi_sort :: SortOrder
  soi_nulls :: "NullsOrder option"

datatype nullable_sort = Order SortOrder | OrderInput SortOrderInput

record EmailJobOrderByWithRelationInput =
  ob_id :: "SortOrder option"
  ob_idempotencyKey :: "SortOrder option"
  ob_tenantId :: "SortOrder option"
  ob_from :: "SortOrder option"
  ob_to :: "SortOrder option"
  ob_subject :: "SortOrder option"
  ob_text :: "SortOrder option"
  ob_html :: "nullable_sort option"
  ob_provider :: "SortOrder option"
  ob_status :: "SortOrder option"
  ob_createdAt :: "SortOrder option"
  ob_updatedAt :: "SortOrder option"
  ob_deliveredAt :: "nullable_sort option"
  ob_lastErrorCode :: "nullable_sort option"

text \<open>A key to sort by. PostgreSQL puts nulls last in ascending and first in descending order.\<close>

type_synonym sort_key = "EmailJobScalarFieldEnum \<times> SortOrder \<times> NullsOrder"

definition nulls_of :: "SortOrder \<Rightarrow> NullsOrder option \<Rightarrow> NullsOrder" where
  "nulls_of s n = (case n of Some x \<Rightarrow> x | None \<Rightarrow> (case s of Asc \<Rightarrow> Nulls_last | Desc \<Rightarrow> Nulls_first))"

definition plain_key :: "EmailJobScalarFieldEnum \<Rightarrow> SortOrder \<Rightarrow> sort_key" where
  "plain_key f s = (f, s, nulls_of s None)"

definition nullable_key :: "EmailJobScalarFieldEnum \<Rightarrow> nullable_sort \<Rightarrow> sort_key" where
  "nullable_key f x =
     (case x of Order s \<Rightarrow> plain_key f s | OrderInput i \<Rightarrow> (f, soi_sort i, nulls_of (soi_sort i) (soi_nulls i)))"

definition wanted :: "('a \<Rightarrow> 'b) \<Rightarrow> 'a option \<Rightarrow> 'b list" where
  "wanted f x = (case x of None \<Rightarrow> [] | Some y \<Rightarrow> [f y])"

definition sort_keys :: "EmailJobOrderByWithRelationInput \<Rightarrow> sort_key list" where
  "sort_keys p =
     wanted (plain_key F_id) (ob_id p) @ wanted (plain_key F_idempotencyKey) (ob_idempotencyKey p) @
     wanted (plain_key F_tenantId) (ob_tenantId p) @ wanted (plain_key F_from) (ob_from p) @
     wanted (plain_key F_to) (ob_to p) @ wanted (plain_key F_subject) (ob_subject p) @
     wanted (plain_key F_text) (ob_text p) @ wanted (nullable_key F_html) (ob_html p) @
     wanted (plain_key F_provider) (ob_provider p) @ wanted (plain_key F_status) (ob_status p) @
     wanted (plain_key F_createdAt) (ob_createdAt p) @
     wanted (plain_key F_updatedAt) (ob_updatedAt p) @
     wanted (nullable_key F_deliveredAt) (ob_deliveredAt p) @
     wanted (nullable_key F_lastErrorCode) (ob_lastErrorCode p)"

definition cell_less :: "collation \<Rightarrow> cell \<Rightarrow> cell \<Rightarrow> bool" where
  "cell_less D x y =
     (case (x, y) of
        (Text a, Text b) \<Rightarrow> less_text D Default_mode a b
      | (Instant a, Instant b) \<Rightarrow> a < b
      | _ \<Rightarrow> False)"

definition before :: "collation \<Rightarrow> SortOrder \<Rightarrow> NullsOrder \<Rightarrow> cell option \<Rightarrow> cell option \<Rightarrow> bool" where
  "before D s n x y =
     (case (x, y) of
        (None, None) \<Rightarrow> False
      | (None, Some _) \<Rightarrow> n = Nulls_first
      | (Some _, None) \<Rightarrow> n = Nulls_last
      | (Some a, Some b) \<Rightarrow> (case s of Asc \<Rightarrow> cell_less D a b | Desc \<Rightarrow> cell_less D b a))"

primrec lex_before :: "('k \<Rightarrow> 'r \<Rightarrow> 'r \<Rightarrow> bool) \<Rightarrow> 'k list \<Rightarrow> 'r \<Rightarrow> 'r \<Rightarrow> bool" where
  "lex_before R [] r s \<longleftrightarrow> False"
| "lex_before R (k # ks) r s \<longleftrightarrow> R k r s \<or> \<not> R k s r \<and> lex_before R ks r s"

definition key_before :: "collation \<Rightarrow> sort_key \<Rightarrow> EmailJobModel \<Rightarrow> EmailJobModel \<Rightarrow> bool" where
  "key_before D k r s = (case k of (f, so, n) \<Rightarrow> before D so n (cell_of r f) (cell_of s f))"

fun insert_by :: "('r \<Rightarrow> 'r \<Rightarrow> bool) \<Rightarrow> 'r \<Rightarrow> 'r list \<Rightarrow> 'r list" where
  "insert_by lt x [] = [x]"
| "insert_by lt x (y # ys) = (if lt y x then y # insert_by lt x ys else x # y # ys)"

definition sort_by :: "('r \<Rightarrow> 'r \<Rightarrow> bool) \<Rightarrow> 'r list \<Rightarrow> 'r list" where
  "sort_by lt xs = foldr (insert_by lt) xs []"

definition ordered :: "collation \<Rightarrow> EmailJobOrderByWithRelationInput list option \<Rightarrow> EmailJobModel list \<Rightarrow> EmailJobModel list" where
  "ordered D ob rows =
     sort_by (lex_before (key_before D) (concat (List.map sort_keys (or_default [] ob)))) rows"

section \<open>select and omit\<close>

record EmailJobSelect =
  sel_id :: "bool option"
  sel_idempotencyKey :: "bool option"
  sel_tenantId :: "bool option"
  sel_from :: "bool option"
  sel_to :: "bool option"
  sel_subject :: "bool option"
  sel_text :: "bool option"
  sel_html :: "bool option"
  sel_provider :: "bool option"
  sel_status :: "bool option"
  sel_createdAt :: "bool option"
  sel_updatedAt :: "bool option"
  sel_deliveredAt :: "bool option"
  sel_lastErrorCode :: "bool option"

record EmailJobOmit =
  om_id :: "bool option"
  om_idempotencyKey :: "bool option"
  om_tenantId :: "bool option"
  om_from :: "bool option"
  om_to :: "bool option"
  om_subject :: "bool option"
  om_text :: "bool option"
  om_html :: "bool option"
  om_provider :: "bool option"
  om_status :: "bool option"
  om_createdAt :: "bool option"
  om_updatedAt :: "bool option"
  om_deliveredAt :: "bool option"
  om_lastErrorCode :: "bool option"

text \<open>The other selections of the file have the same members.\<close>

type_synonym EmailJobSelectCreateManyAndReturn = EmailJobSelect
type_synonym EmailJobSelectUpdateManyAndReturn = EmailJobSelect
type_synonym EmailJobSelectScalar = EmailJobSelect

definition flag :: "EmailJobScalarFieldEnum \<Rightarrow> bool option \<Rightarrow> EmailJobScalarFieldEnum list" where
  "flag f b = (if b = Some True then [f] else [])"

definition selected_fields :: "EmailJobSelect \<Rightarrow> EmailJobScalarFieldEnum list" where
  "selected_fields s =
     flag F_id (sel_id s) @ flag F_idempotencyKey (sel_idempotencyKey s) @
     flag F_tenantId (sel_tenantId s) @ flag F_from (sel_from s) @ flag F_to (sel_to s) @
     flag F_subject (sel_subject s) @ flag F_text (sel_text s) @ flag F_html (sel_html s) @
     flag F_provider (sel_provider s) @ flag F_status (sel_status s) @
     flag F_createdAt (sel_createdAt s) @ flag F_updatedAt (sel_updatedAt s) @
     flag F_deliveredAt (sel_deliveredAt s) @ flag F_lastErrorCode (sel_lastErrorCode s)"

definition omitted_fields :: "EmailJobOmit \<Rightarrow> EmailJobScalarFieldEnum list" where
  "omitted_fields p =
     flag F_id (om_id p) @ flag F_idempotencyKey (om_idempotencyKey p) @
     flag F_tenantId (om_tenantId p) @ flag F_from (om_from p) @ flag F_to (om_to p) @
     flag F_subject (om_subject p) @ flag F_text (om_text p) @ flag F_html (om_html p) @
     flag F_provider (om_provider p) @ flag F_status (om_status p) @
     flag F_createdAt (om_createdAt p) @ flag F_updatedAt (om_updatedAt p) @
     flag F_deliveredAt (om_deliveredAt p) @ flag F_lastErrorCode (om_lastErrorCode p)"

text \<open>\<open>SelectSubset\<close> rejects arguments with both.\<close>

definition SelectSubset :: "EmailJobSelect nullable option \<Rightarrow> EmailJobOmit nullable option \<Rightarrow> string + EmailJobScalarFieldEnum list" where
  "SelectSubset sel om =
     (if sel \<noteq> None \<and> om \<noteq> None then Inl ''Please either choose `select` or `omit`.''
      else case or_null sel of
             Some s \<Rightarrow> Inr (selected_fields s)
           | None \<Rightarrow>
               (case or_null om of
                  Some p \<Rightarrow> Inr (filter (\<lambda>f. f \<notin> set (omitted_fields p)) all_fields)
                | None \<Rightarrow> Inr all_fields))"

type_synonym payload = "(EmailJobScalarFieldEnum \<times> cell option) list"

definition payload_of :: "EmailJobScalarFieldEnum list \<Rightarrow> EmailJobModel \<Rightarrow> payload" where
  "payload_of fs r = List.map (\<lambda>f. (f, cell_of r f)) fs"

section \<open>The find operations\<close>

record EmailJobFindUniqueArgs =
  fu_select :: "EmailJobSelect nullable option"
  fu_omit :: "EmailJobOmit nullable option"
  fu_where :: EmailJobWhereUniqueInput

type_synonym EmailJobFindUniqueOrThrowArgs = EmailJobFindUniqueArgs

record EmailJobFindManyArgs =
  fm_select :: "EmailJobSelect nullable option"
  fm_omit :: "EmailJobOmit nullable option"
  fm_where :: "EmailJobWhereInput option"
  fm_orderBy :: "EmailJobOrderByWithRelationInput list option"
  fm_cursor :: "EmailJobWhereUniqueInput option"
  fm_take :: "int option"
  fm_skip :: "nat option"
  fm_distinct :: "EmailJobScalarFieldEnum list option"

type_synonym EmailJobFindFirstArgs = EmailJobFindManyArgs
type_synonym EmailJobFindFirstOrThrowArgs = EmailJobFindManyArgs

definition matches :: "collation \<Rightarrow> EmailJobWhereInput option \<Rightarrow> EmailJobModel \<Rightarrow> bool" where
  "matches D wh r = (case wh of None \<Rightarrow> True | Some w \<Rightarrow> eval_where D r w = Some True)"

definition is_unique :: "collation \<Rightarrow> EmailJobWhereUniqueInput \<Rightarrow> EmailJobModel \<Rightarrow> bool" where
  "is_unique D u r \<longleftrightarrow> eval_where_unique D r u = Some True"

text \<open>\<open>distinct\<close> keeps the first row of each combination of values.\<close>

fun first_of_each :: "('r \<Rightarrow> 'k) \<Rightarrow> 'r list \<Rightarrow> 'r list" where
  "first_of_each key [] = []"
| "first_of_each key (x # xs) = x # filter (\<lambda>y. key y \<noteq> key x) (first_of_each key xs)"

text \<open>
  The cursor sets the first row, \<open>skip\<close> leaves out so many from there, \<open>take\<close> ends after so many;
  a negative \<open>take\<close> counts backwards, from the cursor or from the end.
\<close>

definition page :: "('r \<Rightarrow> bool) option \<Rightarrow> int option \<Rightarrow> nat option \<Rightarrow> 'r list \<Rightarrow> 'r list" where
  "page cursor k skip rows =
     (let start = (\<lambda>ys. drop (or_default 0 skip) (case cursor of None \<Rightarrow> ys | Some hit \<Rightarrow> dropWhile (\<lambda>r. \<not> hit r) ys))
      in case k of
           None \<Rightarrow> start rows
         | Some k \<Rightarrow> if 0 \<le> k then take (nat k) (start rows) else rev (take (nat (- k)) (start (rev rows))))"

definition candidates :: "collation \<Rightarrow> EmailJobFindManyArgs \<Rightarrow> model_table \<Rightarrow> EmailJobModel list" where
  "candidates D a t =
     (let rows = ordered D (fm_orderBy a) (filter (matches D (fm_where a)) t)
      in case fm_distinct a of None \<Rightarrow> rows | Some fs \<Rightarrow> first_of_each (payload_of fs) rows)"

definition found_rows :: "collation \<Rightarrow> EmailJobFindManyArgs \<Rightarrow> model_table \<Rightarrow> EmailJobModel list" where
  "found_rows D a t =
     page (map_option (is_unique D) (fm_cursor a)) (fm_take a) (fm_skip a) (candidates D a t)"

definition shown :: "EmailJobSelect nullable option \<Rightarrow> EmailJobOmit nullable option \<Rightarrow> (EmailJobScalarFieldEnum list \<Rightarrow> string + 'a) \<Rightarrow> string + 'a" where
  "shown sel om f = (case SelectSubset sel om of Inl e \<Rightarrow> Inl e | Inr fs \<Rightarrow> f fs)"

definition op_findMany :: "collation \<Rightarrow> EmailJobFindManyArgs \<Rightarrow> model_table \<Rightarrow> string + payload list" where
  "op_findMany D a t = shown (fm_select a) (fm_omit a) (\<lambda>fs. Inr (List.map (payload_of fs) (found_rows D a t)))"

text \<open>The first one is sought from the end when \<open>take\<close> is negative.\<close>

definition first_row :: "collation \<Rightarrow> EmailJobFindFirstArgs \<Rightarrow> model_table \<Rightarrow> EmailJobModel option" where
  "first_row D a t =
     (let k = (case fm_take a of None \<Rightarrow> 1 | Some k \<Rightarrow> if k < 0 then - 1 else 1)
      in case found_rows D (a\<lparr>fm_take := Some k\<rparr>) t of [] \<Rightarrow> None | r # _ \<Rightarrow> Some r)"

definition op_findFirst :: "collation \<Rightarrow> EmailJobFindFirstArgs \<Rightarrow> model_table \<Rightarrow> string + payload option" where
  "op_findFirst D a t = shown (fm_select a) (fm_omit a) (\<lambda>fs. Inr (map_option (payload_of fs) (first_row D a t)))"

definition or_throw :: "string + 'a option \<Rightarrow> string + 'a" where
  "or_throw x = (case x of Inl e \<Rightarrow> Inl e | Inr None \<Rightarrow> Inl ''P2025'' | Inr (Some y) \<Rightarrow> Inr y)"

definition op_findFirstOrThrow :: "collation \<Rightarrow> EmailJobFindFirstOrThrowArgs \<Rightarrow> model_table \<Rightarrow> string + payload" where
  "op_findFirstOrThrow D a t = or_throw (op_findFirst D a t)"

definition op_findUnique :: "collation \<Rightarrow> EmailJobFindUniqueArgs \<Rightarrow> model_table \<Rightarrow> string + payload option" where
  "op_findUnique D a t =
     shown (fu_select a) (fu_omit a) (\<lambda>fs. Inr (map_option (payload_of fs) (query_findUnique D (fu_where a) t)))"

definition op_findUniqueOrThrow :: "collation \<Rightarrow> EmailJobFindUniqueOrThrowArgs \<Rightarrow> model_table \<Rightarrow> string + payload" where
  "op_findUniqueOrThrow D a t = or_throw (op_findUnique D a t)"

section \<open>Sorting\<close>

lemma mset_insert_by [simp]: "mset (insert_by lt x ys) = add_mset x (mset ys)"
  by (induction ys) auto

lemma mset_sort_by [simp]: "mset (sort_by lt xs) = mset xs"
  by (induction xs) (simp_all add: sort_by_def)

lemma set_sort_by [simp]: "set (sort_by lt xs) = set xs"
  by (metis mset_sort_by set_mset_mset)

lemma length_sort_by [simp]: "length (sort_by lt xs) = length xs"
  by (metis mset_sort_by size_mset)

lemma sort_by_none [simp]: "sort_by (\<lambda>_ _. False) xs = xs"
proof -
  have "insert_by (\<lambda>_ _. False) x ys = x # ys" for x and ys :: "'a list" by (cases ys) simp_all
  then show ?thesis by (induction xs) (simp_all add: sort_by_def)
qed

text \<open>Strict weak orders, and the order of a list of keys, each of which is one.\<close>

definition weak_order :: "('r \<Rightarrow> 'r \<Rightarrow> bool) \<Rightarrow> bool" where
  "weak_order R \<longleftrightarrow> (\<forall>x y. R x y \<longrightarrow> \<not> R y x) \<and> (\<forall>x y z. R x z \<longrightarrow> R x y \<or> R y z)"

lemma sorted_insert_by:
  assumes "weak_order lt" and "sorted_wrt (\<lambda>x y. \<not> lt y x) ys"
  shows "sorted_wrt (\<lambda>x y. \<not> lt y x) (insert_by lt x ys)"
  using assms(2)
proof (induction ys)
  case (Cons y ys)
  have set: "set (insert_by lt x ys) = insert x (set ys)" by (metis mset_insert_by set_mset_add_mset_insert set_mset_mset)
  show ?case
  proof (cases "lt y x")
    case True
    then have "\<not> lt x y" using assms(1) by (auto simp: weak_order_def)
    then show ?thesis using Cons True set by auto
  next
    case False
    have "\<not> lt z x" if "z \<in> set ys" for z
    proof
      assume "lt z x"
      then have "lt z y \<or> lt y x" using assms(1) by (auto simp: weak_order_def)
      then show False using Cons.prems that False by auto
    qed
    then show ?thesis using Cons False by auto
  qed
qed simp

lemma sorted_sort_by: "weak_order lt \<Longrightarrow> sorted_wrt (\<lambda>x y. \<not> lt y x) (sort_by lt xs)"
  by (induction xs) (simp_all add: sort_by_def sorted_insert_by)

lemma weak_order_lex:
  assumes "\<And>k. k \<in> set ks \<Longrightarrow> weak_order (R k)"
  shows "weak_order (lex_before R ks)"
  using assms
proof (induction ks)
  case (Cons k ks)
  then have k: "weak_order (R k)" and ks: "weak_order (lex_before R ks)" by simp_all
  show ?case
    unfolding weak_order_def
  proof (intro conjI allI impI)
    fix x y
    show "lex_before R (k # ks) x y \<Longrightarrow> \<not> lex_before R (k # ks) y x"
      using k ks by (auto simp: weak_order_def)
  next
    fix x y z
    assume "lex_before R (k # ks) x z"
    then show "lex_before R (k # ks) x y \<or> lex_before R (k # ks) y z"
      using k ks unfolding weak_order_def lex_before.simps by metis
  qed
qed (simp add: weak_order_def)

text \<open>A collation orders texts when its comparison is a strict weak order; then so is the order of rows.\<close>

definition orders_texts :: "collation \<Rightarrow> bool" where
  "orders_texts D \<longleftrightarrow> weak_order (less_text D Default_mode)"

lemma weak_order_key:
  assumes "orders_texts D"
  shows "weak_order (key_before D k)"
proof -
  obtain f so n where k: "k = (f, so, n)" by (cases k)
  have kind: "(\<exists>t. cell_of r f = Some (Instant t)) \<or> cell_of r f = None" if "f \<in> {F_createdAt, F_updatedAt, F_deliveredAt}" for r
    using that by (cases f) (auto simp: cell_of_def split: option.split)
  have texts: "(\<exists>t. cell_of r f = Some (Text t)) \<or> cell_of r f = None" if "f \<notin> {F_createdAt, F_updatedAt, F_deliveredAt}" for r
    using that by (cases f) (auto simp: cell_of_def)
  have lt: "weak_order (less_text D Default_mode)" using assms by (simp add: orders_texts_def)
  have between: "less_text D Default_mode a b \<or> less_text D Default_mode b c" if "less_text D Default_mode a c" for a b c
    using lt that by (auto simp: weak_order_def)
  show ?thesis
    unfolding weak_order_def k key_before_def prod.case
  proof (intro conjI allI impI)
    fix x y
    assume "before D so n (cell_of x f) (cell_of y f)"
    then show "\<not> before D so n (cell_of y f) (cell_of x f)"
      using lt by (auto simp: before_def cell_less_def weak_order_def split: option.splits cell.splits SortOrder.splits)
  next
    fix x y z
    assume a: "before D so n (cell_of x f) (cell_of z f)"
    show "before D so n (cell_of x f) (cell_of y f) \<or> before D so n (cell_of y f) (cell_of z f)"
    proof (cases "f \<in> {F_createdAt, F_updatedAt, F_deliveredAt}")
      case True
      then show ?thesis
        using a kind [of x] kind [of y] kind [of z]
        by (cases so; cases n) (auto simp: before_def cell_less_def)
    next
      case False
      then show ?thesis
        using a texts [of x] texts [of y] texts [of z]
        by (cases so; cases n) (auto simp: before_def cell_less_def dest: between)
    qed
  qed
qed

lemma ordered_facts:
  "mset (ordered D ob rows) = mset rows" "set (ordered D ob rows) = set rows" "length (ordered D ob rows) = length rows"
  by (simp_all add: ordered_def)

lemma ordered_sorted:
  "orders_texts D \<Longrightarrow>
     sorted_wrt (\<lambda>r s. \<not> lex_before (key_before D) (concat (List.map sort_keys (or_default [] ob))) s r) (ordered D ob rows)"
  unfolding ordered_def by (intro sorted_sort_by weak_order_lex weak_order_key)

section \<open>Walking through the pages\<close>

text \<open>
  Cursor pagination as the comments describe it: \<open>take\<close> so many, then continue from the last row of
  the page and \<open>skip\<close> that one.
\<close>

definition page_args :: "EmailJobFindManyArgs \<Rightarrow> int \<Rightarrow> string option \<Rightarrow> EmailJobFindManyArgs" where
  "page_args a n l =
     (case l of
        None \<Rightarrow> a\<lparr>fm_cursor := None, fm_skip := None, fm_take := Some n\<rparr>
      | Some i \<Rightarrow> a\<lparr>fm_cursor := Some (unique_id i), fm_skip := Some 1, fm_take := Some n\<rparr>)"

primrec pages :: "nat \<Rightarrow> collation \<Rightarrow> EmailJobFindManyArgs \<Rightarrow> int \<Rightarrow> string option \<Rightarrow> model_table \<Rightarrow> EmailJobModel list list" where
  "pages 0 D a n l t = []"
| "pages (Suc fuel) D a n l t =
     (case found_rows D (page_args a n l) t of
        [] \<Rightarrow> []
      | r # rs \<Rightarrow> (r # rs) # pages fuel D a n (Some (m_id (last (r # rs)))) t)"

lemma set_first_of_each: "set (first_of_each key xs) \<subseteq> set xs"
  by (induction xs) auto

lemma distinct_first_of_each: "distinct (List.map g xs) \<Longrightarrow> distinct (List.map g (first_of_each key xs))"
proof (induction xs)
  case (Cons x xs)
  then show ?case
    using set_first_of_each [of key xs] by (auto simp: distinct_map inj_on_def)
qed simp

lemma length_first_of_each: "length (first_of_each key xs) \<le> length xs"
  by (induction xs) (auto intro: le_trans [OF length_filter_le])

lemma candidates_distinct:
  assumes "unique_rows t"
  shows "distinct (List.map m_id (candidates D a t))"
proof -
  have "distinct (List.map m_id (filter P t))" for P
    using assms by (simp add: unique_rows_def distinct_map_filter)
  then have "distinct (List.map m_id (ordered D (fm_orderBy a) (filter P t)))" for P
    by (metis mset_eq_imp_distinct_iff mset_map ordered_facts(1))
  then show ?thesis
    by (auto simp: candidates_def Let_def distinct_first_of_each split: option.split)
qed

lemma candidates_length: "length (candidates D a t) \<le> length t"
proof -
  have "length (ordered D (fm_orderBy a) (filter P t)) \<le> length t" for P by (simp add: ordered_facts)
  then show ?thesis
    by (auto simp: candidates_def Let_def split: option.split intro: le_trans [OF length_first_of_each])
qed

lemma candidates_page [simp]: "candidates D (page_args a n l) t = candidates D a t"
  by (simp add: candidates_def page_args_def split: option.split)

lemma dropWhile_until:
  assumes "distinct (List.map g (ys @ zs))" and "ys \<noteq> []"
  shows "dropWhile (\<lambda>r. g r \<noteq> g (last ys)) (ys @ zs) = last ys # zs"
proof -
  obtain ys' y where ys: "ys = ys' @ [y]" using assms(2) by (cases ys rule: rev_cases) auto
  have "g r \<noteq> g y" if "r \<in> set ys'" for r
    using assms(1) imageI [OF that, of g] by (auto simp: ys)
  then show ?thesis by (simp add: ys dropWhile_append2)
qed

lemma next_page:
  assumes "exact D" and "unique_rows t" and "candidates D a t = ys @ zs" and "0 < n"
  shows "found_rows D (page_args a n (if ys = [] then None else Some (m_id (last ys)))) t = take (nat n) zs"
proof -
  have id: "is_unique D (unique_id i) r \<longleftrightarrow> m_id r = i" for i r
    by (simp add: is_unique_def eval_where_id(3) [OF assms(1)])
  have "distinct (List.map m_id (ys @ zs))" using candidates_distinct [OF assms(2), of D a] assms(3) by simp
  note d = dropWhile_until [OF this]
  show ?thesis
    using d assms(4) by (simp add: found_rows_def assms(3)) (simp add: page_args_def page_def or_default_def id comp_def)
qed


lemma pages_rest:
  assumes "exact D" and "unique_rows t" and "0 < n" and "candidates D a t = ys @ zs" and "length zs \<le> fuel"
  shows "concat (pages fuel D a n (if ys = [] then None else Some (m_id (last ys))) t) = zs \<and>
     (\<forall>p \<in> set (pages fuel D a n (if ys = [] then None else Some (m_id (last ys))) t). p \<noteq> [] \<and> length p \<le> nat n)"
  using assms(4,5)
proof (induction fuel arbitrary: ys zs)
  case 0 then show ?case by simp
next
  case (Suc fuel)
  note page = next_page [OF assms(1,2) Suc.prems(1) assms(3)]
  show ?case
  proof (cases "take (nat n) zs")
    case Nil
    then have "zs = []" using assms(3) by simp
    then show ?thesis by (simp add: page)
  next
    case (Cons r rs)
    let ?ys = "ys @ r # rs" and ?zs = "drop (nat n) zs" and ?rest = "pages fuel D a n (Some (m_id (last (r # rs)))) t"
    have zs: "(r # rs) @ ?zs = zs" using append_take_drop_id [of "nat n" zs] by (simp only: Cons)
    have c: "candidates D a t = ?ys @ ?zs" by (simp only: append_assoc zs Suc.prems(1))
    have l: "length ?zs \<le> fuel"
    proof -
      have "length zs = length (r # rs) + length ?zs" by (simp only: length_append [symmetric] zs)
      then show ?thesis using Suc.prems(2) by simp
    qed
    have e: "(if ?ys = [] then None else Some (m_id (last ?ys))) = Some (m_id (last (r # rs)))" by simp
    have rest: "concat ?rest = ?zs" "\<forall>p \<in> set ?rest. p \<noteq> [] \<and> length p \<le> nat n"
      using Suc.IH [OF c l] unfolding e by blast+
    have len: "length (r # rs) \<le> nat n" by (simp only: Cons [symmetric] length_take)
    have "pages (Suc fuel) D a n (if ys = [] then None else Some (m_id (last ys))) t = (r # rs) # ?rest"
      by (simp only: pages.simps page Cons list.case)
    moreover have "concat ((r # rs) # ?rest) = zs" by (simp only: concat.simps rest(1) zs)
    moreover have "\<forall>p \<in> set ((r # rs) # ?rest). p \<noteq> [] \<and> length p \<le> nat n"
      using rest(2) len by (metis list.distinct(1) set_ConsD)
    ultimately show ?thesis by (simp only: simp_thms)
  qed
qed

lemma ordered_none [simp]: "ordered D None rows = rows"
proof -
  have "lex_before R [] = (\<lambda>_ _. False)" for R :: "sort_key \<Rightarrow> EmailJobModel \<Rightarrow> EmailJobModel \<Rightarrow> bool"
    by (simp add: fun_eq_iff)
  then show ?thesis by (simp add: ordered_def or_default_def)
qed

end
