(* ===== verification/PrismaGroups.thy ===== *)
theory PrismaGroups
  imports PrismaReads
begin

text \<open>
  Counting and grouping: \<open>count\<close>, \<open>aggregate\<close> and \<open>groupBy\<close> of the generated delegate, with the
  filters of \<open>having\<close> and the check the type of \<open>groupBy\<close> makes of its arguments. A row that the
  filters and the page leave is counted once; groups are formed by equality of the values in \<open>by\<close>,
  null being equal to null.
\<close>

section \<open>Counts, minima and maxima\<close>

text \<open>A member of an input is \<open>true\<close> or absent.\<close>

record EmailJobCountAggregateInputType =
  ci_id :: "bool"
  ci_idempotencyKey :: "bool"
  ci_tenantId :: "bool"
  ci_from :: "bool"
  ci_to :: "bool"
  ci_subject :: "bool"
  ci_text :: "bool"
  ci_html :: "bool"
  ci_provider :: "bool"
  ci_status :: "bool"
  ci_createdAt :: "bool"
  ci_updatedAt :: "bool"
  ci_deliveredAt :: "bool"
  ci_lastErrorCode :: "bool"
  ci_all :: bool

record EmailJobMinAggregateInputType =
  ni_id :: "bool"
  ni_idempotencyKey :: "bool"
  ni_tenantId :: "bool"
  ni_from :: "bool"
  ni_to :: "bool"
  ni_subject :: "bool"
  ni_text :: "bool"
  ni_html :: "bool"
  ni_provider :: "bool"
  ni_status :: "bool"
  ni_createdAt :: "bool"
  ni_updatedAt :: "bool"
  ni_deliveredAt :: "bool"
  ni_lastErrorCode :: "bool"

record EmailJobMaxAggregateInputType =
  xi_id :: "bool"
  xi_idempotencyKey :: "bool"
  xi_tenantId :: "bool"
  xi_from :: "bool"
  xi_to :: "bool"
  xi_subject :: "bool"
  xi_text :: "bool"
  xi_html :: "bool"
  xi_provider :: "bool"
  xi_status :: "bool"
  xi_createdAt :: "bool"
  xi_updatedAt :: "bool"
  xi_deliveredAt :: "bool"
  xi_lastErrorCode :: "bool"

record EmailJobCountAggregateOutputType =
  cout_id :: "nat"
  cout_idempotencyKey :: "nat"
  cout_tenantId :: "nat"
  cout_from :: "nat"
  cout_to :: "nat"
  cout_subject :: "nat"
  cout_text :: "nat"
  cout_html :: "nat"
  cout_provider :: "nat"
  cout_status :: "nat"
  cout_createdAt :: "nat"
  cout_updatedAt :: "nat"
  cout_deliveredAt :: "nat"
  cout_lastErrorCode :: "nat"
  cout_all :: nat

record EmailJobMinAggregateOutputType =
  nout_id :: "string option"
  nout_idempotencyKey :: "string option"
  nout_tenantId :: "string option"
  nout_from :: "string option"
  nout_to :: "string option"
  nout_subject :: "string option"
  nout_text :: "string option"
  nout_html :: "string option"
  nout_provider :: "string option"
  nout_status :: "string option"
  nout_createdAt :: "int option"
  nout_updatedAt :: "int option"
  nout_deliveredAt :: "int option"
  nout_lastErrorCode :: "string option"

record EmailJobMaxAggregateOutputType =
  xout_id :: "string option"
  xout_idempotencyKey :: "string option"
  xout_tenantId :: "string option"
  xout_from :: "string option"
  xout_to :: "string option"
  xout_subject :: "string option"
  xout_text :: "string option"
  xout_html :: "string option"
  xout_provider :: "string option"
  xout_status :: "string option"
  xout_createdAt :: "int option"
  xout_updatedAt :: "int option"
  xout_deliveredAt :: "int option"
  xout_lastErrorCode :: "string option"

text \<open>A count of a column counts the rows in which it is not null.\<close>

definition count_of :: "EmailJobScalarFieldEnum \<Rightarrow> EmailJobModel list \<Rightarrow> nat" where
  "count_of f rows = length (filter (\<lambda>r. cell_of r f \<noteq> None) rows)"

definition count_output :: "EmailJobModel list \<Rightarrow> EmailJobCountAggregateOutputType" where
  "count_output rows =
     \<lparr>cout_id = count_of F_id rows, cout_idempotencyKey = count_of F_idempotencyKey rows,
      cout_tenantId = count_of F_tenantId rows, cout_from = count_of F_from rows,
      cout_to = count_of F_to rows, cout_subject = count_of F_subject rows,
      cout_text = count_of F_text rows, cout_html = count_of F_html rows,
      cout_provider = count_of F_provider rows, cout_status = count_of F_status rows,
      cout_createdAt = count_of F_createdAt rows, cout_updatedAt = count_of F_updatedAt rows,
      cout_deliveredAt = count_of F_deliveredAt rows,
      cout_lastErrorCode = count_of F_lastErrorCode rows, cout_all = length rows\<rparr>"

fun best :: "('a \<Rightarrow> 'a \<Rightarrow> bool) \<Rightarrow> 'a list \<Rightarrow> 'a option" where
  "best R [] = None"
| "best R (x # xs) = (case best R xs of None \<Rightarrow> Some x | Some y \<Rightarrow> Some (if R y x then y else x))"

definition min_text :: "EmailJobScalarFieldEnum \<Rightarrow> collation \<Rightarrow> EmailJobModel list \<Rightarrow> string option" where
  "min_text f D rows = best (less_text D Default_mode) (List.map_filter (\<lambda>r. string_column r f) rows)"

definition max_text :: "EmailJobScalarFieldEnum \<Rightarrow> collation \<Rightarrow> EmailJobModel list \<Rightarrow> string option" where
  "max_text f D rows = best (\<lambda>a b. less_text D Default_mode b a) (List.map_filter (\<lambda>r. string_column r f) rows)"

definition min_date :: "EmailJobScalarFieldEnum \<Rightarrow> collation \<Rightarrow> EmailJobModel list \<Rightarrow> int option" where
  "min_date f D rows = best (<) (List.map_filter (\<lambda>r. date_column r f) rows)"

definition max_date :: "EmailJobScalarFieldEnum \<Rightarrow> collation \<Rightarrow> EmailJobModel list \<Rightarrow> int option" where
  "max_date f D rows = best (>) (List.map_filter (\<lambda>r. date_column r f) rows)"

definition min_output :: "collation \<Rightarrow> EmailJobModel list \<Rightarrow> EmailJobMinAggregateOutputType" where
  "min_output D rows =
     \<lparr>nout_id = min_text F_id D rows, nout_idempotencyKey = min_text F_idempotencyKey D rows,
      nout_tenantId = min_text F_tenantId D rows, nout_from = min_text F_from D rows,
      nout_to = min_text F_to D rows, nout_subject = min_text F_subject D rows,
      nout_text = min_text F_text D rows, nout_html = min_text F_html D rows,
      nout_provider = min_text F_provider D rows, nout_status = min_text F_status D rows,
      nout_createdAt = min_date F_createdAt D rows, nout_updatedAt = min_date F_updatedAt D rows,
      nout_deliveredAt = min_date F_deliveredAt D rows,
      nout_lastErrorCode = min_text F_lastErrorCode D rows\<rparr>"

definition max_output :: "collation \<Rightarrow> EmailJobModel list \<Rightarrow> EmailJobMaxAggregateOutputType" where
  "max_output D rows =
     \<lparr>xout_id = max_text F_id D rows, xout_idempotencyKey = max_text F_idempotencyKey D rows,
      xout_tenantId = max_text F_tenantId D rows, xout_from = max_text F_from D rows,
      xout_to = max_text F_to D rows, xout_subject = max_text F_subject D rows,
      xout_text = max_text F_text D rows, xout_html = max_text F_html D rows,
      xout_provider = max_text F_provider D rows, xout_status = max_text F_status D rows,
      xout_createdAt = max_date F_createdAt D rows, xout_updatedAt = max_date F_updatedAt D rows,
      xout_deliveredAt = max_date F_deliveredAt D rows,
      xout_lastErrorCode = max_text F_lastErrorCode D rows\<rparr>"

text \<open>\<open>GetScalarType\<close>: of a full output, the members the input names.\<close>

definition named :: "bool \<Rightarrow> 'a \<Rightarrow> 'a list" where
  "named b x = (if b then [x] else [])"

definition picked_counts :: "EmailJobCountAggregateInputType \<Rightarrow> EmailJobCountAggregateOutputType \<Rightarrow> (EmailJobScalarFieldEnum option \<times> nat) list" where
  "picked_counts i x =
     named (ci_id i) (Some F_id, cout_id x) @
     named (ci_idempotencyKey i) (Some F_idempotencyKey, cout_idempotencyKey x) @
     named (ci_tenantId i) (Some F_tenantId, cout_tenantId x) @
     named (ci_from i) (Some F_from, cout_from x) @ named (ci_to i) (Some F_to, cout_to x) @
     named (ci_subject i) (Some F_subject, cout_subject x) @
     named (ci_text i) (Some F_text, cout_text x) @ named (ci_html i) (Some F_html, cout_html x) @
     named (ci_provider i) (Some F_provider, cout_provider x) @
     named (ci_status i) (Some F_status, cout_status x) @
     named (ci_createdAt i) (Some F_createdAt, cout_createdAt x) @
     named (ci_updatedAt i) (Some F_updatedAt, cout_updatedAt x) @
     named (ci_deliveredAt i) (Some F_deliveredAt, cout_deliveredAt x) @
     named (ci_lastErrorCode i) (Some F_lastErrorCode, cout_lastErrorCode x) @
     named (ci_all i) (None, cout_all x)"

definition picked_min :: "EmailJobMinAggregateInputType \<Rightarrow> EmailJobMinAggregateOutputType \<Rightarrow> payload" where
  "picked_min i x =
     named (ni_id i) (F_id, map_option Text (nout_id x)) @
     named (ni_idempotencyKey i) (F_idempotencyKey, map_option Text (nout_idempotencyKey x)) @
     named (ni_tenantId i) (F_tenantId, map_option Text (nout_tenantId x)) @
     named (ni_from i) (F_from, map_option Text (nout_from x)) @
     named (ni_to i) (F_to, map_option Text (nout_to x)) @
     named (ni_subject i) (F_subject, map_option Text (nout_subject x)) @
     named (ni_text i) (F_text, map_option Text (nout_text x)) @
     named (ni_html i) (F_html, map_option Text (nout_html x)) @
     named (ni_provider i) (F_provider, map_option Text (nout_provider x)) @
     named (ni_status i) (F_status, map_option Text (nout_status x)) @
     named (ni_createdAt i) (F_createdAt, map_option Instant (nout_createdAt x)) @
     named (ni_updatedAt i) (F_updatedAt, map_option Instant (nout_updatedAt x)) @
     named (ni_deliveredAt i) (F_deliveredAt, map_option Instant (nout_deliveredAt x)) @
     named (ni_lastErrorCode i) (F_lastErrorCode, map_option Text (nout_lastErrorCode x))"

definition picked_max :: "EmailJobMaxAggregateInputType \<Rightarrow> EmailJobMaxAggregateOutputType \<Rightarrow> payload" where
  "picked_max i x =
     named (xi_id i) (F_id, map_option Text (xout_id x)) @
     named (xi_idempotencyKey i) (F_idempotencyKey, map_option Text (xout_idempotencyKey x)) @
     named (xi_tenantId i) (F_tenantId, map_option Text (xout_tenantId x)) @
     named (xi_from i) (F_from, map_option Text (xout_from x)) @
     named (xi_to i) (F_to, map_option Text (xout_to x)) @
     named (xi_subject i) (F_subject, map_option Text (xout_subject x)) @
     named (xi_text i) (F_text, map_option Text (xout_text x)) @
     named (xi_html i) (F_html, map_option Text (xout_html x)) @
     named (xi_provider i) (F_provider, map_option Text (xout_provider x)) @
     named (xi_status i) (F_status, map_option Text (xout_status x)) @
     named (xi_createdAt i) (F_createdAt, map_option Instant (xout_createdAt x)) @
     named (xi_updatedAt i) (F_updatedAt, map_option Instant (xout_updatedAt x)) @
     named (xi_deliveredAt i) (F_deliveredAt, map_option Instant (xout_deliveredAt x)) @
     named (xi_lastErrorCode i) (F_lastErrorCode, map_option Text (xout_lastErrorCode x))"

datatype count_arg = CountRows | CountFields EmailJobCountAggregateInputType

datatype count_result = Total nat | Counts "(EmailJobScalarFieldEnum option \<times> nat) list"

definition counted :: "count_arg \<Rightarrow> EmailJobCountAggregateOutputType \<Rightarrow> count_result" where
  "counted k x = (case k of CountRows \<Rightarrow> Total (cout_all x) | CountFields i \<Rightarrow> Counts (picked_counts i x))"

section \<open>count and aggregate\<close>

record EmailJobCountArgs =
  ct_where :: "EmailJobWhereInput option"
  ct_orderBy :: "EmailJobOrderByWithRelationInput list option"
  ct_cursor :: "EmailJobWhereUniqueInput option"
  ct_take :: "int option"
  ct_skip :: "nat option"
  ct_select :: "count_arg option"

record EmailJobAggregateArgs =
  ag_where :: "EmailJobWhereInput option"
  ag_orderBy :: "EmailJobOrderByWithRelationInput list option"
  ag_cursor :: "EmailJobWhereUniqueInput option"
  ag_take :: "int option"
  ag_skip :: "nat option"
  ag_count :: "count_arg option"
  ag_min :: "EmailJobMinAggregateInputType option"
  ag_max :: "EmailJobMaxAggregateInputType option"

record AggregateEmailJob =
  agg_count :: "EmailJobCountAggregateOutputType option"
  agg_min :: "EmailJobMinAggregateOutputType option"
  agg_max :: "EmailJobMaxAggregateOutputType option"

record aggregate_result =
  r_count :: "count_result option"
  r_min :: "payload option"
  r_max :: "payload option"

definition all_aggregates :: "collation \<Rightarrow> EmailJobModel list \<Rightarrow> AggregateEmailJob" where
  "all_aggregates D rows =
     \<lparr>agg_count = Some (count_output rows), agg_min = Some (min_output D rows), agg_max = Some (max_output D rows)\<rparr>"

definition both :: "('a \<Rightarrow> 'b \<Rightarrow> 'c) \<Rightarrow> 'a option \<Rightarrow> 'b option \<Rightarrow> 'c option" where
  "both f x y = (case (x, y) of (Some a, Some b) \<Rightarrow> Some (f a b) | _ \<Rightarrow> None)"

definition GetEmailJobAggregateType :: "EmailJobAggregateArgs \<Rightarrow> AggregateEmailJob \<Rightarrow> aggregate_result" where
  "GetEmailJobAggregateType a x =
     \<lparr>r_count = both counted (ag_count a) (agg_count x), r_min = both picked_min (ag_min a) (agg_min x),
      r_max = both picked_max (ag_max a) (agg_max x)\<rparr>"

definition rows_of ::
    "collation \<Rightarrow> EmailJobWhereInput option \<Rightarrow> EmailJobOrderByWithRelationInput list option \<Rightarrow>
     EmailJobWhereUniqueInput option \<Rightarrow> int option \<Rightarrow> nat option \<Rightarrow> model_table \<Rightarrow> EmailJobModel list" where
  "rows_of D wh ob cur k s t =
     found_rows D \<lparr>fm_select = None, fm_omit = None, fm_where = wh, fm_orderBy = ob, fm_cursor = cur, fm_take = k,
       fm_skip = s, fm_distinct = None\<rparr> t"

definition op_count :: "collation \<Rightarrow> EmailJobCountArgs \<Rightarrow> model_table \<Rightarrow> count_result" where
  "op_count D a t =
     counted (or_default CountRows (ct_select a))
       (count_output (rows_of D (ct_where a) (ct_orderBy a) (ct_cursor a) (ct_take a) (ct_skip a) t))"

definition op_aggregate :: "collation \<Rightarrow> EmailJobAggregateArgs \<Rightarrow> model_table \<Rightarrow> aggregate_result" where
  "op_aggregate D a t =
     GetEmailJobAggregateType a
       (all_aggregates D (rows_of D (ag_where a) (ag_orderBy a) (ag_cursor a) (ag_take a) (ag_skip a) t))"

section \<open>Filters of aggregates\<close>

datatype NestedIntFilter =
    NestedIntFilter (nif_equals: "int option") (nif_in: "int list option") (nif_notIn: "int list option")
      (nif_lt: "int option") (nif_lte: "int option") (nif_gt: "int option") (nif_gte: "int option")
      (nif_not: "nested_int_not option")
and nested_int_not = NotIntFilter NestedIntFilter | NotInt int

datatype NestedIntNullableFilter =
    NestedIntNullableFilter (ninf_equals: "int nullable option") (ninf_in: "int list nullable option")
      (ninf_notIn: "int list nullable option") (ninf_lt: "int option") (ninf_lte: "int option")
      (ninf_gt: "int option") (ninf_gte: "int option") (ninf_not: "nested_int_nullable_not option")
and nested_int_nullable_not = NotIntNullableFilter NestedIntNullableFilter | NotIntNullable "int nullable"

datatype NestedStringWithAggregatesFilter =
    NestedStringWithAggregatesFilter
      (nsa_equals: "string operand option") (nsa_in: "string list option")
      (nsa_notIn: "string list option") (nsa_lt: "string operand option")
      (nsa_lte: "string operand option") (nsa_gt: "string operand option")
      (nsa_gte: "string operand option") (nsa_contains: "string operand option")
      (nsa_startsWith: "string operand option") (nsa_endsWith: "string operand option")
      (nsa_not: "nested_string_agg_not option") (nsa_count: "NestedIntFilter option")
      (nsa_min: "NestedStringFilter option") (nsa_max: "NestedStringFilter option")
and nested_string_agg_not = NotStringAgg NestedStringWithAggregatesFilter | NotStringAggValue string

datatype NestedStringNullableWithAggregatesFilter =
    NestedStringNullableWithAggregatesFilter
      (nsna_equals: "string operand nullable option") (nsna_in: "string list nullable option")
      (nsna_notIn: "string list nullable option") (nsna_lt: "string operand option")
      (nsna_lte: "string operand option") (nsna_gt: "string operand option")
      (nsna_gte: "string operand option") (nsna_contains: "string operand option")
      (nsna_startsWith: "string operand option") (nsna_endsWith: "string operand option")
      (nsna_not: "nested_string_nullable_agg_not option")
      (nsna_count: "NestedIntNullableFilter option") (nsna_min: "NestedStringNullableFilter option")
      (nsna_max: "NestedStringNullableFilter option")
and nested_string_nullable_agg_not = NotStringNullableAgg NestedStringNullableWithAggregatesFilter | NotStringNullableAggValue "string nullable"

datatype NestedDateTimeWithAggregatesFilter =
    NestedDateTimeWithAggregatesFilter
      (nda_equals: "int operand option") (nda_in: "int list option") (nda_notIn: "int list option")
      (nda_lt: "int operand option") (nda_lte: "int operand option") (nda_gt: "int operand option")
      (nda_gte: "int operand option") (nda_not: "nested_date_agg_not option")
      (nda_count: "NestedIntFilter option") (nda_min: "NestedDateTimeFilter option")
      (nda_max: "NestedDateTimeFilter option")
and nested_date_agg_not = NotDateTimeAgg NestedDateTimeWithAggregatesFilter | NotDateTimeAggValue int

datatype NestedDateTimeNullableWithAggregatesFilter =
    NestedDateTimeNullableWithAggregatesFilter
      (ndna_equals: "int operand nullable option") (ndna_in: "int list nullable option")
      (ndna_notIn: "int list nullable option") (ndna_lt: "int operand option")
      (ndna_lte: "int operand option") (ndna_gt: "int operand option") (ndna_gte: "int operand option")
      (ndna_not: "nested_date_nullable_agg_not option") (ndna_count: "NestedIntNullableFilter option")
      (ndna_min: "NestedDateTimeNullableFilter option")
      (ndna_max: "NestedDateTimeNullableFilter option")
and nested_date_nullable_agg_not = NotDateTimeNullableAgg NestedDateTimeNullableWithAggregatesFilter | NotDateTimeNullableAggValue "int nullable"

record StringWithAggregatesFilter =
  sa_equals :: "string operand option"
  sa_in :: "string list option"
  sa_notIn :: "string list option"
  sa_lt :: "string operand option"
  sa_lte :: "string operand option"
  sa_gt :: "string operand option"
  sa_gte :: "string operand option"
  sa_contains :: "string operand option"
  sa_startsWith :: "string operand option"
  sa_endsWith :: "string operand option"
  sa_mode :: "QueryMode option"
  sa_not :: "nested_string_agg_not option"
  sa_count :: "NestedIntFilter option"
  sa_min :: "NestedStringFilter option"
  sa_max :: "NestedStringFilter option"

record StringNullableWithAggregatesFilter =
  sna_equals :: "string operand nullable option"
  sna_in :: "string list nullable option"
  sna_notIn :: "string list nullable option"
  sna_lt :: "string operand option"
  sna_lte :: "string operand option"
  sna_gt :: "string operand option"
  sna_gte :: "string operand option"
  sna_contains :: "string operand option"
  sna_startsWith :: "string operand option"
  sna_endsWith :: "string operand option"
  sna_mode :: "QueryMode option"
  sna_not :: "nested_string_nullable_agg_not option"
  sna_count :: "NestedIntNullableFilter option"
  sna_min :: "NestedStringNullableFilter option"
  sna_max :: "NestedStringNullableFilter option"

record DateTimeWithAggregatesFilter =
  da_equals :: "int operand option"
  da_in :: "int list option"
  da_notIn :: "int list option"
  da_lt :: "int operand option"
  da_lte :: "int operand option"
  da_gt :: "int operand option"
  da_gte :: "int operand option"
  da_not :: "nested_date_agg_not option"
  da_count :: "NestedIntFilter option"
  da_min :: "NestedDateTimeFilter option"
  da_max :: "NestedDateTimeFilter option"

record DateTimeNullableWithAggregatesFilter =
  dna_equals :: "int operand nullable option"
  dna_in :: "int list nullable option"
  dna_notIn :: "int list nullable option"
  dna_lt :: "int operand option"
  dna_lte :: "int operand option"
  dna_gt :: "int operand option"
  dna_gte :: "int operand option"
  dna_not :: "nested_date_nullable_agg_not option"
  dna_count :: "NestedIntNullableFilter option"
  dna_min :: "NestedDateTimeNullableFilter option"
  dna_max :: "NestedDateTimeNullableFilter option"

text \<open>Numbers compare as numbers; a count is never null.\<close>

definition int_order :: "int option \<Rightarrow> int option \<Rightarrow> int option \<Rightarrow> int option \<Rightarrow> int option \<Rightarrow> bool option list" where
  "int_order v lt lte gt gte =
     cond lt (\<lambda>y. cmp (<) v (Some y)) @ cond lte (\<lambda>y. cmp (\<le>) v (Some y)) @
     cond gt (\<lambda>y. cmp (<) (Some y) v) @ cond gte (\<lambda>y. cmp (\<le>) (Some y) v)"

primrec eval_int :: "int option \<Rightarrow> NestedIntFilter \<Rightarrow> bool option"
    and eval_int_not :: "int option \<Rightarrow> nested_int_not \<Rightarrow> bool option" where
  "eval_int v (NestedIntFilter eq ins nin lt lte gt gte no) =
     k_all (cond eq (\<lambda>y. cmp (=) v (Some y)) @ cond ins (among (=) v) @ cond nin (\<lambda>xs. k_not (among (=) v xs)) @
       int_order v lt lte gt gte @ cond (map_option (eval_int_not v) no) id)"
| "eval_int_not v (NotIntFilter f) = k_not (eval_int v f)"
| "eval_int_not v (NotInt n) = k_not (cmp (=) v (Some n))"

primrec eval_int_nullable :: "int option \<Rightarrow> NestedIntNullableFilter \<Rightarrow> bool option"
    and eval_int_nullable_not :: "int option \<Rightarrow> nested_int_nullable_not \<Rightarrow> bool option" where
  "eval_int_nullable v (NestedIntNullableFilter eq ins nin lt lte gt gte no) =
     k_all (cond eq (is_value (=) v) @ cond ins (among_nullable (=) v) @
       cond nin (\<lambda>xs. k_not (among_nullable (=) v xs)) @ int_order v lt lte gt gte @
       cond (map_option (eval_int_nullable_not v) no) id)"
| "eval_int_nullable_not v (NotIntNullableFilter f) = k_not (eval_int_nullable v f)"
| "eval_int_nullable_not v (NotIntNullable n) = k_not (is_value (=) v n)"

text \<open>
  A filter of a column \<open>f\<close> of a group \<open>g\<close>: the plain members speak of the value the rows of the group
  share, read off its first row, the others of the count, the minimum and the maximum in the group.
\<close>

definition count_in :: "EmailJobScalarFieldEnum \<Rightarrow> EmailJobModel list \<Rightarrow> int option" where
  "count_in f g = Some (int (count_of f g))"

primrec eval_string_agg :: "collation \<Rightarrow> QueryMode \<Rightarrow> EmailJobScalarFieldEnum \<Rightarrow> EmailJobModel list \<Rightarrow> NestedStringWithAggregatesFilter \<Rightarrow> bool option"
    and eval_string_agg_not :: "collation \<Rightarrow> QueryMode \<Rightarrow> EmailJobScalarFieldEnum \<Rightarrow> EmailJobModel list \<Rightarrow> nested_string_agg_not \<Rightarrow> bool option" where
  "eval_string_agg D q f g (NestedStringWithAggregatesFilter eq ins nin lt lte gt gte con starts ends no cnt mn mx) =
     k_all (
       cond eq (\<lambda>y. cmp (same_text D q) (string_column (hd g) f) (operand_value (string_column (hd g)) y)) @
       cond ins (among (same_text D q) (string_column (hd g) f)) @
       cond nin (\<lambda>xs. k_not (among (same_text D q) (string_column (hd g) f) xs)) @
       text_order D q (hd g) (string_column (hd g) f) lt lte gt gte con starts ends @
       cond (map_option (eval_string_agg_not D q f g) no) id @ cond cnt (eval_int (count_in f g)) @
       cond mn (eval_nested_string D q (hd g) (min_text f D g)) @
       cond mx (eval_nested_string D q (hd g) (max_text f D g)))"
| "eval_string_agg_not D q f g (NotStringAgg x) = k_not (eval_string_agg D q f g x)"
| "eval_string_agg_not D q f g (NotStringAggValue x) = k_not (cmp (same_text D q) (string_column (hd g) f) (Some x))"

primrec eval_string_nullable_agg :: "collation \<Rightarrow> QueryMode \<Rightarrow> EmailJobScalarFieldEnum \<Rightarrow> EmailJobModel list \<Rightarrow> NestedStringNullableWithAggregatesFilter \<Rightarrow> bool option"
    and eval_string_nullable_agg_not :: "collation \<Rightarrow> QueryMode \<Rightarrow> EmailJobScalarFieldEnum \<Rightarrow> EmailJobModel list \<Rightarrow> nested_string_nullable_agg_not \<Rightarrow> bool option" where
  "eval_string_nullable_agg D q f g (NestedStringNullableWithAggregatesFilter eq ins nin lt lte gt gte con starts ends no cnt mn mx) =
     k_all (
       cond eq (equals_nullable (same_text D q) (string_column (hd g)) (string_column (hd g) f)) @
       cond ins (among_nullable (same_text D q) (string_column (hd g) f)) @
       cond nin (\<lambda>xs. k_not (among_nullable (same_text D q) (string_column (hd g) f) xs)) @
       text_order D q (hd g) (string_column (hd g) f) lt lte gt gte con starts ends @
       cond (map_option (eval_string_nullable_agg_not D q f g) no) id @
       cond cnt (eval_int_nullable (count_in f g)) @
       cond mn (eval_nested_string_nullable D q (hd g) (min_text f D g)) @
       cond mx (eval_nested_string_nullable D q (hd g) (max_text f D g)))"
| "eval_string_nullable_agg_not D q f g (NotStringNullableAgg x) = k_not (eval_string_nullable_agg D q f g x)"
| "eval_string_nullable_agg_not D q f g (NotStringNullableAggValue x) =
     k_not (equals_nullable (same_text D q) (string_column (hd g)) (string_column (hd g) f) (case x of Null \<Rightarrow> Null | NotNull y \<Rightarrow> NotNull (Value y)))"

primrec eval_date_agg :: "collation \<Rightarrow> EmailJobScalarFieldEnum \<Rightarrow> EmailJobModel list \<Rightarrow> NestedDateTimeWithAggregatesFilter \<Rightarrow> bool option"
    and eval_date_agg_not :: "collation \<Rightarrow> EmailJobScalarFieldEnum \<Rightarrow> EmailJobModel list \<Rightarrow> nested_date_agg_not \<Rightarrow> bool option" where
  "eval_date_agg D f g (NestedDateTimeWithAggregatesFilter eq ins nin lt lte gt gte no cnt mn mx) =
     k_all (
       cond eq (\<lambda>y. cmp (=) (date_column (hd g) f) (operand_value (date_column (hd g)) y)) @
       cond ins (among (=) (date_column (hd g) f)) @
       cond nin (\<lambda>xs. k_not (among (=) (date_column (hd g) f) xs)) @
       date_order (hd g) (date_column (hd g) f) lt lte gt gte @
       cond (map_option (eval_date_agg_not D f g) no) id @ cond cnt (eval_int (count_in f g)) @
       cond mn (eval_nested_date (hd g) (min_date f D g)) @
       cond mx (eval_nested_date (hd g) (max_date f D g)))"
| "eval_date_agg_not D f g (NotDateTimeAgg x) = k_not (eval_date_agg D f g x)"
| "eval_date_agg_not D f g (NotDateTimeAggValue x) = k_not (cmp (=) (date_column (hd g) f) (Some x))"

primrec eval_date_nullable_agg :: "collation \<Rightarrow> EmailJobScalarFieldEnum \<Rightarrow> EmailJobModel list \<Rightarrow> NestedDateTimeNullableWithAggregatesFilter \<Rightarrow> bool option"
    and eval_date_nullable_agg_not :: "collation \<Rightarrow> EmailJobScalarFieldEnum \<Rightarrow> EmailJobModel list \<Rightarrow> nested_date_nullable_agg_not \<Rightarrow> bool option" where
  "eval_date_nullable_agg D f g (NestedDateTimeNullableWithAggregatesFilter eq ins nin lt lte gt gte no cnt mn mx) =
     k_all (
       cond eq (equals_nullable (=) (date_column (hd g)) (date_column (hd g) f)) @
       cond ins (among_nullable (=) (date_column (hd g) f)) @
       cond nin (\<lambda>xs. k_not (among_nullable (=) (date_column (hd g) f) xs)) @
       date_order (hd g) (date_column (hd g) f) lt lte gt gte @
       cond (map_option (eval_date_nullable_agg_not D f g) no) id @
       cond cnt (eval_int_nullable (count_in f g)) @
       cond mn (eval_nested_date_nullable (hd g) (min_date f D g)) @
       cond mx (eval_nested_date_nullable (hd g) (max_date f D g)))"
| "eval_date_nullable_agg_not D f g (NotDateTimeNullableAgg x) = k_not (eval_date_nullable_agg D f g x)"
| "eval_date_nullable_agg_not D f g (NotDateTimeNullableAggValue x) =
     k_not (equals_nullable (=) (date_column (hd g)) (date_column (hd g) f) (case x of Null \<Rightarrow> Null | NotNull y \<Rightarrow> NotNull (Value y)))"

datatype EmailJobScalarWhereWithAggregatesInput =
  HavingInput (h_AND: "EmailJobScalarWhereWithAggregatesInput list option")
    (h_OR: "EmailJobScalarWhereWithAggregatesInput list option")
    (h_NOT: "EmailJobScalarWhereWithAggregatesInput list option")
    (h_id: "(StringWithAggregatesFilter, string) condition option")
    (h_idempotencyKey: "(StringWithAggregatesFilter, string) condition option")
    (h_tenantId: "(StringWithAggregatesFilter, string) condition option")
    (h_from: "(StringWithAggregatesFilter, string) condition option")
    (h_to: "(StringWithAggregatesFilter, string) condition option")
    (h_subject: "(StringWithAggregatesFilter, string) condition option")
    (h_text: "(StringWithAggregatesFilter, string) condition option")
    (h_html: "(StringNullableWithAggregatesFilter, string nullable) condition option")
    (h_provider: "(StringWithAggregatesFilter, string) condition option")
    (h_status: "(StringWithAggregatesFilter, string) condition option")
    (h_createdAt: "(DateTimeWithAggregatesFilter, int) condition option")
    (h_updatedAt: "(DateTimeWithAggregatesFilter, int) condition option")
    (h_deliveredAt: "(DateTimeNullableWithAggregatesFilter, int nullable) condition option")
    (h_lastErrorCode: "(StringNullableWithAggregatesFilter, string nullable) condition option")

definition string_having :: "collation \<Rightarrow> EmailJobScalarFieldEnum \<Rightarrow> EmailJobModel list \<Rightarrow> (StringWithAggregatesFilter, string) condition \<Rightarrow> bool option" where
  "string_having D f g c =
     (case c of
        Filter x \<Rightarrow> eval_string_agg D (mode_of (sa_mode x)) f g
          (NestedStringWithAggregatesFilter
            (sa_equals x) (sa_in x) (sa_notIn x) (sa_lt x) (sa_lte x) (sa_gt x) (sa_gte x)
            (sa_contains x) (sa_startsWith x) (sa_endsWith x) (sa_not x) (sa_count x) (sa_min x)
            (sa_max x))
      | Is v \<Rightarrow> cmp (same_text D Default_mode) (string_column (hd g) f) (Some v))"

definition string_nullable_having :: "collation \<Rightarrow> EmailJobScalarFieldEnum \<Rightarrow> EmailJobModel list \<Rightarrow> (StringNullableWithAggregatesFilter, string nullable) condition \<Rightarrow> bool option" where
  "string_nullable_having D f g c =
     (case c of
        Filter x \<Rightarrow> eval_string_nullable_agg D (mode_of (sna_mode x)) f g
          (NestedStringNullableWithAggregatesFilter
            (sna_equals x) (sna_in x) (sna_notIn x) (sna_lt x) (sna_lte x) (sna_gt x) (sna_gte x)
            (sna_contains x) (sna_startsWith x) (sna_endsWith x) (sna_not x) (sna_count x) (sna_min x)
            (sna_max x))
      | Is v \<Rightarrow> is_value (same_text D Default_mode) (string_column (hd g) f) v)"

definition date_having :: "collation \<Rightarrow> EmailJobScalarFieldEnum \<Rightarrow> EmailJobModel list \<Rightarrow> (DateTimeWithAggregatesFilter, int) condition \<Rightarrow> bool option" where
  "date_having D f g c =
     (case c of
        Filter x \<Rightarrow> eval_date_agg D f g
          (NestedDateTimeWithAggregatesFilter
            (da_equals x) (da_in x) (da_notIn x) (da_lt x) (da_lte x) (da_gt x) (da_gte x) (da_not x)
            (da_count x) (da_min x) (da_max x))
      | Is v \<Rightarrow> cmp (=) (date_column (hd g) f) (Some v))"

definition date_nullable_having :: "collation \<Rightarrow> EmailJobScalarFieldEnum \<Rightarrow> EmailJobModel list \<Rightarrow> (DateTimeNullableWithAggregatesFilter, int nullable) condition \<Rightarrow> bool option" where
  "date_nullable_having D f g c =
     (case c of
        Filter x \<Rightarrow> eval_date_nullable_agg D f g
          (NestedDateTimeNullableWithAggregatesFilter
            (dna_equals x) (dna_in x) (dna_notIn x) (dna_lt x) (dna_lte x) (dna_gt x) (dna_gte x)
            (dna_not x) (dna_count x) (dna_min x) (dna_max x))
      | Is v \<Rightarrow> is_value (=) (date_column (hd g) f) v)"

primrec eval_having :: "collation \<Rightarrow> EmailJobModel list \<Rightarrow> EmailJobScalarWhereWithAggregatesInput \<Rightarrow> bool option" where
  "eval_having D g (HavingInput an orr no h0 h1 h2 h3 h4 h5 h6 h7 h8 h9 h10 h11 h12 h13) =
     k_all (cond (map_option (List.map (eval_having D g)) an) k_all @
       cond (map_option (List.map (eval_having D g)) orr) k_any @
       cond (map_option (List.map (eval_having D g)) no) (\<lambda>bs. k_all (List.map k_not bs)) @
       cond h0 (string_having D F_id g) @ cond h1 (string_having D F_idempotencyKey g) @
       cond h2 (string_having D F_tenantId g) @ cond h3 (string_having D F_from g) @
       cond h4 (string_having D F_to g) @ cond h5 (string_having D F_subject g) @
       cond h6 (string_having D F_text g) @ cond h7 (string_nullable_having D F_html g) @
       cond h8 (string_having D F_provider g) @ cond h9 (string_having D F_status g) @
       cond h10 (date_having D F_createdAt g) @ cond h11 (date_having D F_updatedAt g) @
       cond h12 (date_nullable_having D F_deliveredAt g) @
       cond h13 (string_nullable_having D F_lastErrorCode g))"

section \<open>What the type of groupBy checks\<close>

text \<open>
  \<open>GetHavingFields\<close>: the columns of which \<open>having\<close> speaks otherwise than through an aggregate,
  inside of \<open>AND\<close>, \<open>OR\<close> and \<open>NOT\<close> too.
\<close>

definition string_plain :: "(StringWithAggregatesFilter, string) condition \<Rightarrow> bool" where
  "string_plain c \<longleftrightarrow>
     (case c of Is _ \<Rightarrow> True
      | Filter x \<Rightarrow>
          sa_equals x \<noteq> None \<or> sa_in x \<noteq> None \<or> sa_notIn x \<noteq> None \<or>
          sa_lt x \<noteq> None \<or> sa_lte x \<noteq> None \<or> sa_gt x \<noteq> None \<or>
          sa_gte x \<noteq> None \<or> sa_contains x \<noteq> None \<or>
          sa_startsWith x \<noteq> None \<or> sa_endsWith x \<noteq> None \<or>
          sa_mode x \<noteq> None \<or> sa_not x \<noteq> None)"

definition string_nullable_plain :: "(StringNullableWithAggregatesFilter, string nullable) condition \<Rightarrow> bool" where
  "string_nullable_plain c \<longleftrightarrow>
     (case c of Is _ \<Rightarrow> True
      | Filter x \<Rightarrow>
          sna_equals x \<noteq> None \<or> sna_in x \<noteq> None \<or> sna_notIn x \<noteq> None \<or>
          sna_lt x \<noteq> None \<or> sna_lte x \<noteq> None \<or> sna_gt x \<noteq> None \<or>
          sna_gte x \<noteq> None \<or> sna_contains x \<noteq> None \<or>
          sna_startsWith x \<noteq> None \<or> sna_endsWith x \<noteq> None \<or>
          sna_mode x \<noteq> None \<or> sna_not x \<noteq> None)"

definition date_plain :: "(DateTimeWithAggregatesFilter, int) condition \<Rightarrow> bool" where
  "date_plain c \<longleftrightarrow>
     (case c of Is _ \<Rightarrow> True
      | Filter x \<Rightarrow>
          da_equals x \<noteq> None \<or> da_in x \<noteq> None \<or> da_notIn x \<noteq> None \<or>
          da_lt x \<noteq> None \<or> da_lte x \<noteq> None \<or> da_gt x \<noteq> None \<or>
          da_gte x \<noteq> None \<or> da_not x \<noteq> None)"

definition date_nullable_plain :: "(DateTimeNullableWithAggregatesFilter, int nullable) condition \<Rightarrow> bool" where
  "date_nullable_plain c \<longleftrightarrow>
     (case c of Is _ \<Rightarrow> True
      | Filter x \<Rightarrow>
          dna_equals x \<noteq> None \<or> dna_in x \<noteq> None \<or> dna_notIn x \<noteq> None \<or>
          dna_lt x \<noteq> None \<or> dna_lte x \<noteq> None \<or> dna_gt x \<noteq> None \<or>
          dna_gte x \<noteq> None \<or> dna_not x \<noteq> None)"

definition spoken :: "EmailJobScalarFieldEnum \<Rightarrow> ('a \<Rightarrow> bool) \<Rightarrow> 'a option \<Rightarrow> EmailJobScalarFieldEnum list" where
  "spoken f plain c = (case c of None \<Rightarrow> [] | Some x \<Rightarrow> if plain x then [f] else [])"

primrec GetHavingFields :: "EmailJobScalarWhereWithAggregatesInput \<Rightarrow> EmailJobScalarFieldEnum list" where
  "GetHavingFields (HavingInput an orr no h0 h1 h2 h3 h4 h5 h6 h7 h8 h9 h10 h11 h12 h13) =
     or_default [] (map_option concat (map_option (List.map GetHavingFields) an)) @
     or_default [] (map_option concat (map_option (List.map GetHavingFields) orr)) @
     or_default [] (map_option concat (map_option (List.map GetHavingFields) no)) @
     spoken F_id string_plain h0 @ spoken F_idempotencyKey string_plain h1 @
     spoken F_tenantId string_plain h2 @ spoken F_from string_plain h3 @ spoken F_to string_plain h4 @
     spoken F_subject string_plain h5 @ spoken F_text string_plain h6 @
     spoken F_html string_nullable_plain h7 @ spoken F_provider string_plain h8 @
     spoken F_status string_plain h9 @ spoken F_createdAt date_plain h10 @
     spoken F_updatedAt date_plain h11 @ spoken F_deliveredAt date_nullable_plain h12 @
     spoken F_lastErrorCode string_nullable_plain h13"

record EmailJobCountOrderByAggregateInput =
  oc_id :: "SortOrder option"
  oc_idempotencyKey :: "SortOrder option"
  oc_tenantId :: "SortOrder option"
  oc_from :: "SortOrder option"
  oc_to :: "SortOrder option"
  oc_subject :: "SortOrder option"
  oc_text :: "SortOrder option"
  oc_html :: "SortOrder option"
  oc_provider :: "SortOrder option"
  oc_status :: "SortOrder option"
  oc_createdAt :: "SortOrder option"
  oc_updatedAt :: "SortOrder option"
  oc_deliveredAt :: "SortOrder option"
  oc_lastErrorCode :: "SortOrder option"

record EmailJobMaxOrderByAggregateInput =
  ox_id :: "SortOrder option"
  ox_idempotencyKey :: "SortOrder option"
  ox_tenantId :: "SortOrder option"
  ox_from :: "SortOrder option"
  ox_to :: "SortOrder option"
  ox_subject :: "SortOrder option"
  ox_text :: "SortOrder option"
  ox_html :: "SortOrder option"
  ox_provider :: "SortOrder option"
  ox_status :: "SortOrder option"
  ox_createdAt :: "SortOrder option"
  ox_updatedAt :: "SortOrder option"
  ox_deliveredAt :: "SortOrder option"
  ox_lastErrorCode :: "SortOrder option"

record EmailJobMinOrderByAggregateInput =
  on_id :: "SortOrder option"
  on_idempotencyKey :: "SortOrder option"
  on_tenantId :: "SortOrder option"
  on_from :: "SortOrder option"
  on_to :: "SortOrder option"
  on_subject :: "SortOrder option"
  on_text :: "SortOrder option"
  on_html :: "SortOrder option"
  on_provider :: "SortOrder option"
  on_status :: "SortOrder option"
  on_createdAt :: "SortOrder option"
  on_updatedAt :: "SortOrder option"
  on_deliveredAt :: "SortOrder option"
  on_lastErrorCode :: "SortOrder option"

record EmailJobOrderByWithAggregationInput =
  oa_id :: "SortOrder option"
  oa_idempotencyKey :: "SortOrder option"
  oa_tenantId :: "SortOrder option"
  oa_from :: "SortOrder option"
  oa_to :: "SortOrder option"
  oa_subject :: "SortOrder option"
  oa_text :: "SortOrder option"
  oa_html :: "nullable_sort option"
  oa_provider :: "SortOrder option"
  oa_status :: "SortOrder option"
  oa_createdAt :: "SortOrder option"
  oa_updatedAt :: "SortOrder option"
  oa_deliveredAt :: "nullable_sort option"
  oa_lastErrorCode :: "nullable_sort option"
  oa_count :: "EmailJobCountOrderByAggregateInput option"
  oa_max :: "EmailJobMaxOrderByAggregateInput option"
  oa_min :: "EmailJobMinOrderByAggregateInput option"

datatype group_key =
    ColumnKey sort_key
  | CountKey EmailJobScalarFieldEnum SortOrder
  | MaxKey EmailJobScalarFieldEnum SortOrder
  | MinKey EmailJobScalarFieldEnum SortOrder

definition column_keys :: "EmailJobOrderByWithAggregationInput \<Rightarrow> sort_key list" where
  "column_keys p =
     wanted (plain_key F_id) (oa_id p) @ wanted (plain_key F_idempotencyKey) (oa_idempotencyKey p) @
     wanted (plain_key F_tenantId) (oa_tenantId p) @ wanted (plain_key F_from) (oa_from p) @
     wanted (plain_key F_to) (oa_to p) @ wanted (plain_key F_subject) (oa_subject p) @
     wanted (plain_key F_text) (oa_text p) @ wanted (nullable_key F_html) (oa_html p) @
     wanted (plain_key F_provider) (oa_provider p) @ wanted (plain_key F_status) (oa_status p) @
     wanted (plain_key F_createdAt) (oa_createdAt p) @
     wanted (plain_key F_updatedAt) (oa_updatedAt p) @
     wanted (nullable_key F_deliveredAt) (oa_deliveredAt p) @
     wanted (nullable_key F_lastErrorCode) (oa_lastErrorCode p)"

definition count_keys :: "EmailJobCountOrderByAggregateInput \<Rightarrow> group_key list" where
  "count_keys p =
     wanted (CountKey F_id) (oc_id p) @ wanted (CountKey F_idempotencyKey) (oc_idempotencyKey p) @
     wanted (CountKey F_tenantId) (oc_tenantId p) @ wanted (CountKey F_from) (oc_from p) @
     wanted (CountKey F_to) (oc_to p) @ wanted (CountKey F_subject) (oc_subject p) @
     wanted (CountKey F_text) (oc_text p) @ wanted (CountKey F_html) (oc_html p) @
     wanted (CountKey F_provider) (oc_provider p) @ wanted (CountKey F_status) (oc_status p) @
     wanted (CountKey F_createdAt) (oc_createdAt p) @ wanted (CountKey F_updatedAt) (oc_updatedAt p) @
     wanted (CountKey F_deliveredAt) (oc_deliveredAt p) @
     wanted (CountKey F_lastErrorCode) (oc_lastErrorCode p)"

definition max_keys :: "EmailJobMaxOrderByAggregateInput \<Rightarrow> group_key list" where
  "max_keys p =
     wanted (MaxKey F_id) (ox_id p) @ wanted (MaxKey F_idempotencyKey) (ox_idempotencyKey p) @
     wanted (MaxKey F_tenantId) (ox_tenantId p) @ wanted (MaxKey F_from) (ox_from p) @
     wanted (MaxKey F_to) (ox_to p) @ wanted (MaxKey F_subject) (ox_subject p) @
     wanted (MaxKey F_text) (ox_text p) @ wanted (MaxKey F_html) (ox_html p) @
     wanted (MaxKey F_provider) (ox_provider p) @ wanted (MaxKey F_status) (ox_status p) @
     wanted (MaxKey F_createdAt) (ox_createdAt p) @ wanted (MaxKey F_updatedAt) (ox_updatedAt p) @
     wanted (MaxKey F_deliveredAt) (ox_deliveredAt p) @
     wanted (MaxKey F_lastErrorCode) (ox_lastErrorCode p)"

definition min_keys :: "EmailJobMinOrderByAggregateInput \<Rightarrow> group_key list" where
  "min_keys p =
     wanted (MinKey F_id) (on_id p) @ wanted (MinKey F_idempotencyKey) (on_idempotencyKey p) @
     wanted (MinKey F_tenantId) (on_tenantId p) @ wanted (MinKey F_from) (on_from p) @
     wanted (MinKey F_to) (on_to p) @ wanted (MinKey F_subject) (on_subject p) @
     wanted (MinKey F_text) (on_text p) @ wanted (MinKey F_html) (on_html p) @
     wanted (MinKey F_provider) (on_provider p) @ wanted (MinKey F_status) (on_status p) @
     wanted (MinKey F_createdAt) (on_createdAt p) @ wanted (MinKey F_updatedAt) (on_updatedAt p) @
     wanted (MinKey F_deliveredAt) (on_deliveredAt p) @
     wanted (MinKey F_lastErrorCode) (on_lastErrorCode p)"

definition group_keys :: "EmailJobOrderByWithAggregationInput \<Rightarrow> group_key list" where
  "group_keys p =
     List.map ColumnKey (column_keys p) @ concat (wanted count_keys (oa_count p)) @
     concat (wanted max_keys (oa_max p)) @ concat (wanted min_keys (oa_min p))"

record EmailJobGroupByArgs =
  gb_where :: "EmailJobWhereInput option"
  gb_orderBy :: "EmailJobOrderByWithAggregationInput list option"
  gb_by :: "EmailJobScalarFieldEnum list"
  gb_having :: "EmailJobScalarWhereWithAggregatesInput option"
  gb_take :: "int option"
  gb_skip :: "nat option"
  gb_count :: "count_arg option"
  gb_min :: "EmailJobMinAggregateInputType option"
  gb_max :: "EmailJobMaxAggregateInputType option"

definition quoted :: "EmailJobScalarFieldEnum \<Rightarrow> string" where
  "quoted f = ''Field \"'' @ field_name f @ ''\"''"

definition order_errors :: "EmailJobScalarFieldEnum list \<Rightarrow> EmailJobScalarFieldEnum list \<Rightarrow> string list" where
  "order_errors fs by =
     List.map (\<lambda>f. ''Error: '' @ quoted f @ '' in \"orderBy\" needs to be provided in \"by\"'')
       (filter (\<lambda>f. f \<notin> set by) fs)"

text \<open>\<open>InputErrors\<close>: the argument is accepted when there are none.\<close>

definition InputErrors :: "EmailJobGroupByArgs \<Rightarrow> string list" where
  "InputErrors a =
     (let by = gb_by a;
          order_fields = concat (List.map (\<lambda>p. List.map fst (column_keys p)) (or_default [] (gb_orderBy a)));
          having_fields = (case gb_having a of None \<Rightarrow> [] | Some h \<Rightarrow> GetHavingFields h)
      in if by = [] then [''Error: \"by\" must not be empty.'']
         else if \<not> set having_fields \<subseteq> set by then
           List.map (\<lambda>f. ''Error: '' @ quoted f @ '' used in \"having\" needs to be provided in \"by\".'')
             (filter (\<lambda>f. f \<notin> set by) having_fields)
         else if gb_take a \<noteq> None then
           (if gb_orderBy a \<noteq> None then order_errors order_fields by
            else [''Error: If you provide \"take\", you also need to provide \"orderBy\"''])
         else if gb_skip a \<noteq> None then
           (if gb_orderBy a \<noteq> None then order_errors order_fields by
            else [''Error: If you provide \"skip\", you also need to provide \"orderBy\"''])
         else order_errors order_fields by)"

section \<open>groupBy\<close>

definition lowest :: "collation \<Rightarrow> EmailJobScalarFieldEnum \<Rightarrow> EmailJobModel list \<Rightarrow> cell option" where
  "lowest D f g = (case min_date f D g of Some t \<Rightarrow> Some (Instant t) | None \<Rightarrow> map_option Text (min_text f D g))"

definition highest :: "collation \<Rightarrow> EmailJobScalarFieldEnum \<Rightarrow> EmailJobModel list \<Rightarrow> cell option" where
  "highest D f g = (case max_date f D g of Some t \<Rightarrow> Some (Instant t) | None \<Rightarrow> map_option Text (max_text f D g))"

function groups :: "('r \<Rightarrow> 'k) \<Rightarrow> 'r list \<Rightarrow> 'r list list" where
  "groups key [] = []"
| "groups key (x # xs) = (x # filter (\<lambda>y. key y = key x) xs) # groups key (filter (\<lambda>y. key y \<noteq> key x) xs)"
  by pat_completeness auto
termination by (relation "measure (\<lambda>(key, xs). length xs)") (auto simp: le_imp_less_Suc)

definition group_before :: "collation \<Rightarrow> group_key \<Rightarrow> EmailJobModel list \<Rightarrow> EmailJobModel list \<Rightarrow> bool" where
  "group_before D k g h =
     (case k of
        ColumnKey c \<Rightarrow> key_before D c (hd g) (hd h)
      | CountKey f s \<Rightarrow> (case s of Asc \<Rightarrow> count_of f g < count_of f h | Desc \<Rightarrow> count_of f h < count_of f g)
      | MaxKey f s \<Rightarrow> before D s (nulls_of s None) (highest D f g) (highest D f h)
      | MinKey f s \<Rightarrow> before D s (nulls_of s None) (lowest D f g) (lowest D f h))"

text \<open>A group is reported with the columns of \<open>by\<close> and the aggregates that are asked for.\<close>

record EmailJobGroupByOutputType = EmailJobModel +
  g_count :: "EmailJobCountAggregateOutputType option"
  g_min :: "EmailJobMinAggregateOutputType option"
  g_max :: "EmailJobMaxAggregateOutputType option"

definition group_output :: "collation \<Rightarrow> EmailJobModel list \<Rightarrow> EmailJobGroupByOutputType" where
  "group_output D g =
     EmailJobModel.extend (hd g)
       (EmailJobGroupByOutputType.fields (Some (count_output g)) (Some (min_output D g)) (Some (max_output D g)))"

record group_result =
  gr_key :: payload
  gr_count :: "count_result option"
  gr_min :: "payload option"
  gr_max :: "payload option"

definition GetEmailJobGroupByPayload :: "EmailJobGroupByArgs \<Rightarrow> EmailJobGroupByOutputType \<Rightarrow> group_result" where
  "GetEmailJobGroupByPayload a x =
     \<lparr>gr_key = payload_of (gb_by a) (EmailJobModel.truncate x),
      gr_count = both counted (gb_count a) (g_count x), gr_min = both picked_min (gb_min a) (g_min x),
      gr_max = both picked_max (gb_max a) (g_max x)\<rparr>"

definition found_groups :: "collation \<Rightarrow> EmailJobGroupByArgs \<Rightarrow> model_table \<Rightarrow> EmailJobModel list list" where
  "found_groups D a t =
     (let gs = groups (payload_of (gb_by a)) (filter (matches D (gb_where a)) t);
          gs = filter (\<lambda>g. case gb_having a of None \<Rightarrow> True | Some h \<Rightarrow> eval_having D g h = Some True) gs
      in page None (gb_take a) (gb_skip a)
           (sort_by (lex_before (group_before D) (concat (List.map group_keys (or_default [] (gb_orderBy a))))) gs))"

definition op_groupBy :: "collation \<Rightarrow> EmailJobGroupByArgs \<Rightarrow> model_table \<Rightarrow> string list + group_result list" where
  "op_groupBy D a t =
     (if InputErrors a \<noteq> [] then Inl (InputErrors a)
      else Inr (List.map (\<lambda>g. GetEmailJobGroupByPayload a (group_output D g)) (found_groups D a t)))"

section \<open>What the groups are\<close>

lemma groups_rows: "mset (concat (groups key xs)) = mset xs"
proof (induction key xs rule: groups.induct)
  case (2 key x xs)
  have "mset (filter (\<lambda>y. key y = key x) xs) + mset (filter (\<lambda>y. key y \<noteq> key x) xs) = mset xs"
    by (simp add: mset_filter)
  then show ?case using 2 by (simp del: mset_filter)
qed simp

lemma groups_subset: "g \<in> set (groups key xs) \<Longrightarrow> set g \<subseteq> set xs"
  using groups_rows [of key xs] by (metis UN_upper set_concat set_mset_mset)

lemma groups_share: "g \<in> set (groups key xs) \<Longrightarrow> g \<noteq> [] \<and> (\<forall>r \<in> set g. key r = key (hd g))"
proof (induction key xs rule: groups.induct)
  case (2 key x xs)
  show ?case
  proof (cases "g = x # filter (\<lambda>y. key y = key x) xs")
    case True
    then show ?thesis by simp
  next
    case False
    then have "g \<in> set (groups key (filter (\<lambda>y. key y \<noteq> key x) xs))" using "2.prems" by simp
    then show ?thesis by (rule "2.IH")
  qed
qed simp

lemma groups_keys: "distinct (List.map (\<lambda>g. key (hd g)) (groups key xs))"
proof (induction key xs rule: groups.induct)
  case (2 key x xs)
  have "key (hd g) \<noteq> key x" if g: "g \<in> set (groups key (filter (\<lambda>y. key y \<noteq> key x) xs))" for g
  proof -
    have "hd g \<in> set g" using groups_share [OF g] by simp
    then show ?thesis using groups_subset [OF g] by auto
  qed
  then have "key x \<notin> (\<lambda>g. key (hd g)) ` set (groups key (filter (\<lambda>y. key y \<noteq> key x) xs))" by force
  then show ?case using 2 by simp
qed simp

lemma groups_lengths: "sum_list (List.map length (groups key xs)) = length xs"
  by (metis groups_rows length_concat size_mset)

text \<open>A minimum is a value that nothing is below.\<close>

lemma best_in: "best R xs = Some x \<Longrightarrow> x \<in> set xs"
  by (induction xs arbitrary: x) (auto split: option.splits if_splits)

lemma best_none: "best R xs = None \<longleftrightarrow> xs = []"
  by (cases xs) (simp_all split: option.split)

lemma best_below:
  assumes R: "weak_order R" and "best R xs = Some x" and "y \<in> set xs"
  shows "\<not> R y x"
  using assms(2,3)
proof (induction xs arbitrary: x)
  case (Cons a xs)
  have irrefl: "\<not> R z z" for z using R unfolding weak_order_def by blast
  have asym: "\<not> R v u" if "R u v" for u v using R that unfolding weak_order_def by blast
  have split: "R u v \<or> R v w" if "R u w" for u v w using R that unfolding weak_order_def by blast
  show ?case
  proof (cases "best R xs")
    case None
    then show ?thesis using Cons.prems irrefl by (simp add: best_none)
  next
    case (Some b)
    then have b: "\<not> R y b" if "y \<in> set xs" using Cons.IH that by blast
    have x: "x = (if R b a then b else a)" using Cons.prems(1) Some by simp
    consider "y = a" | "y \<in> set xs" using Cons.prems(2) by auto
    then show ?thesis
    proof cases
      case 1
      then show ?thesis using x irrefl [of a] asym [of b a] by (cases "R b a") simp_all
    next
      case 2
      then show ?thesis using x b [OF 2] split [of y a b] by (cases "R b a") auto
    qed
  qed
qed simp

end
