(* ===== verification/PrismaWrites.thy ===== *)
theory PrismaWrites
  imports PrismaReads
begin

text \<open>
  The writing half of the delegate \<open>prisma.emailJob\<close>: the arguments of \<open>create\<close>, \<open>createMany\<close>,
  \<open>update\<close>, \<open>updateMany\<close>, \<open>upsert\<close>, \<open>delete\<close>, \<open>deleteMany\<close> and their variants that return rows, as
  \<^verbatim>\<open>generated/api/models/EmailJob.ts\<close> declares them, and what its comments say of them. A write that
  is rejected leaves the table as it was; with a limit, it is the first rows that are taken.
\<close>

section \<open>Arguments\<close>

text \<open>The unchecked inputs, and those for many rows, have the members of the checked ones.\<close>

type_synonym EmailJobUncheckedCreateInput = EmailJobCreateInput
type_synonym EmailJobCreateManyInput = EmailJobCreateInput
type_synonym EmailJobUncheckedUpdateInput = EmailJobUpdateInput
type_synonym EmailJobUncheckedUpdateManyInput = EmailJobUpdateInput

record EmailJobCreateArgs =
  ca_select :: "EmailJobSelect nullable option"
  ca_omit :: "EmailJobOmit nullable option"
  ca_data :: EmailJobCreateInput

record EmailJobCreateManyArgs =
  cm_data :: "EmailJobCreateManyInput list"
  cm_skipDuplicates :: "bool option"

record EmailJobCreateManyAndReturnArgs =
  cr_select :: "EmailJobSelectCreateManyAndReturn nullable option"
  cr_omit :: "EmailJobOmit nullable option"
  cr_data :: "EmailJobCreateManyInput list"
  cr_skipDuplicates :: "bool option"

record EmailJobUpdateArgs =
  ua_select :: "EmailJobSelect nullable option"
  ua_omit :: "EmailJobOmit nullable option"
  ua_data :: EmailJobUpdateInput
  ua_where :: EmailJobWhereUniqueInput

record EmailJobUpdateManyArgs =
  um_data :: EmailJobUpdateManyMutationInput
  um_where :: "EmailJobWhereInput option"
  um_limit :: "nat option"

record EmailJobUpdateManyAndReturnArgs =
  ur_select :: "EmailJobSelectUpdateManyAndReturn nullable option"
  ur_omit :: "EmailJobOmit nullable option"
  ur_data :: EmailJobUpdateManyMutationInput
  ur_where :: "EmailJobWhereInput option"
  ur_limit :: "nat option"

record EmailJobUpsertArgs =
  us_select :: "EmailJobSelect nullable option"
  us_omit :: "EmailJobOmit nullable option"
  us_where :: EmailJobWhereUniqueInput
  us_create :: EmailJobCreateInput
  us_update :: EmailJobUpdateInput

record EmailJobDeleteArgs =
  dl_select :: "EmailJobSelect nullable option"
  dl_omit :: "EmailJobOmit nullable option"
  dl_where :: EmailJobWhereUniqueInput

record EmailJobDeleteManyArgs =
  dm_where :: "EmailJobWhereInput option"
  dm_limit :: "nat option"

section \<open>Operations\<close>

type_synonym 'a written = "(string + 'a) \<times> model_table"

definition answered :: "EmailJobSelect nullable option \<Rightarrow> EmailJobOmit nullable option \<Rightarrow>
    (model_table \<Rightarrow> EmailJobModel written) \<Rightarrow> model_table \<Rightarrow> payload written" where
  "answered sel om f t =
     (case SelectSubset sel om of
        Inl e \<Rightarrow> (Inl e, t)
      | Inr fs \<Rightarrow> map_prod (map_sum id (payload_of fs)) id (f t))"

definition answered_many :: "EmailJobSelect nullable option \<Rightarrow> EmailJobOmit nullable option \<Rightarrow>
    (model_table \<Rightarrow> EmailJobModel list written) \<Rightarrow> model_table \<Rightarrow> payload list written" where
  "answered_many sel om f t =
     (case SelectSubset sel om of
        Inl e \<Rightarrow> (Inl e, t)
      | Inr fs \<Rightarrow> map_prod (map_sum id (List.map (payload_of fs))) id (f t))"

definition batch :: "(model_table \<Rightarrow> EmailJobModel list written) \<Rightarrow> model_table \<Rightarrow> BatchPayload written" where
  "batch f t = map_prod (map_sum id (\<lambda>rows. \<lparr>batch_count = length rows\<rparr>)) id (f t)"

definition op_create :: "string \<Rightarrow> int \<Rightarrow> EmailJobCreateArgs \<Rightarrow> model_table \<Rightarrow> payload written" where
  "op_create uuid now a = answered (ca_select a) (ca_omit a) (query_create uuid now (ca_data a))"

text \<open>Rows of one \<open>createMany\<close> are inserted together, or none is; duplicates are skipped if asked for.\<close>

fun insert_all :: "bool \<Rightarrow> EmailJobModel list \<Rightarrow> model_table \<Rightarrow> (EmailJobModel list \<times> model_table) option" where
  "insert_all skip [] t = Some ([], t)"
| "insert_all skip (r # rs) t =
     (if unique_rows (t @ [r]) then map_option (map_prod ((#) r) id) (insert_all skip rs (t @ [r]))
      else if skip then insert_all skip rs t else None)"

definition create_rows ::
    "(nat \<Rightarrow> string) \<Rightarrow> int \<Rightarrow> bool option \<Rightarrow> EmailJobCreateManyInput list \<Rightarrow> model_table \<Rightarrow> EmailJobModel list written" where
  "create_rows uuids now skip cs t =
     (case insert_all (skip = Some True) (List.map (\<lambda>(n, c). created_row (uuids n) now c) (enumerate 0 cs)) t of
        None \<Rightarrow> (Inl ''P2002'', t)
      | Some (rows, t') \<Rightarrow> (Inr rows, t'))"

definition op_createMany :: "(nat \<Rightarrow> string) \<Rightarrow> int \<Rightarrow> EmailJobCreateManyArgs \<Rightarrow> model_table \<Rightarrow> BatchPayload written" where
  "op_createMany uuids now a = batch (create_rows uuids now (cm_skipDuplicates a) (cm_data a))"

definition op_createManyAndReturn :: "(nat \<Rightarrow> string) \<Rightarrow> int \<Rightarrow> EmailJobCreateManyAndReturnArgs \<Rightarrow> model_table \<Rightarrow> payload list written" where
  "op_createManyAndReturn uuids now a =
     answered_many (cr_select a) (cr_omit a) (create_rows uuids now (cr_skipDuplicates a) (cr_data a))"

definition op_update :: "collation \<Rightarrow> int \<Rightarrow> EmailJobUpdateArgs \<Rightarrow> model_table \<Rightarrow> payload written" where
  "op_update D now a = answered (ua_select a) (ua_omit a) (query_update D (ua_where a) now (ua_data a))"

text \<open>The first \<open>n\<close> rows that match are changed by \<open>f\<close>, or removed where it is \<open>None\<close>; the second list is theirs.\<close>

fun change_first :: "('r \<Rightarrow> bool) \<Rightarrow> ('r \<Rightarrow> 'r option) \<Rightarrow> nat \<Rightarrow> 'r list \<Rightarrow> 'r list \<times> 'r list" where
  "change_first hit f n [] = ([], [])"
| "change_first hit f n (r # rs) =
     (if hit r \<and> 0 < n
      then (case change_first hit f (n - 1) rs of (rest, changed) \<Rightarrow>
              (case f r of None \<Rightarrow> (rest, r # changed) | Some r' \<Rightarrow> (r' # rest, r' # changed)))
      else (case change_first hit f n rs of (rest, changed) \<Rightarrow> (r # rest, changed)))"

definition change_rows ::
    "collation \<Rightarrow> EmailJobWhereInput option \<Rightarrow> nat option \<Rightarrow> (EmailJobModel \<Rightarrow> EmailJobModel option) \<Rightarrow>
     model_table \<Rightarrow> EmailJobModel list written" where
  "change_rows D wh limit f t =
     (case change_first (matches D wh) f (or_default (length t) limit) t of
        (t', changed) \<Rightarrow> if unique_rows t' then (Inr changed, t') else (Inl ''P2002'', t))"

definition op_updateMany :: "collation \<Rightarrow> int \<Rightarrow> EmailJobUpdateManyArgs \<Rightarrow> model_table \<Rightarrow> BatchPayload written" where
  "op_updateMany D now a =
     batch (change_rows D (um_where a) (um_limit a) (\<lambda>r. Some (updated_row now (um_data a) r)))"

definition op_updateManyAndReturn :: "collation \<Rightarrow> int \<Rightarrow> EmailJobUpdateManyAndReturnArgs \<Rightarrow> model_table \<Rightarrow> payload list written" where
  "op_updateManyAndReturn D now a =
     answered_many (ur_select a) (ur_omit a)
       (change_rows D (ur_where a) (ur_limit a) (\<lambda>r. Some (updated_row now (ur_data a) r)))"

definition op_upsert :: "collation \<Rightarrow> string \<Rightarrow> int \<Rightarrow> EmailJobUpsertArgs \<Rightarrow> model_table \<Rightarrow> payload written" where
  "op_upsert D uuid now a =
     answered (us_select a) (us_omit a) (\<lambda>t.
       if query_findUnique D (us_where a) t = None then query_create uuid now (us_create a) t
       else query_update D (us_where a) now (us_update a) t)"

definition query_delete :: "collation \<Rightarrow> EmailJobWhereUniqueInput \<Rightarrow> model_table \<Rightarrow> EmailJobModel written" where
  "query_delete D u t =
     (case query_findUnique D u t of
        None \<Rightarrow> (Inl ''P2025'', t)
      | Some r \<Rightarrow> (Inr r, filter (\<lambda>x. \<not> is_unique D u x) t))"

definition op_delete :: "collation \<Rightarrow> EmailJobDeleteArgs \<Rightarrow> model_table \<Rightarrow> payload written" where
  "op_delete D a = answered (dl_select a) (dl_omit a) (query_delete D (dl_where a))"

definition op_deleteMany :: "collation \<Rightarrow> EmailJobDeleteManyArgs \<Rightarrow> model_table \<Rightarrow> BatchPayload written" where
  "op_deleteMany D a = batch (change_rows D (dm_where a) (dm_limit a) (\<lambda>_. None))"

text \<open>Every write, as a step of the table.\<close>

inductive delegate_write :: "collation \<Rightarrow> model_table \<Rightarrow> model_table \<Rightarrow> bool" for D where
  w_create: "delegate_write D t (snd (op_create uuid now ca t))"
| w_createMany: "delegate_write D t (snd (op_createMany uuids now cm t))"
| w_createManyAndReturn: "delegate_write D t (snd (op_createManyAndReturn uuids now cr t))"
| w_update: "delegate_write D t (snd (op_update D now ua t))"
| w_updateMany: "delegate_write D t (snd (op_updateMany D now um t))"
| w_updateManyAndReturn: "delegate_write D t (snd (op_updateManyAndReturn D now ur t))"
| w_upsert: "delegate_write D t (snd (op_upsert D uuid now us t))"
| w_delete: "delegate_write D t (snd (op_delete D dl t))"
| w_deleteMany: "delegate_write D t (snd (op_deleteMany D dm t))"

section \<open>What writes keep\<close>

definition keeps_unique :: "(model_table \<Rightarrow> 'a written) \<Rightarrow> bool" where
  "keeps_unique f \<longleftrightarrow> (\<forall>t. unique_rows t \<longrightarrow> unique_rows (snd (f t)))"

lemma keeps_unique_answered:
  "keeps_unique f \<Longrightarrow> keeps_unique (answered sel om f)" "keeps_unique g \<Longrightarrow> keeps_unique (answered_many sel om g)"
  "keeps_unique g \<Longrightarrow> keeps_unique (batch g)"
  by (auto simp: keeps_unique_def answered_def answered_many_def batch_def map_prod_def case_prod_unfold split: sum.split)

lemma keeps_unique_create: "keeps_unique (query_create uuid now c)"
  by (simp add: keeps_unique_def query_create_def Let_def)

lemma keeps_unique_update: "keeps_unique (query_update D u now d)"
  by (simp add: keeps_unique_def query_update_def Let_def split: option.split)

lemma keeps_unique_delete: "keeps_unique (query_delete D u)"
  by (simp add: keeps_unique_def query_delete_def unique_rows_def distinct_map_filter split: option.split)

lemma insert_all_prefix:
  assumes "insert_all skip rs t = Some (ins, t')"
  shows "t' = t @ ins" and "unique_rows t \<Longrightarrow> unique_rows t'"
proof -
  have "t' = t @ ins \<and> (unique_rows t \<longrightarrow> unique_rows t')"
    using assms
  proof (induction rs arbitrary: t ins)
    case (Cons r rs)
    show ?case
    proof (cases "unique_rows (t @ [r])")
      case True
      then obtain ins' where "insert_all skip rs (t @ [r]) = Some (ins', t')" "ins = r # ins'"
        using Cons.prems by auto
      then show ?thesis using Cons.IH [of "t @ [r]" ins'] True by auto
    next
      case False
      then have "insert_all skip rs t = Some (ins, t')" using Cons.prems by (simp split: if_splits)
      then show ?thesis by (rule Cons.IH)
    qed
  qed simp
  then show "t' = t @ ins" and "unique_rows t \<Longrightarrow> unique_rows t'" by blast+
qed

lemma insert_all_skips: "\<exists>ins t'. insert_all True rs t = Some (ins, t')"
proof (induction rs arbitrary: t)
  case (Cons r rs)
  obtain ins t' where "insert_all True rs (t @ [r]) = Some (ins, t')" using Cons.IH by blast
  moreover obtain ins t' where "insert_all True rs t = Some (ins, t')" using Cons.IH by blast
  ultimately show ?case by simp
qed simp

lemma keeps_unique_create_rows: "keeps_unique (create_rows uuids now skip cs)"
  by (auto simp: keeps_unique_def create_rows_def dest: insert_all_prefix split: option.split)

lemma keeps_unique_change_rows: "keeps_unique (change_rows D wh n f)"
  by (auto simp: keeps_unique_def change_rows_def split: prod.split)

lemma keeps_unique_upsert:
  "keeps_unique (\<lambda>t. if query_findUnique D u t = None then query_create uuid now c t else query_update D u now d t)"
  using keeps_unique_create keeps_unique_update by (simp add: keeps_unique_def)

lemmas keeps_unique_intros = keeps_unique_answered keeps_unique_create keeps_unique_update keeps_unique_delete
  keeps_unique_create_rows keeps_unique_change_rows keeps_unique_upsert

lemma delegate_write_unique:
  assumes "delegate_write D t t'" and "unique_rows t"
  shows "unique_rows t'"
proof -
  have keeps: "keeps_unique (op_create uuid now ca)" "keeps_unique (op_createMany uuids now cm)"
    "keeps_unique (op_createManyAndReturn uuids now cr)" "keeps_unique (op_update D now ua)"
    "keeps_unique (op_updateMany D now um)" "keeps_unique (op_updateManyAndReturn D now ur)"
    "keeps_unique (op_upsert D uuid now us)" "keeps_unique (op_delete D dl)" "keeps_unique (op_deleteMany D dm)"
    for uuid uuids now ca cm cr ua um ur us dl dm
    unfolding op_create_def op_createMany_def op_createManyAndReturn_def op_update_def op_updateMany_def
      op_updateManyAndReturn_def op_upsert_def op_delete_def op_deleteMany_def
    by (intro keeps_unique_intros)+
  show ?thesis
    using assms(1) by (cases rule: delegate_write.cases) (use keeps assms(2) in \<open>simp_all add: keeps_unique_def\<close>)
qed

section \<open>Rejected writes, limits and duplicates\<close>

lemma change_first_rows:
  assumes "change_first hit f n t = (t', changed)"
  shows "length changed = min n (length (filter hit t))"
    and "(\<forall>r. f r = None) \<Longrightarrow> length t' + length changed = length t \<and> set changed \<subseteq> set (filter hit t) \<and> set t' \<subseteq> set t"
  using assms
proof (induction hit f n t arbitrary: t' changed rule: change_first.induct)
  case (2 hit f n r rs)
  {
    case 1
    then show ?case using 2 by (cases "f r") (auto split: if_splits prod.splits)
  next
    case 2
    then show ?case using "2.IH"(2,4) by (auto split: if_splits prod.splits)
  }
qed simp_all

lemma change_rows_without_limit:
  "length t \<le> n \<Longrightarrow> change_first hit (\<lambda>r. Some (g r)) n t = (List.map (\<lambda>r. if hit r then g r else r) t, List.map g (filter hit t))"
  by (induction t arbitrary: n) (auto split: prod.split)

text \<open>Without a limit, \<open>updateMany\<close> is the query the repository uses.\<close>

lemma updateMany_query:
  assumes "um_limit a = None"
  shows "op_updateMany D now a t =
    query_updateMany D (or_default no_where (um_where a)) now (um_data a) t"
proof -
  let ?w = "or_default no_where (um_where a)"
  have m: "matches D (um_where a) = (\<lambda>r. eval_where D r ?w = Some True)"
    by (rule ext, cases "um_where a") (simp_all add: matches_def or_default_def no_where_def cond_def)
  have l: "or_default (length t) (um_limit a) = length t" by (simp add: assms or_default_def)
  show ?thesis
    using change_rows_without_limit [of t "length t" "\<lambda>r. eval_where D r ?w = Some True" "updated_row now (um_data a)"]
    by (simp add: op_updateMany_def batch_def change_rows_def m l query_updateMany_def Let_def)
qed

text \<open>An upsert that names its row by its identifier and keeps it: the second one updates what the first left.\<close>

lemma upsert_again:
  assumes "exact D" and "unique_rows t"
    and w: "us_where a = unique_id i" and c: "c_id (us_create a) = Some i" and u: "u_id (us_update a) = None"
    and first: "op_upsert D uuid now a t = (Inr p, t')"
  shows "\<exists>r \<in> set t'. m_id r = i"
proof -
  have find: "query_findUnique D (us_where a) x = List.find (\<lambda>r. m_id r = i) x" for x
    by (simp add: query_findUnique_def w eval_where_id [OF assms(1)])
  have keep: "m_id (updated_row now (us_update a) r) = m_id r" for r
    by (simp add: updated_row_def u set_text_def)
  have new: "m_id (created_row uuid now (us_create a)) = i"
    by (simp add: created_row_def c or_default_def)
  show ?thesis
  proof (cases "List.find (\<lambda>r. m_id r = i) t")
    case None
    then show ?thesis
      using first find new by (auto simp: op_upsert_def answered_def query_create_def Let_def split: sum.splits if_splits)
  next
    case (Some r)
    then have "r \<in> set t" "m_id r = i" by (auto simp: find_Some_iff)
    then have "\<exists>x \<in> set t. m_id x = i \<and> m_id (updated_row now (us_update a) x) = i" using keep by blast
    then show ?thesis
      using first find Some
      by (auto simp: op_upsert_def answered_def query_update_def Let_def w eval_where_id [OF assms(1)]
          split: sum.splits if_splits)
  qed
qed

end
