(* ===== verification/PrismaProperties.thy ===== *)
theory PrismaProperties
  imports PrismaGroups PrismaWrites
begin

text \<open>
  The properties of the generated database client: pages, groups, and the constraints of the table.
\<close>

section \<open>Reading\<close>



definition exact_collation :: collation where
  "exact_collation = \<lparr>same_text = \<lambda>_. (=), less_text = \<lambda>_ _ _. False, contains_text = \<lambda>_ _ _. False,
     starts_text = \<lambda>_ _ _. False, ends_text = \<lambda>_ _ _. False\<rparr>"

definition sample_row :: "string \<Rightarrow> string \<Rightarrow> int \<Rightarrow> EmailJobModel" where
  "sample_row i tenant t =
     \<lparr>m_id = i, m_idempotencyKey = ''key-'' @ i, m_tenantId = tenant, m_from = ''a@x'', m_to = ''b@y'', m_subject = ''s'',
      m_text = ''hi'', m_html = None, m_provider = ''smtp'', m_status = ''QUEUED'', m_createdAt = t, m_updatedAt = t,
      m_deliveredAt = None, m_lastErrorCode = None\<rparr>"

definition sample_table :: model_table where
  "sample_table = [sample_row ''1'' ''t'' 3, sample_row ''2'' ''u'' 2, sample_row ''3'' ''t'' 1]"


lemma sample_facts: "exact exact_collation" "unique_rows sample_table"
  by (simp_all add: exact_def exact_collation_def unique_rows_def sample_table_def sample_row_def)


text \<open>What a query without a page finds: the rows that match, sorted.\<close>

lemma found_rows_sorted:
  assumes "orders_texts D" and "fm_distinct a = None"
  shows "mset (candidates D a t) = mset (filter (matches D (fm_where a)) t)"
    and "sorted_wrt (\<lambda>r s. \<not> lex_before (key_before D) (concat (List.map sort_keys (or_default [] (fm_orderBy a)))) s r)
      (candidates D a t)"
  using ordered_sorted [OF assms(1)] by (simp_all add: candidates_def assms(2) ordered_facts)

section \<open>Grouping\<close>




text \<open>What the type of the arguments accepts.\<close>

lemma InputErrors_none:
  "InputErrors a = [] \<longleftrightarrow>
     gb_by a \<noteq> [] \<and> (\<forall>h. gb_having a = Some h \<longrightarrow> set (GetHavingFields h) \<subseteq> set (gb_by a)) \<and>
     (gb_take a \<noteq> None \<or> gb_skip a \<noteq> None \<longrightarrow> gb_orderBy a \<noteq> None) \<and>
     (\<forall>p \<in> set (or_default [] (gb_orderBy a)). fst ` set (column_keys p) \<subseteq> set (gb_by a))"
proof -
  have o: "order_errors fs ks = [] \<longleftrightarrow> set fs \<subseteq> set ks" for fs ks
    by (auto simp: order_errors_def filter_empty_conv)
  have e: "filter (\<lambda>f. f \<notin> set ks) fs = [] \<longleftrightarrow> set fs \<subseteq> set ks" for fs ks :: "EmailJobScalarFieldEnum list"
    by (auto simp: filter_empty_conv)
  show ?thesis
    by (cases "gb_having a"; cases "gb_orderBy a"; cases "gb_take a"; cases "gb_skip a")
      (auto simp: InputErrors_def Let_def o e or_default_def)
qed

section \<open>Writing\<close>

text \<open>No sequence of writes, of any kind, with any arguments, gives two rows one identifier or one idempotency key.\<close>

theorem writes_keep_constraints:
  assumes "(delegate_write D)\<^sup>*\<^sup>* t t'" and "unique_rows t"
  shows "unique_rows t'"
  using assms by (induction rule: rtranclp_induct) (auto intro: delegate_write_unique)

theorem writes_keep_constraints_witness:
  "unique_rows (snd (op_deleteMany exact_collation \<lparr>dm_where = None, dm_limit = Some 1\<rparr> sample_table))"
proof -
  have "delegate_write exact_collation sample_table (snd (op_deleteMany exact_collation \<lparr>dm_where = None, dm_limit = Some 1\<rparr> sample_table))"
    by (rule w_deleteMany)
  from writes_keep_constraints [OF r_into_rtranclp [of "delegate_write exact_collation", OF this] sample_facts(2)] show ?thesis .
qed

end
