(* ===== verification/PrismaClient.thy ===== *)
theory PrismaClient
  imports PrismaProperties
begin

text \<open>
  The generated client as a whole (\<^verbatim>\<open>generated/api/internal/prismaNamespace.ts\<close> and \<^verbatim>\<open>class.ts\<close>): the map
  from the operations of a model to their arguments and results, the data model the client is configured with,
  its options, what it can be asked to log, and \<open>$transaction\<close> over a list of operations. An operation is its
  name with its arguments; \<open>perform\<close> is the operation of the theories \<open>PrismaReads\<close>, \<open>PrismaGroups\<close> and
  \<open>PrismaWrites\<close>, to which the engine contributes identifiers and the time.
\<close>

section \<open>TypeMap\<close>

datatype operation =
    FindUnique EmailJobFindUniqueArgs
  | FindUniqueOrThrow EmailJobFindUniqueOrThrowArgs
  | FindFirst EmailJobFindFirstArgs
  | FindFirstOrThrow EmailJobFindFirstOrThrowArgs
  | FindMany EmailJobFindManyArgs
  | Create EmailJobCreateArgs
  | CreateMany EmailJobCreateManyArgs
  | CreateManyAndReturn EmailJobCreateManyAndReturnArgs
  | Delete EmailJobDeleteArgs
  | Update EmailJobUpdateArgs
  | DeleteMany EmailJobDeleteManyArgs
  | UpdateMany EmailJobUpdateManyArgs
  | UpdateManyAndReturn EmailJobUpdateManyAndReturnArgs
  | Upsert EmailJobUpsertArgs
  | Aggregate EmailJobAggregateArgs
  | GroupBy EmailJobGroupByArgs
  | Count EmailJobCountArgs





section \<open>Performing an operation\<close>














section \<open>Transactions\<close>








section \<open>The data model\<close>

record field_declaration =
  fd_name :: string
  fd_kind :: string
  fd_type :: string

definition scalar_field :: "string \<Rightarrow> string \<Rightarrow> field_declaration" where
  "scalar_field n t = \<lparr>fd_name = n, fd_kind = ''scalar'', fd_type = t\<rparr>"

definition runtimeDataModel :: "(string \<times> string \<times> field_declaration list) list" where
  "runtimeDataModel =
     [(''EmailJob'', ''email_jobs'',
       [scalar_field ''id'' ''String'', scalar_field ''idempotencyKey'' ''String'', scalar_field ''tenantId'' ''String'',
        scalar_field ''from'' ''String'', scalar_field ''to'' ''String'', scalar_field ''subject'' ''String'',
        scalar_field ''text'' ''String'', scalar_field ''html'' ''String'', scalar_field ''provider'' ''String'',
        scalar_field ''status'' ''String'', scalar_field ''createdAt'' ''DateTime'', scalar_field ''updatedAt'' ''DateTime'',
        scalar_field ''deliveredAt'' ''DateTime'', scalar_field ''lastErrorCode'' ''String''])]"

definition cell_type :: "cell \<Rightarrow> string" where
  "cell_type c = (case c of Text _ \<Rightarrow> ''String'' | Instant _ \<Rightarrow> ''DateTime'')"

text \<open>The model the client is configured with has the columns of the enumeration, in its order, and their types.\<close>

lemma data_model_columns:
  "List.map fd_name (snd (snd (hd runtimeDataModel))) = List.map field_name all_fields"
  "cell_of r f = Some c \<Longrightarrow> scalar_field (field_name f) (cell_type c) \<in> set (snd (snd (hd runtimeDataModel)))"
  by (simp_all add: runtimeDataModel_def scalar_field_def all_fields_def)
    (cases f; auto simp: cell_of_def cell_type_def split: option.splits)

section \<open>Options and logging\<close>

datatype LogLevel = L_info | L_query | L_warn | L_error

datatype log_emit = Emit_stdout | Emit_event

record LogDefinition =
  ld_level :: LogLevel
  ld_emit :: log_emit

datatype log_entry = Level LogLevel | Defined LogDefinition

fun GetLogType :: "log_entry \<Rightarrow> LogLevel" where
  "GetLogType (Level l) = l"
| "GetLogType (Defined d) = ld_level d"

definition GetEvents :: "log_entry list \<Rightarrow> LogLevel set" where
  "GetEvents es = GetLogType ` set es"

datatype ErrorFormat = Pretty | Colorless | Minimal

datatype TransactionIsolationLevel = ReadUncommitted | ReadCommitted | RepeatableRead | Serializable

record transaction_options =
  to_maxWait :: "nat option"
  to_timeout :: "nat option"
  to_isolationLevel :: "TransactionIsolationLevel option"

type_synonym GlobalOmitConfig = "EmailJobOmit option"

record 'plugin PrismaClientBaseOptions =
  errorFormat :: "ErrorFormat option"
  log_entries :: "log_entry list option"
  transactionOptions :: "transaction_options option"
  global_omit :: "GlobalOmitConfig option"
  comments :: "'plugin list option"
  queryPlanCacheMaxSize :: "nat option"

datatype ('plugin, 'adapter) PrismaClientOptions =
    PrismaClientOptionsWithAccelerateUrl "'plugin PrismaClientBaseOptions" string
  | PrismaClientOptionsWithAdapter "'plugin PrismaClientBaseOptions" 'adapter

fun base_options :: "('plugin, 'adapter) PrismaClientOptions \<Rightarrow> 'plugin PrismaClientBaseOptions" where
  "base_options (PrismaClientOptionsWithAccelerateUrl b _) = b"
| "base_options (PrismaClientOptionsWithAdapter b _) = b"

text \<open>The levels \<open>$on\<close> can be called with, and what its callback is given.\<close>

definition LogOptions :: "('plugin, 'adapter) PrismaClientOptions \<Rightarrow> LogLevel set" where
  "LogOptions opts = (case log_entries (base_options opts) of None \<Rightarrow> {} | Some es \<Rightarrow> GetEvents es)"

record QueryEvent =
  qe_timestamp :: int
  qe_query :: string
  qe_params :: string
  qe_duration :: nat
  qe_target :: string

record LogEvent =
  le_timestamp :: int
  le_message :: string
  le_target :: string

datatype client_event = OnQuery QueryEvent | OnLog LogEvent

fun event_fits :: "LogLevel \<Rightarrow> client_event \<Rightarrow> bool" where
  "event_fits l (OnQuery _) \<longleftrightarrow> l = L_query"
| "event_fits l (OnLog _) \<longleftrightarrow> l \<noteq> L_query"

text \<open>The client of this program is built with an adapter and nothing else, so it has no events.\<close>

lemma no_events: "log_entries (base_options opts) = None \<Longrightarrow> LogOptions opts = {}"
  by (simp add: LogOptions_def)

section \<open>Actions\<close>

datatype PrismaAction =
    A_findUnique | A_findUniqueOrThrow | A_findMany | A_findFirst | A_findFirstOrThrow
  | A_create | A_createMany | A_createManyAndReturn | A_update | A_updateMany | A_updateManyAndReturn
  | A_upsert | A_delete | A_deleteMany | A_executeRaw | A_queryRaw | A_aggregate | A_count
  | A_runCommandRaw | A_findRaw | A_groupBy

fun action_of :: "operation \<Rightarrow> PrismaAction" where
  "action_of (FindUnique _) = A_findUnique"
| "action_of (FindUniqueOrThrow _) = A_findUniqueOrThrow"
| "action_of (FindFirst _) = A_findFirst"
| "action_of (FindFirstOrThrow _) = A_findFirstOrThrow"
| "action_of (FindMany _) = A_findMany"
| "action_of (Create _) = A_create"
| "action_of (CreateMany _) = A_createMany"
| "action_of (CreateManyAndReturn _) = A_createManyAndReturn"
| "action_of (Delete _) = A_delete"
| "action_of (Update _) = A_update"
| "action_of (DeleteMany _) = A_deleteMany"
| "action_of (UpdateMany _) = A_updateMany"
| "action_of (UpdateManyAndReturn _) = A_updateManyAndReturn"
| "action_of (Upsert _) = A_upsert"
| "action_of (Aggregate _) = A_aggregate"
| "action_of (GroupBy _) = A_groupBy"
| "action_of (Count _) = A_count"

end
