(* ===== verification/Registry.thy ===== *)
theory Registry
  imports PipelineProperties Metrics
begin

text \<open>
  The metrics \<^verbatim>\<open>infra/metrics/metrics.service.ts\<close> registers, as they are declared, with the buckets of the
  two histograms, and what the counters say of the work that was done. The values are those of the record
  \<open>metrics\<close> of theory \<open>World\<close>, which the handlers update; the text in which \<open>prom-client\<close> writes them is not
  modelled.
\<close>

section \<open>Declarations\<close>

datatype metric_type = Counter | Gauge | Histogram "rat list"

record metric =
  metric_name :: string
  metric_help :: string
  labelNames :: "string list"
  metric_type :: metric_type

definition DELIVERY_BUCKETS :: "rat list" where
  "DELIVERY_BUCKETS = [0.005, 0.01, 0.025, 0.05, 0.1, 0.25, 0.5, 1, 2.5, 5, 10]"

definition SEND_BUCKETS :: "rat list" where
  "SEND_BUCKETS = [0.005, 0.01, 0.025, 0.05, 0.1, 0.25, 0.5, 1, 2.5]"

definition registered :: "metric list" where
  "registered =
     [\<lparr>metric_name = ''email_jobs_submitted_total'', metric_help = ''Email jobs accepted and published by the api'',
       labelNames = [], metric_type = Counter\<rparr>,
      \<lparr>metric_name = ''email_jobs_delivered_total'', metric_help = ''Email jobs delivered to the provider'',
       labelNames = [''provider''], metric_type = Counter\<rparr>,
      \<lparr>metric_name = ''email_jobs_retried_total'', metric_help = ''Delivery attempts scheduled for retry'',
       labelNames = [''provider''], metric_type = Counter\<rparr>,
      \<lparr>metric_name = ''email_jobs_dead_lettered_total'', metric_help = ''Email jobs moved to the dead-letter queue'',
       labelNames = [''provider''], metric_type = Counter\<rparr>,
      \<lparr>metric_name = ''email_duplicate_redeliveries_skipped_total'',
       metric_help = ''Duplicate redeliveries prevented by the idempotency guard'', labelNames = [], metric_type = Counter\<rparr>,
      \<lparr>metric_name = ''email_delivery_duration_seconds'',
       metric_help = ''Time from job submission to provider delivery'', labelNames = [], metric_type = Histogram DELIVERY_BUCKETS\<rparr>,
      \<lparr>metric_name = ''email_send_duration_seconds'',
       metric_help = ''Time spent sending a single email through the provider'', labelNames = [],
       metric_type = Histogram SEND_BUCKETS\<rparr>,
      \<lparr>metric_name = ''email_queue_depth'', metric_help = ''Messages waiting in queues'', labelNames = [''queue''],
       metric_type = Gauge\<rparr>]"

text \<open>A registry refuses a name that it has, and the bounds of a histogram have to increase.\<close>

lemma registered_valid:
  "distinct (List.map metric_name registered)"
  "metric_type x = Histogram bs \<Longrightarrow> x \<in> set registered \<Longrightarrow> sorted_wrt (<) bs"
  by (auto simp: registered_def DELIVERY_BUCKETS_def SEND_BUCKETS_def)

section \<open>What the counters count\<close>

text \<open>The job messages that were published, whoever sent them.\<close>

definition submissions :: "'r world \<Rightarrow> nat" where
  "submissions w = length (filter (\<lambda>p. pub_exchange p = exchange TOPOLOGY) (published w))"

text \<open>
  Between two worlds: every delivery that was counted was timed in both histograms, has its own mail, and was
  the SMTP provider's; every submission that was counted has its own message.
\<close>

definition counted :: "'r world \<Rightarrow> 'r world \<Rightarrow> bool" where
  "counted w w' \<longleftrightarrow>
     (let m = metrics w; m' = metrics w' in
      jobsDelivered m' ''smtp'' + length (sendDuration m) = jobsDelivered m ''smtp'' + length (sendDuration m') \<and>
      jobsDelivered m' ''smtp'' + length (deliveryDuration m) = jobsDelivered m ''smtp'' + length (deliveryDuration m') \<and>
      jobsDelivered m' ''smtp'' + length (mails w) \<le> jobsDelivered m ''smtp'' + length (mails w') \<and>
      (\<forall>p. p \<noteq> ''smtp'' \<longrightarrow> jobsDelivered m' p = jobsDelivered m p) \<and>
      jobsSubmitted m' + submissions w \<le> jobsSubmitted m + submissions w')"

interpretation counted: frame_relation counted
  by unfold_locales (auto simp: counted_def Let_def)

text \<open>Whatever leaves the metrics, the mails and the messages alone.\<close>

definition uncounted :: "'r world \<Rightarrow> 'r world \<Rightarrow> bool" where
  "uncounted w w' \<longleftrightarrow> metrics w' = metrics w \<and> mails w' = mails w \<and> published w' = published w"

lemma uncounted_counted: "uncounted w w' \<Longrightarrow> counted w w'"
  by (simp add: uncounted_def counted_def submissions_def)

lemma counted_after: "counted w w1 \<Longrightarrow> uncounted w1 w2 \<Longrightarrow> counted w w2"
  by (rule counted.frame_trans [OF _ uncounted_counted])









section \<open>Every handler\<close>








section \<open>In the network\<close>






end
