(* ===== verification/GoClient.thy ===== *)
theory GoClient
  imports Json Prelude
begin

text \<open>
  The demonstration page of the older Go service, \<^verbatim>\<open>src/go-pipeline/client/src\<close>: \<^verbatim>\<open>Home.tsx\<close> with its
  two recipients, the login through a popup and the interval that waits for the popup to close,
  \<^verbatim>\<open>Success.tsx\<close>, which the popup ends on, and the routes of \<^verbatim>\<open>main.tsx\<close>. The browser is its state: the
  fields, the requests it has sent, the popups, the running intervals, the console and the local
  storage, which all windows of the page share. What the server answers to a request, read as JSON,
  and whether a popup opens are parameters; a handler runs to its end.
\<close>

section \<open>The browser\<close>

record request =
  rq_url :: string
  rq_method :: string
  rq_headers :: "(string \<times> string) list"
  rq_body :: string

record popup =
  pop_url :: json
  pop_name :: string
  pop_features :: string
  pop_closed :: bool

datatype console_line =
    Log "string list"
  | LogValue string json
  | ErrorLog string string

record browser =
  user1ToAddress :: string
  user2ToAddress :: string
  requests :: "request list"
  popups :: "popup list"
  intervals :: "(nat \<times> nat option) list"
  next_interval :: nat
  console :: "console_line list"
  localStorage :: "string \<Rightarrow> string option"

record server =
  answer :: "nat \<Rightarrow> request \<Rightarrow> string + json"
  popup_opens :: "nat \<Rightarrow> bool"

type_synonym 'a page_io = "(browser, string, 'a) async"

definition console_log :: "console_line \<Rightarrow> unit page_io" where
  "console_log l = modify (\<lambda>w. w\<lparr>console := console w @ [l]\<rparr>)"

text \<open>\<open>await fetch(...)\<close>, then \<open>await response.json()\<close>\<close>

definition fetch_json :: "server \<Rightarrow> string \<Rightarrow> (string \<times> js_value) list \<Rightarrow> json page_io" where
  "fetch_json S url members =
     Await (\<lambda>w.
       let rq = \<lparr>rq_url = url, rq_method = ''POST'', rq_headers = [(''Content-Type'', ''application/json'')],
                 rq_body = json_stringify members\<rparr>;
           w' = w\<lparr>requests := requests w @ [rq]\<rparr>
       in case answer S (length (requests w)) rq of
            Inl e \<Rightarrow> (Reject e, w')
          | Inr data \<Rightarrow> (Resolve data, w'))"

text \<open>\<open>window.open\<close>: the number of the popup, or null when the browser blocks it.\<close>

definition window_open :: "server \<Rightarrow> json \<Rightarrow> string \<Rightarrow> string \<Rightarrow> nat option page_io" where
  "window_open S url name features =
     sync (\<lambda>w.
       if popup_opens S (length (popups w))
       then (Some (length (popups w)),
             w\<lparr>popups := popups w @ [\<lparr>pop_url = url, pop_name = name, pop_features = features, pop_closed = False\<rparr>]\<rparr>)
       else (None, w))"

definition setInterval :: "nat option \<Rightarrow> unit page_io" where
  "setInterval p =
     modify (\<lambda>w. w\<lparr>intervals := intervals w @ [(next_interval w, p)], next_interval := Suc (next_interval w)\<rparr>)"

section \<open>Home\<close>

definition initial_address :: string where
  "initial_address = ''nayan@intellect.co''"

text \<open>\<open>data.auth_url\<close>: reading a member of null throws, one that is not there is undefined.\<close>

definition member :: "string \<Rightarrow> json \<Rightarrow> string + json option" where
  "member k v =
     (case v of
        JNull \<Rightarrow> Inl ''Cannot read properties of null''
      | JObj ms \<Rightarrow> Inr (map_of (rev ms) k)
      | _ \<Rightarrow> Inr None)"

definition truthy :: "json option \<Rightarrow> bool" where
  "truthy v =
     (case v of
        None \<Rightarrow> False
      | Some JNull \<Rightarrow> False
      | Some (JBool b) \<Rightarrow> b
      | Some (JNum n) \<Rightarrow> n \<noteq> 0
      | Some (JStr s) \<Rightarrow> s \<noteq> []
      | Some _ \<Rightarrow> True)"

definition handleLogin :: "server \<Rightarrow> string \<Rightarrow> unit page_io" where
  "handleLogin S prov =
     try_catch
       (bind (fetch_json S (''http://localhost:5000/auth/'' @ prov @ ''/login'')
                [(''redirect_url'', JsString ''http://localhost:5173/auth/success'')]) (\<lambda>data.
        case member ''auth_url'' data of
          Inl e \<Rightarrow> Reject e
        | Inr url \<Rightarrow>
            if truthy url
            then bind (window_open S (the url) (prov @ '' Login'') ''width=500,height=600'') setInterval
            else Resolve ()))
       (\<lambda>e. console_log (ErrorLog ''Error fetching auth URL:'' e))"

text \<open>The callback of the interval \<open>i\<close>, every 500 ms.\<close>

definition interval_callback :: "nat \<Rightarrow> browser \<Rightarrow> browser" where
  "interval_callback i w =
     (case map_of (intervals w) i of
        None \<Rightarrow> w
      | Some p \<Rightarrow>
          if (case p of None \<Rightarrow> True | Some n \<Rightarrow> pop_closed (popups w ! n))
          then w\<lparr>intervals := filter (\<lambda>x. fst x \<noteq> i) (intervals w),
                 console := console w @ [Log [''Popup closed, checking login status...''],
                   if localStorage w ''auth_success'' = Some ''true'' then Log [''Account linked successfully!'']
                   else Log [''Login failed or not completed.'']]\<rparr>
          else w)"

definition handleSendEmail :: "server \<Rightarrow> string \<Rightarrow> string \<Rightarrow> string \<Rightarrow> unit page_io" where
  "handleSendEmail S userId tenantId toAddress =
     bind (console_log (Log [''mydata'', userId, tenantId, toAddress])) (\<lambda>_.
       try_catch
         (bind (fetch_json S ''http://localhost:5000/email/send-email''
                  [(''user_id'', JsString userId), (''tenant_id'', JsString tenantId), (''to'', JsString toAddress),
                   (''subject'', JsString ''Test Email''),
                   (''body'', JsString ''This is a test email from your microservice.'')]) (\<lambda>data.
          console_log (LogValue ''Send email response:'' data)))
         (\<lambda>e. console_log (ErrorLog ''Error sending email:'' e)))"

text \<open>The elements of the page a user can act on.\<close>

datatype user_action = Link1 | Link2 | Send1 | Send2 | Type1 string | Type2 string

definition act :: "server \<Rightarrow> user_action \<Rightarrow> unit page_io" where
  "act S a =
     (case a of
        Link1 \<Rightarrow> handleLogin S ''google''
      | Link2 \<Rightarrow> handleLogin S ''microsoft''
      | Send1 \<Rightarrow> bind (get user1ToAddress) (handleSendEmail S ''google_userid'' ''google_tenantid'')
      | Send2 \<Rightarrow> bind (get user2ToAddress) (handleSendEmail S ''microsoft_userid'' ''microsoft_tenantid'')
      | Type1 s \<Rightarrow> modify (\<lambda>w. w\<lparr>user1ToAddress := s\<rparr>)
      | Type2 s \<Rightarrow> modify (\<lambda>w. w\<lparr>user2ToAddress := s\<rparr>))"

section \<open>Success and the routes\<close>

datatype route_element = Home | Success

definition BrowserRouter :: "(string \<times> route_element) list" where
  "BrowserRouter = [(''/'', Home), (''/auth/success'', Success)]"

definition close_popup :: "nat \<Rightarrow> browser \<Rightarrow> browser" where
  "close_popup n w =
     (if n < length (popups w) then w\<lparr>popups := (popups w)[n := (popups w ! n)\<lparr>pop_closed := True\<rparr>]\<rparr> else w)"

text \<open>The effect of \<^verbatim>\<open>Success.tsx\<close> in popup \<open>n\<close>, once it is mounted.\<close>

definition Success_effect :: "nat \<Rightarrow> browser \<Rightarrow> browser" where
  "Success_effect n w = close_popup n (w\<lparr>localStorage := (localStorage w)(''auth_success'' \<mapsto> ''true'')\<rparr>)"

definition navigate :: "nat \<Rightarrow> string \<Rightarrow> browser \<Rightarrow> browser" where
  "navigate n path w = (if map_of BrowserRouter path = Some Success then Success_effect n w else w)"

inductive page_step :: "server \<Rightarrow> browser \<Rightarrow> browser \<Rightarrow> bool" for S where
  step_act: "page_step S w (snd (run (act S a) w))"
| step_interval: "page_step S w (interval_callback i w)"
| step_close: "page_step S w (close_popup n w)"
| step_navigate: "n < length (popups w) \<Longrightarrow> page_step S w (navigate n path w)"

definition loaded :: "(string \<Rightarrow> string option) \<Rightarrow> browser" where
  "loaded storage = \<lparr>user1ToAddress = initial_address, user2ToAddress = initial_address, requests = [], popups = [],
     intervals = [], next_interval = 0, console = [], localStorage = storage\<rparr>"

section \<open>What the page does\<close>

text \<open>A login: one request, and at most one popup and one interval, or one error.\<close>

lemma handleLogin_effect:
  "\<exists>rq. requests (snd (run (handleLogin S p) w)) = requests w @ [rq] \<and> rq_url rq = ''http://localhost:5000/auth/'' @ p @ ''/login''"
  "localStorage (snd (run (handleLogin S p) w)) = localStorage w"
  by (simp_all add: handleLogin_def fetch_json_def run_simps window_open_def setInterval_def console_log_def Let_def
      split: sum.split prod.split)

lemma send_effect:
  "\<exists>rq. requests (snd (run (handleSendEmail S u t a) w)) = requests w @ [rq] \<and> rq_url rq = ''http://localhost:5000/email/send-email'' \<and>
     json_parse (rq_body rq) = Some (JObj [(''user_id'', JStr u), (''tenant_id'', JStr t), (''to'', JStr a),
       (''subject'', JStr ''Test Email''), (''body'', JStr ''This is a test email from your microservice.'')])"
  "localStorage (snd (run (handleSendEmail S u t a) w)) = localStorage w"
  by (simp_all add: handleSendEmail_def fetch_json_def run_simps console_log_def Let_def json_roundtrip to_members_def
      map_filter_simps split: sum.split prod.split)

lemma storage_kept:
  assumes "page_step S w w'" and "localStorage w ''auth_success'' = Some ''true''"
  shows "localStorage w' ''auth_success'' = Some ''true''"
  using assms
proof (cases rule: page_step.cases)
  case (step_act a)
  then show ?thesis
    using assms(2) by (cases a) (simp_all add: act_def run_simps handleLogin_effect send_effect)
qed (simp_all add: interval_callback_def close_popup_def navigate_def Success_effect_def split: option.split)

text \<open>
  A success that was stored once is never forgotten, whatever the user does, so the callback of every
  later popup that is closed reports a success.
\<close>

lemma storage_kept_steps:
  "(page_step S)\<^sup>*\<^sup>* w w' \<Longrightarrow> localStorage w ''auth_success'' = Some ''true'' \<Longrightarrow> localStorage w' ''auth_success'' = Some ''true''"
  by (induction rule: rtranclp_induct) (auto intro: storage_kept)

text \<open>The addresses the page shows are what was typed last, and an interval that has ended is gone.\<close>

lemma interval_ends:
  assumes "map_of (intervals w) i = Some p" and "case p of None \<Rightarrow> True | Some n \<Rightarrow> pop_closed (popups w ! n)"
  shows "map_of (intervals (interval_callback i w)) i = None"
    and "interval_callback i (interval_callback i w) = interval_callback i w"
proof -
  have "map_of (filter (\<lambda>x. fst x \<noteq> i) xs) i = None" for xs :: "(nat \<times> nat option) list"
    by (induction xs) auto
  then show *: "map_of (intervals (interval_callback i w)) i = None"
    using assms by (simp add: interval_callback_def)
  then show "interval_callback i (interval_callback i w) = interval_callback i w"
    by (simp add: interval_callback_def [of i "interval_callback i w"])
qed

text \<open>C40: The login that was stored: once one has succeeded, the interval of every later popup, of whatever provider,
  reports a linked account as soon as that popup is closed, whether or not its login was completed, in every
  state the page reaches.\<close>

theorem stale_login_success:
  assumes "localStorage w ''auth_success'' = Some ''true''" and "(page_step S)\<^sup>*\<^sup>* w w'"
    and "map_of (intervals w') i = Some p" and "case p of None \<Rightarrow> True | Some n \<Rightarrow> pop_closed (popups w' ! n)"
  shows "console (interval_callback i w') =
      console w' @ [Log [''Popup closed, checking login status...''], Log [''Account linked successfully!'']] \<and>
    map_of (intervals (interval_callback i w')) i = None"
  using storage_kept_steps [OF assms(2,1)] interval_ends(1) [OF assms(3,4)] assms(3,4)
  by (simp add: interval_callback_def)

text \<open>A page on which an account was linked before; its next popup is closed by the user at once.\<close>

definition link_server :: server where
  "link_server = \<lparr>answer = \<lambda>_ _. Inr (JObj [(''auth_url'', JStr ''https://accounts'')]), popup_opens = \<lambda>_. True\<rparr>"

definition abandoned :: browser where
  "abandoned = close_popup 0 (snd (run (act link_server Link2) (loaded [''auth_success'' \<mapsto> ''true''])))"

lemma abandoned_facts:
  "(page_step link_server)\<^sup>*\<^sup>* (loaded [''auth_success'' \<mapsto> ''true'']) abandoned"
  "map_of (intervals abandoned) 0 = Some (Some 0)" "pop_closed (popups abandoned ! 0)" "console abandoned = []"
proof -
  show "(page_step link_server)\<^sup>*\<^sup>* (loaded [''auth_success'' \<mapsto> ''true'']) abandoned"
    unfolding abandoned_def by (rule rtranclp.rtrancl_into_rtrancl [OF r_into_rtranclp]) (rule step_act, rule step_close)
qed (simp_all add: abandoned_def close_popup_def act_def handleLogin_def fetch_json_def run_simps window_open_def setInterval_def
    link_server_def loaded_def member_def truthy_def Let_def)

theorem stale_login_success_witness:
  "console (interval_callback 0 abandoned) =
     [Log [''Popup closed, checking login status...''], Log [''Account linked successfully!'']]"
  using stale_login_success [OF _ abandoned_facts(1), of 0 "Some 0"] abandoned_facts by (simp add: loaded_def)

end
