(* ===== verification/Spec2Isabelle.thy ===== *)
theory Spec2Isabelle
  imports DeliveryProperties ApiProperties InfraProperties PlatformProperties PipelineProperties PrismaClient Registry GoClient
begin

text \<open>
  MailStream (\<^verbatim>\<open>src/node-pipeline\<close>) takes e-mail jobs over HTTP and delivers them over SMTP. Two
  processes are built from one code base: the API (\<^verbatim>\<open>main-api.ts\<close>) validates a job, stores it
  under its idempotency key and publishes it to RabbitMQ; a worker (\<^verbatim>\<open>main-worker.ts\<close>) consumes
  it, asks the rate limiter, the circuit breaker and the idempotency guard, sends the mail, and
  acknowledges, retries or dead-letters the message; a status event goes back to the API, which
  folds it into its table. This development models that program and proves what it promises and
  where it breaks the promise.

  \<^bold>\<open>How programs are modelled.\<close> An async function is a value of the type \<open>async\<close> of theory \<open>Prelude\<close>: it
  resolves, rejects, or does one piece of work on the world and goes on; \<open>Await\<close> is a point where
  another handler may run. \<open>run\<close> executes one alone, \<open>wp\<close> is its two-sided weakest precondition,
  and theory \<open>Interleaving\<close> runs a pool of them step by step. The world (theory \<open>World\<close>) is a
  record: both databases, Redis, what the broker and the SMTP server have taken, and the memory of
  the processes. Everything that is not under \<^verbatim>\<open>src\<close> is an argument, the record \<open>services\<close>: each
  external call completes, is refused, or has its effect and loses its reply, as \<open>fate\<close> says, so a
  theorem for all services is a theorem for all failures at all places. A thrown value is a
  constructor of \<open>exn\<close>.

  \<^bold>\<open>The theories and the code\<close> (paths below \<^verbatim>\<open>src/node-pipeline/src\<close>):
  \<^item> \<open>Binary64\<close>, \<open>Decimal\<close>, \<open>Json\<close>: the doubles, number texts and JSON the program computes with;
  \<^item> \<open>Contracts\<close>: \<^verbatim>\<open>contracts/\<close>, the topology, the messages and their zod schemas;
  \<^item> \<open>RetryPolicy\<close>, \<open>Delivery\<close>, \<open>IdempotencyGuard\<close>, \<open>EmailConsumer\<close>: \<^verbatim>\<open>delivery/\<close>, with the table of
    attempts and its SQL statements in \<open>Ledger\<close>;
  \<^item> \<open>CircuitBreaker\<close>, \<open>TokenBucket\<close>: \<^verbatim>\<open>resilience/\<close>, the second being the Lua script;
  \<^item> \<open>Services\<close>: \<open>publish\<close> of \<^verbatim>\<open>infra/rabbitmq/rabbitmq.service.ts\<close>, \<^verbatim>\<open>providers/\<close>, and the limiter and
    the breaker as the handlers call them;
  \<^item> \<open>TopologyBootstrap\<close>, \<open>Rabbitmq\<close>: \<^verbatim>\<open>infra/rabbitmq/\<close>, the declarations of queues, and the connection
    with its reconnection as a step relation;
  \<^item> \<open>EmailJobs\<close>, \<open>StatusConsumer\<close>: \<^verbatim>\<open>email-jobs/\<close>, with the table of jobs in \<open>JobTable\<close>; \<open>PrismaQueries\<close>:
    the types of \<^verbatim>\<open>generated/api\<close> behind the four queries of the repository, and their meaning;
  \<^item> \<open>PrismaReads\<close>, \<open>PrismaGroups\<close>, \<open>PrismaWrites\<close>: the arguments and results of every other operation of the
    generated client, with what its comments and the documentation they name say it answers; \<open>PrismaClient\<close>: the
    map of its operations, transactions, data model, options and log events;
  \<^item> \<open>Http\<close>: \<^verbatim>\<open>common/\<close> and the controller, in the order Nest runs them on a request;
  \<^item> \<open>Config\<close>, \<open>Clients\<close>: \<^verbatim>\<open>config/\<close>, and the clients of PostgreSQL, Redis, Prisma and SMTP that are
    configured from the same environment;
  \<^item> \<open>Lifecycle\<close>: how the two consumers start on a channel and stop; \<open>Metrics\<close>, \<open>Registry\<close>, \<open>Logger\<close>: the rest of
    \<^verbatim>\<open>infra/\<close>; \<open>Wiring\<close>: every \<open>@Module\<close>, what each class has injected, and the files a process
    loads; \<open>Bootstrap\<close>: routes, health, and the two entry points;
  \<^item> \<open>Benchmark\<close>: the load generator and the report of \<^verbatim>\<open>benchmark/\<close>; \<open>GoClient\<close>: the demonstration page of the
    older service, \<^verbatim>\<open>src/go-pipeline/client\<close>;
  \<^item> \<open>System\<close>: all handlers together, interleaved at their calls; \<open>Broker\<close>: RabbitMQ between the two
    processes, the queues the declarations bind, as a step relation; \<open>Example\<close>: one concrete instance
    of the services, for witnesses.

  \<^bold>\<open>Interfaces.\<close> The delivery service relies on a mail provider (\<open>email_provider\<close>, interpreted on the
  SMTP provider) and on a guard (\<open>attempt_guard\<close>, interpreted on the idempotency guard); the API on
  a repository (\<open>job_repository\<close>, interpreted on the Prisma one). \<open>frame_relation\<close> of \<open>Prelude\<close>
  carries every proof that a handler leaves a part of the world alone.

  \<^bold>\<open>What the properties show.\<close> \<open>DeliveryProperties\<close>: an acknowledged message has been accounted for
  with exactly the mails, publications and records of one outcome; a finished attempt is not sent
  again; the breaker refines its specification; the token bucket stays within its capacity, with
  rounding; retries wait in declared queues and end. \<open>ApiProperties\<close>: submissions, their idempotency,
  the round trips of messages, status events, requests that are refused without effect.
  \<open>InfraProperties\<close>, \<open>PlatformProperties\<close>: configuration, the connection's invariant and recovery,
  modules, routes, starting and stopping, the repository's queries. \<open>Pipeline\<close> follows the message of
  one job through every step of the network of theory \<open>Broker\<close>, its invariant being where the message is;
  \<open>EndToEnd\<close> runs one job from request to delivery and back; \<open>PipelineProperties\<close> states what follows: no
  job is lost while calls complete, a lost one leaves a failed attempt in the ledger, a job on
  services that work is delivered. \<open>Registry\<close> shows that the metrics of both processes never claim more than was
  done. \<open>PrismaProperties\<close> is about the generated client: pages that together are the whole result,
  groups whose counts add up, writes that keep the constraints; \<open>PrismaClient\<close>: transactions as a whole. The last section of this theory relates the
  messages of both processes. Some properties state a defect: a lost retry, a mail that is sent twice,
  a key that is refused for ever, an overwritten status, a rate limit without its default, a login that
  failed and is reported as linked.

  \<^bold>\<open>The network.\<close> In theory \<open>Broker\<close> a handler runs to its end before the next one starts (theory
  \<open>Interleaving\<close> has the finer steps), a message stays in its queue until it is acknowledged, so it may
  be taken any number of times, and queues are lists from which any message may be taken. The memory
  of one API and one worker process is in one record, with one flag for the channel of both. What a
  queue with a time to live does with its messages is what RabbitMQ documents of dead-lettering.

  \<^bold>\<open>Bounds and fuel.\<close> The JSON parser has twice the length of its text plus two as fuel, and
  \<open>parse_value_fuel\<close> shows that more changes nothing. The drain of a shutdown is given 101 rounds,
  which suffice when the clock advances by the 100 ms each round waits. Times are integers of
  milliseconds; the attempt column is a 32-bit integer and refuses what does not fit; numbers in
  JSON and Lua are doubles.

  \<^bold>\<open>Not modelled.\<close> A text is a list of Latin-1 code units, so lengths are counted in them. Keys in Redis
  do not expire by themselves. The formats zod checks with regular expressions, the class \<open>URL\<close>, what
  \<open>HttpException.getResponse\<close> returns and how PostgreSQL collates are parameters. Hexadecimal
  literals of Lua are left out. Handlers do not log: the logger is modelled on its own. The
  callbacks of a new channel are told of it at once, where the code awaits them one by one. The
  generated Prisma client is its types and the documented meaning of their operations; raw SQL, field
  references of lists and the engine in the runtime library are left out. The default metrics and the text format of \<open>prom-client\<close>, the paced mode and the
  containers of the benchmark, the configuration of tools, and the older Go service
  (\<^verbatim>\<open>src/go-pipeline/server\<close>, another language) are not part of the model.
\<close>

section \<open>From a submission to its delivery and back\<close>

text \<open>C6: What the API published for a validated body, a worker that acknowledges it has accounted for as the
  delivery of that very submission.\<close>

theorem submission_is_accounted_for:
  assumes "submitEmailJobBodySchema (zod_formats E) v = Inr body" and "zod_uuid (zod_formats E) jobId"
    and "safe_int 1 now" and "channel w"
    and "raw_content raw = pub_content (job_publication jobId now body)"
    and "run (handle E (Some raw)) w = (Inr (), w')" and "settled w' = settled w @ [(raw_deliveryTag raw, True)]"
  shows "\<exists>d. accounts (job_message jobId (body_provider_of body) now body) d w w'"
proof -
  have "accounted E raw w w'" using handle_acknowledged [OF assms(4,6,7)] .
  moreover obtain x where "json_parse (raw_content raw) = Some x"
      "emailJobMessageSchema (zod_formats E) x = Inr (job_message jobId (body_provider_of body) now body)"
    using job_publication_text [OF assms(1-3)] assms(5) by auto
  ultimately show ?thesis by (simp add: accounted_def)
qed

definition demo_raw :: ConsumeMessage where
  "demo_raw = \<lparr>raw_content = pub_content (job_publication ''job-1'' 1000 demo_body), raw_deliveryTag = 7\<rparr>"

text \<open>On the instance every call completes, so the message is acknowledged.\<close>

lemma demo_raw_acknowledged:
  "\<exists>w'. run (handle demo (Some demo_raw)) empty_world = (Inr (), w') \<and> settled w' = settled empty_world @ [(7, True)]"
proof -
  have d: "demo = demo_with (\<lambda>_. Completes) accept_all"
    by (simp add: demo_with_def demo_def accept_all_def fun_eq_iff)
  have m: "job_message ''job-1'' (body_provider_of demo_body) 1000 demo_body = demo_message\<lparr>msg_publishedAt := 1000\<rparr>"
    by (simp add: job_message_def demo_message_def demo_body_def body_provider_of_def)
  have parsed: "map_option (emailJobMessageSchema (zod_formats demo)) (json_parse (raw_content demo_raw))
      = Some (Inr (demo_message\<lparr>msg_publishedAt := 1000\<rparr>))"
    using job_publication_text [OF demo_json_body, of "''job-1''" 1000] m
    by (simp add: demo_raw_def demo_def safe_int_def)
  have "wp (process demo (demo_message\<lparr>msg_publishedAt := 1000\<rparr>)) (\<lambda>oc _. oc = ACK) (\<lambda>_ _. False) (entered empty_world)"
    unfolding d by (simp add: demo_eval empty_world_def demo_message_def entered_def)
  then have "\<exists>w1. run (process demo (demo_message\<lparr>msg_publishedAt := 1000\<rparr>)) (entered empty_world) = (Inr ACK, w1)"
    by (auto simp: wp_def split: prod.splits sum.splits)
  then obtain w1 where "run (process_raw demo demo_raw) (entered empty_world) = (Inr ACK, w1)"
    using parsed by (auto simp: process_raw_def)
  then show ?thesis
    using handle_run [of empty_world demo demo_raw] by (simp add: empty_world_def demo_raw_def)
qed

theorem submission_is_accounted_for_witness:
  "\<exists>w' d. run (handle demo (Some demo_raw)) empty_world = (Inr (), w') \<and>
     accounts (job_message ''job-1'' (body_provider_of demo_body) 1000 demo_body) d empty_world w'"
proof -
  obtain w' where w': "run (handle demo (Some demo_raw)) empty_world = (Inr (), w')"
      "settled w' = settled empty_world @ [(raw_deliveryTag demo_raw, True)]"
    using demo_raw_acknowledged by (auto simp: demo_raw_def)
  have "channel empty_world" "zod_uuid (zod_formats demo) ''job-1''" "safe_int 1 1000"
      "raw_content demo_raw = pub_content (job_publication ''job-1'' 1000 demo_body)"
    by (simp_all add: empty_world_def demo_def safe_int_def demo_raw_def)
  from submission_is_accounted_for [OF demo_json_body this(2,3,1,4) w'] w'(1) show ?thesis by blast
qed




end
